(* ===== verification/Prelude.thy ===== *)
theory Prelude
  imports Main "HOL-Library.Sublist"
begin

text \<open>
  Shared vocabulary of the development: the result type of fallible Go functions, Go's
  \<open>int64\<close> wrap-around, \<open>time.Time\<close> and \<open>time.Duration\<close>, the fact collections the component
  theories fill, and the generic lemmas on lists and results they use.
\<close>

named_theorems go_string \<open>facts about the byte-string operations\<close>
named_theorems guards \<open>what a successful result says about the guards before it\<close>
named_theorems shapes \<open>definitions of constructors and validators, unfolded together\<close>

section \<open>Results\<close>

text \<open>
  A Go function that returns \<open>(T, error)\<close> returns \<open>'e + 'a\<close>: \<open>Inl\<close> the error, \<open>Inr\<close> the value.
  A function that returns only \<open>error\<close> returns \<open>'e option\<close>: \<open>None\<close> is \<open>nil\<close>.
\<close>

definition ok :: "'e + 'a \<Rightarrow> bool" where
  "ok r = (case r of Inl _ \<Rightarrow> False | Inr _ \<Rightarrow> True)"

lemma ok_simps [simp]: "ok (Inr x)" "\<not> ok (Inl e)"
  by (simp_all add: ok_def)

lemma ok_iff: "ok r \<longleftrightarrow> (\<exists>x. r = Inr x)"
  by (cases r) auto

text \<open>\<open>v, err := f(); if err != nil { return err' }\<close>: map the error, continue with the value.\<close>

definition andthen :: "'e + 'a \<Rightarrow> ('e \<Rightarrow> 'd) \<Rightarrow> ('a \<Rightarrow> 'd + 'b) \<Rightarrow> 'd + 'b" where
  "andthen r h k = (case r of Inl e \<Rightarrow> Inl (h e) | Inr x \<Rightarrow> k x)"

lemma andthen_simps [simp]:
  "andthen (Inl e) h k = Inl (h e)"
  "andthen (Inr x) h k = k x"
  by (simp_all add: andthen_def)

lemma andthen_Inr [guards]:
  "andthen r h k = Inr y \<longleftrightarrow> (\<exists>x. r = Inr x \<and> k x = Inr y)"
  by (cases r) auto

lemma if_Inl_Inr [guards]:
  "(if b then Inl e else r) = Inr y \<longleftrightarrow> \<not> b \<and> r = Inr y"
  by simp

lemma if_Some_None [guards]:
  "(if b then Some e else r) = None \<longleftrightarrow> \<not> b \<and> r = None"
  by simp

section \<open>Go's 64-bit integers, instants and durations\<close>

definition int64_max :: int where
  "int64_max = 9223372036854775807"

definition int64_min :: int where
  "int64_min = -9223372036854775808"

definition is_int64 :: "int \<Rightarrow> bool" where
  "is_int64 x = (int64_min \<le> x \<and> x \<le> int64_max)"

text \<open>Two's-complement wrap-around of \<open>int64\<close> arithmetic.\<close>

definition wrap64 :: "int \<Rightarrow> int" where
  "wrap64 x = (x + 9223372036854775808) mod 18446744073709551616 - 9223372036854775808"

lemma wrap64_id: "is_int64 x \<Longrightarrow> wrap64 x = x"
  by (simp add: is_int64_def wrap64_def int64_min_def int64_max_def)

lemma wrap64_range: "is_int64 (wrap64 x)"
proof -
  have "0 \<le> (x + 9223372036854775808) mod 18446744073709551616"
    and "(x + 9223372036854775808) mod 18446744073709551616 < 18446744073709551616"
    by simp_all
  then show ?thesis
    unfolding is_int64_def wrap64_def int64_min_def int64_max_def by linarith
qed

text \<open>
  \<open>time.Time\<close> is an instant: nanoseconds since year 1, Go's internal epoch, so that the zero
  \<open>Time\<close> is 0. \<open>time.Duration\<close> is a number of nanoseconds.
\<close>

type_synonym time = int
type_synonym duration = int

definition second :: duration where
  "second = 1000000000"

definition is_zero :: "time \<Rightarrow> bool" where
  "is_zero t = (t = 0)"

text \<open>\<open>time.Unix(sec, 0)\<close>: Go adds the epoch offset in \<open>int64\<close>, which wraps.\<close>

definition time_unix :: "int \<Rightarrow> time" where
  "time_unix sec = wrap64 (sec + 62135596800) * second"

text \<open>\<open>t.Sub(u)\<close> saturates at the bounds of \<open>Duration\<close>.\<close>

definition time_sub :: "time \<Rightarrow> time \<Rightarrow> duration" where
  "time_sub t u = max int64_min (min int64_max (t - u))"

lemma time_sub_exact: "is_int64 (t - u) \<Longrightarrow> time_sub t u = t - u"
  by (simp add: time_sub_def is_int64_def)

lemma time_sub_le_less_max:
  "time_sub t u \<le> d \<Longrightarrow> d < int64_max \<Longrightarrow> t - u \<le> d"
  unfolding time_sub_def by linarith

lemma time_unix_small:
  "0 \<le> s \<Longrightarrow> s \<le> 9223371974719179007 \<Longrightarrow> time_unix s = (s + 62135596800) * second"
  by (simp add: time_unix_def wrap64_id is_int64_def int64_min_def int64_max_def)

section \<open>Lists\<close>

text \<open>The entry of a Go map, given by its list of entries with one entry per key.\<close>

abbreviation lookup :: "('k \<times> 'v) list \<Rightarrow> 'k \<Rightarrow> 'v option" where
  "lookup \<equiv> map_of"

lemma find_None_iff_all: "find P xs = None \<longleftrightarrow> (\<forall>x \<in> set xs. \<not> P x)"
  by (induction xs) auto

lemma distinct_snoc: "distinct (xs @ [x]) \<longleftrightarrow> distinct xs \<and> x \<notin> set xs"
  by auto

lemma sorted_wrt_snoc:
  "sorted_wrt R (xs @ [x]) \<longleftrightarrow> sorted_wrt R xs \<and> (\<forall>y \<in> set xs. R y x)"
  by (simp add: sorted_wrt_append)

lemma dropWhile_eq_filter_mono:
  assumes "sorted_wrt (\<lambda>a b. P b \<longrightarrow> P a) xs"
  shows "dropWhile P xs = filter (\<lambda>x. \<not> P x) xs"
  using assms
proof (induction xs)
  case Nil
  then show ?case by simp
next
  case (Cons x xs)
  show ?case
  proof (cases "P x")
    case True
    with Cons show ?thesis by simp
  next
    case False
    with Cons.prems have "\<forall>y \<in> set xs. \<not> P y" by auto
    with False show ?thesis by (simp add: filter_id_conv)
  qed
qed

lemma sorted_wrt_dropWhile: "sorted_wrt R xs \<Longrightarrow> sorted_wrt R (dropWhile P xs)"
  by (induction xs) auto

lemma distinct_map_dropWhile: "distinct (map f xs) \<Longrightarrow> distinct (map f (dropWhile P xs))"
  by (induction xs) auto

end
