(* ===== verification/Go_Strings.thy ===== *)
theory Go_Strings
  imports Prelude
begin

text \<open>
  Go strings are byte strings. This theory models the functions of package \<open>strings\<close> the
  program uses, on \<open>string\<close> (a list of 8-bit characters), including their treatment of the
  UTF-8 encodings of non-ASCII white space and of the non-ASCII letters whose case folding
  or lower-casing is an ASCII letter.
\<close>

section \<open>White space: \<open>strings.TrimSpace\<close>, \<open>strings.Fields\<close>\<close>

text \<open>
  The encodings of the runes for which \<open>unicode.IsSpace\<close> holds. Every encoding starts with a
  byte that is no continuation byte and no byte inside it starts another one, so decoding
  rune by rune and matching these byte sequences is the same.
\<close>

definition space_encodings :: "string list" where
  "space_encodings =
     [[CHR 0x20], [CHR 0x09], [CHR 0x0A], [CHR 0x0B], [CHR 0x0C], [CHR 0x0D],
      [CHR 0xC2, CHR 0x85], [CHR 0xC2, CHR 0xA0], [CHR 0xE1, CHR 0x9A, CHR 0x80],
      [CHR 0xE2, CHR 0x80, CHR 0x80], [CHR 0xE2, CHR 0x80, CHR 0x81],
      [CHR 0xE2, CHR 0x80, CHR 0x82], [CHR 0xE2, CHR 0x80, CHR 0x83],
      [CHR 0xE2, CHR 0x80, CHR 0x84], [CHR 0xE2, CHR 0x80, CHR 0x85],
      [CHR 0xE2, CHR 0x80, CHR 0x86], [CHR 0xE2, CHR 0x80, CHR 0x87],
      [CHR 0xE2, CHR 0x80, CHR 0x88], [CHR 0xE2, CHR 0x80, CHR 0x89],
      [CHR 0xE2, CHR 0x80, CHR 0x8A], [CHR 0xE2, CHR 0x80, CHR 0xA8],
      [CHR 0xE2, CHR 0x80, CHR 0xA9], [CHR 0xE2, CHR 0x80, CHR 0xAF],
      [CHR 0xE2, CHR 0x81, CHR 0x9F], [CHR 0xE3, CHR 0x80, CHR 0x80]]"

text \<open>The length of the first listed sequence that is a prefix of the string, 0 if none is.\<close>

fun match_len :: "string list \<Rightarrow> string \<Rightarrow> nat" where
  "match_len [] s = 0"
| "match_len (e # es) s = (if e \<noteq> [] \<and> prefix e s then length e else match_len es s)"

function strip :: "string list \<Rightarrow> string \<Rightarrow> string" where
  "strip es s = (if match_len es s = 0 then s else strip es (drop (match_len es s) s))"
  by pat_completeness auto

lemma match_len_le: "match_len es s \<le> length s"
  by (induction es) (auto simp: prefix_length_le)

termination strip
proof (relation "measure (length \<circ> snd)")
  fix es s
  assume "match_len es s \<noteq> 0"
  with match_len_le [of es s] show "((es, drop (match_len es s) s), (es, s)) \<in> measure (length \<circ> snd)"
    by simp
qed simp

declare strip.simps [simp del]

definition trim_left :: "string \<Rightarrow> string" where
  "trim_left s = strip space_encodings s"

definition trim_right :: "string \<Rightarrow> string" where
  "trim_right s = rev (strip (map rev space_encodings) (rev s))"

definition trim_space :: "string \<Rightarrow> string" where
  "trim_space s = trim_right (trim_left s)"

lemma match_len_eq_0: "match_len es s = 0 \<longleftrightarrow> (\<forall>e \<in> set es. e \<noteq> [] \<longrightarrow> \<not> prefix e s)"
  by (induction es) auto

lemma strip_no_match: "match_len es (strip es s) = 0"
proof (induction es s rule: strip.induct)
  case (1 es s)
  then show ?case by (cases "match_len es s = 0") (simp_all add: strip.simps [of es s])
qed

lemma strip_id: "match_len es s = 0 \<Longrightarrow> strip es s = s"
  by (simp add: strip.simps)

lemma strip_suffix: "suffix (strip es s) s"
proof (induction es s rule: strip.induct)
  case (1 es s)
  show ?case
  proof (cases "match_len es s = 0")
    case True
    then show ?thesis by (simp add: strip.simps [of es s])
  next
    case False
    with "1" have "suffix (strip es (drop (match_len es s) s)) (drop (match_len es s) s)" by simp
    then have "suffix (strip es (drop (match_len es s) s)) s"
      using suffix_drop suffix_order.trans by blast
    with False show ?thesis by (simp add: strip.simps [of es s])
  qed
qed

lemma trim_right_prefix: "prefix (trim_right s) s"
  using strip_suffix [of "map rev space_encodings" "rev s"]
  by (simp add: trim_right_def suffix_to_prefix)

lemma match_len_prefix_mono: "prefix t s \<Longrightarrow> match_len es s = 0 \<Longrightarrow> match_len es t = 0"
  by (auto simp: match_len_eq_0 dest: prefix_order.trans)

text \<open>\<open>TrimSpace\<close> is idempotent: what it returns has no white space at either end.\<close>

lemma trim_space_idem [simp, go_string]: "trim_space (trim_space s) = trim_space s"
proof -
  let ?l = "trim_left s"
  have "match_len space_encodings ?l = 0"
    by (simp add: trim_left_def strip_no_match)
  with trim_right_prefix have "match_len space_encodings (trim_right ?l) = 0"
    by (rule match_len_prefix_mono)
  then have left: "trim_left (trim_right ?l) = trim_right ?l"
    by (simp add: trim_left_def strip_id)
  have "trim_right (trim_right ?l) = trim_right ?l"
    by (simp add: trim_right_def strip_id strip_no_match)
  with left show ?thesis by (simp add: trim_space_def)
qed

lemma trim_space_Nil [simp, go_string]: "trim_space [] = []"
  by (simp add: trim_space_def trim_left_def trim_right_def strip.simps match_len_eq_0)

lemma trim_space_length: "length (trim_space s) \<le> length s"
proof -
  have "length (trim_space s) \<le> length (trim_left s)"
    using trim_right_prefix prefix_length_le by (auto simp: trim_space_def)
  moreover have "length (trim_left s) \<le> length s"
    using strip_suffix suffix_length_le by (auto simp: trim_left_def)
  ultimately show ?thesis by simp
qed

text \<open>\<open>strings.TrimSpace(s) == ""\<close>, the program's emptiness test.\<close>

definition blank :: "string \<Rightarrow> bool" where
  "blank s = (trim_space s = [])"

lemma blank_Nil [simp]: "blank []"
  by (simp add: blank_def)

lemma not_blank_nonempty: "\<not> blank s \<Longrightarrow> s \<noteq> []"
  by auto

lemma blank_trim [simp]: "blank (trim_space s) = blank s"
  by (simp add: blank_def)

text \<open>
  \<open>strings.Fields\<close>: the maximal runs of bytes between white space; \<open>cur\<close> is the field being
  read, reversed.
\<close>

function split_fields :: "string \<Rightarrow> string \<Rightarrow> string list" where
  "split_fields cur [] = (if cur = [] then [] else [rev cur])"
| "split_fields cur (c # cs) =
     (if match_len space_encodings (c # cs) = 0 then split_fields (c # cur) cs
      else (if cur = [] then [] else [rev cur])
           @ split_fields [] (drop (match_len space_encodings (c # cs)) (c # cs)))"
  by pat_completeness auto
termination
proof (relation "measure (length \<circ> snd)")
  fix cur c and cs :: string
  assume "match_len space_encodings (c # cs) \<noteq> 0"
  with match_len_le [of space_encodings "c # cs"]
  show "(([], drop (match_len space_encodings (c # cs)) (c # cs)), (cur, c # cs))
    \<in> measure (length \<circ> snd)"
    by (simp add: o_def)
qed auto

definition go_fields :: "string \<Rightarrow> string list" where
  "go_fields s = split_fields [] s"

lemma split_fields_nonempty: "x \<in> set (split_fields cur s) \<Longrightarrow> x \<noteq> []"
  by (induction cur s rule: split_fields.induct) (auto split: if_splits)

lemma go_fields_nonempty [go_string]: "x \<in> set (go_fields s) \<Longrightarrow> x \<noteq> []"
  unfolding go_fields_def by (rule split_fields_nonempty)

section \<open>\<open>HasPrefix\<close>, \<open>Contains\<close>, \<open>ContainsAny\<close>, \<open>Count\<close>, \<open>Split\<close>, \<open>Join\<close>, \<open>TrimSuffix\<close>\<close>

abbreviation has_prefix :: "string \<Rightarrow> string \<Rightarrow> bool" where
  "has_prefix s p \<equiv> prefix p s"

fun contains_sub :: "string \<Rightarrow> string \<Rightarrow> bool" where
  "contains_sub [] p = (p = [])"
| "contains_sub (c # cs) p = (prefix p (c # cs) \<or> contains_sub cs p)"

lemma contains_sub_iff: "contains_sub s p \<longleftrightarrow> (\<exists>u v. s = u @ p @ v)"
proof (induction s)
  case Nil
  then show ?case by auto
next
  case (Cons c cs)
  show ?case
  proof
    assume "contains_sub (c # cs) p"
    then consider "prefix p (c # cs)" | "contains_sub cs p" by auto
    then show "\<exists>u v. c # cs = u @ p @ v"
    proof cases
      case 1
      then obtain v where "c # cs = [] @ p @ v" by (auto elim: prefixE)
      then show ?thesis by blast
    next
      case 2
      with Cons.IH obtain u v where "cs = u @ p @ v" by blast
      then have "c # cs = (c # u) @ p @ v" by simp
      then show ?thesis by blast
    qed
  next
    assume "\<exists>u v. c # cs = u @ p @ v"
    then obtain u v where eq: "c # cs = u @ p @ v" by blast
    show "contains_sub (c # cs) p"
    proof (cases u)
      case Nil
      with eq have "prefix p (c # cs)" by (simp add: prefixI)
      then show ?thesis by simp
    next
      case (Cons d u')
      with eq have "cs = u' @ p @ v" by simp
      with Cons.IH show ?thesis by auto
    qed
  qed
qed

text \<open>\<open>strings.ContainsAny(s, chars)\<close> for a set of ASCII characters.\<close>

definition contains_any :: "string \<Rightarrow> string \<Rightarrow> bool" where
  "contains_any s chars = list_ex (\<lambda>c. c \<in> set chars) s"

lemma contains_any_iff: "contains_any s chars \<longleftrightarrow> (\<exists>c \<in> set s. c \<in> set chars)"
  by (simp add: contains_any_def list_ex_iff)

text \<open>\<open>strings.Count(s, c)\<close> and \<open>strings.Split(s, c)\<close> for a one-byte separator.\<close>

abbreviation count_byte :: "string \<Rightarrow> char \<Rightarrow> nat" where
  "count_byte \<equiv> count_list"

fun split_on :: "char \<Rightarrow> string \<Rightarrow> string list" where
  "split_on d [] = [[]]"
| "split_on d (c # cs) =
     (if c = d then [] # split_on d cs
      else (c # hd (split_on d cs)) # tl (split_on d cs))"

lemma split_on_free: "d \<notin> set s \<Longrightarrow> split_on d s = [s]"
  by (induction s) auto

lemma split_on_append: "d \<notin> set a \<Longrightarrow> split_on d (a @ d # s) = a # split_on d s"
  by (induction a) auto

lemma split_on_nonempty [simp]: "split_on d s \<noteq> []"
  by (cases s) auto

text \<open>For evaluation: the rest of the string is split once.\<close>

lemma split_on_code [code]:
  "split_on d [] = [[]]"
  "split_on d (c # cs) =
     (case split_on d cs of
        [] \<Rightarrow> [[c]]
      | p # ps \<Rightarrow> if c = d then [] # p # ps else (c # p) # ps)"
  by (auto split: list.split)

lemma length_split_on [go_string]: "length (split_on d s) = Suc (count_byte s d)"
proof (induction s)
  case (Cons c cs)
  then show ?case by (cases "split_on d cs") auto
qed simp

text \<open>\<open>strings.Join(parts, sep)\<close>.\<close>

fun join :: "string \<Rightarrow> string list \<Rightarrow> string" where
  "join sep [] = []"
| "join sep [x] = x"
| "join sep (x # y # ys) = x @ sep @ join sep (y # ys)"

lemma join_Cons_char: "join sep ((c # x) # xs) = c # join sep (x # xs)"
  by (cases xs) auto

lemma join_Nil_Cons: "xs \<noteq> [] \<Longrightarrow> join sep ([] # xs) = sep @ join sep xs"
  by (cases xs) auto

lemma join_split_on [go_string]: "join [d] (split_on d s) = s"
proof (induction s)
  case Nil
  then show ?case by simp
next
  case (Cons c cs)
  show ?case
  proof (cases "c = d")
    case True
    with Cons show ?thesis by (simp add: join_Nil_Cons)
  next
    case False
    have "join [d] ((c # hd (split_on d cs)) # tl (split_on d cs))
      = c # join [d] (hd (split_on d cs) # tl (split_on d cs))"
      by (rule join_Cons_char)
    also have "\<dots> = c # cs" using Cons by simp
    finally show ?thesis using False by simp
  qed
qed

lemma split_on_parts_free: "x \<in> set (split_on d s) \<Longrightarrow> d \<notin> set x"
proof (induction s arbitrary: x)
  case (Cons c cs)
  have "set (tl (split_on d cs)) \<subseteq> set (split_on d cs)"
    and "hd (split_on d cs) \<in> set (split_on d cs)"
    by (simp_all add: list.set_sel(2) subsetI)
  with Cons show ?case by (auto split: if_splits)
qed simp

definition trim_suffix :: "string \<Rightarrow> string \<Rightarrow> string" where
  "trim_suffix s p = (if suffix p s then take (length s - length p) s else s)"

section \<open>Case: \<open>strings.ToLower\<close>, \<open>strings.EqualFold\<close>\<close>

definition is_ascii :: "string \<Rightarrow> bool" where
  "is_ascii s = list_all (\<lambda>c. of_char c < (128 :: nat)) s"

definition lower_char :: "char \<Rightarrow> char" where
  "lower_char c =
     (if 65 \<le> (of_char c :: nat) \<and> of_char c \<le> (90 :: nat) then char_of (of_char c + 32 :: nat) else c)"

text \<open>
  \<open>strings.ToLower\<close> as far as its ASCII bytes go: the letters A-Z, and the two non-ASCII
  letters whose lower case is ASCII, U+0130 (\<open>i\<close>) and the Kelvin sign U+212A (\<open>k\<close>). Every
  other non-ASCII byte stays non-ASCII under \<open>ToLower\<close>, so searching the result for an ASCII
  pattern gives the same answer as searching \<open>ToLower\<close>'s.
\<close>

fun lower_view :: "string \<Rightarrow> string" where
  "lower_view [] = []"
| "lower_view (c # cs) =
     (if prefix [CHR 0xC4, CHR 0xB0] (c # cs) then CHR ''i'' # lower_view (drop 1 cs)
      else if prefix [CHR 0xE2, CHR 0x84, CHR 0xAA] (c # cs) then CHR ''k'' # lower_view (drop 2 cs)
      else lower_char c # lower_view cs)"

text \<open>
  Simple case folding, as \<open>strings.EqualFold(s, name)\<close> applies it when \<open>name\<close> is ASCII: besides
  A-Z, the long s U+017F folds to \<open>s\<close> and the Kelvin sign to \<open>k\<close>.
\<close>

fun fold_view :: "string \<Rightarrow> string" where
  "fold_view [] = []"
| "fold_view (c # cs) =
     (if prefix [CHR 0xC5, CHR 0xBF] (c # cs) then CHR ''s'' # fold_view (drop 1 cs)
      else if prefix [CHR 0xE2, CHR 0x84, CHR 0xAA] (c # cs) then CHR ''k'' # fold_view (drop 2 cs)
      else lower_char c # fold_view cs)"

definition equal_fold :: "string \<Rightarrow> string \<Rightarrow> bool" where
  "equal_fold s t = (fold_view s = fold_view t)"

lemma equal_fold_refl [simp]: "equal_fold s s"
  by (simp add: equal_fold_def)

lemma equal_fold_sym: "equal_fold s t \<Longrightarrow> equal_fold t s"
  by (simp add: equal_fold_def)

lemma equal_fold_trans: "equal_fold s t \<Longrightarrow> equal_fold t u \<Longrightarrow> equal_fold s u"
  by (simp add: equal_fold_def)

end
