(* ===== verification/Identity.thy ===== *)
theory Identity
  imports Go_Strings
begin

text \<open>
  Package \<open>identity\<close> (\<open>pkg/identity\<close>): the five identities a request carries, their
  constructors, the request identity context and its place in \<open>context.Context\<close>, and the
  registry that binds an attested SPIFFE ID to a logical agent.

  \<open>spiffeid.FromString\<close> belongs to go-spiffe: it is the parameter \<open>parse_id\<close>, which returns the
  \<open>String()\<close> of the ID it accepts. Error values keep the sentinel (\<open>%w\<close>) and drop the message.
\<close>

section \<open>Identities (\<open>types.go\<close>)\<close>

datatype identity_error = ErrInvalidIdentity | ErrInvalidBinding | ErrUnknownWorkload

record user_identity =
  user_id :: string

record agent_identity =
  agent_id :: string
  agent_instance_id :: string

record workload_identity =
  workload_spiffe_id :: string

record transaction_identity =
  transaction_id :: string
  transaction_purpose :: string

record authorization_context =
  auth_scope :: "string list"

record request_identity =
  ric_user :: user_identity
  ric_agent :: agent_identity
  ric_original_workload :: workload_identity
  ric_immediate_caller :: workload_identity
  ric_transaction :: transaction_identity
  ric_authorization :: authorization_context

definition new_agent_identity :: "string \<Rightarrow> string \<Rightarrow> identity_error + agent_identity" where
  "new_agent_identity raw inst =
     (let i = trim_space raw; n = trim_space inst
      in if i = [] \<or> n = [] then Inl ErrInvalidIdentity
         else Inr \<lparr>agent_id = i, agent_instance_id = n\<rparr>)"

definition new_logical_agent_identity :: "string \<Rightarrow> identity_error + agent_identity" where
  "new_logical_agent_identity raw =
     (let i = trim_space raw
      in if i = [] then Inl ErrInvalidIdentity
         else Inr \<lparr>agent_id = i, agent_instance_id = []\<rparr>)"

definition new_user_identity :: "string \<Rightarrow> identity_error + user_identity" where
  "new_user_identity raw =
     (let i = trim_space raw
      in if i = [] then Inl ErrInvalidIdentity else Inr \<lparr>user_id = i\<rparr>)"

definition new_workload_identity :: "string \<Rightarrow> identity_error + workload_identity" where
  "new_workload_identity s =
     (let i = trim_space s
      in if \<not> has_prefix i ''spiffe://'' \<or> length i = length ''spiffe://''
         then Inl ErrInvalidIdentity else Inr \<lparr>workload_spiffe_id = i\<rparr>)"

definition new_transaction_identity :: "string \<Rightarrow> string \<Rightarrow> identity_error + transaction_identity" where
  "new_transaction_identity raw purpose =
     (let i = trim_space raw; p = trim_space purpose
      in if i = [] \<or> p = [] then Inl ErrInvalidIdentity
         else Inr \<lparr>transaction_id = i, transaction_purpose = p\<rparr>)"

text \<open>The loop stops at the first scope that is empty after trimming.\<close>

fun clean_scopes :: "string list \<Rightarrow> identity_error + string list" where
  "clean_scopes [] = Inr []"
| "clean_scopes (s # ss) =
     (if trim_space s = [] then Inl ErrInvalidIdentity
      else case clean_scopes ss of Inl e \<Rightarrow> Inl e | Inr cs \<Rightarrow> Inr (trim_space s # cs))"

definition new_authorization_context :: "string list \<Rightarrow> identity_error + authorization_context" where
  "new_authorization_context scopes =
     (if length scopes = 0 then Inl ErrInvalidIdentity
      else case clean_scopes scopes of
             Inl e \<Rightarrow> Inl e
           | Inr cs \<Rightarrow> Inr \<lparr>auth_scope = cs\<rparr>)"

definition new_request_identity_context ::
  "user_identity \<Rightarrow> agent_identity \<Rightarrow> workload_identity \<Rightarrow> workload_identity
    \<Rightarrow> transaction_identity \<Rightarrow> authorization_context \<Rightarrow> identity_error + request_identity" where
  "new_request_identity_context user agent original immediate txn auth =
     (if user_id user = [] \<or> agent_id agent = [] \<or> agent_instance_id agent = []
         \<or> workload_spiffe_id original = [] \<or> workload_spiffe_id immediate = []
         \<or> transaction_id txn = [] \<or> transaction_purpose txn = []
         \<or> length (auth_scope auth) = 0
      then Inl ErrInvalidIdentity
      else Inr \<lparr>ric_user = user, ric_agent = agent, ric_original_workload = original,
                ric_immediate_caller = immediate, ric_transaction = txn,
                ric_authorization = auth\<rparr>)"

section \<open>What the constructors guarantee\<close>

text \<open>A value is canonical if it is not empty and has no white space at its ends.\<close>

definition canonical :: "string \<Rightarrow> bool" where
  "canonical s = (s \<noteq> [] \<and> trim_space s = s)"

lemma canonical_trim: "canonical (trim_space s) \<longleftrightarrow> \<not> blank s"
  by (simp add: canonical_def blank_def)

lemma new_agent_identity_Inr [guards]:
  "new_agent_identity raw inst = Inr a \<longleftrightarrow>
     \<not> blank raw \<and> \<not> blank inst \<and> a = \<lparr>agent_id = trim_space raw, agent_instance_id = trim_space inst\<rparr>"
  by (auto simp: new_agent_identity_def blank_def Let_def)

lemma new_logical_agent_identity_Inr [guards]:
  "new_logical_agent_identity raw = Inr a \<longleftrightarrow>
     \<not> blank raw \<and> a = \<lparr>agent_id = trim_space raw, agent_instance_id = []\<rparr>"
  by (auto simp: new_logical_agent_identity_def blank_def Let_def)

lemma new_user_identity_Inr [guards]:
  "new_user_identity raw = Inr u \<longleftrightarrow> \<not> blank raw \<and> u = \<lparr>user_id = trim_space raw\<rparr>"
  by (auto simp: new_user_identity_def blank_def Let_def)

lemma new_workload_identity_Inr [guards]:
  "new_workload_identity s = Inr w \<longleftrightarrow>
     has_prefix (trim_space s) ''spiffe://'' \<and> length (trim_space s) \<noteq> 9
     \<and> w = \<lparr>workload_spiffe_id = trim_space s\<rparr>"
  by (auto simp: new_workload_identity_def Let_def)

lemma new_transaction_identity_Inr [guards]:
  "new_transaction_identity raw p = Inr t \<longleftrightarrow>
     \<not> blank raw \<and> \<not> blank p
     \<and> t = \<lparr>transaction_id = trim_space raw, transaction_purpose = trim_space p\<rparr>"
  by (auto simp: new_transaction_identity_def blank_def Let_def)

lemma clean_scopes_eq:
  "clean_scopes ss =
     (if \<exists>s \<in> set ss. blank s then Inl ErrInvalidIdentity else Inr (map trim_space ss))"
  by (induction ss) (auto simp: blank_def)

lemma new_authorization_context_Inr [guards]:
  "new_authorization_context ss = Inr a \<longleftrightarrow>
     ss \<noteq> [] \<and> (\<forall>s \<in> set ss. \<not> blank s) \<and> a = \<lparr>auth_scope = map trim_space ss\<rparr>"
  by (auto simp: new_authorization_context_def clean_scopes_eq)

text \<open>
  The well-formedness of a request identity context: every field canonical, both workloads
  SPIFFE URIs with something after the scheme, at least one scope.
\<close>

definition spiffe_shaped :: "string \<Rightarrow> bool" where
  "spiffe_shaped s = (canonical s \<and> has_prefix s ''spiffe://'' \<and> 9 < length s)"

definition wf_identity :: "request_identity \<Rightarrow> bool" where
  "wf_identity v =
     (canonical (user_id (ric_user v))
      \<and> canonical (agent_id (ric_agent v)) \<and> canonical (agent_instance_id (ric_agent v))
      \<and> spiffe_shaped (workload_spiffe_id (ric_original_workload v))
      \<and> spiffe_shaped (workload_spiffe_id (ric_immediate_caller v))
      \<and> canonical (transaction_id (ric_transaction v))
      \<and> canonical (transaction_purpose (ric_transaction v))
      \<and> auth_scope (ric_authorization v) \<noteq> []
      \<and> list_all canonical (auth_scope (ric_authorization v)))"

lemma new_request_identity_context_Inr [guards]:
  "new_request_identity_context u a w i t z = Inr v \<longleftrightarrow>
     user_id u \<noteq> [] \<and> agent_id a \<noteq> [] \<and> agent_instance_id a \<noteq> []
     \<and> workload_spiffe_id w \<noteq> [] \<and> workload_spiffe_id i \<noteq> []
     \<and> transaction_id t \<noteq> [] \<and> transaction_purpose t \<noteq> [] \<and> auth_scope z \<noteq> []
     \<and> v = \<lparr>ric_user = u, ric_agent = a, ric_original_workload = w, ric_immediate_caller = i,
           ric_transaction = t, ric_authorization = z\<rparr>"
  by (auto simp: new_request_identity_context_def)

text \<open>
  The chain both middlewares run on verified claims: six constructors, then the context.
  It succeeds exactly when all six do, and its result is well formed.
\<close>

definition build_identity ::
  "string \<Rightarrow> string \<times> string \<Rightarrow> string \<Rightarrow> string \<Rightarrow> string \<times> string \<Rightarrow> string list
    \<Rightarrow> identity_error + request_identity" where
  "build_identity subject agent workload caller txn scopes =
     (case (new_user_identity subject, new_agent_identity (fst agent) (snd agent),
            new_workload_identity workload, new_workload_identity caller,
            new_transaction_identity (fst txn) (snd txn), new_authorization_context scopes) of
        (Inr u, Inr a, Inr w, Inr i, Inr t, Inr z) \<Rightarrow> new_request_identity_context u a w i t z
      | _ \<Rightarrow> Inl ErrInvalidIdentity)"

lemma build_identity_Inr:
  "build_identity s ag w c tx sc = Inr v \<longleftrightarrow>
     \<not> blank s \<and> \<not> blank (fst ag) \<and> \<not> blank (snd ag)
     \<and> ok (new_workload_identity w) \<and> ok (new_workload_identity c)
     \<and> \<not> blank (fst tx) \<and> \<not> blank (snd tx) \<and> sc \<noteq> [] \<and> (\<forall>x \<in> set sc. \<not> blank x)
     \<and> v = \<lparr>ric_user = \<lparr>user_id = trim_space s\<rparr>,
           ric_agent = \<lparr>agent_id = trim_space (fst ag), agent_instance_id = trim_space (snd ag)\<rparr>,
           ric_original_workload = \<lparr>workload_spiffe_id = trim_space w\<rparr>,
           ric_immediate_caller = \<lparr>workload_spiffe_id = trim_space c\<rparr>,
           ric_transaction = \<lparr>transaction_id = trim_space (fst tx), transaction_purpose = trim_space (snd tx)\<rparr>,
           ric_authorization = \<lparr>auth_scope = map trim_space sc\<rparr>\<rparr>"
  (is "?L \<longleftrightarrow> ?R")
proof
  assume ?L
  then obtain u a w' i t z where
    "new_user_identity s = Inr u" "new_agent_identity (fst ag) (snd ag) = Inr a"
    "new_workload_identity w = Inr w'" "new_workload_identity c = Inr i"
    "new_transaction_identity (fst tx) (snd tx) = Inr t" "new_authorization_context sc = Inr z"
    "new_request_identity_context u a w' i t z = Inr v"
    by (auto simp: build_identity_def split: sum.splits)
  then show ?R
    by (simp add: guards ok_iff)
next
  assume R: ?R
  then obtain w' i where "new_workload_identity w = Inr w'" "new_workload_identity c = Inr i"
    by (auto simp: ok_iff)
  moreover from this have "trim_space w \<noteq> []" "trim_space c \<noteq> []"
    "w' = \<lparr>workload_spiffe_id = trim_space w\<rparr>" "i = \<lparr>workload_spiffe_id = trim_space c\<rparr>"
    by (auto simp: guards)
  moreover from R have "new_user_identity s = Inr \<lparr>user_id = trim_space s\<rparr>"
    "new_agent_identity (fst ag) (snd ag)
       = Inr \<lparr>agent_id = trim_space (fst ag), agent_instance_id = trim_space (snd ag)\<rparr>"
    "new_transaction_identity (fst tx) (snd tx)
       = Inr \<lparr>transaction_id = trim_space (fst tx), transaction_purpose = trim_space (snd tx)\<rparr>"
    "new_authorization_context sc = Inr \<lparr>auth_scope = map trim_space sc\<rparr>"
    by (simp_all only: guards) auto
  ultimately show ?L
    using R by (simp add: build_identity_def new_request_identity_context_def blank_def)
qed

lemma workload_spiffe_shaped:
  "ok (new_workload_identity w) \<Longrightarrow> spiffe_shaped (trim_space w)"
  by (auto simp: ok_iff guards spiffe_shaped_def canonical_def dest: prefix_length_le)

lemma build_identity_wf: "build_identity s ag w c tx sc = Inr v \<Longrightarrow> wf_identity v"
  unfolding build_identity_Inr wf_identity_def
  by (simp add: canonical_trim workload_spiffe_shaped list_all_iff)

section \<open>The request context (\<open>context.go\<close>)\<close>

text \<open>
  A \<open>context.Context\<close>, as far as the program looks at it: whether \<open>ctx.Err()\<close> is set, and the
  value under the identity key. The packages that store more values extend the record.
\<close>

record ctx =
  ctx_done :: bool
  ctx_identity :: "request_identity option"

definition with_context :: "'a ctx_scheme \<Rightarrow> request_identity \<Rightarrow> 'a ctx_scheme" where
  "with_context c v = c\<lparr>ctx_identity := Some v\<rparr>"

definition from_context :: "'a ctx_scheme \<Rightarrow> request_identity option" where
  "from_context c = ctx_identity c"

lemma from_with_context [simp]: "from_context (with_context c v) = Some v"
  by (simp add: from_context_def with_context_def)

section \<open>The agent registry (\<open>binding.go\<close>)\<close>

record agent_binding =
  binding_spiffe_id :: string
  binding_agent_id :: string

type_synonym agent_registry = "(string \<times> agent_identity) list"

fun add_bindings ::
  "(string \<Rightarrow> string option) \<Rightarrow> agent_registry \<Rightarrow> agent_binding list
    \<Rightarrow> identity_error + agent_registry" where
  "add_bindings parse_id reg [] = Inr reg"
| "add_bindings parse_id reg (b # bs) =
     (case parse_id (trim_space (binding_spiffe_id b)) of
        None \<Rightarrow> Inl ErrInvalidBinding
      | Some key \<Rightarrow>
          (case new_logical_agent_identity (binding_agent_id b) of
             Inl _ \<Rightarrow> Inl ErrInvalidBinding
           | Inr agent \<Rightarrow>
               (case lookup reg key of
                  Some _ \<Rightarrow> Inl ErrInvalidBinding
                | None \<Rightarrow> add_bindings parse_id (reg @ [(key, agent)]) bs)))"

definition new_agent_registry ::
  "(string \<Rightarrow> string option) \<Rightarrow> agent_binding list \<Rightarrow> identity_error + agent_registry" where
  "new_agent_registry parse_id bs =
     (if length bs = 0 then Inl ErrInvalidBinding else add_bindings parse_id [] bs)"

definition resolve_agent ::
  "(string \<Rightarrow> string option) \<Rightarrow> agent_registry \<Rightarrow> string \<Rightarrow> identity_error + agent_identity" where
  "resolve_agent parse_id reg raw =
     (case parse_id (trim_space raw) of
        None \<Rightarrow> Inl ErrUnknownWorkload
      | Some key \<Rightarrow>
          (case lookup reg key of
             None \<Rightarrow> Inl ErrUnknownWorkload
           | Some agent \<Rightarrow> Inr agent))"

text \<open>
  The abstract content of a list of bindings: the canonical SPIFFE ID and the trimmed agent
  ID of each, where both parse.
\<close>

definition binding_entry :: "(string \<Rightarrow> string option) \<Rightarrow> agent_binding \<Rightarrow> (string \<times> agent_identity) option" where
  "binding_entry parse_id b =
     (case (parse_id (trim_space (binding_spiffe_id b)), new_logical_agent_identity (binding_agent_id b)) of
        (Some k, Inr a) \<Rightarrow> Some (k, a)
      | _ \<Rightarrow> None)"

lemma add_bindings_Inr:
  assumes "distinct (map fst reg)"
  shows "add_bindings p reg bs = Inr r \<longleftrightarrow>
     (\<forall>b \<in> set bs. binding_entry p b \<noteq> None)
     \<and> r = reg @ map (the \<circ> binding_entry p) bs \<and> distinct (map fst r)"
  using assms
proof (induction bs arbitrary: reg)
  case Nil
  then show ?case by auto
next
  case (Cons b bs)
  show ?case
  proof (cases "binding_entry p b")
    case None
    then show ?thesis
      by (auto simp: binding_entry_def split: option.splits sum.splits)
  next
    case (Some e)
    obtain k a where e: "e = (k, a)" by (cases e)
    with Some have kb: "p (trim_space (binding_spiffe_id b)) = Some k"
      and ab: "new_logical_agent_identity (binding_agent_id b) = Inr a"
      by (auto simp: binding_entry_def split: option.splits sum.splits)
    show ?thesis
    proof (cases "lookup reg k")
      case None
      then have "k \<notin> fst ` set reg" by (simp add: map_of_eq_None_iff)
      with Cons.prems have "distinct (map fst (reg @ [(k, a)]))" by simp
      from Cons.IH [OF this] None show ?thesis
        using kb ab Some e by simp
    next
      case (Some a')
      then have "k \<in> fst ` set reg"
        by (metis map_of_eq_None_iff option.distinct(1))
      with kb ab Some e \<open>binding_entry p b = Some e\<close> show ?thesis by auto
    qed
  qed
qed

lemma new_agent_registry_Inr [guards]:
  "new_agent_registry p bs = Inr r \<longleftrightarrow>
     bs \<noteq> [] \<and> (\<forall>b \<in> set bs. binding_entry p b \<noteq> None)
     \<and> r = map (the \<circ> binding_entry p) bs \<and> distinct (map fst r)"
  by (simp add: new_agent_registry_def add_bindings_Inr)

section \<open>Properties\<close>

text \<open>
  C7. The identity chain of both middlewares succeeds exactly when no field is blank, both workload
  IDs are SPIFFE URIs with something after the scheme, and there is at least one scope and none
  is blank; every identity it builds is well formed (trimmed, non-empty, SPIFFE-shaped).
\<close>
theorem build_identity_exact:
  "(ok (build_identity s ag w c tx sc) \<longleftrightarrow>
     \<not> blank s \<and> \<not> blank (fst ag) \<and> \<not> blank (snd ag)
     \<and> spiffe_shaped (trim_space w) \<and> spiffe_shaped (trim_space c)
     \<and> \<not> blank (fst tx) \<and> \<not> blank (snd tx) \<and> sc \<noteq> [] \<and> list_all (\<lambda>x. \<not> blank x) sc)
   \<and> (case build_identity s ag w c tx sc of Inl _ \<Rightarrow> True | Inr v \<Rightarrow> wf_identity v)"
proof (intro conjI)
  have "ok (new_workload_identity x) \<longleftrightarrow> spiffe_shaped (trim_space x)" for x
    by (auto simp: ok_iff guards spiffe_shaped_def canonical_def dest: prefix_length_le)
  then show "ok (build_identity s ag w c tx sc) \<longleftrightarrow>
     \<not> blank s \<and> \<not> blank (fst ag) \<and> \<not> blank (snd ag)
     \<and> spiffe_shaped (trim_space w) \<and> spiffe_shaped (trim_space c)
     \<and> \<not> blank (fst tx) \<and> \<not> blank (snd tx) \<and> sc \<noteq> [] \<and> list_all (\<lambda>x. \<not> blank x) sc"
    by (simp add: list_all_iff ok_iff [of "build_identity s ag w c tx sc"] build_identity_Inr)
  show "(case build_identity s ag w c tx sc of Inl _ \<Rightarrow> True | Inr v \<Rightarrow> wf_identity v)"
    by (auto split: sum.split intro: build_identity_wf)
qed

theorem build_identity_exact_witness:
  "ok (build_identity ''alice '' (''agent-1'', ''i-1'') ''spiffe://example.org/agent'' ''spiffe://example.org/gw''
     (''t-1'', ''lookup'') [''read''])"
proof -
  have "\<not> blank ''alice '' \<and> \<not> blank ''agent-1'' \<and> \<not> blank ''i-1''
     \<and> spiffe_shaped (trim_space ''spiffe://example.org/agent'') \<and> spiffe_shaped (trim_space ''spiffe://example.org/gw'')
     \<and> \<not> blank ''t-1'' \<and> \<not> blank ''lookup'' \<and> [''read''] \<noteq> [] \<and> list_all (\<lambda>x. \<not> blank x) [''read'']"
    by code_simp
  then show ?thesis
    using build_identity_exact [of "''alice ''" "(''agent-1'', ''i-1'')" "''spiffe://example.org/agent''"
        "''spiffe://example.org/gw''" "(''t-1'', ''lookup'')" "[''read'']"]
    by (metis fst_conv snd_conv)
qed

text \<open>
  C8. An agent registry that was built resolves a raw SPIFFE ID to an agent exactly when one of the
  configured bindings has that canonical ID and that trimmed agent ID; the canonical IDs of the
  bindings are distinct, so the answer never depends on their order.
\<close>
theorem agent_registry_resolves:
  assumes "new_agent_registry p bs = Inr reg"
  shows "(resolve_agent p reg raw = Inr a \<longleftrightarrow>
     (\<exists>b \<in> set bs. \<exists>k. p (trim_space raw) = Some k \<and> binding_entry p b = Some (k, a)))
    \<and> distinct (map (fst \<circ> the \<circ> binding_entry p) bs)"
proof (intro conjI)
  have reg: "reg = map (the \<circ> binding_entry p) bs" and d: "distinct (map fst reg)"
    and all: "\<forall>b \<in> set bs. binding_entry p b \<noteq> None"
    using assms unfolding new_agent_registry_Inr by blast+
  have look: "lookup reg k = Some a \<longleftrightarrow> (\<exists>b \<in> set bs. binding_entry p b = Some (k, a))" for k
    using d all unfolding map_of_eq_Some_iff [OF d] by (force simp: reg image_iff)
  have found: "(case lookup reg k of None \<Rightarrow> Inl ErrUnknownWorkload | Some x \<Rightarrow> Inr x) = Inr a
     \<longleftrightarrow> lookup reg k = Some a" for k
    by (simp split: option.split)
  show "resolve_agent p reg raw = Inr a \<longleftrightarrow>
     (\<exists>b \<in> set bs. \<exists>k. p (trim_space raw) = Some k \<and> binding_entry p b = Some (k, a))"
    by (cases "p (trim_space raw)") (simp_all add: resolve_agent_def found look)
  show "distinct (map (fst \<circ> the \<circ> binding_entry p) bs)"
    using d by (simp only: reg map_map o_assoc)
qed

theorem agent_registry_resolves_witness:
  "resolve_agent Some [(''spiffe://example.org/a'', \<lparr>agent_id = ''agent-1'', agent_instance_id = []\<rparr>)]
     '' spiffe://example.org/a'' = Inr \<lparr>agent_id = ''agent-1'', agent_instance_id = []\<rparr>"
proof -
  have "new_agent_registry Some [\<lparr>binding_spiffe_id = ''spiffe://example.org/a'', binding_agent_id = ''agent-1''\<rparr>]
    = Inr [(''spiffe://example.org/a'', \<lparr>agent_id = ''agent-1'', agent_instance_id = []\<rparr>)]" by code_simp
  moreover have "trim_space '' spiffe://example.org/a'' = ''spiffe://example.org/a''"
    "binding_entry Some \<lparr>binding_spiffe_id = ''spiffe://example.org/a'', binding_agent_id = ''agent-1''\<rparr>
      = Some (''spiffe://example.org/a'', \<lparr>agent_id = ''agent-1'', agent_instance_id = []\<rparr>)" by code_simp+
  ultimately show ?thesis by (simp add: agent_registry_resolves)
qed

end
