(* ===== verification/Spiffe.thy ===== *)
theory Spiffe
  imports Identity
begin

text \<open>
  Packages \<open>spiffe\<close> and \<open>spiffe/spire\<close>: the exact peer policy, the mTLS client and server
  configuration, and the provider that fetches one expected identity from the Workload API
  and owns the connection to it.

  Parameters stand for go-spiffe and the Workload API: \<open>parse_id\<close> (\<open>spiffeid.FromString\<close>
  followed by \<open>String()\<close>), \<open>valid_addr\<close> (\<open>workloadapi.ValidateAddress\<close>), and the
  answers of the Workload API and of the close calls.
\<close>

section \<open>The exact peer policy (\<open>policy.go\<close>)\<close>

datatype policy_error = ErrInvalidIdentityPolicy

type_synonym exact_peer_policy = "string set"

fun add_peers ::
  "(string \<Rightarrow> string option) \<Rightarrow> exact_peer_policy \<Rightarrow> string list \<Rightarrow> policy_error + exact_peer_policy" where
  "add_peers parse_id p [] = Inr p"
| "add_peers parse_id p (raw # ids) =
     (case parse_id (trim_space raw) of
        None \<Rightarrow> Inl ErrInvalidIdentityPolicy
      | Some k \<Rightarrow> add_peers parse_id (insert k p) ids)"

definition new_exact_peer_policy ::
  "(string \<Rightarrow> string option) \<Rightarrow> string list \<Rightarrow> policy_error + exact_peer_policy" where
  "new_exact_peer_policy parse_id ids =
     (if length ids = 0 then Inl ErrInvalidIdentityPolicy else add_peers parse_id {} ids)"

definition authorize_spiffe_id :: "exact_peer_policy \<Rightarrow> string \<Rightarrow> bool" where
  "authorize_spiffe_id p i = (i \<in> p)"

lemma add_peers_Inr:
  "add_peers parse_id p ids = Inr q \<longleftrightarrow>
     (\<forall>raw \<in> set ids. parse_id (trim_space raw) \<noteq> None)
     \<and> q = p \<union> {k. \<exists>raw \<in> set ids. parse_id (trim_space raw) = Some k}"
  by (induction ids arbitrary: p) (auto split: option.splits)

lemma new_exact_peer_policy_Inr [guards]:
  "new_exact_peer_policy parse_id ids = Inr q \<longleftrightarrow>
     ids \<noteq> [] \<and> (\<forall>raw \<in> set ids. parse_id (trim_space raw) \<noteq> None)
     \<and> q = {k. \<exists>raw \<in> set ids. parse_id (trim_space raw) = Some k}"
  by (simp add: new_exact_peer_policy_def add_peers_Inr)

section \<open>The interface of a peer policy\<close>

text \<open>
  What the TLS configuration and the request middleware rely on: a policy built from a list
  of IDs admits exactly the identities the list names.
\<close>

locale peer_policy =
  fixes build :: "string list \<Rightarrow> 'e + 'p"
    and admits :: "'p \<Rightarrow> string \<Rightarrow> bool"
    and names :: "string \<Rightarrow> string option"
  assumes admits_iff: "build ids = Inr p \<Longrightarrow> admits p i \<longleftrightarrow> (\<exists>raw \<in> set ids. names raw = Some i)"
    and build_nonempty: "build ids = Inr p \<Longrightarrow> ids \<noteq> []"
    and build_total: "build ids = Inr p \<Longrightarrow> raw \<in> set ids \<Longrightarrow> names raw \<noteq> None"
begin

lemma unnamed_denied: "build ids = Inr p \<Longrightarrow> (\<forall>raw \<in> set ids. names raw \<noteq> Some i) \<Longrightarrow> \<not> admits p i"
  by (simp add: admits_iff)

lemma some_admitted: "build ids = Inr p \<Longrightarrow> \<exists>i. admits p i"
proof -
  assume b: "build ids = Inr p"
  from build_nonempty [OF b] obtain raw where raw: "raw \<in> set ids" by (cases ids) auto
  with build_total [OF b] obtain i where "names raw = Some i" by blast
  with raw b have "admits p i" by (auto simp: admits_iff)
  then show ?thesis by blast
qed

text \<open>The order and repetition of the configured IDs do not matter.\<close>

lemma same_names_same_policy:
  assumes "build ids = Inr p" "build ids' = Inr p'" "set ids = set ids'"
  shows "admits p i = admits p' i"
  using assms by (simp add: admits_iff)

end

interpretation exact: peer_policy "new_exact_peer_policy parse_id" authorize_spiffe_id
  "\<lambda>raw. parse_id (trim_space raw)" for parse_id
  by unfold_locales (auto simp: guards authorize_spiffe_id_def)

section \<open>TLS configuration (\<open>http.go\<close>, \<open>x509Source\<close>)\<close>

datatype spire_error =
  ErrInvalidOptions | ErrIdentitySelection | FetchFailed | CloseFailed | DialFailed

text \<open>
  A \<open>tls.Config\<close> as go-spiffe builds it from an X.509 source and an authorizer: which side
  it is for, and which peer SPIFFE IDs the handshake lets through.
\<close>

record tls_config =
  tls_server :: bool
  tls_authorizes :: "string \<Rightarrow> bool"

text \<open>\<open>tlsConfig\<close>: a nil policy is refused, the authorizer asks the policy.\<close>

definition tls_config :: "(string \<Rightarrow> bool) option \<Rightarrow> bool \<Rightarrow> spire_error + tls_config" where
  "tls_config policy server =
     (case policy of
        None \<Rightarrow> Inl ErrInvalidOptions
      | Some authorize \<Rightarrow> Inr \<lparr>tls_server = server, tls_authorizes = (\<lambda>i. authorize i)\<rparr>)"

record http_client =
  client_timeout :: duration
  client_tls :: tls_config

definition new_http_client ::
  "((string \<Rightarrow> bool) option \<Rightarrow> spire_error + tls_config) option \<Rightarrow> (string \<Rightarrow> bool) option
    \<Rightarrow> duration \<Rightarrow> spire_error + http_client" where
  "new_http_client source policy timeout =
     (case source of
        None \<Rightarrow> Inl ErrInvalidOptions
      | Some src \<Rightarrow>
          if policy = None \<or> timeout \<le> 0 then Inl ErrInvalidOptions
          else case src policy of
                 Inl e \<Rightarrow> Inl e
               | Inr c \<Rightarrow> Inr \<lparr>client_timeout = timeout, client_tls = c\<rparr>)"

definition configure_http_server ::
  "tls_config option option \<Rightarrow> ((string \<Rightarrow> bool) option \<Rightarrow> spire_error + tls_config) option
    \<Rightarrow> (string \<Rightarrow> bool) option \<Rightarrow> spire_error + tls_config option" where
  "configure_http_server server source policy =
     (case (server, source) of
        (Some _, Some src) \<Rightarrow>
          if policy = None then Inl ErrInvalidOptions
          else (case src policy of Inl e \<Rightarrow> Inl e | Inr c \<Rightarrow> Inr (Some c))
      | _ \<Rightarrow> Inl ErrInvalidOptions)"

section \<open>Identity selection (\<open>spire/provider.go\<close>)\<close>

record svid =
  svid_id :: string
  svid_token :: string

definition validate_audiences_go :: "string list \<Rightarrow> string list \<Rightarrow> spire_error + string list" where
  "validate_audiences_go seen auds =
     fold (\<lambda>a r. case r of
         Inl e \<Rightarrow> Inl e
       | Inr clean \<Rightarrow>
           if trim_space a = [] then Inl ErrInvalidOptions
           else if trim_space a \<in> set clean then Inl ErrInvalidOptions
           else Inr (clean @ [trim_space a])) auds (Inr seen)"

definition validate_audiences :: "string list \<Rightarrow> spire_error + string list" where
  "validate_audiences auds =
     (if length auds = 0 then Inl ErrInvalidOptions else validate_audiences_go [] auds)"

text \<open>\<open>selectExpectedJWT\<close> and \<open>selectExpectedX509\<close>: exactly one SVID, not nil, with the expected ID.\<close>

definition select_expected :: "svid option list \<Rightarrow> string \<Rightarrow> spire_error + svid" where
  "select_expected svids expected =
     (case svids of
        [Some s] \<Rightarrow> if svid_id s \<noteq> expected then Inl ErrIdentitySelection else Inr s
      | _ \<Rightarrow> Inl ErrIdentitySelection)"

lemma select_expected_Inr [guards]:
  "select_expected svids expected = Inr s \<longleftrightarrow> svids = [Some s] \<and> svid_id s = expected"
  by (auto simp: select_expected_def split: list.splits option.splits)

lemma validate_go_Inl: "fold (\<lambda>a r. case r of Inl e \<Rightarrow> Inl e | Inr c \<Rightarrow> f a c) auds (Inl e) = Inl e"
  by (induction auds) auto

lemma validate_audiences_go_Inr:
  "validate_audiences_go seen auds = Inr clean \<longleftrightarrow>
     clean = seen @ map trim_space auds \<and> (\<forall>a \<in> set auds. \<not> blank a)
     \<and> (distinct seen \<longrightarrow> distinct clean) \<and> distinct (map trim_space auds)
     \<and> set seen \<inter> trim_space ` set auds = {}"
proof (induction auds arbitrary: seen)
  case Nil
  then show ?case by (auto simp: validate_audiences_go_def)
next
  case (Cons a auds)
  show ?case
  proof (cases "trim_space a = [] \<or> trim_space a \<in> set seen")
    case True
    then have "validate_audiences_go seen (a # auds) = Inl ErrInvalidOptions"
      by (auto simp: validate_audiences_go_def validate_go_Inl)
    with True show ?thesis by (auto simp: blank_def)
  next
    case False
    then have "validate_audiences_go seen (a # auds) = validate_audiences_go (seen @ [trim_space a]) auds"
      by (simp add: validate_audiences_go_def)
    with False Cons.IH show ?thesis by (auto simp: blank_def)
  qed
qed

lemma validate_audiences_Inr [guards]:
  "validate_audiences auds = Inr clean \<longleftrightarrow>
     auds \<noteq> [] \<and> (\<forall>a \<in> set auds. \<not> blank a) \<and> clean = map trim_space auds
     \<and> distinct clean"
  by (auto simp: validate_audiences_def validate_audiences_go_Inr)

section \<open>The provider and the connection it owns\<close>

text \<open>
  The resources of one process: how many Workload API clients and rotating X.509 sources are
  open.
\<close>

record resources =
  open_clients :: nat
  open_sources :: nat

text \<open>What the Workload API answers while \<open>New\<close> runs (\<open>None\<close> is an error).\<close>

record workload_api =
  api_dial :: bool
  api_x509_svids :: "svid option list option"
  api_new_source :: bool

text \<open>A \<open>Provider\<close>: the expected identity, the \<open>sync.Once\<close> and the error it stored.\<close>

record provider =
  prov_expected :: string
  prov_once_done :: bool
  prov_close_err :: "spire_error option"

definition fetch_expected_x509 :: "svid option list option \<Rightarrow> string \<Rightarrow> spire_error + svid" where
  "fetch_expected_x509 answer expected =
     (case answer of None \<Rightarrow> Inl FetchFailed | Some svids \<Rightarrow> select_expected svids expected)"

definition new_provider ::
  "(string \<Rightarrow> bool) \<Rightarrow> (string \<Rightarrow> string option) \<Rightarrow> workload_api \<Rightarrow> string \<Rightarrow> string
    \<Rightarrow> resources \<Rightarrow> (spire_error + provider) \<times> resources" where
  "new_provider valid_addr parse_id api raw_endpoint raw_expected w =
     (let endpoint = trim_space raw_endpoint in
      if endpoint = [] then (Inl ErrInvalidOptions, w)
      else if \<not> valid_addr endpoint then (Inl ErrInvalidOptions, w)
      else case parse_id (trim_space raw_expected) of
        None \<Rightarrow> (Inl ErrInvalidOptions, w)
      | Some expected \<Rightarrow>
          if \<not> api_dial api then (Inl DialFailed, w)
          else
            let w1 = w\<lparr>open_clients := open_clients w + 1\<rparr> in
            case fetch_expected_x509 (api_x509_svids api) expected of
              Inl e \<Rightarrow> (Inl e, w1\<lparr>open_clients := open_clients w1 - 1\<rparr>)
            | Inr _ \<Rightarrow>
                if \<not> api_new_source api
                then (Inl DialFailed, w1\<lparr>open_clients := open_clients w1 - 1\<rparr>)
                else (Inr \<lparr>prov_expected = expected, prov_once_done = False, prov_close_err = None\<rparr>,
                      w1\<lparr>open_sources := open_sources w1 + 1\<rparr>))"

definition fetch_jwt_svid ::
  "provider \<Rightarrow> (string \<Rightarrow> string list \<Rightarrow> svid option list option) \<Rightarrow> string list
    \<Rightarrow> spire_error + svid" where
  "fetch_jwt_svid p api_fetch audiences =
     (case validate_audiences audiences of
        Inl e \<Rightarrow> Inl e
      | Inr clean \<Rightarrow>
          (case api_fetch (hd clean) (tl clean) of
             None \<Rightarrow> Inl FetchFailed
           | Some svids \<Rightarrow> select_expected svids (prov_expected p)))"

text \<open>
  \<open>Close\<close>: the body runs at most once (\<open>sync.Once\<close>); the source and the client are both
  closed and their errors joined (\<open>x509_err\<close>, \<open>client_err\<close> are what the two calls return);
  later calls return the stored error.
\<close>

definition close_provider ::
  "bool \<Rightarrow> bool \<Rightarrow> provider \<Rightarrow> resources \<Rightarrow> spire_error option \<times> provider \<times> resources" where
  "close_provider x509_err client_err p w =
     (if prov_once_done p then (prov_close_err p, p, w)
      else
        let e = (if x509_err \<or> client_err then Some CloseFailed else None)
        in (e, p\<lparr>prov_once_done := True, prov_close_err := e\<rparr>,
            w\<lparr>open_clients := open_clients w - 1, open_sources := open_sources w - 1\<rparr>))"

lemma new_provider_Inr:
  assumes "new_provider va pi api ep ex w = (Inr p, w')"
  shows "pi (trim_space ex) = Some (prov_expected p)" "\<not> prov_once_done p"
    "open_clients w' = open_clients w + 1" "open_sources w' = open_sources w + 1"
    "\<exists>s. api_x509_svids api = Some [Some s] \<and> svid_id s = prov_expected p"
  using assms
  by (auto simp: new_provider_def fetch_expected_x509_def Let_def guards
      split: if_splits option.splits sum.splits)

lemma new_provider_Inl:
  "new_provider va pi api ep ex w = (Inl e, w') \<Longrightarrow> w' = w"
  by (auto simp: new_provider_def Let_def split: if_splits option.splits sum.splits)

text \<open>\<open>n\<close> calls of \<open>Close\<close>, each with what its two inner calls would return; the results in order.\<close>

fun close_all :: "(bool \<times> bool) list \<Rightarrow> provider \<Rightarrow> resources \<Rightarrow> spire_error option list \<times> resources" where
  "close_all [] p w = ([], w)"
| "close_all ((x, y) # cs) p w =
     (case close_provider x y p w of (e, p', w') \<Rightarrow>
        (case close_all cs p' w' of (es, w'') \<Rightarrow> (e # es, w'')))"

lemma close_all_done:
  "prov_once_done p \<Longrightarrow> close_all cs p w = (replicate (length cs) (prov_close_err p), w)"
  by (induction cs) (auto simp: close_provider_def)

section \<open>Properties\<close>

text \<open>
  A policy built from a list of IDs lets a peer through exactly when the list has its canonical
  ID: every entry of the list parses, no other identity passes, and an empty list gives no policy.
\<close>
theorem exact_peer_policy_exact:
  assumes "new_exact_peer_policy parse_id ids = Inr p"
  shows "(authorize_spiffe_id p i \<longleftrightarrow> (\<exists>raw \<in> set ids. parse_id (trim_space raw) = Some i))
    \<and> (\<exists>j. authorize_spiffe_id p j)"
  by (intro conjI exact.admits_iff [OF assms] exact.some_admitted [OF assms])

theorem exact_peer_policy_exact_witness:
  "authorize_spiffe_id {''spiffe://example.org/a''} ''spiffe://example.org/a''
   \<and> \<not> authorize_spiffe_id {''spiffe://example.org/a''} ''spiffe://example.org/b''"
proof -
  have t: "trim_space ''spiffe://example.org/a'' = ''spiffe://example.org/a''" by code_simp
  then have "new_exact_peer_policy Some [''spiffe://example.org/a''] = Inr {''spiffe://example.org/a''}"
    by (simp add: new_exact_peer_policy_def)
  note exact_peer_policy_exact [OF this]
  then show ?thesis by (simp add: t)
qed

text \<open>
  C9. The provider owns what it opens: a constructor that fails leaves no connection open, and after
  one that succeeds any positive number of \<open>Close\<close> calls releases exactly what was opened, once,
  and all of them return the error of the first.
\<close>
theorem provider_releases_once:
  assumes "new_provider va pi api ep ex w = (r, w')"
  shows "case r of Inl _ \<Rightarrow> w' = w
     | Inr p \<Rightarrow> close_all ((x, y) # cs) p w' =
         (replicate (Suc (length cs)) (if x \<or> y then Some CloseFailed else None), w)"
proof (cases r)
  case (Inl e)
  with assms show ?thesis by (simp add: new_provider_Inl)
next
  case (Inr p)
  note p = new_provider_Inr [OF assms [unfolded Inr]]
  have "w'\<lparr>open_clients := open_clients w' - 1, open_sources := open_sources w' - 1\<rparr> = w"
    using p assms Inr
    by (auto simp: new_provider_def Let_def split: if_splits option.splits sum.splits)
  with p(2) Inr show ?thesis by (simp add: close_provider_def close_all_done Let_def)
qed

theorem provider_releases_once_witness:
  "close_all [(True, False), (False, False)] \<lparr>prov_expected = ''spiffe://example.org/a'', prov_once_done = False, prov_close_err = None\<rparr>
     \<lparr>open_clients = 1, open_sources = 1\<rparr> = ([Some CloseFailed, Some CloseFailed], \<lparr>open_clients = 0, open_sources = 0\<rparr>)"
proof -
  have "new_provider (\<lambda>_. True) Some
     \<lparr>api_dial = True, api_x509_svids = Some [Some \<lparr>svid_id = ''spiffe://example.org/a'', svid_token = []\<rparr>], api_new_source = True\<rparr>
     ''unix:///tmp/s'' ''spiffe://example.org/a'' \<lparr>open_clients = 0, open_sources = 0\<rparr>
     = (Inr \<lparr>prov_expected = ''spiffe://example.org/a'', prov_once_done = False, prov_close_err = None\<rparr>,
        \<lparr>open_clients = 1, open_sources = 1\<rparr>)" by code_simp
  from provider_releases_once [OF this, of True False "[(False, False)]"] show ?thesis
    by (simp add: numeral_2_eq_2)
qed

end
