(* ===== verification/Txn_Claims.thy ===== *)
theory Txn_Claims
  imports Go_Strings
begin

text \<open>
  The profile mode (\<open>pkg/transaction/profile.go\<close>), the legacy transaction claims and their
  validation (\<open>claims.go\<close>), and the claims of a strict transaction token (\<open>txn_token.go\<close>).
\<close>

section \<open>Profile modes (\<open>profile.go\<close>)\<close>

datatype profile_error = ErrInvalidProfileMode

text \<open>\<open>ProfileMode\<close> is a string type: any string is a value of it.\<close>

type_synonym profile_mode = string

definition profile_legacy_wai_jwt :: profile_mode where
  "profile_legacy_wai_jwt = ''legacy-wai-jwt''"

definition profile_txn_token_v11 :: profile_mode where
  "profile_txn_token_v11 = ''ietf-txn-token-v11''"

definition profile_validate :: "profile_mode \<Rightarrow> profile_error option" where
  "profile_validate m =
     (if m = profile_legacy_wai_jwt \<or> m = profile_txn_token_v11 then None
      else Some ErrInvalidProfileMode)"

section \<open>Strict claims (\<open>txn_token.go\<close>)\<close>

definition txn_token_jose_type :: string where
  "txn_token_jose_type = ''txntoken+jwt''"

record wai_agent_context =
  wac_id :: string
  wac_instance_id :: string
  wac_workload_id :: string

record wai_transaction_context =
  wai_version :: int
  wai_agent :: wai_agent_context
  wai_target :: string
  wai_tool :: string

record request_context =
  rctx_authentication_method :: string

record txn_token_claims =
  txn_issuer :: string
  txn_subject :: string
  txn_audience :: string
  txn_transaction_id :: string
  txn_scope :: "string list"
  txn_requesting_workload_id :: string
  txn_context :: wai_transaction_context
  txn_request_context :: "request_context option"
  txn_jwt_id :: string
  txn_issued_at :: time
  txn_expires_at :: time

section \<open>Legacy claims (\<open>claims.go\<close>)\<close>

record claims =
  issuer :: string
  subject :: string
  audience :: "string list"
  jwt_id :: string
  claims_agent_id :: string
  claims_agent_instance_id :: string
  claims_workload_id :: string
  claims_transaction_id :: string
  claims_purpose :: string
  claims_scope :: "string list"
  issued_at :: time
  not_before :: time
  expires_at :: time

datatype claims_error =
  ClaimMissing | EmptyAudience | TokenExpired | TokenNotYetValid | IssuedInFuture

text \<open>
  \<open>Claims.Validate\<close>: the first failing check decides the reason; every reason wraps
  \<open>ErrInvalidClaims\<close>.
\<close>

definition claims_validate :: "claims \<Rightarrow> time \<Rightarrow> duration \<Rightarrow> claims_error option" where
  "claims_validate c now skew =
     (if blank (issuer c) \<or> blank (subject c) \<or> length (audience c) = 0 \<or> blank (jwt_id c)
         \<or> blank (claims_agent_id c) \<or> blank (claims_workload_id c)
         \<or> blank (claims_transaction_id c) \<or> blank (claims_purpose c)
         \<or> is_zero (issued_at c) \<or> is_zero (expires_at c)
      then Some ClaimMissing
      else if list_ex blank (audience c) then Some EmptyAudience
      else if expires_at c < now + (- skew) then Some TokenExpired
      else if \<not> is_zero (not_before c) \<and> not_before c > now + skew then Some TokenNotYetValid
      else if issued_at c > now + skew then Some IssuedInFuture
      else None)"

text \<open>What a complete claim set is: every required claim there, no audience blank.\<close>

definition claims_complete :: "claims \<Rightarrow> bool" where
  "claims_complete c =
     (list_all (\<lambda>x. \<not> blank x)
        [issuer c, subject c, jwt_id c, claims_agent_id c, claims_workload_id c,
         claims_transaction_id c, claims_purpose c]
      \<and> audience c \<noteq> [] \<and> list_all (\<lambda>x. \<not> blank x) (audience c)
      \<and> \<not> is_zero (issued_at c) \<and> \<not> is_zero (expires_at c))"

text \<open>The window of instants at which the clock may stand for the claims to be current.\<close>

definition claims_current :: "claims \<Rightarrow> time \<Rightarrow> duration \<Rightarrow> bool" where
  "claims_current c now skew =
     (now \<le> expires_at c + skew \<and> (is_zero (not_before c) \<or> not_before c \<le> now + skew)
      \<and> issued_at c \<le> now + skew)"

lemma claims_validate_None [guards]:
  "claims_validate c now skew = None \<longleftrightarrow> claims_complete c \<and> claims_current c now skew"
  by (auto simp: claims_validate_def claims_complete_def claims_current_def list_ex_iff
      list_all_iff)

lemma claims_current_convex:
  "claims_current c a skew \<Longrightarrow> claims_current c b skew \<Longrightarrow> a \<le> t \<Longrightarrow> t \<le> b \<Longrightarrow> claims_current c t skew"
  by (auto simp: claims_current_def)

section \<open>Properties\<close>

text \<open>
  \<open>Claims.Validate\<close> accepts a claim set exactly when it is complete and current under the clock
  skew, and the instants at which it does form an interval: a token that was valid and has
  become invalid never becomes valid again.
\<close>
theorem claims_validate_exact:
  "(claims_validate c now skew = None \<longleftrightarrow> claims_complete c \<and> claims_current c now skew)
   \<and> (a \<le> now \<and> now \<le> b \<and> claims_validate c a skew = None \<and> claims_validate c b skew = None
      \<longrightarrow> claims_validate c now skew = None)"
  by (auto simp: guards intro: claims_current_convex)

definition sample_legacy_claims :: claims where
  "sample_legacy_claims =
     \<lparr>issuer = ''https://pf.example'', subject = ''alice'', audience = [''mcp''], jwt_id = ''j-1'',
      claims_agent_id = ''agent-1'', claims_agent_instance_id = ''i-1'',
      claims_workload_id = ''spiffe://example.org/agent'', claims_transaction_id = ''t-1'',
      claims_purpose = ''lookup'', claims_scope = [''read''], issued_at = time_unix 1700000000,
      not_before = 0, expires_at = time_unix 1700000060\<rparr>"

theorem claims_validate_exact_witness:
  "claims_validate sample_legacy_claims (time_unix 1700000030) 0 = None"
proof -
  have "time_unix 1700000000 \<le> time_unix 1700000030 \<and> time_unix 1700000030 \<le> time_unix 1700000060
     \<and> claims_validate sample_legacy_claims (time_unix 1700000000) 0 = None
     \<and> claims_validate sample_legacy_claims (time_unix 1700000060) 0 = None"
    by code_simp
  then show ?thesis using claims_validate_exact by blast
qed

end
