(* ===== verification/Go_HTTP.thy ===== *)
theory Go_HTTP
  imports Go_Strings
begin

text \<open>
  What the program uses of \<open>net/http\<close> and \<open>net/textproto\<close>: header maps and their canonical
  keys, the operations a handler performs on its \<open>ResponseWriter\<close>, and the TLS connection
  state a request carries.
\<close>

section \<open>Headers\<close>

text \<open>
  An \<open>http.Header\<close> is a map from keys to value lists, given by its entries, one per key, in
  the order an iteration meets them. A nil header is \<open>None\<close> where the code tests for it.
\<close>

type_synonym header = "(string \<times> string list) list"

definition wf_header :: "header \<Rightarrow> bool" where
  "wf_header h = distinct (map fst h)"

definition is_alnum :: "char \<Rightarrow> bool" where
  "is_alnum c = (let n = of_char c :: nat in
     (48 \<le> n \<and> n \<le> 57) \<or> (65 \<le> n \<and> n \<le> 90) \<or> (97 \<le> n \<and> n \<le> 122))"

definition valid_header_byte :: "char \<Rightarrow> bool" where
  "valid_header_byte c = (is_alnum c \<or> c \<in> set ''!#$%&*+-.^_`|~'' \<or> c = CHR 0x27)"

definition upper_char :: "char \<Rightarrow> char" where
  "upper_char c =
     (if 97 \<le> (of_char c :: nat) \<and> of_char c \<le> (122 :: nat) then char_of (of_char c - 32 :: nat) else c)"

fun canon_go :: "bool \<Rightarrow> string \<Rightarrow> string" where
  "canon_go upper [] = []"
| "canon_go upper (c # cs) =
     (if upper then upper_char c else lower_char c) # canon_go (c = CHR ''-'') cs"

text \<open>\<open>textproto.CanonicalMIMEHeaderKey\<close>: a key with an invalid byte is left as it is.\<close>

definition canonical_key :: "string \<Rightarrow> string" where
  "canonical_key s = (if list_all valid_header_byte s then canon_go True s else s)"

definition header_values :: "header \<Rightarrow> string \<Rightarrow> string list" where
  "header_values h name = (case lookup h (canonical_key name) of None \<Rightarrow> [] | Some vs \<Rightarrow> vs)"

definition header_get :: "header \<Rightarrow> string \<Rightarrow> string" where
  "header_get h name = (case header_values h name of [] \<Rightarrow> [] | v # _ \<Rightarrow> v)"

text \<open>Assignment to a map entry.\<close>

fun put :: "'k \<Rightarrow> 'v \<Rightarrow> ('k \<times> 'v) list \<Rightarrow> ('k \<times> 'v) list" where
  "put k v [] = [(k, v)]"
| "put k v ((k', v') # m) = (if k' = k then (k, v) # m else (k', v') # put k v m)"

definition header_set :: "header \<Rightarrow> string \<Rightarrow> string \<Rightarrow> header" where
  "header_set h name v = put (canonical_key name) [v] h"

definition header_add :: "header \<Rightarrow> string \<Rightarrow> string \<Rightarrow> header" where
  "header_add h name v = put (canonical_key name) (header_values h name @ [v]) h"

text \<open>Whether some key of the header equals \<open>name\<close> under \<open>strings.EqualFold\<close>.\<close>

definition key_present :: "header \<Rightarrow> string \<Rightarrow> bool" where
  "key_present h name = list_ex (\<lambda>(key, _). equal_fold key name) h"

lemma lookup_put [simp]: "lookup (put k v m) = (lookup m)(k \<mapsto> v)"
  by (induction m) (auto simp: fun_eq_iff)

lemma keys_put: "fst ` set (put k v m) = insert k (fst ` set m)"
proof (induction m)
  case (Cons e m)
  then show ?case by (cases e) (simp add: insert_commute)
qed simp

lemma distinct_put: "distinct (map fst m) \<Longrightarrow> distinct (map fst (put k v m))"
proof (induction m)
  case (Cons e m)
  then show ?case by (cases e) (auto simp: keys_put)
qed simp

lemma wf_header_set: "wf_header h \<Longrightarrow> wf_header (header_set h n v)"
  by (simp add: wf_header_def header_set_def distinct_put)

lemma wf_header_add: "wf_header h \<Longrightarrow> wf_header (header_add h n v)"
  by (simp add: wf_header_def header_add_def distinct_put)

lemma key_present_iff: "key_present h name \<longleftrightarrow> (\<exists>k \<in> fst ` set h. equal_fold k name)"
  by (simp add: key_present_def list_ex_iff case_prod_beta)

lemma key_present_put:
  "key_present (put k v h) name \<longleftrightarrow> equal_fold k name \<or> key_present h name"
  by (simp add: key_present_iff keys_put)

lemma absent_lookup: "\<not> key_present h name \<Longrightarrow> equal_fold k name \<Longrightarrow> lookup h k = None"
  by (auto simp: key_present_iff map_of_eq_None_iff)

lemma header_values_set:
  "header_values (header_set h n v) m =
     (if canonical_key m = canonical_key n then [v] else header_values h m)"
  by (simp add: header_values_def header_set_def)

lemma header_values_add:
  "header_values (header_add h n v) m =
     (if canonical_key m = canonical_key n then header_values h n @ [v] else header_values h m)"
  by (simp add: header_values_def header_add_def)

section \<open>Responses\<close>

text \<open>
  What a handler does to its \<open>ResponseWriter\<close>, in order: the header fields it sets, the status
  it writes, \<open>http.Error\<close>, a body. \<open>'b\<close> is the type of the values the handler encodes.
\<close>

record cookie =
  ck_name :: string
  ck_value :: string
  ck_path :: string
  ck_secure :: bool
  ck_http_only :: bool
  ck_same_site_lax :: bool
  ck_max_age :: int

datatype 'b reply =
    SetHeader string string
  | AddHeader string string
  | SetCookie cookie
  | Redirect string nat
  | HttpError string nat
  | WriteHeader nat
  | Encode 'b
  | CopyBody string

type_synonym 'b replies = "'b reply list"

text \<open>The status of the response: the first one written, 200 if a body comes first.\<close>

fun status_of :: "'b replies \<Rightarrow> nat" where
  "status_of [] = 200"
| "status_of (Redirect l s # ws) = s"
| "status_of (HttpError m s # ws) = s"
| "status_of (WriteHeader s # ws) = s"
| "status_of (Encode b # ws) = 200"
| "status_of (CopyBody b # ws) = 200"
| "status_of (w # ws) = status_of ws"

text \<open>The bodies sent: what the handler discloses to the caller.\<close>

fun bodies :: "'b replies \<Rightarrow> 'b list" where
  "bodies [] = []"
| "bodies (Encode b # ws) = b # bodies ws"
| "bodies (_ # ws) = bodies ws"

section \<open>TLS connection state\<close>

text \<open>
  \<open>tls.ConnectionState\<close>: the peer certificates, each with its URI names, and the number of
  verified chains.
\<close>

record tls_state =
  peer_certificates :: "string list list"
  verified_chains :: nat

end
