(* ===== verification/Txn_Transport.thy ===== *)
theory Txn_Transport
  imports Go_HTTP
begin

text \<open>
  The strict transport of a transaction token (\<open>pkg/transaction/transport.go\<close>): one
  \<open>Txn-Token\<close> header field, a compact JWS, and no \<open>Authorization\<close> beside it.
\<close>

datatype transport_error = ErrTxnTokenTransport

definition txn_token_header :: string where
  "txn_token_header = ''Txn-Token''"

definition header_present :: "header \<Rightarrow> string \<Rightarrow> bool" where
  "header_present h name = key_present h name"

definition compact_char :: "char \<Rightarrow> bool" where
  "compact_char c = (is_alnum c \<or> c = CHR ''-'' \<or> c = CHR ''_'')"

definition valid_compact_transport_value :: "string \<Rightarrow> int \<Rightarrow> bool" where
  "valid_compact_transport_value v maximum =
     (if v = [] \<or> int (length v) > maximum \<or> trim_space v \<noteq> v
         \<or> contains_any v [CHR '' '', CHR 0x09, CHR 0x0D, CHR 0x0A, CHR '','']
         \<or> count_byte v (CHR ''.'') \<noteq> 2
      then False
      else list_all (\<lambda>part. part \<noteq> [] \<and> list_all compact_char part) (split_on (CHR ''.'') v))"

definition extract_txn_token :: "header option \<Rightarrow> int \<Rightarrow> transport_error + string" where
  "extract_txn_token header maximum =
     (case header of
        None \<Rightarrow> Inl ErrTxnTokenTransport
      | Some h \<Rightarrow>
          if maximum \<le> 0 \<or> header_present h ''Authorization'' then Inl ErrTxnTokenTransport
          else let vs = header_values h txn_token_header
               in if length vs \<noteq> 1 \<or> \<not> valid_compact_transport_value (vs ! 0) maximum
                  then Inl ErrTxnTokenTransport
                  else Inr (vs ! 0))"

text \<open>\<open>SetTxnToken\<close> returns the header with the field set; on an error it has changed nothing.\<close>

definition set_txn_token :: "header option \<Rightarrow> string \<Rightarrow> int \<Rightarrow> transport_error + header" where
  "set_txn_token header raw maximum =
     (case header of
        None \<Rightarrow> Inl ErrTxnTokenTransport
      | Some h \<Rightarrow>
          if maximum \<le> 0 \<or> header_present h ''Authorization'' \<or> header_present h txn_token_header
             \<or> \<not> valid_compact_transport_value raw maximum
          then Inl ErrTxnTokenTransport
          else Inr (header_set h txn_token_header raw))"

section \<open>The values the transport accepts\<close>

text \<open>Printable ASCII has no white space rune in it, so \<open>TrimSpace\<close> leaves it alone.\<close>

definition graphic :: "char \<Rightarrow> bool" where
  "graphic c = (33 \<le> (of_char c :: nat) \<and> (of_char c :: nat) < 127)"

lemma space_encodings_not_graphic: "e \<in> set space_encodings \<Longrightarrow> e \<noteq> [] \<and> \<not> graphic (hd e)"
  by (auto simp: space_encodings_def graphic_def)

lemma match_len_graphic: "list_all graphic s \<Longrightarrow> match_len space_encodings s = 0"
proof (unfold match_len_eq_0, intro ballI impI notI)
  fix e
  assume g: "list_all graphic s" and e: "e \<in> set space_encodings" "prefix e s"
  then have "hd e \<in> set s" using space_encodings_not_graphic [OF e(1)]
    by (metis hd_in_set set_mono_prefix subsetD)
  with g e(1) show False using space_encodings_not_graphic [OF e(1)]
    by (simp add: list_all_iff)
qed

lemma match_len_rev_graphic: "list_all graphic s \<Longrightarrow> match_len (map rev space_encodings) s = 0"
proof (unfold match_len_eq_0, intro ballI impI notI)
  fix r
  assume g: "list_all graphic s" and r: "r \<in> set (map rev space_encodings)" "prefix r s"
  then obtain e where e: "e \<in> set space_encodings" "r = rev e" by auto
  then have "hd e \<in> set s" using space_encodings_not_graphic [OF e(1)] r(2)
    by (metis hd_in_set set_mono_prefix set_rev subsetD)
  with g e(1) show False using space_encodings_not_graphic [OF e(1)]
    by (simp add: list_all_iff)
qed

lemma trim_space_graphic: "list_all graphic s \<Longrightarrow> trim_space s = s"
  by (simp add: trim_space_def trim_left_def trim_right_def strip_id match_len_graphic
      match_len_rev_graphic)

lemma compact_char_graphic: "compact_char c \<Longrightarrow> graphic c"
  by (auto simp: compact_char_def is_alnum_def graphic_def Let_def)

lemma compact_char_no_sep:
  "compact_char c \<Longrightarrow> c \<noteq> CHR '' '' \<and> c \<noteq> CHR 0x09 \<and> c \<noteq> CHR 0x0D \<and> c \<noteq> CHR 0x0A \<and> c \<noteq> CHR '',''"
  by (auto simp: compact_char_def is_alnum_def)

text \<open>A compact JWS: three non-empty base64url parts joined by dots.\<close>

definition compact_jws :: "string \<Rightarrow> bool" where
  "compact_jws v \<longleftrightarrow> (\<exists>a b c. v = a @ ''.'' @ b @ ''.'' @ c
     \<and> a \<noteq> [] \<and> b \<noteq> [] \<and> c \<noteq> [] \<and> list_all compact_char (a @ b @ c))"

lemma compact_dot_free: "list_all compact_char x \<Longrightarrow> CHR ''.'' \<notin> set x"
  by (auto simp: list_all_iff compact_char_def is_alnum_def)

lemma count_list_0: "d \<notin> set x \<Longrightarrow> count_list x d = 0"
  by (induction x) auto

lemma valid_compact_iff:
  "valid_compact_transport_value v m \<longleftrightarrow> compact_jws v \<and> int (length v) \<le> m"
proof
  assume L: "valid_compact_transport_value v m"
  then have c: "count_byte v (CHR ''.'') = 2" and len: "int (length v) \<le> m"
    and parts: "\<forall>p \<in> set (split_on (CHR ''.'') v). p \<noteq> [] \<and> list_all compact_char p"
    by (auto simp: valid_compact_transport_value_def list_all_iff split: if_splits)
  from c have "length (split_on (CHR ''.'') v) = 3" by (simp add: length_split_on)
  then obtain a b d where s: "split_on (CHR ''.'') v = [a, b, d]"
    by (auto simp: length_Suc_conv numeral_3_eq_3)
  have "v = a @ ''.'' @ b @ ''.'' @ d" using join_split_on [of "CHR ''.''" v] s by simp
  with parts s len show "compact_jws v \<and> int (length v) \<le> m"
    unfolding compact_jws_def by auto
next
  assume R: "compact_jws v \<and> int (length v) \<le> m"
  then obtain a b c where v: "v = a @ ''.'' @ b @ ''.'' @ c"
    and ne: "a \<noteq> []" "b \<noteq> []" "c \<noteq> []"
    and all: "list_all compact_char a" "list_all compact_char b" "list_all compact_char c"
    by (auto simp: compact_jws_def)
  have s: "split_on (CHR ''.'') v = [a, b, c]"
    using all by (simp add: v split_on_append split_on_free compact_dot_free)
  have g: "list_all graphic v"
    using all compact_char_graphic by (auto simp: v list_all_iff graphic_def)
  have "\<not> contains_any v [CHR '' '', CHR 0x09, CHR 0x0D, CHR 0x0A, CHR '','']"
    using all compact_char_no_sep by (auto simp: v contains_any_iff list_all_iff)
  moreover have "count_byte v (CHR ''.'') = 2"
    using length_split_on [of "CHR ''.''" v] s by simp
  ultimately show "valid_compact_transport_value v m"
    using R ne all s v trim_space_graphic [OF g] by (simp add: valid_compact_transport_value_def)
qed

lemma extract_txn_token_Inr [guards]:
  "extract_txn_token (Some h) m = Inr raw \<longleftrightarrow>
     0 < m \<and> \<not> key_present h ''Authorization'' \<and> header_values h ''Txn-Token'' = [raw]
     \<and> compact_jws raw \<and> int (length raw) \<le> m"
proof (cases "header_values h ''Txn-Token''")
  case Nil
  then show ?thesis by (simp add: extract_txn_token_def txn_token_header_def)
next
  case (Cons v vs)
  then show ?thesis
    by (cases vs) (auto simp: extract_txn_token_def txn_token_header_def header_present_def
        valid_compact_iff)
qed

lemma set_txn_token_Inr [guards]:
  "set_txn_token (Some h) raw m = Inr h' \<longleftrightarrow>
     0 < m \<and> \<not> key_present h ''Authorization'' \<and> \<not> key_present h ''Txn-Token''
     \<and> compact_jws raw \<and> int (length raw) \<le> m \<and> h' = header_set h ''Txn-Token'' raw"
  by (auto simp: set_txn_token_def header_present_def valid_compact_iff txn_token_header_def)

lemma canonical_txn_token: "canonical_key ''Txn-Token'' = ''Txn-Token''"
  by (simp add: canonical_key_def valid_header_byte_def is_alnum_def upper_char_def lower_char_def)

lemma txn_token_not_authorization: "\<not> equal_fold ''Txn-Token'' ''Authorization''"
  by (simp add: equal_fold_def lower_char_def)

lemma extract_after_set:
  assumes "set_txn_token (Some h) raw m = Inr h'"
  shows "extract_txn_token (Some h') m = Inr raw"
  using assms txn_token_not_authorization
  by (simp add: guards header_values_set header_set_def key_present_put canonical_txn_token
      header_values_def)

section \<open>Properties\<close>

text \<open>
  C5. \<open>ExtractTxnToken\<close> returns a token exactly when the bound is positive, no \<open>Authorization\<close>
  header is there under any spelling, and there is exactly one \<open>Txn-Token\<close> value, which is a
  compact JWS of three non-empty base64url parts within the bound.
\<close>
theorem extract_txn_token_exact:
  "extract_txn_token (Some h) m = Inr raw \<longleftrightarrow>
     0 < m \<and> \<not> key_present h ''Authorization'' \<and> header_values h ''Txn-Token'' = [raw]
     \<and> compact_jws raw \<and> int (length raw) \<le> m"
  by (rule extract_txn_token_Inr)

text \<open>
  C6. The transport round trip: what \<open>SetTxnToken\<close> puts on a request, \<open>ExtractTxnToken\<close> with the
  same bound takes off unchanged, and a second \<open>SetTxnToken\<close> on the same headers is refused.
\<close>
theorem txn_token_round_trip:
  assumes "set_txn_token (Some h) raw m = Inr h'"
  shows "extract_txn_token (Some h') m = Inr raw \<and> \<not> ok (set_txn_token (Some h') raw' m')"
proof (intro conjI)
  show "extract_txn_token (Some h') m = Inr raw" by (rule extract_after_set [OF assms])
  have "key_present h' ''Txn-Token''"
    using assms by (simp add: guards header_set_def key_present_put canonical_txn_token equal_fold_def)
  then show "\<not> ok (set_txn_token (Some h') raw' m')" by (auto simp: ok_iff guards)
qed

theorem txn_token_round_trip_witness:
  "extract_txn_token (Some [(''Accept'', [''x'']), (''Txn-Token'', [''aa.bb.cc''])]) 16 = Inr ''aa.bb.cc''"
proof -
  have "set_txn_token (Some [(''Accept'', [''x''])]) ''aa.bb.cc'' 16 = Inr [(''Accept'', [''x'']), (''Txn-Token'', [''aa.bb.cc''])]"
    by code_simp
  then show ?thesis using txn_token_round_trip by blast
qed

end
