(* ===== verification/Go_Regexp.thy ===== *)
theory Go_Regexp
  imports Prelude
begin

text \<open>
  The part of Go's \<open>regexp\<close> the program's patterns use: a pattern as a term, what it matches, and
  \<open>MatchString\<close>, which searches a text for a match. A character class here speaks of bytes: a
  negated class of ASCII characters matches a rune outside ASCII exactly when it matches the
  bytes of it, so whether a text holds a match is the same.
\<close>

datatype regex =
    Begin_Text                                \<comment> \<open>\<open>^\<close>\<close>
  | End_Text                                  \<comment> \<open>\<open>$\<close>\<close>
  | One "char \<Rightarrow> bool"                         \<comment> \<open>\<open>[\<dots>]\<close>\<close>
  | At_Least nat "char \<Rightarrow> bool"                \<comment> \<open>\<open>[\<dots>]{n,}\<close>\<close>
  | Or regex regex                            \<comment> \<open>\<open>(\<dots>|\<dots>)\<close>\<close>
  | Then regex regex

text \<open>
  \<open>matches r b w v\<close>: the pattern matches \<open>w\<close> where \<open>v\<close> follows it; \<open>b\<close> says that \<open>w\<close> is at the
  beginning of the text.
\<close>

fun matches :: "regex \<Rightarrow> bool \<Rightarrow> string \<Rightarrow> string \<Rightarrow> bool" where
  "matches Begin_Text b w v \<longleftrightarrow> w = [] \<and> b"
| "matches End_Text b w v \<longleftrightarrow> w = [] \<and> v = []"
| "matches (One p) b w v \<longleftrightarrow> (\<exists>c. w = [c] \<and> p c)"
| "matches (At_Least n p) b w v \<longleftrightarrow> n \<le> length w \<and> list_all p w"
| "matches (Or r q) b w v \<longleftrightarrow> matches r b w v \<or> matches q b w v"
| "matches (Then r q) b w v \<longleftrightarrow>
     (\<exists>w1 w2. w = w1 @ w2 \<and> matches r b w1 (w2 @ v) \<and> matches q (b \<and> w1 = []) w2 v)"

text \<open>What may be left of a text after a match at its front.\<close>

fun rests :: "regex \<Rightarrow> bool \<Rightarrow> string \<Rightarrow> (bool \<times> string) list" where
  "rests Begin_Text b s = (if b then [(b, s)] else [])"
| "rests End_Text b s = (if s = [] then [(b, s)] else [])"
| "rests (One p) b s = (case s of [] \<Rightarrow> [] | c # cs \<Rightarrow> if p c then [(False, cs)] else [])"
| "rests (At_Least n p) b s =
     map (\<lambda>k. (b \<and> k = 0, drop k s)) [n..<Suc (length (takeWhile p s))]"
| "rests (Or r q) b s = rests r b s @ rests q b s"
| "rests (Then r q) b s = concat (map (\<lambda>(b', t). rests q b' t) (rests r b s))"

lemma rests_iff:
  "(b', v) \<in> set (rests r b s) \<longleftrightarrow> (\<exists>w. s = w @ v \<and> b' = (b \<and> w = []) \<and> matches r b w v)"
proof (induction r arbitrary: b b' s v)
  case (One p)
  then show ?case by (cases s) auto
next
  case (At_Least n p)
  show ?case
  proof
    assume "(b', v) \<in> set (rests (At_Least n p) b s)"
    then have "\<exists>k. k \<in> set [n..<Suc (length (takeWhile p s))] \<and> (b', v) = (b \<and> k = 0, drop k s)"
      unfolding rests.simps set_map by (simp only: image_iff) blast
    then obtain k where k: "n \<le> k" "k \<le> length (takeWhile p s)" "b' = (b \<and> k = 0)" "v = drop k s"
      unfolding set_upt prod.inject atLeastLessThan_iff less_Suc_eq_le by blast
    then have "list_all p (take k s)"
      by (metis length_takeWhile_le list.pred_set order_trans set_take_subset_set_take set_takeWhileD subsetD takeWhile_eq_take)
    moreover have "length (take k s) = k" using k(2) length_takeWhile_le [of p s] by simp
    ultimately show "\<exists>w. s = w @ v \<and> b' = (b \<and> w = []) \<and> matches (At_Least n p) b w v"
      using k by (intro exI [of _ "take k s"]) auto
  next
    assume "\<exists>w. s = w @ v \<and> b' = (b \<and> w = []) \<and> matches (At_Least n p) b w v"
    then obtain w where w: "s = w @ v" "b' = (b \<and> w = [])" "n \<le> length w" "list_all p w" by auto
    then have "length w \<le> length (takeWhile p s)"
      by (simp add: takeWhile_append list_all_iff)
    with w show "(b', v) \<in> set (rests (At_Least n p) b s)"
      by (auto intro!: image_eqI [of _ _ "length w"])
  qed
next
  case (Then r q)
  have "(b', v) \<in> set (rests (Then r q) b s) \<longleftrightarrow>
      (\<exists>b1 t. (b1, t) \<in> set (rests r b s) \<and> (b', v) \<in> set (rests q b1 t))" by auto
  also have "\<dots> \<longleftrightarrow> (\<exists>w1 w2. s = w1 @ w2 @ v \<and> b' = (b \<and> w1 = [] \<and> w2 = [])
      \<and> matches r b w1 (w2 @ v) \<and> matches q (b \<and> w1 = []) w2 v)"
(is "?l = ?r")
  proof
    assume ?l
    then obtain b1 t w1 w2 where "s = w1 @ t" "b1 = (b \<and> w1 = [])" "matches r b w1 t"
      "t = w2 @ v" "b' = (b1 \<and> w2 = [])" "matches q b1 w2 v" unfolding Then.IH by blast
    then show ?r by (intro exI [of _ w1] exI [of _ w2]) simp
  next
    assume ?r
    then obtain w1 w2 where "s = w1 @ w2 @ v" "b' = (b \<and> w1 = [] \<and> w2 = [])"
      "matches r b w1 (w2 @ v)" "matches q (b \<and> w1 = []) w2 v" by blast
    then show ?l unfolding Then.IH
      by (intro exI [of _ "b \<and> w1 = []"] exI [of _ "w2 @ v"] conjI exI [of _ w1] exI [of _ w2]) simp_all
  qed
  also have "\<dots> \<longleftrightarrow> (\<exists>w. s = w @ v \<and> b' = (b \<and> w = []) \<and> matches (Then r q) b w v)" (is "?l = ?r")
  proof
    assume ?l
    then obtain w1 w2 where "s = (w1 @ w2) @ v" "b' = (b \<and> w1 @ w2 = [])"
      "matches r b w1 (w2 @ v)" "matches q (b \<and> w1 = []) w2 v" by auto
    then show ?r unfolding matches.simps by blast
  qed (auto; blast)
  finally show ?case .
qed auto

definition match_string :: "regex \<Rightarrow> string \<Rightarrow> bool" where
  "match_string r s = list_ex (\<lambda>k. rests r (k = 0) (drop k s) \<noteq> []) [0..<Suc (length s)]"

lemma match_string_iff:
  "match_string r s \<longleftrightarrow> (\<exists>u w v. s = u @ w @ v \<and> matches r (u = []) w v)"
proof
  assume "match_string r s"
  then obtain k where "k \<in> set [0..<Suc (length s)]" "rests r (k = 0) (drop k s) \<noteq> []"
    unfolding match_string_def list_ex_iff by blast
  then obtain b' v where k: "k \<le> length s" "(b', v) \<in> set (rests r (k = 0) (drop k s))"
    unfolding set_upt by (metis atLeastLessThan_iff less_Suc_eq_le list.set_sel(1) surj_pair)
  then obtain w where w: "drop k s = w @ v" "matches r (k = 0) w v" unfolding rests_iff by blast
  have "s = take k s @ w @ v" unfolding w(1) [symmetric] by simp
  moreover have "matches r (take k s = []) w v"
    using w(2) k(1) by (cases "k = 0"; cases s) auto
  ultimately show "\<exists>u w v. s = u @ w @ v \<and> matches r (u = []) w v" by blast
next
  assume "\<exists>u w v. s = u @ w @ v \<and> matches r (u = []) w v"
  then obtain u w v where s: "s = u @ w @ v" "matches r (u = []) w v" by blast
  then have "((u = []) \<and> w = [], v) \<in> set (rests r (length u = 0) (drop (length u) s))"
    unfolding rests_iff by (intro exI [of _ w]) simp
  then have "rests r (length u = 0) (drop (length u) s) \<noteq> []" by force
  with s(1) show "match_string r s"
    unfolding match_string_def list_ex_iff set_upt by (intro bexI [of _ "length u"]) simp_all
qed

end
