(* ===== verification/Audit_Event.thy ===== *)
theory Audit_Event
  imports Txn_Claims Txn_Transport Go_Regexp
begin

text \<open>
  Audit events and the evidence of a verified token (\<open>pkg/audit/event.go\<close>,
  \<open>token_evidence.go\<close>) and the test for credential-shaped values (\<open>store.go\<close>), with what it
  finds. \<open>sha256_hex\<close>, a parameter, is the lower-case hexadecimal SHA-256 digest of a string.
\<close>

section \<open>Credential-shaped values\<close>

text \<open>
  The pattern \<open>jwtShape\<close>, its literal read from left to right: a boundary, three runs of at least 16
  token characters joined by dots, a boundary.
\<close>

definition jwt_pattern :: regex where
  "jwt_pattern =
     Then (Or Begin_Text (One (\<lambda>c. \<not> compact_char c)))
    (Then (At_Least 16 compact_char) (Then (One (\<lambda>c. c = CHR ''.''))
    (Then (At_Least 16 compact_char) (Then (One (\<lambda>c. c = CHR ''.''))
    (Then (At_Least 16 compact_char)
          (Or End_Text (One (\<lambda>c. \<not> compact_char c))))))))"

definition jwt_shape :: "string \<Rightarrow> bool" where
  "jwt_shape s = match_string jwt_pattern s"

definition secret_words :: "string list" where
  "secret_words =
     [''bearer '', ''access_token'', ''client_secret'', ''refresh_token'', ''authorization_code'',
      ''private key'', ''private_key'']"

definition credential_shaped :: "string \<Rightarrow> bool" where
  "credential_shaped v = (list_ex (contains_sub (lower_view v)) secret_words \<or> jwt_shape v)"

section \<open>Token evidence\<close>

datatype audit_error = ErrInvalidRecord | ErrRecordMissing | SinkUnavailable

record token_evidence =
  ev_kind :: string
  ev_fingerprint :: string
  ev_issuer :: string
  ev_audience :: "string list"
  ev_scope :: "string list"
  ev_jwt_id :: string
  ev_agent_instance_id :: string
  ev_issued_at :: time
  ev_expires_at :: time

definition hex_lower :: "char \<Rightarrow> bool" where
  "hex_lower c = (c \<in> set ''0123456789abcdef'')"

definition fingerprint_pattern :: "string \<Rightarrow> bool" where
  "fingerprint_pattern s =
     (has_prefix s ''sha256:'' \<and> length s = 71 \<and> list_all hex_lower (drop 7 s))"

definition evidence_fields :: "token_evidence \<Rightarrow> string list" where
  "evidence_fields e =
     [ev_kind e, ev_fingerprint e, ev_issuer e, ev_agent_instance_id e]
     @ (if ev_jwt_id e \<noteq> [] then [ev_jwt_id e] else []) @ ev_audience e @ ev_scope e"

definition validate_token_evidence :: "token_evidence option \<Rightarrow> int \<Rightarrow> audit_error option" where
  "validate_token_evidence evidence maximum =
     (case evidence of
        None \<Rightarrow> None
      | Some e \<Rightarrow>
          if ev_kind e \<noteq> ''transaction_jwt'' \<and> ev_kind e \<noteq> ''txn_token''
             \<or> \<not> fingerprint_pattern (ev_fingerprint e) \<or> blank (ev_issuer e)
             \<or> length (ev_audience e) = 0 \<or> ev_kind e = ''transaction_jwt'' \<and> blank (ev_jwt_id e)
             \<or> is_zero (ev_issued_at e) \<or> is_zero (ev_expires_at e)
             \<or> \<not> ev_expires_at e > ev_issued_at e
          then Some ErrInvalidRecord
          else if list_ex (\<lambda>v. blank v \<or> int (length v) > maximum \<or> credential_shaped v) (evidence_fields e)
          then Some ErrInvalidRecord
          else None)"

text \<open>\<open>64<<10\<close>, the bound both constructors and \<open>validateEvent\<close> use.\<close>

definition event_field_bytes :: int where
  "event_field_bytes = 65536"

definition new_verified_transaction_token_evidence ::
  "(string \<Rightarrow> string) \<Rightarrow> string \<Rightarrow> claims \<Rightarrow> audit_error + token_evidence" where
  "new_verified_transaction_token_evidence sha256_hex raw c =
     (if blank raw \<or> blank (issuer c) \<or> length (audience c) = 0 \<or> blank (jwt_id c)
         \<or> is_zero (issued_at c) \<or> is_zero (expires_at c) \<or> \<not> expires_at c > issued_at c
      then Inl ErrInvalidRecord
      else
        let e = \<lparr>ev_kind = ''transaction_jwt'', ev_fingerprint = ''sha256:'' @ sha256_hex raw,
                 ev_issuer = issuer c, ev_audience = audience c, ev_scope = claims_scope c,
                 ev_jwt_id = jwt_id c, ev_agent_instance_id = claims_agent_instance_id c,
                 ev_issued_at = issued_at c, ev_expires_at = expires_at c\<rparr>
        in if validate_token_evidence (Some e) event_field_bytes \<noteq> None then Inl ErrInvalidRecord else Inr e)"

definition new_verified_txn_token_evidence ::
  "(string \<Rightarrow> string) \<Rightarrow> string \<Rightarrow> txn_token_claims \<Rightarrow> audit_error + token_evidence" where
  "new_verified_txn_token_evidence sha256_hex raw c =
     (if blank raw \<or> blank (txn_issuer c) \<or> blank (txn_audience c)
         \<or> is_zero (txn_issued_at c) \<or> is_zero (txn_expires_at c) \<or> \<not> txn_expires_at c > txn_issued_at c
      then Inl ErrInvalidRecord
      else
        let e = \<lparr>ev_kind = ''txn_token'', ev_fingerprint = ''sha256:'' @ sha256_hex raw,
                 ev_issuer = txn_issuer c, ev_audience = [txn_audience c], ev_scope = txn_scope c,
                 ev_jwt_id = txn_jwt_id c,
                 ev_agent_instance_id = wac_instance_id (wai_agent (txn_context c)),
                 ev_issued_at = txn_issued_at c, ev_expires_at = txn_expires_at c\<rparr>
        in if validate_token_evidence (Some e) event_field_bytes \<noteq> None then Inl ErrInvalidRecord else Inr e)"

section \<open>Events\<close>

record event =
  evt_type :: string
  evt_timestamp :: time
  evt_transaction_id :: string
  evt_user_id :: string
  evt_agent_id :: string
  evt_transaction_workload_id :: string
  evt_immediate_caller :: string
  evt_target :: string
  evt_decision :: string
  evt_reason_code :: string
  evt_protocol_method :: string
  evt_tool :: string
  evt_purpose :: string
  evt_response_status :: int
  evt_result_type :: string
  evt_duration_millis :: int
  evt_token :: "token_evidence option"

definition blank_event :: event where
  "blank_event =
     \<lparr>evt_type = [], evt_timestamp = 0, evt_transaction_id = [], evt_user_id = [], evt_agent_id = [],
      evt_transaction_workload_id = [], evt_immediate_caller = [], evt_target = [], evt_decision = [],
      evt_reason_code = [], evt_protocol_method = [], evt_tool = [], evt_purpose = [],
      evt_response_status = 0, evt_result_type = [], evt_duration_millis = 0, evt_token = None\<rparr>"

definition transaction_exchange_requested :: string where
  "transaction_exchange_requested = ''transaction.exchange.requested''"
definition transaction_exchange_succeeded :: string where
  "transaction_exchange_succeeded = ''transaction.exchange.succeeded''"
definition transaction_exchange_failed :: string where
  "transaction_exchange_failed = ''transaction.exchange.failed''"
definition transaction_verify_succeeded :: string where
  "transaction_verify_succeeded = ''transaction.verify.succeeded''"
definition transaction_verify_failed :: string where
  "transaction_verify_failed = ''transaction.verify.failed''"
definition mcp_tool_requested :: string where
  "mcp_tool_requested = ''mcp.tool.requested''"
definition mcp_tool_allowed :: string where
  "mcp_tool_allowed = ''mcp.tool.allowed''"
definition mcp_tool_denied :: string where
  "mcp_tool_denied = ''mcp.tool.denied''"
definition downstream_request :: string where
  "downstream_request = ''downstream.request''"

lemmas event_type_defs =
  transaction_exchange_requested_def transaction_exchange_succeeded_def transaction_exchange_failed_def
  transaction_verify_succeeded_def transaction_verify_failed_def mcp_tool_requested_def
  mcp_tool_allowed_def mcp_tool_denied_def downstream_request_def

definition allowed_event_types :: "string list" where
  "allowed_event_types =
     [transaction_exchange_requested, transaction_exchange_succeeded, transaction_exchange_failed,
      transaction_verify_succeeded, transaction_verify_failed, mcp_tool_requested, mcp_tool_allowed,
      mcp_tool_denied, downstream_request]"

text \<open>
  The checks that \<open>validateEvent\<close> and \<open>Store.validate\<close> both make on the type, status, duration
  and decision; a day in milliseconds bounds the duration.
\<close>

definition valid_outcome :: "string \<Rightarrow> int \<Rightarrow> int \<Rightarrow> string \<Rightarrow> bool" where
  "valid_outcome typ status millis decision =
     (\<not> (typ \<notin> set allowed_event_types \<or> status \<noteq> 0 \<and> (status < 100 \<or> status > 599)
         \<or> millis < 0 \<or> millis > 86400000)
      \<and> \<not> (decision \<noteq> [] \<and> decision \<noteq> ''allow'' \<and> decision \<noteq> ''deny''))"

definition event_fields :: "event \<Rightarrow> string list" where
  "event_fields e =
     [evt_type e, evt_transaction_id e, evt_user_id e, evt_agent_id e, evt_transaction_workload_id e,
      evt_immediate_caller e, evt_target e, evt_decision e, evt_reason_code e,
      evt_protocol_method e, evt_tool e, evt_purpose e, evt_result_type e]"

definition validate_event :: "event \<Rightarrow> audit_error option" where
  "validate_event e =
     (if \<not> valid_outcome (evt_type e) (evt_response_status e) (evt_duration_millis e) (evt_decision e)
      then Some ErrInvalidRecord
      else if list_ex (\<lambda>v. int (length v) > event_field_bytes \<or> credential_shaped v) (event_fields e)
      then Some ErrInvalidRecord
      else if validate_token_evidence (evt_token e) event_field_bytes \<noteq> None
      then Some ErrInvalidRecord
      else None)"

section \<open>What the tests find\<close>

text \<open>
  A scanner for the pattern \<open>jwtShape\<close>, by which it is evaluated: at a boundary, three runs of at
  least 16 token characters joined by dots. A run followed by something that is not a token
  character is maximal, which is what \<open>takeWhile\<close> takes.
\<close>

definition run_then_dot :: "string \<Rightarrow> string option" where
  "run_then_dot s =
     (if 16 \<le> length (takeWhile compact_char s)
      then (case dropWhile compact_char s of
              c # r \<Rightarrow> if c = CHR ''.'' then Some r else None
            | [] \<Rightarrow> None)
      else None)"

definition jwt_here :: "string \<Rightarrow> bool" where
  "jwt_here s =
     (case run_then_dot s of
        None \<Rightarrow> False
      | Some r \<Rightarrow>
          (case run_then_dot r of
             None \<Rightarrow> False
           | Some q \<Rightarrow> 16 \<le> length (takeWhile compact_char q)))"

fun jwt_from :: "bool \<Rightarrow> string \<Rightarrow> bool" where
  "jwt_from boundary [] = False"
| "jwt_from boundary (c # cs) = (boundary \<and> jwt_here (c # cs) \<or> jwt_from (\<not> compact_char c) cs)"

lemma run_then_dot_Some:
  "run_then_dot s = Some r \<longleftrightarrow> (\<exists>a. s = a @ CHR ''.'' # r \<and> 16 \<le> length a \<and> list_all compact_char a)"
proof
  assume L: "run_then_dot s = Some r"
  then have l: "16 \<le> length (takeWhile compact_char s)" and d: "dropWhile compact_char s = CHR ''.'' # r"
    by (auto simp: run_then_dot_def split: if_splits list.splits)
  from d have "s = takeWhile compact_char s @ CHR ''.'' # r"
    by (metis takeWhile_dropWhile_id)
  with l show "\<exists>a. s = a @ CHR ''.'' # r \<and> 16 \<le> length a \<and> list_all compact_char a"
    by (metis list_all_iff set_takeWhileD)
next
  assume "\<exists>a. s = a @ CHR ''.'' # r \<and> 16 \<le> length a \<and> list_all compact_char a"
  then obtain a where s: "s = a @ CHR ''.'' # r" and a: "16 \<le> length a" "list_all compact_char a" by blast
  have "\<not> compact_char (CHR ''.'')" by code_simp
  with a(2) s have "takeWhile compact_char s = a" "dropWhile compact_char s = CHR ''.'' # r"
    by (simp_all add: list_all_iff takeWhile_append2 dropWhile_append2)
  with a(1) show "run_then_dot s = Some r" by (simp add: run_then_dot_def)
qed

text \<open>A run of token characters of at least this length, at the start of a string.\<close>

definition token_run :: "string \<Rightarrow> bool" where
  "token_run a = (16 \<le> length a \<and> list_all compact_char a)"

definition starts_clean :: "string \<Rightarrow> bool" where
  "starts_clean v = (case v of [] \<Rightarrow> True | c # _ \<Rightarrow> \<not> compact_char c)"

lemma long_run_iff:
  "16 \<le> length (takeWhile compact_char q) \<longleftrightarrow> (\<exists>c v. q = c @ v \<and> token_run c \<and> starts_clean v)"
proof
  assume L: "16 \<le> length (takeWhile compact_char q)"
  have "starts_clean (dropWhile compact_char q)"
    by (auto simp: starts_clean_def dropWhile_eq_Cons_conv split: list.split)
  moreover have "token_run (takeWhile compact_char q)"
    using L by (auto simp: token_run_def list_all_iff dest: set_takeWhileD)
  ultimately show "\<exists>c v. q = c @ v \<and> token_run c \<and> starts_clean v"
    by (metis takeWhile_dropWhile_id)
next
  assume "\<exists>c v. q = c @ v \<and> token_run c \<and> starts_clean v"
  then obtain c v where q: "q = c @ v" and c: "token_run c" by blast
  then show "16 \<le> length (takeWhile compact_char q)"
    by (auto simp: token_run_def list_all_iff takeWhile_append2)
qed

lemma jwt_here_iff:
  "jwt_here s \<longleftrightarrow> (\<exists>a b c v. s = a @ ''.'' @ b @ ''.'' @ c @ v
     \<and> token_run a \<and> token_run b \<and> token_run c \<and> starts_clean v)"
proof -
  have "jwt_here s \<longleftrightarrow> (\<exists>r q. run_then_dot s = Some r \<and> run_then_dot r = Some q
     \<and> 16 \<le> length (takeWhile compact_char q))"
    by (auto simp: jwt_here_def split: option.splits)
  then show ?thesis
    unfolding run_then_dot_Some long_run_iff token_run_def by (simp, blast)
qed

lemma jwt_from_iff:
  "jwt_from b s \<longleftrightarrow> (\<exists>u w. s = u @ w \<and> jwt_here w \<and> (if u = [] then b else \<not> compact_char (last u)))"
proof (induction b s rule: jwt_from.induct)
  case (1 b)
  have "\<not> jwt_here []" by (simp add: jwt_here_def run_then_dot_def)
  then show ?case by simp
next
  case (2 b c cs)
  show ?case
  proof
    assume "jwt_from b (c # cs)"
    then consider "b \<and> jwt_here (c # cs)" | "jwt_from (\<not> compact_char c) cs" by auto
    then show "\<exists>u w. c # cs = u @ w \<and> jwt_here w \<and> (if u = [] then b else \<not> compact_char (last u))"
    proof cases
      case 1
      then show ?thesis by (intro exI [of _ "[]"] exI [of _ "c # cs"]) simp
    next
      case 2
      then obtain u w where "cs = u @ w" "jwt_here w"
        "if u = [] then \<not> compact_char c else \<not> compact_char (last u)"
        using "2.IH" by blast
      then show ?thesis by (intro exI [of _ "c # u"] exI [of _ w]) (simp split: if_splits)
    qed
  next
    assume "\<exists>u w. c # cs = u @ w \<and> jwt_here w \<and> (if u = [] then b else \<not> compact_char (last u))"
    then obtain u w where u: "c # cs = u @ w" "jwt_here w"
      "if u = [] then b else \<not> compact_char (last u)" by blast
    show "jwt_from b (c # cs)"
    proof (cases u)
      case Nil
      with u(1) have "w = c # cs" by simp
      with u(2,3) Nil show ?thesis by simp
    next
      case (Cons d u')
      with u(1) have cs: "cs = u' @ w" and d: "d = c" by simp_all
      have "if u' = [] then \<not> compact_char c else \<not> compact_char (last u')"
        using u(3) unfolding Cons d by (cases u') simp_all
      with u(2) cs "2.IH" have "jwt_from (\<not> compact_char c) cs" by blast
      then show ?thesis by simp
    qed
  qed
qed

text \<open>The regular expression, read off its text.\<close>

definition jwt_match :: "string \<Rightarrow> bool" where
  "jwt_match s \<longleftrightarrow> (\<exists>u a b c v. s = u @ a @ ''.'' @ b @ ''.'' @ c @ v
     \<and> token_run a \<and> token_run b \<and> token_run c
     \<and> (u = [] \<or> \<not> compact_char (last u)) \<and> starts_clean v)"

lemma jwt_from_match: "jwt_from True s \<longleftrightarrow> jwt_match s"
proof -
  have e: "(if u = ([] :: string) then True else x) = (u = [] \<or> x)" for u x by simp
  have "jwt_from True s \<longleftrightarrow> (\<exists>u w. s = u @ w \<and> jwt_here w \<and> (u = [] \<or> \<not> compact_char (last u)))"
    by (simp only: jwt_from_iff e)
  then show ?thesis unfolding jwt_here_iff jwt_match_def by blast
qed

text \<open>The parts of the pattern: a run of token characters, a dot, and the two boundaries.\<close>

lemma matches_run_then:
  "matches (Then (At_Least 16 compact_char) r) b w v \<longleftrightarrow> (\<exists>a w'. w = a @ w' \<and> token_run a \<and> matches r False w' v)"
proof -
  have "(16 \<le> length a \<and> list_all compact_char a) \<and> matches r (b \<and> a = []) w' v
      \<longleftrightarrow> token_run a \<and> matches r False w' v" for a w'
    by (cases a) (auto simp: token_run_def)
  then show ?thesis by simp
qed

lemma matches_dot_then:
  "matches (Then (One (\<lambda>c. c = CHR ''.'')) r) b w v \<longleftrightarrow> (\<exists>w'. w = ''.'' @ w' \<and> matches r False w' v)"
  by auto

lemma boundary_before:
  "(\<exists>u w1. p = u @ w1 \<and> matches (Or Begin_Text (One (\<lambda>c. \<not> compact_char c))) (u = []) w1 x)
     \<longleftrightarrow> p = [] \<or> \<not> compact_char (last p)"
proof
  assume "p = [] \<or> \<not> compact_char (last p)"
  then show "\<exists>u w1. p = u @ w1 \<and> matches (Or Begin_Text (One (\<lambda>c. \<not> compact_char c))) (u = []) w1 x"
    by (cases p rule: rev_cases) auto
qed auto

lemma boundary_after:
  "(\<exists>w2 v. q = w2 @ v \<and> matches (Or End_Text (One (\<lambda>c. \<not> compact_char c))) b w2 v) \<longleftrightarrow> starts_clean q"
proof
  assume "starts_clean q"
  then show "\<exists>w2 v. q = w2 @ v \<and> matches (Or End_Text (One (\<lambda>c. \<not> compact_char c))) b w2 v"
    by (cases q) (auto simp: starts_clean_def intro: exI [of _ "[hd q]"])
qed (auto simp: starts_clean_def)

lemma jwt_shape_parts:
  "jwt_shape s \<longleftrightarrow> (\<exists>u w1 a b c w2 v. s = (u @ w1) @ a @ ''.'' @ b @ ''.'' @ c @ (w2 @ v)
      \<and> token_run a \<and> token_run b \<and> token_run c
      \<and> matches (Or Begin_Text (One (\<lambda>c. \<not> compact_char c))) (u = []) w1 (a @ ''.'' @ b @ ''.'' @ c @ w2 @ v)
      \<and> matches (Or End_Text (One (\<lambda>c. \<not> compact_char c))) False w2 v)" (is "_ \<longleftrightarrow> ?parts")
proof -
  let ?l = "Or Begin_Text (One (\<lambda>c. \<not> compact_char c))" and ?r = "Or End_Text (One (\<lambda>c. \<not> compact_char c))"
  have m: "matches jwt_pattern st w v \<longleftrightarrow> (\<exists>w1 a b c w2. w = w1 @ a @ ''.'' @ b @ ''.'' @ c @ w2
      \<and> token_run a \<and> token_run b \<and> token_run c
      \<and> matches ?l st w1 (a @ ''.'' @ b @ ''.'' @ c @ w2 @ v) \<and> matches ?r False w2 v)" (is "?a \<longleftrightarrow> ?b") for st w v
  proof
    assume ?a
    then obtain w1 a b c w2 where "w = w1 @ a @ ''.'' @ b @ ''.'' @ c @ w2"
      "token_run a" "token_run b" "token_run c"
      "matches ?l st w1 ((a @ ''.'' @ b @ ''.'' @ c @ w2) @ v)" "matches ?r False w2 v"
      unfolding jwt_pattern_def matches.simps(6) [of ?l] matches_run_then matches_dot_then
      by clarify blast
    then show ?b unfolding append_assoc by blast
  next
    assume ?b
    then obtain w1 a b c w2 where w: "w = w1 @ a @ ''.'' @ b @ ''.'' @ c @ w2"
      and r: "token_run a" "token_run b" "token_run c" "matches ?r False w2 v"
      and l: "matches ?l st w1 (a @ ''.'' @ b @ ''.'' @ c @ w2 @ v)" by blast
    from l have l': "matches ?l st w1 ((a @ ''.'' @ b @ ''.'' @ c @ w2) @ v)" unfolding append_assoc .
    show ?a unfolding jwt_pattern_def matches.simps(6) [of ?l] matches_run_then matches_dot_then
      by (rule conjI exI w l' refl r)+
  qed
  show ?thesis
  proof
    assume "jwt_shape s"
    then obtain u w1 a b c w2 v where s: "s = u @ (w1 @ a @ ''.'' @ b @ ''.'' @ c @ w2) @ v"
      and r: "token_run a" "token_run b" "token_run c"
      "matches ?l (u = []) w1 (a @ ''.'' @ b @ ''.'' @ c @ w2 @ v)" "matches ?r False w2 v"
      unfolding jwt_shape_def match_string_iff m by clarify blast
    from s have "s = (u @ w1) @ a @ ''.'' @ b @ ''.'' @ c @ w2 @ v" by (simp only: append_assoc)
    with r show ?parts by blast
  next
    assume ?parts
    then obtain u w1 a b c w2 v where s: "s = (u @ w1) @ a @ ''.'' @ b @ ''.'' @ c @ w2 @ v"
      and r: "token_run a" "token_run b" "token_run c"
      "matches ?l (u = []) w1 (a @ ''.'' @ b @ ''.'' @ c @ w2 @ v)" "matches ?r False w2 v" by blast
    from s have "s = u @ (w1 @ a @ ''.'' @ b @ ''.'' @ c @ w2) @ v" by (simp only: append_assoc)
    moreover from r have "matches jwt_pattern (u = []) (w1 @ a @ ''.'' @ b @ ''.'' @ c @ w2) v"
      unfolding m by blast
    ultimately show "jwt_shape s" unfolding jwt_shape_def match_string_iff by blast
  qed
qed

lemma jwt_shape_iff: "jwt_shape s \<longleftrightarrow> jwt_match s"
proof -
  have "jwt_shape s \<longleftrightarrow> (\<exists>p a b c q. s = p @ a @ ''.'' @ b @ ''.'' @ c @ q
      \<and> token_run a \<and> token_run b \<and> token_run c
      \<and> (\<exists>u w1. p = u @ w1 \<and> matches (Or Begin_Text (One (\<lambda>c. \<not> compact_char c))) (u = []) w1
            (a @ ''.'' @ b @ ''.'' @ c @ q))
      \<and> (\<exists>w2 v. q = w2 @ v \<and> matches (Or End_Text (One (\<lambda>c. \<not> compact_char c))) False w2 v))"
    unfolding jwt_shape_parts by blast
  then show ?thesis unfolding boundary_before boundary_after jwt_match_def by blast
qed

lemma jwt_shape_code [code]: "jwt_shape s = jwt_from True s"
  by (simp add: jwt_shape_iff jwt_from_match)

definition field_safe :: "int \<Rightarrow> string \<Rightarrow> bool" where
  "field_safe m v = (int (length v) \<le> m \<and> \<not> credential_shaped v)"

lemma some_unsafe:
  "list_ex (\<lambda>v. int (length v) > m \<or> credential_shaped v) vs = (\<not> list_all (field_safe m) vs)"
  by (induction vs) (auto simp: field_safe_def)

lemma some_bad:
  "list_ex (\<lambda>v. blank v \<or> int (length v) > m \<or> credential_shaped v) vs
     = (\<not> list_all (\<lambda>v. \<not> blank v \<and> field_safe m v) vs)"
  by (induction vs) (auto simp: field_safe_def)

definition evidence_wf :: "int \<Rightarrow> token_evidence \<Rightarrow> bool" where
  "evidence_wf m e =
     (ev_kind e \<in> {''transaction_jwt'', ''txn_token''} \<and> fingerprint_pattern (ev_fingerprint e)
      \<and> ev_audience e \<noteq> [] \<and> (ev_kind e = ''transaction_jwt'' \<longrightarrow> \<not> blank (ev_jwt_id e))
      \<and> ev_issued_at e < ev_expires_at e \<and> ev_issued_at e \<noteq> 0 \<and> ev_expires_at e \<noteq> 0
      \<and> list_all (\<lambda>v. \<not> blank v \<and> field_safe m v) (evidence_fields e))"

lemma validate_token_evidence_None [guards]:
  "validate_token_evidence (Some e) m = None \<longleftrightarrow> evidence_wf m e"
proof -
  have "blank (ev_issuer e) \<Longrightarrow> \<not> list_all (\<lambda>v. \<not> blank v \<and> field_safe m v) (evidence_fields e)"
    by (simp add: evidence_fields_def)
  then show ?thesis
    by (auto simp: validate_token_evidence_def evidence_wf_def some_bad is_zero_def)
qed

lemma validate_no_evidence [simp]: "validate_token_evidence None m = None"
  by (simp add: validate_token_evidence_def)

definition event_wf :: "event \<Rightarrow> bool" where
  "event_wf e =
     (valid_outcome (evt_type e) (evt_response_status e) (evt_duration_millis e) (evt_decision e)
      \<and> list_all (field_safe event_field_bytes) (event_fields e)
      \<and> pred_option (evidence_wf event_field_bytes) (evt_token e))"

lemma validate_event_None [guards]: "validate_event e = None \<longleftrightarrow> event_wf e"
proof -
  have "validate_token_evidence (evt_token e) event_field_bytes = None
      \<longleftrightarrow> pred_option (evidence_wf event_field_bytes) (evt_token e)"
    by (cases "evt_token e") (simp_all add: guards)
  then show ?thesis
    by (simp add: validate_event_def event_wf_def some_unsafe)
qed

lemma new_verified_txn_token_evidence_Inr:
  assumes "new_verified_txn_token_evidence h raw c = Inr e"
  shows "evidence_wf event_field_bytes e" "ev_kind e = ''txn_token''"
    "ev_fingerprint e = ''sha256:'' @ h raw" "ev_issuer e = txn_issuer c" "ev_audience e = [txn_audience c]"
    "ev_scope e = txn_scope c" "ev_jwt_id e = txn_jwt_id c"
  using assms
  by (auto simp: new_verified_txn_token_evidence_def Let_def guards split: if_splits)

lemma new_verified_transaction_token_evidence_Inr:
  assumes "new_verified_transaction_token_evidence h raw c = Inr e"
  shows "evidence_wf event_field_bytes e" "ev_kind e = ''transaction_jwt''"
    "ev_fingerprint e = ''sha256:'' @ h raw" "ev_issuer e = issuer c" "ev_audience e = audience c"
    "ev_scope e = claims_scope c" "ev_jwt_id e = jwt_id c"
  using assms
  by (auto simp: new_verified_transaction_token_evidence_def Let_def guards split: if_splits)

section \<open>Properties\<close>

text \<open>
  A compact token with parts of 16 characters or more, and a value that holds it, alone or set off
  from its surroundings by a character that is not a token character.
\<close>

definition long_jws :: "string \<Rightarrow> bool" where
  "long_jws raw \<longleftrightarrow> (\<exists>a b c. raw = a @ ''.'' @ b @ ''.'' @ c \<and> token_run a \<and> token_run b \<and> token_run c)"

definition embeds :: "string \<Rightarrow> string \<Rightarrow> bool" where
  "embeds raw v \<longleftrightarrow> (\<exists>u w. v = u @ raw @ w \<and> (u = [] \<or> \<not> compact_char (last u)) \<and> starts_clean w)"

lemma embedded_credential: "long_jws raw \<Longrightarrow> embeds raw v \<Longrightarrow> credential_shaped v"
  unfolding long_jws_def embeds_def credential_shaped_def jwt_shape_iff jwt_match_def by fastforce

lemma safe_field_no_token: "field_safe m v \<Longrightarrow> long_jws raw \<Longrightarrow> \<not> embeds raw v"
  using embedded_credential by (auto simp: field_safe_def)

definition all_event_fields :: "event \<Rightarrow> string list" where
  "all_event_fields e =
     event_fields e @ (case evt_token e of None \<Rightarrow> [] | Some ev \<Rightarrow> evidence_fields ev)"

lemma event_wf_fields: "event_wf e \<Longrightarrow> v \<in> set (all_event_fields e) \<Longrightarrow> field_safe event_field_bytes v"
  by (cases "evt_token e") (auto simp: event_wf_def evidence_wf_def all_event_fields_def list_all_iff)

text \<open>
  C10. No event that \<open>validateEvent\<close> lets through carries a raw compact token with parts of 16 or
  more characters in any of its fields, the token evidence included, and every field is within
  64 KiB; so a sink never records a replayable credential of that form.
\<close>
theorem valid_event_no_raw_token:
  assumes "validate_event e = None" and "v \<in> set (all_event_fields e)" and "long_jws raw"
  shows "\<not> embeds raw v \<and> length v \<le> 65536"
proof -
  have "field_safe event_field_bytes v"
    using assms(1,2) by (simp add: guards event_wf_fields)
  with safe_field_no_token assms(3) show ?thesis
    by (auto simp: field_safe_def event_field_bytes_def)
qed

theorem valid_event_no_raw_token_witness:
  "\<not> embeds (replicate 16 (CHR ''a'') @ ''.'' @ replicate 16 (CHR ''b'') @ ''.'' @ replicate 16 (CHR ''c'')) ''downstream.request''"
proof -
  have "validate_event (blank_event\<lparr>evt_type := downstream_request\<rparr>) = None" by code_simp
  moreover have "''downstream.request'' \<in> set (all_event_fields (blank_event\<lparr>evt_type := downstream_request\<rparr>))"
    by code_simp
  moreover have "long_jws (replicate 16 (CHR ''a'') @ ''.'' @ replicate 16 (CHR ''b'') @ ''.'' @ replicate 16 (CHR ''c''))"
  proof -
    have "token_run (replicate 16 (CHR ''a'')) \<and> token_run (replicate 16 (CHR ''b'')) \<and> token_run (replicate 16 (CHR ''c''))"
      by code_simp
    then show ?thesis unfolding long_jws_def by blast
  qed
  ultimately show ?thesis using valid_event_no_raw_token by blast
qed

text \<open>
  The evidence made for a verified strict token is accepted in every event, names the token by
  the digest of the raw text only, and repeats issuer, audience, scope and expiry of its claims.
\<close>
theorem txn_token_evidence_sound:
  assumes "new_verified_txn_token_evidence sha256_hex raw c = Inr ev"
  shows "(validate_event e = None \<longrightarrow> validate_event (e\<lparr>evt_token := Some ev\<rparr>) = None)
    \<and> ev_fingerprint ev = ''sha256:'' @ sha256_hex raw \<and> ev_issuer ev = txn_issuer c
    \<and> ev_audience ev = [txn_audience c] \<and> ev_scope ev = txn_scope c
    \<and> ev_expires_at ev = txn_expires_at c \<and> ev_issued_at ev < ev_expires_at ev"
proof -
  note ev = new_verified_txn_token_evidence_Inr [OF assms]
  have "validate_event (e\<lparr>evt_token := Some ev\<rparr>) = None" if "validate_event e = None"
    using that ev(1) by (auto simp: guards event_wf_def event_fields_def)
  moreover have "ev_expires_at ev = txn_expires_at c"
    using assms by (auto simp: new_verified_txn_token_evidence_def Let_def split: if_splits)
  ultimately show ?thesis using ev by (auto simp: evidence_wf_def)
qed

definition sample_digest :: "string \<Rightarrow> string" where
  "sample_digest _ = replicate 64 (CHR ''0'')"

definition sample_evidence :: token_evidence where
  "sample_evidence =
     \<lparr>ev_kind = ''txn_token'', ev_fingerprint = ''sha256:'' @ replicate 64 (CHR ''0''), ev_issuer = ''iss'',
      ev_audience = [''aud''], ev_scope = [''read''], ev_jwt_id = [], ev_agent_instance_id = ''i'',
      ev_issued_at = 1, ev_expires_at = 2\<rparr>"

definition sample_txn_claims :: txn_token_claims where
  "sample_txn_claims =
     \<lparr>txn_issuer = ''iss'', txn_subject = ''alice'', txn_audience = ''aud'', txn_transaction_id = ''t'',
      txn_scope = [''read''], txn_requesting_workload_id = ''spiffe://example.org/a'',
      txn_context = \<lparr>wai_version = 1,
        wai_agent = \<lparr>wac_id = ''a'', wac_instance_id = ''i'', wac_workload_id = ''spiffe://example.org/a''\<rparr>,
        wai_target = ''mcp'', wai_tool = ''lookup''\<rparr>,
      txn_request_context = None, txn_jwt_id = [], txn_issued_at = 1, txn_expires_at = 2\<rparr>"

theorem txn_token_evidence_sound_witness:
  "validate_event (blank_event\<lparr>evt_type := downstream_request, evt_token := Some sample_evidence\<rparr>) = None"
proof -
  have "new_verified_txn_token_evidence sample_digest ''raw'' sample_txn_claims = Inr sample_evidence"
    by code_simp
  moreover have "validate_event (blank_event\<lparr>evt_type := downstream_request\<rparr>) = None" by code_simp
  ultimately show ?thesis using txn_token_evidence_sound by fastforce
qed

end
