(* ===== verification/Go_JSON.thy ===== *)
theory Go_JSON
  imports Go_HTTP
begin

text \<open>
  What the program uses of \<open>encoding/json\<close> and \<open>encoding/base64\<close>. A \<open>json.Decoder\<close> is the
  stream of the tokens its \<open>Token\<close> method returns: the lexer that produces it from bytes is a
  parameter \<open>lexer\<close> of the definitions that read JSON text; reading tokens, building values,
  decoding them into structs and the encoder's text are defined here.
\<close>

section \<open>Tokens and values\<close>

text \<open>\<open>TErr\<close> is a syntax error: reading it fails. Reading past the end is \<open>io.EOF\<close>.\<close>

datatype jtoken = TDelim char | TStr string | TNum string | TBool bool | TNull | TErr

datatype json =
    JNull
  | JBool bool
  | JNum string
  | JStr string
  | JArr "json list"
  | JObj "(string \<times> json) list"

fun tokens_of :: "json \<Rightarrow> jtoken list" where
  "tokens_of JNull = [TNull]"
| "tokens_of (JBool b) = [TBool b]"
| "tokens_of (JNum n) = [TNum n]"
| "tokens_of (JStr s) = [TStr s]"
| "tokens_of (JArr vs) = TDelim (CHR ''['') # concat (map tokens_of vs) @ [TDelim (CHR '']'')]"
| "tokens_of (JObj ms) =
     TDelim (CHR ''{'') # concat (map (\<lambda>(k, v). TStr k # tokens_of v) ms) @ [TDelim (CHR ''}'')]"

text \<open>\<open>Decoder.More\<close>: the next token is there and closes nothing.\<close>

fun has_more :: "jtoken list \<Rightarrow> bool" where
  "has_more [] = False"
| "has_more (t # ts) = (t \<noteq> TDelim (CHR '']'') \<and> t \<noteq> TDelim (CHR ''}''))"

text \<open>\<open>Decoder.Token\<close>.\<close>

datatype json_error =
  Eof | Syntax | DuplicateKey | NonStringKey | UnexpectedDelimiter | Trailing | OutOfFuel

fun token :: "jtoken list \<Rightarrow> json_error + jtoken \<times> jtoken list" where
  "token [] = Inl Eof"
| "token (TErr # ts) = Inl Syntax"
| "token (t # ts) = Inr (t, ts)"

text \<open>
  \<open>Decoder.Decode\<close> of one value: recursion with fuel. A value of \<open>n\<close> tokens is read with \<open>n\<close>
  units (\<open>read_value_tokens\<close>), so a unit per token of the stream is enough; a stream that does
  not start with a value gives \<open>None\<close>.
\<close>

fun read_value :: "nat \<Rightarrow> jtoken list \<Rightarrow> (json \<times> jtoken list) option"
  and read_elems :: "nat \<Rightarrow> jtoken list \<Rightarrow> (json list \<times> jtoken list) option"
  and read_members :: "nat \<Rightarrow> jtoken list \<Rightarrow> ((string \<times> json) list \<times> jtoken list) option"
where
  "read_value 0 ts = None"
| "read_value (Suc n) ts =
     (case ts of
        TNull # r \<Rightarrow> Some (JNull, r)
      | TBool b # r \<Rightarrow> Some (JBool b, r)
      | TNum m # r \<Rightarrow> Some (JNum m, r)
      | TStr s # r \<Rightarrow> Some (JStr s, r)
      | TDelim d # r \<Rightarrow>
          if d = CHR ''['' then map_option (\<lambda>(vs, r'). (JArr vs, r')) (read_elems n r)
          else if d = CHR ''{'' then map_option (\<lambda>(ms, r'). (JObj ms, r')) (read_members n r)
          else None
      | _ \<Rightarrow> None)"
| "read_elems 0 ts = None"
| "read_elems (Suc n) ts =
     (if has_more ts then
        (case read_value n ts of
           None \<Rightarrow> None
         | Some (v, r) \<Rightarrow> map_option (\<lambda>(vs, r'). (v # vs, r')) (read_elems n r))
      else case ts of TDelim d # r \<Rightarrow> if d = CHR '']'' then Some ([], r) else None | _ \<Rightarrow> None)"
| "read_members 0 ts = None"
| "read_members (Suc n) ts =
     (if has_more ts then
        (case ts of
           TStr k # r \<Rightarrow>
             (case read_value n r of
                None \<Rightarrow> None
              | Some (v, r') \<Rightarrow> map_option (\<lambda>(ms, r''). ((k, v) # ms, r'')) (read_members n r'))
         | _ \<Rightarrow> None)
      else case ts of TDelim d # r \<Rightarrow> if d = CHR ''}'' then Some ([], r) else None | _ \<Rightarrow> None)"

definition decode_next :: "jtoken list \<Rightarrow> (json \<times> jtoken list) option" where
  "decode_next ts = read_value (Suc (length ts)) ts"

text \<open>\<open>json.Unmarshal\<close>, and a \<open>Decode\<close> followed by the check for \<open>io.EOF\<close>: one value, then the end.\<close>

definition decode_all :: "jtoken list \<Rightarrow> json option" where
  "decode_all ts = (case decode_next ts of Some (v, []) \<Rightarrow> Some v | _ \<Rightarrow> None)"

lemma has_more_tokens_of [simp]: "has_more (tokens_of v @ r)"
  by (cases v) auto

lemma length_tokens_of: "0 < length (tokens_of v)"
  by (cases v) auto

lemma read_elems_tokens:
  assumes "\<And>v n r. v \<in> set vs \<Longrightarrow> length (tokens_of v) \<le> n \<Longrightarrow> read_value n (tokens_of v @ r) = Some (v, r)"
    and "length (concat (map tokens_of vs)) < n"
  shows "read_elems n (concat (map tokens_of vs) @ TDelim (CHR '']'') # r) = Some (vs, r)"
  using assms
proof (induction vs arbitrary: n)
  case Nil
  then show ?case by (cases n) auto
next
  case (Cons v vs)
  from Cons.prems(2) obtain m where n: "n = Suc m" by (cases n) auto
  with Cons.prems(2) have "length (tokens_of v) + length (concat (map tokens_of vs)) < Suc m" by simp
  with length_tokens_of [of v]
  have "length (tokens_of v) \<le> m" "length (concat (map tokens_of vs)) < m" by linarith+
  with Cons n show ?case by simp
qed

lemma read_members_tokens:
  assumes "\<And>k v n r. (k, v) \<in> set ms \<Longrightarrow> length (tokens_of v) \<le> n \<Longrightarrow> read_value n (tokens_of v @ r) = Some (v, r)"
    and "length (concat (map (\<lambda>(k, v). TStr k # tokens_of v) ms)) < n"
  shows "read_members n (concat (map (\<lambda>(k, v). TStr k # tokens_of v) ms) @ TDelim (CHR ''}'') # r) = Some (ms, r)"
  using assms
proof (induction ms arbitrary: n)
  case Nil
  then show ?case by (cases n) auto
next
  case (Cons m ms)
  obtain k v where m: "m = (k, v)" by (cases m)
  from Cons.prems(2) obtain j where n: "n = Suc j" by (cases n) auto
  with Cons.prems(2) m
  have "Suc (length (tokens_of v)) + length (concat (map (\<lambda>(k, v). TStr k # tokens_of v) ms)) < Suc j"
    by simp
  then have l: "length (tokens_of v) \<le> j" "length (concat (map (\<lambda>(k, v). TStr k # tokens_of v) ms)) < j"
    by linarith+
  have "read_members j (concat (map (\<lambda>(k, v). TStr k # tokens_of v) ms) @ TDelim (CHR ''}'') # r) = Some (ms, r)"
    using Cons.prems(1) by (intro Cons.IH [OF _ l(2)]) auto
  moreover have "read_value j (tokens_of v @ r') = Some (v, r')" for r'
    using Cons.prems(1) l(1) by (auto simp: m)
  ultimately show ?case by (simp add: m n)
qed

lemma read_value_tokens: "length (tokens_of v) \<le> n \<Longrightarrow> read_value n (tokens_of v @ r) = Some (v, r)"
proof (induction v arbitrary: n r rule: tokens_of.induct)
  case (5 vs)
  from "5.prems" obtain m where "n = Suc m" "length (concat (map tokens_of vs)) < m"
    by (cases n) auto
  with read_elems_tokens [of vs m r] "5.IH" show ?case by simp
next
  case (6 ms)
  from "6.prems" obtain m where m: "n = Suc m"
    "length (concat (map (\<lambda>(k, v). TStr k # tokens_of v) ms)) < m"
    by (cases n) auto
  have "read_members m (concat (map (\<lambda>(k, v). TStr k # tokens_of v) ms) @ TDelim (CHR ''}'') # r) = Some (ms, r)"
    by (rule read_members_tokens [OF _ m(2)]) (use "6.IH" in fastforce)
  with m show ?case by simp
next
  case 1
  then show ?case by (cases n) simp_all
next
  case (2 b)
  then show ?case by (cases n) simp_all
next
  case (3 m)
  then show ?case by (cases n) simp_all
next
  case (4 s)
  then show ?case by (cases n) simp_all
qed

lemma decode_all_tokens [simp]: "decode_all (tokens_of v) = Some v"
  using read_value_tokens [of v "Suc (length (tokens_of v))" "[]"]
  by (simp add: decode_all_def decode_next_def)

section \<open>Decoding a value into a struct\<close>

text \<open>
  \<open>Unmarshal\<close> into a struct goes through the members in order. A member's key names the field
  with that JSON name, up to \<open>EqualFold\<close>; unknown keys are skipped, or are an error after
  \<open>DisallowUnknownFields\<close>; \<open>null\<close> leaves what is there; a value of the wrong type is an error.
  Fields that no member names keep what the destination held before.
\<close>

type_synonym 'r field = "string \<times> (json \<Rightarrow> 'r \<Rightarrow> 'r option)"

fun decode_members :: "'r field list \<Rightarrow> bool \<Rightarrow> (string \<times> json) list \<Rightarrow> 'r \<Rightarrow> 'r option" where
  "decode_members fs strict [] r = Some r"
| "decode_members fs strict ((k, v) # ms) r =
     (case find (\<lambda>(name, _). equal_fold k name) fs of
        None \<Rightarrow> if strict then None else decode_members fs strict ms r
      | Some (_, f) \<Rightarrow>
          (case f v r of None \<Rightarrow> None | Some r' \<Rightarrow> decode_members fs strict ms r'))"

definition decode_struct :: "'r field list \<Rightarrow> bool \<Rightarrow> json \<Rightarrow> 'r \<Rightarrow> 'r option" where
  "decode_struct fs strict j r =
     (case j of JObj ms \<Rightarrow> decode_members fs strict ms r | JNull \<Rightarrow> Some r | _ \<Rightarrow> None)"

lemma decode_members_append:
  "decode_members fs strict (xs @ ys) r = Option.bind (decode_members fs strict xs r) (decode_members fs strict ys)"
  by (induction xs arbitrary: r) (auto split: option.splits)

definition string_field :: "string \<Rightarrow> (string \<Rightarrow> 'r \<Rightarrow> 'r) \<Rightarrow> 'r field" where
  "string_field name put_it =
     (name, \<lambda>j r. case j of JStr s \<Rightarrow> Some (put_it s r) | JNull \<Rightarrow> Some r | _ \<Rightarrow> None)"

text \<open>\<open>strconv.ParseInt(literal, 10, 64)\<close> on a JSON number literal.\<close>

definition digits_value :: "string \<Rightarrow> int" where
  "digits_value s = foldl (\<lambda>acc c. 10 * acc + (int (of_char c) - 48)) 0 s"

definition parse_int64 :: "string \<Rightarrow> int option" where
  "parse_int64 s =
     (let (neg, ds) = (case s of c # cs \<Rightarrow> if c = CHR ''-'' then (True, cs) else (False, s) | [] \<Rightarrow> (False, []));
          n = (if neg then - digits_value ds else digits_value ds)
      in if ds = [] \<or> \<not> list_all (\<lambda>c. 48 \<le> (of_char c :: nat) \<and> of_char c \<le> (57 :: nat)) ds
            \<or> \<not> is_int64 n
         then None else Some n)"

lemma parse_int64_range: "parse_int64 s = Some n \<Longrightarrow> is_int64 n"
  by (auto simp: parse_int64_def Let_def split: if_splits list.splits prod.splits)

definition int_field :: "string \<Rightarrow> (int \<Rightarrow> 'r \<Rightarrow> 'r) \<Rightarrow> 'r field" where
  "int_field name put_it =
     (name, \<lambda>j r. case j of
          JNum s \<Rightarrow> map_option (\<lambda>n. put_it n r) (parse_int64 s)
        | JNull \<Rightarrow> Some r | _ \<Rightarrow> None)"

definition struct_field ::
  "string \<Rightarrow> (json \<Rightarrow> 's \<Rightarrow> 's option) \<Rightarrow> ('r \<Rightarrow> 's) \<Rightarrow> ('s \<Rightarrow> 'r \<Rightarrow> 'r) \<Rightarrow> 'r field" where
  "struct_field name dec get put_it = (name, \<lambda>j r. map_option (\<lambda>s. put_it s r) (dec j (get r)))"

text \<open>A \<open>[]string\<close>: \<open>null\<close> gives nil; a \<open>null\<close> element keeps what the slice held at its index.\<close>

fun decode_strings :: "json list \<Rightarrow> string list \<Rightarrow> string list option" where
  "decode_strings [] old = Some []"
| "decode_strings (v # vs) old =
     (case v of
        JStr s \<Rightarrow> map_option (\<lambda>ss. s # ss) (decode_strings vs (tl old))
      | JNull \<Rightarrow> map_option (\<lambda>ss. (case old of [] \<Rightarrow> [] | s # _ \<Rightarrow> s) # ss) (decode_strings vs (tl old))
      | _ \<Rightarrow> None)"

definition strings_field ::
  "string \<Rightarrow> ('r \<Rightarrow> string list) \<Rightarrow> (string list \<Rightarrow> 'r \<Rightarrow> 'r) \<Rightarrow> 'r field" where
  "strings_field name get put_it =
     (name, \<lambda>j r. case j of
          JArr vs \<Rightarrow> map_option (\<lambda>ss. put_it ss r) (decode_strings vs (get r))
        | JNull \<Rightarrow> Some (put_it [] r) | _ \<Rightarrow> None)"

lemma decode_strings_JStr [simp]: "decode_strings (map JStr ss) old = Some ss"
  by (induction ss arbitrary: old) auto

text \<open>A slice of structs, each decoded over the element that was there, or a zero value.\<close>

fun decode_structs :: "(json \<Rightarrow> 's \<Rightarrow> 's option) \<Rightarrow> 's \<Rightarrow> json list \<Rightarrow> 's list \<Rightarrow> 's list option" where
  "decode_structs dec zero [] old = Some []"
| "decode_structs dec zero (v # vs) old =
     (case dec v (case old of [] \<Rightarrow> zero | x # _ \<Rightarrow> x) of
        None \<Rightarrow> None
      | Some x \<Rightarrow> map_option (\<lambda>xs. x # xs) (decode_structs dec zero vs (tl old)))"

definition structs_field ::
  "string \<Rightarrow> (json \<Rightarrow> 's \<Rightarrow> 's option) \<Rightarrow> 's \<Rightarrow> ('r \<Rightarrow> 's list) \<Rightarrow> ('s list \<Rightarrow> 'r \<Rightarrow> 'r) \<Rightarrow> 'r field" where
  "structs_field name dec zero get put_it =
     (name, \<lambda>j r. case j of
          JArr vs \<Rightarrow> map_option (\<lambda>xs. put_it xs r) (decode_structs dec zero vs (get r))
        | JNull \<Rightarrow> Some (put_it [] r) | _ \<Rightarrow> None)"

text \<open>\<open>bool\<close>, \<open>*bool\<close>, \<open>[]json.RawMessage\<close> and \<open>map[string]string\<close> (of which only the shape is used).\<close>

definition bool_field :: "string \<Rightarrow> (bool \<Rightarrow> 'r \<Rightarrow> 'r) \<Rightarrow> 'r field" where
  "bool_field name put_it =
     (name, \<lambda>j r. case j of JBool b \<Rightarrow> Some (put_it b r) | JNull \<Rightarrow> Some r | _ \<Rightarrow> None)"

definition bool_pointer_field :: "string \<Rightarrow> (bool option \<Rightarrow> 'r \<Rightarrow> 'r) \<Rightarrow> 'r field" where
  "bool_pointer_field name put_it =
     (name, \<lambda>j r. case j of JBool b \<Rightarrow> Some (put_it (Some b) r) | JNull \<Rightarrow> Some (put_it None r) | _ \<Rightarrow> None)"

definition raw_list_field :: "string \<Rightarrow> (json list \<Rightarrow> 'r \<Rightarrow> 'r) \<Rightarrow> 'r field" where
  "raw_list_field name put_it =
     (name, \<lambda>j r. case j of JArr vs \<Rightarrow> Some (put_it vs r) | JNull \<Rightarrow> Some (put_it [] r) | _ \<Rightarrow> None)"

definition string_or_null :: "json \<Rightarrow> bool" where
  "string_or_null j = (case j of JStr _ \<Rightarrow> True | JNull \<Rightarrow> True | _ \<Rightarrow> False)"

definition string_map_field :: "string \<Rightarrow> 'r field" where
  "string_map_field name =
     (name, \<lambda>j r. case j of
          JObj ms \<Rightarrow> if list_all (\<lambda>(_, v). string_or_null v) ms then Some r else None
        | JNull \<Rightarrow> Some r | _ \<Rightarrow> None)"

text \<open>A field of pointer type: \<open>null\<close> sets it to nil, an object is decoded into what it points to.\<close>

definition pointer_field ::
  "string \<Rightarrow> (json \<Rightarrow> 's \<Rightarrow> 's option) \<Rightarrow> 's \<Rightarrow> ('r \<Rightarrow> 's option) \<Rightarrow> ('s option \<Rightarrow> 'r \<Rightarrow> 'r) \<Rightarrow> 'r field" where
  "pointer_field name dec zero get put_it =
     (name, \<lambda>j r. case j of
          JNull \<Rightarrow> Some (put_it None r)
        | _ \<Rightarrow> map_option (\<lambda>s. put_it (Some s) r)
                 (dec j (case get r of None \<Rightarrow> zero | Some s \<Rightarrow> s)))"

text \<open>\<open>Unmarshal\<close> into a \<open>map[string]json.RawMessage\<close>: \<open>null\<close> gives an empty map, later members win.\<close>

definition decode_raw_map :: "json \<Rightarrow> (string \<times> json) list option" where
  "decode_raw_map j = (case j of JObj ms \<Rightarrow> Some (rev ms) | JNull \<Rightarrow> Some [] | _ \<Rightarrow> None)"

section \<open>Encoding\<close>

text \<open>The width of the UTF-8 sequence the string starts with, 0 if it is not valid (\<open>utf8.DecodeRune\<close>).\<close>

definition between :: "nat \<Rightarrow> nat \<Rightarrow> nat \<Rightarrow> bool" where
  "between lo hi n = (lo \<le> n \<and> n \<le> hi)"

fun rune_width :: "nat list \<Rightarrow> nat" where
  "rune_width [] = 0"
| "rune_width (a # bs) =
     (if a < 128 then 1
      else if between 194 223 a then
        (case bs of b # _ \<Rightarrow> if between 128 191 b then 2 else 0 | _ \<Rightarrow> 0)
      else if between 224 239 a then
        (case bs of
           b # c # _ \<Rightarrow>
             if between (if a = 224 then 160 else 128) (if a = 237 then 159 else 191) b
                \<and> between 128 191 c then 3 else 0
         | _ \<Rightarrow> 0)
      else if between 240 244 a then
        (case bs of
           b # c # d # _ \<Rightarrow>
             if between (if a = 240 then 144 else 128) (if a = 244 then 143 else 191) b
                \<and> between 128 191 c \<and> between 128 191 d then 4 else 0
         | _ \<Rightarrow> 0)
      else 0)"

definition hex_digit :: "nat \<Rightarrow> char" where
  "hex_digit n = ''0123456789abcdef'' ! (n mod 16)"

text \<open>An ASCII byte inside a JSON string, with HTML escaping on.\<close>

definition quote_ascii :: "char \<Rightarrow> string" where
  "quote_ascii c =
     (if c = CHR 0x22 \<or> c = CHR 0x5C then [CHR 0x5C, c]
      else if c = CHR 0x08 then [CHR 0x5C, CHR ''b''] else if c = CHR 0x0C then [CHR 0x5C, CHR ''f'']
      else if c = CHR 0x0A then [CHR 0x5C, CHR ''n''] else if c = CHR 0x0D then [CHR 0x5C, CHR ''r'']
      else if c = CHR 0x09 then [CHR 0x5C, CHR ''t'']
      else if (of_char c :: nat) < 32 \<or> c \<in> set ''<>&''
      then [CHR 0x5C] @ ''u00'' @ [hex_digit (of_char c div 16), hex_digit (of_char c)]
      else [c])"

fun quote_go :: "nat \<Rightarrow> string \<Rightarrow> string" where
  "quote_go skip [] = []"
| "quote_go (Suc n) (c # cs) = c # quote_go n cs"
| "quote_go 0 (c # cs) =
     (if (of_char c :: nat) < 128 then quote_ascii c @ quote_go 0 cs
      else let w = rune_width (map of_char (c # take 3 cs)) in
        if w = 0 then [CHR 0x5C] @ ''ufffd'' @ quote_go 0 cs
        else if take 2 cs = [CHR 0x80, CHR 0xA8] \<and> c = CHR 0xE2
        then [CHR 0x5C] @ ''u2028'' @ quote_go 0 (drop 2 cs)
        else if take 2 cs = [CHR 0x80, CHR 0xA9] \<and> c = CHR 0xE2
        then [CHR 0x5C] @ ''u2029'' @ quote_go 0 (drop 2 cs)
        else c # quote_go (w - 1) cs)"

definition quote_json :: "string \<Rightarrow> string" where
  "quote_json s = [CHR 0x22] @ quote_go 0 s @ [CHR 0x22]"

fun nat_digits :: "nat \<Rightarrow> string" where
  "nat_digits n = (if n < 10 then [char_of (48 + n)] else nat_digits (n div 10) @ [char_of (48 + n mod 10)])"

declare nat_digits.simps [simp del]

definition int_digits :: "int \<Rightarrow> string" where
  "int_digits i = (if i < 0 then CHR ''-'' # nat_digits (nat (- i)) else nat_digits (nat i))"

text \<open>The text of an object, from its keys and the texts of its values.\<close>

definition object_text :: "(string \<times> string) list \<Rightarrow> string" where
  "object_text ms =
     ''{'' @ join '','' (map (\<lambda>(k, v). quote_json k @ '':'' @ v) ms) @ ''}''"

section \<open>\<open>base64.RawURLEncoding\<close>\<close>

definition sextet :: "char \<Rightarrow> nat option" where
  "sextet c =
     (let n = of_char c :: nat in
      if 65 \<le> n \<and> n \<le> 90 then Some (n - 65)
      else if 97 \<le> n \<and> n \<le> 122 then Some (n - 71)
      else if 48 \<le> n \<and> n \<le> 57 then Some (n + 4)
      else if n = 45 then Some 62 else if n = 95 then Some 63 else None)"

fun octets :: "nat list \<Rightarrow> nat list option" where
  "octets [] = Some []"
| "octets [a] = None"
| "octets [a, b] = Some [(a * 4 + b div 16) mod 256]"
| "octets [a, b, c] = Some [(a * 4 + b div 16) mod 256, (b * 16 + c div 4) mod 256]"
| "octets (a # b # c # d # r) =
     map_option (\<lambda>os. (a * 4 + b div 16) mod 256 # (b * 16 + c div 4) mod 256 # (c * 64 + d) mod 256 # os)
       (octets r)"

definition b64_decode :: "string \<Rightarrow> string option" where
  "b64_decode s =
     (let ds = map sextet (filter (\<lambda>c. c \<noteq> CHR 0x0A \<and> c \<noteq> CHR 0x0D) s)
      in if None \<in> set ds then None
         else map_option (map char_of) (octets (map the ds)))"

text \<open>\<open>EncodeToString\<close>, without padding.\<close>

definition sextet_char :: "nat \<Rightarrow> char" where
  "sextet_char n = ''ABCDEFGHIJKLMNOPQRSTUVWXYZabcdefghijklmnopqrstuvwxyz0123456789-_'' ! (n mod 64)"

fun sextets :: "nat list \<Rightarrow> nat list" where
  "sextets [] = []"
| "sextets [a] = [a div 4, (a mod 4) * 16]"
| "sextets [a, b] = [a div 4, (a mod 4) * 16 + b div 16, (b mod 16) * 4]"
| "sextets (a # b # c # r) =
     a div 4 # ((a mod 4) * 16 + b div 16) # ((b mod 16) * 4 + c div 64) # c mod 64 # sextets r"

definition b64_encode :: "string \<Rightarrow> string" where
  "b64_encode s = map sextet_char (sextets (map of_char s))"

end
