(* ===== verification/Go_JSON_Text.thy ===== *)
theory Go_JSON_Text
  imports Go_JSON
begin

text \<open>
  What the text of \<open>encoding/json\<close> keeps of a string: \<open>utf8_string\<close> gives the bytes read back from what
  \<open>Marshal\<close> writes, which are those of the string exactly when it is valid UTF-8. The reading of
  a string is modelled too (\<open>unquote_from\<close>), and \<open>unquote_quote\<close> shows that it gives \<open>utf8_string\<close>.
\<close>

section \<open>What the text keeps of a string\<close>

text \<open>
  \<open>Marshal\<close> writes \<open>\ufffd\<close> for every byte that does not belong to a valid UTF-8 sequence
  (\<open>quote_go\<close>), so a decoder that reads the text gets the bytes EF BF BD in its place.
\<close>

fun utf8_from :: "nat \<Rightarrow> string \<Rightarrow> string" where
  "utf8_from skip [] = []"
| "utf8_from (Suc n) (c # cs) = c # utf8_from n cs"
| "utf8_from 0 (c # cs) =
     (if (of_char c :: nat) < 128 then c # utf8_from 0 cs
      else let w = rune_width (map of_char (c # take 3 cs)) in
        if w = 0 then [CHR 0xEF, CHR 0xBF, CHR 0xBD] @ utf8_from 0 cs
        else c # utf8_from (w - 1) cs)"

definition utf8_string :: "string \<Rightarrow> string" where
  "utf8_string s = utf8_from 0 s"

text \<open>\<open>utf8.Valid\<close>.\<close>

fun valid_from :: "nat \<Rightarrow> string \<Rightarrow> bool" where
  "valid_from skip [] = True"
| "valid_from (Suc n) (c # cs) = valid_from n cs"
| "valid_from 0 (c # cs) =
     (let w = rune_width (map of_char (c # take 3 cs)) in w \<noteq> 0 \<and> valid_from (w - 1) cs)"

definition utf8_valid :: "string \<Rightarrow> bool" where
  "utf8_valid s = valid_from 0 s"

lemma rune_width_ascii: "(of_char c :: nat) < 128 \<Longrightarrow> rune_width (of_char c # bs) = 1"
  by simp

lemma utf8_from_valid:
  "length s \<le> length (utf8_from n s) \<and> (length (utf8_from n s) = length s \<longleftrightarrow> valid_from n s)
   \<and> (valid_from n s \<longrightarrow> utf8_from n s = s)"
  by (induction n s rule: utf8_from.induct) (auto simp: Let_def rune_width_ascii simp del: rune_width.simps)

lemma utf8_string_id: "utf8_string s = s \<longleftrightarrow> utf8_valid s"
  using utf8_from_valid [of s 0] unfolding utf8_string_def utf8_valid_def by metis

lemma utf8_string_Nil [simp]: "utf8_string [] = []" "utf8_string s = [] \<longleftrightarrow> s = []"
  by (auto simp: utf8_string_def Let_def elim: utf8_from.elims split: if_splits)

lemma utf8_ascii [simp]: "is_ascii s \<Longrightarrow> utf8_string s = s"
proof -
  have "list_all (\<lambda>c. (of_char c :: nat) < 128) s \<Longrightarrow> utf8_from 0 s = s" by (induction s) simp_all
  then show "is_ascii s \<Longrightarrow> utf8_string s = s" by (simp add: utf8_string_def is_ascii_def)
qed

text \<open>The value a decoder reads from the text of a value.\<close>

fun utf8_json :: "json \<Rightarrow> json" where
  "utf8_json (JStr s) = JStr (utf8_string s)"
| "utf8_json (JArr vs) = JArr (map utf8_json vs)"
| "utf8_json (JObj ms) = JObj (map (\<lambda>(k, v). (utf8_string k, utf8_json v)) ms)"
| "utf8_json v = v"

section \<open>Reading a string back\<close>

text \<open>
  \<open>encoding/json\<close>'s reading of what stands between the quotes of a string: escapes, \<open>\u\<close> with surrogate
  pairs, and U+FFFD for a lone surrogate and for a byte of invalid UTF-8.
\<close>

definition hex_value :: "char \<Rightarrow> nat option" where
  "hex_value c =
     (let n = of_char c :: nat in
      if 48 \<le> n \<and> n \<le> 57 then Some (n - 48)
      else if 97 \<le> n \<and> n \<le> 102 then Some (n - 87)
      else if 65 \<le> n \<and> n \<le> 70 then Some (n - 55) else None)"

definition hex4 :: "string \<Rightarrow> nat option" where
  "hex4 s =
     (case map hex_value s of
        [Some a, Some b, Some c, Some d] \<Rightarrow> Some (((a * 16 + b) * 16 + c) * 16 + d) | _ \<Rightarrow> None)"

definition encode_rune :: "nat \<Rightarrow> string" where
  "encode_rune n = map char_of
     (if n < 128 then [n]
      else if n < 2048 then [192 + n div 64, 128 + n mod 64]
      else if between 55296 57343 n then [239, 191, 189]
      else if n < 65536 then [224 + n div 4096, 128 + n div 64 mod 64, 128 + n mod 64]
      else [240 + n div 262144, 128 + n div 4096 mod 64, 128 + n div 64 mod 64, 128 + n mod 64])"

text \<open>The low half of a pair, where one is due.\<close>

definition low_surrogate :: "nat \<Rightarrow> string \<Rightarrow> nat option" where
  "low_surrogate n r =
     (if between 55296 56319 n \<and> take 2 r = [CHR 0x5C, CHR ''u'']
      then (case hex4 (take 4 (drop 2 r)) of
              Some m \<Rightarrow> if between 56320 57343 m then Some m else None | None \<Rightarrow> None)
      else None)"

definition escapes :: "(char \<times> char) list" where
  "escapes = [(CHR 0x22, CHR 0x22), (CHR 0x5C, CHR 0x5C), (CHR ''/'', CHR ''/''), (CHR ''b'', CHR 0x08),
     (CHR ''f'', CHR 0x0C), (CHR ''n'', CHR 0x0A), (CHR ''r'', CHR 0x0D), (CHR ''t'', CHR 0x09)]"

function unquote_from :: "nat \<Rightarrow> string \<Rightarrow> string option" where
  "unquote_from skip [] = Some []"
| "unquote_from (Suc n) (c # cs) = map_option ((#) c) (unquote_from n cs)"
| "unquote_from 0 (c # cs) =
     (if c = CHR 0x5C then
        (case cs of
           [] \<Rightarrow> None
         | e # r \<Rightarrow>
             if e = CHR ''u'' then
               (case hex4 (take 4 r) of
                  None \<Rightarrow> None
                | Some n \<Rightarrow>
                    (case low_surrogate n (drop 4 r) of
                       Some m \<Rightarrow> map_option ((@) (encode_rune (65536 + (n - 55296) * 1024 + (m - 56320))))
                         (unquote_from 0 (drop 10 r))
                     | None \<Rightarrow> map_option ((@) (encode_rune n)) (unquote_from 0 (drop 4 r))))
             else (case lookup escapes e of
                     None \<Rightarrow> None | Some d \<Rightarrow> map_option ((#) d) (unquote_from 0 r)))
      else if c = CHR 0x22 \<or> (of_char c :: nat) < 32 then None
      else if (of_char c :: nat) < 128 then map_option ((#) c) (unquote_from 0 cs)
      else let w = rune_width (map of_char (c # take 3 cs)) in
        if w = 0 then map_option ((@) [CHR 0xEF, CHR 0xBF, CHR 0xBD]) (unquote_from 0 cs)
        else map_option ((#) c) (unquote_from (w - 1) cs))"
  by pat_completeness auto
termination by (relation "measure (length \<circ> snd)") auto

lemma hex_digit_value: "hex_value (hex_digit n) = Some (n mod 16)"
proof -
  have "\<forall>n \<in> set [0..<16]. hex_value (hex_digit n) = Some n" by code_simp
  then have "hex_value (hex_digit (n mod 16)) = Some (n mod 16)" by simp
  then show ?thesis by (simp add: hex_digit_def)
qed

lemma unquote_u:
  assumes "hex4 [a, b, c, d] = Some n" "\<not> between 55296 56319 n"
  shows "unquote_from 0 (CHR 0x5C # CHR ''u'' # a # b # c # d # t) = map_option ((@) (encode_rune n)) (unquote_from 0 t)"
  using assms by (simp add: low_surrogate_def)

lemma unquote_escape:
  "lookup escapes e = Some d \<Longrightarrow> unquote_from 0 (CHR 0x5C # e # t) = map_option ((#) d) (unquote_from 0 t)"
  by (auto simp: escapes_def split: if_splits)

lemma unquote_plain:
  assumes "c \<noteq> CHR 0x5C" "c \<noteq> CHR 0x22" "32 \<le> (of_char c :: nat)" "(of_char c :: nat) < 128"
  shows "unquote_from 0 (c # t) = map_option ((#) c) (unquote_from 0 t)"
  using assms by simp

declare unquote_from.simps(3) [simp del]

lemma unquote_control:
  assumes "(of_char c :: nat) < 128"
  shows "unquote_from 0 (CHR 0x5C # CHR ''u'' # CHR ''0'' # CHR ''0'' # hex_digit (of_char c div 16) # hex_digit (of_char c) # t)
     = map_option ((#) c) (unquote_from 0 t)"
proof -
  let ?n = "of_char c :: nat"
  have "hex_value (CHR ''0'') = Some 0" by code_simp
  then have "hex4 [CHR ''0'', CHR ''0'', hex_digit (?n div 16), hex_digit ?n] = Some (?n div 16 mod 16 * 16 + ?n mod 16)"
    by (simp add: hex4_def hex_digit_value)
  moreover have "?n div 16 mod 16 * 16 + ?n mod 16 = ?n" using assms by simp
  ultimately have "hex4 [CHR ''0'', CHR ''0'', hex_digit (?n div 16), hex_digit ?n] = Some ?n" by simp
  moreover have "(@) (encode_rune ?n) = (#) c" using assms by (auto simp: encode_rune_def)
  ultimately show ?thesis using unquote_u assms by (simp add: between_def)
qed

lemma unquote_ascii:
  assumes "(of_char c :: nat) < 128"
  shows "unquote_from 0 (quote_ascii c @ t) = map_option ((#) c) (unquote_from 0 t)"
proof -
  have esc: "lookup escapes (CHR 0x22) = Some (CHR 0x22)" "lookup escapes (CHR 0x5C) = Some (CHR 0x5C)"
    "lookup escapes (CHR ''b'') = Some (CHR 0x08)" "lookup escapes (CHR ''f'') = Some (CHR 0x0C)"
    "lookup escapes (CHR ''n'') = Some (CHR 0x0A)" "lookup escapes (CHR ''r'') = Some (CHR 0x0D)"
    "lookup escapes (CHR ''t'') = Some (CHR 0x09)" by (simp_all add: escapes_def)
  consider "c \<in> {CHR 0x22, CHR 0x5C, CHR 0x08, CHR 0x0C, CHR 0x0A, CHR 0x0D, CHR 0x09}"
    | "c \<notin> {CHR 0x22, CHR 0x5C, CHR 0x08, CHR 0x0C, CHR 0x0A, CHR 0x0D, CHR 0x09}"
      "(of_char c :: nat) < 32 \<or> c \<in> set ''<>&''"
    | "c \<notin> {CHR 0x22, CHR 0x5C, CHR 0x08, CHR 0x0C, CHR 0x0A, CHR 0x0D, CHR 0x09}"
      "\<not> ((of_char c :: nat) < 32 \<or> c \<in> set ''<>&'')" by blast
  then show ?thesis
  proof cases
    case 1
    then show ?thesis by (elim insertE) (simp_all add: quote_ascii_def unquote_escape esc)
  next
    case 2
    then have "quote_ascii c = [CHR 0x5C] @ ''u00'' @ [hex_digit (of_char c div 16), hex_digit (of_char c)]"
      unfolding quote_ascii_def by (simp only: insert_iff if_False if_True de_Morgan_disj simp_thms)
    then show ?thesis using unquote_control [OF assms, of t] by simp
  next
    case 3
    then have "quote_ascii c = [c]"
      unfolding quote_ascii_def by (simp only: insert_iff if_False if_True de_Morgan_disj simp_thms)
    with 3 assms unquote_plain [of c t] show ?thesis by simp
  qed
qed

text \<open>The width of a sequence is settled by its bytes.\<close>

lemma rune_width_le: "rune_width xs \<le> 4"
  by (cases xs) (auto split: list.split)

lemma rune_width_none:
  "\<not> a < 128 \<Longrightarrow> \<not> between 194 223 a \<Longrightarrow> \<not> between 224 239 a \<Longrightarrow> \<not> between 240 244 a \<Longrightarrow> rune_width (a # bs) = 0"
  by (simp only: rune_width.simps if_False)

lemma rune_width_classes:
  "a < 128 \<Longrightarrow> rune_width (a # bs) = 1"
  "between 194 223 a \<Longrightarrow> rune_width (a # bs) = (case bs of b # _ \<Rightarrow> if between 128 191 b then 2 else 0 | _ \<Rightarrow> 0)"
  "between 224 239 a \<Longrightarrow> rune_width (a # bs) = (case bs of b # c # _ \<Rightarrow>
      if between (if a = 224 then 160 else 128) (if a = 237 then 159 else 191) b \<and> between 128 191 c then 3 else 0 | _ \<Rightarrow> 0)"
  "between 240 244 a \<Longrightarrow> rune_width (a # bs) = (case bs of b # c # d # _ \<Rightarrow>
      if between (if a = 240 then 144 else 128) (if a = 244 then 143 else 191) b \<and> between 128 191 c \<and> between 128 191 d
      then 4 else 0 | _ \<Rightarrow> 0)"
  by (simp_all add: between_def)

lemma rune_width_prefix:
  assumes "rune_width xs = Suc w"
  shows "w < length xs \<and> rune_width (take (Suc w) xs @ ys) = Suc w"
proof (cases xs)
  case (Cons a bs)
  note r = assms [unfolded Cons]
  consider "a < 128" | "between 194 223 a" | "between 224 239 a" | "between 240 244 a"
    using rune_width_none [of a bs] r by fastforce
  then show ?thesis
  proof cases
    case 1
    then show ?thesis using r Cons by (simp add: rune_width_classes(1) del: rune_width.simps)
  next
    case 2
    then show ?thesis using r unfolding Cons
      by (cases bs) (auto simp: rune_width_classes(2) simp del: rune_width.simps split: if_splits)
  next
    case 3
    then obtain b c r' where "bs = b # c # r'"
      using r by (auto simp: rune_width_classes(3) simp del: rune_width.simps split: list.splits)
    with 3 r show ?thesis unfolding Cons
      by (simp add: rune_width_classes(3) del: rune_width.simps split: if_split_asm)
  next
    case 4
    then obtain b c d r' where "bs = b # c # d # r'"
      using r by (auto simp: rune_width_classes(4) simp del: rune_width.simps split: list.splits)
    with 4 r show ?thesis unfolding Cons
      by (simp add: rune_width_classes(4) del: rune_width.simps split: if_split_asm)
  qed
qed (use assms in simp)

lemma quote_go_take: "k \<le> length s \<Longrightarrow> quote_go k s = take k s @ quote_go 0 (drop k s)"
proof (induction s arbitrary: k)
  case (Cons c cs)
  then show ?case by (cases k) simp_all
qed simp

lemma unquote_wide:
  assumes "128 \<le> (of_char c :: nat)"
  shows "unquote_from 0 (c # t) =
     (let w = rune_width (map of_char (c # take 3 t)) in
      if w = 0 then map_option ((@) [CHR 0xEF, CHR 0xBF, CHR 0xBD]) (unquote_from 0 t)
      else map_option ((#) c) (unquote_from (w - 1) t))"
proof -
  have "c \<noteq> CHR 0x5C" "c \<noteq> CHR 0x22" using assms by auto
  with assms show ?thesis by (simp add: unquote_from.simps(3) Let_def del: rune_width.simps)
qed

lemma unquote_replacement:
  "unquote_from 0 ([CHR 0x5C] @ ''ufffd'' @ t) = map_option ((@) [CHR 0xEF, CHR 0xBF, CHR 0xBD]) (unquote_from 0 t)"
  "unquote_from 0 ([CHR 0x5C] @ ''u2028'' @ t) = map_option ((@) [CHR 0xE2, CHR 0x80, CHR 0xA8]) (unquote_from 0 t)"
  "unquote_from 0 ([CHR 0x5C] @ ''u2029'' @ t) = map_option ((@) [CHR 0xE2, CHR 0x80, CHR 0xA9]) (unquote_from 0 t)"
proof -
  have h: "hex4 ''fffd'' = Some 65533" "hex4 ''2028'' = Some 8232" "hex4 ''2029'' = Some 8233"
    by (simp_all add: hex4_def hex_value_def Let_def)
  have bytes: "char_of (239 :: nat) = CHR 0xEF" "char_of (191 :: nat) = CHR 0xBF" "char_of (189 :: nat) = CHR 0xBD"
    "char_of (226 :: nat) = CHR 0xE2" "char_of (128 :: nat) = CHR 0x80" "char_of (168 :: nat) = CHR 0xA8"
    "char_of (169 :: nat) = CHR 0xA9" by code_simp+
  have e: "encode_rune 65533 = [CHR 0xEF, CHR 0xBF, CHR 0xBD]" "encode_rune 8232 = [CHR 0xE2, CHR 0x80, CHR 0xA8]"
    "encode_rune 8233 = [CHR 0xE2, CHR 0x80, CHR 0xA9]"
    using bytes by (simp_all add: encode_rune_def between_def)
  show "unquote_from 0 ([CHR 0x5C] @ ''ufffd'' @ t) = map_option ((@) [CHR 0xEF, CHR 0xBF, CHR 0xBD]) (unquote_from 0 t)"
    using unquote_u [OF h(1), of t] e by (simp add: between_def)
  show "unquote_from 0 ([CHR 0x5C] @ ''u2028'' @ t) = map_option ((@) [CHR 0xE2, CHR 0x80, CHR 0xA8]) (unquote_from 0 t)"
    using unquote_u [OF h(2), of t] e by (simp add: between_def)
  show "unquote_from 0 ([CHR 0x5C] @ ''u2029'' @ t) = map_option ((@) [CHR 0xE2, CHR 0x80, CHR 0xA9]) (unquote_from 0 t)"
    using unquote_u [OF h(3), of t] e by (simp add: between_def)
qed

lemma quote_separator:
  "quote_go 0 (CHR 0xE2 # CHR 0x80 # CHR 0xA8 # r) = [CHR 0x5C] @ ''u2028'' @ quote_go 0 r"
  "quote_go 0 (CHR 0xE2 # CHR 0x80 # CHR 0xA9 # r) = [CHR 0x5C] @ ''u2029'' @ quote_go 0 r"
  by (simp_all add: Let_def between_def numeral_eq_Suc)

lemma separator_width:
  "rune_width (map of_char (CHR 0xE2 # take 3 (CHR 0x80 # CHR 0xA8 # r))) = 3"
  "rune_width (map of_char (CHR 0xE2 # take 3 (CHR 0x80 # CHR 0xA9 # r))) = 3"
  by (simp_all add: between_def numeral_eq_Suc)

lemma utf8_separator:
  "utf8_from 0 (CHR 0xE2 # CHR 0x80 # CHR 0xA8 # r) = [CHR 0xE2, CHR 0x80, CHR 0xA8] @ utf8_from 0 r"
  "utf8_from 0 (CHR 0xE2 # CHR 0x80 # CHR 0xA9 # r) = [CHR 0xE2, CHR 0x80, CHR 0xA9] @ utf8_from 0 r"
  by (simp_all add: Let_def between_def numeral_eq_Suc)

text \<open>A string that is written and read back is what \<open>utf8_string\<close> says.\<close>

lemma unquote_quote_go: "unquote_from k (quote_go k s) = Some (utf8_from k s)"
proof (induction k s rule: quote_go.induct)
  case (3 c cs)
  let ?w = "rune_width (map of_char (c # take 3 cs))"
  consider "(of_char c :: nat) < 128" | "128 \<le> (of_char c :: nat)" "?w = 0"
    | r where "c = CHR 0xE2" "cs = CHR 0x80 # CHR 0xA8 # r" | r where "c = CHR 0xE2" "cs = CHR 0x80 # CHR 0xA9 # r"
    | m where "128 \<le> (of_char c :: nat)" "?w = Suc m"
      "\<not> (take 2 cs = [CHR 0x80, CHR 0xA8] \<and> c = CHR 0xE2)" "\<not> (take 2 cs = [CHR 0x80, CHR 0xA9] \<and> c = CHR 0xE2)"
  proof -
    assume narrow: "(of_char c :: nat) < 128 \<Longrightarrow> thesis" and invalid: "128 \<le> (of_char c :: nat) \<Longrightarrow> ?w = 0 \<Longrightarrow> thesis"
      and sep: "\<And>r. c = CHR 0xE2 \<Longrightarrow> cs = CHR 0x80 # CHR 0xA8 # r \<Longrightarrow> thesis"
        "\<And>r. c = CHR 0xE2 \<Longrightarrow> cs = CHR 0x80 # CHR 0xA9 # r \<Longrightarrow> thesis"
      and wide: "\<And>m. 128 \<le> (of_char c :: nat) \<Longrightarrow> ?w = Suc m \<Longrightarrow> \<not> (take 2 cs = [CHR 0x80, CHR 0xA8] \<and> c = CHR 0xE2)
        \<Longrightarrow> \<not> (take 2 cs = [CHR 0x80, CHR 0xA9] \<and> c = CHR 0xE2) \<Longrightarrow> thesis"
    have two: "\<exists>r. cs = a # b # r" if "take 2 cs = [a, b]" for a b
      using that append_take_drop_id [of 2 cs] by (metis append_Cons append_Nil)
    show thesis
      using narrow invalid sep wide two by (cases ?w) (metis not_less)+
  qed
  then show ?case
  proof cases
    case 1
    with "3.IH"(1) show ?thesis by (simp add: unquote_ascii)
  next
    case 2
    with "3.IH"(2) show ?thesis by (simp add: Let_def unquote_replacement [simplified] del: rune_width.simps)
  next
    case 3
    have "unquote_from 0 (quote_go 0 r) = Some (utf8_from 0 r)"
      using "3.IH"(3) [OF _ refl] separator_width(1) [of r] unfolding 3 by simp
    then show ?thesis
      unfolding 3 utf8_separator quote_separator unquote_replacement by simp
  next
    case 4
    have "unquote_from 0 (quote_go 0 r) = Some (utf8_from 0 r)"
      using "3.IH"(4) [OF _ refl] separator_width(2) [of r] unfolding 4 by simp
    then show ?thesis
      unfolding 4 utf8_separator quote_separator unquote_replacement by simp
  next
    case (5 m)
    note w = rune_width_prefix [OF 5(2)]
    have "m < length (map (of_char :: char \<Rightarrow> nat) (c # take 3 cs))" using w by blast
    then have m: "m \<le> length cs" by simp
    have "Suc m \<le> 4" using rune_width_le [of "map of_char (c # take 3 cs)"] unfolding 5(2) .
    then have m3: "m \<le> 3" by simp
    let ?q = "quote_go m cs"
    have q: "quote_go 0 (c # cs) = c # ?q"
      using 5 by (simp add: Let_def del: rune_width.simps)
    have t: "map of_char (c # take 3 ?q) = take (Suc m) (map of_char (c # take 3 cs)) @ map (of_char :: char \<Rightarrow> nat) (take (3 - m) (quote_go 0 (drop m cs)))"
      using m m3 by (simp add: quote_go_take [OF m] take_map min_def)
    have "rune_width (map of_char (c # take 3 ?q)) = Suc m" unfolding t using w by blast
    then have "unquote_from 0 (c # ?q) = map_option ((#) c) (unquote_from m ?q)"
      unfolding unquote_wide [OF 5(1)] by (simp add: Let_def)
    with "3.IH" 5 show ?thesis unfolding q by (simp add: Let_def del: rune_width.simps)
  qed
qed simp_all

lemma unquote_quote:
  "\<exists>t. quote_json s = [CHR 0x22] @ t @ [CHR 0x22] \<and> unquote_from 0 t = Some (utf8_string s)"
  using unquote_quote_go [of 0 s] by (auto simp: quote_json_def utf8_string_def)

end
