(* ===== verification/Audit_Wire.thy ===== *)
theory Audit_Wire
  imports Audit_Event Go_JSON_Text
begin

text \<open>
  The JSON form of an audit event, in both directions: what \<open>json.Marshal\<close> makes of it (the
  struct tags of \<open>event.go\<close> and \<open>token_evidence.go\<close>), as a value and as a text, and what the strict
  decoder of the audit collector reads. \<open>format_time\<close> and \<open>parse_time\<close> are the RFC 3339 text of
  \<open>time.Time\<close>, which \<open>MarshalJSON\<close> refuses outside the years 0 to 9999. The value of an event
  holds its strings as they are; its text does not keep invalid UTF-8, and \<open>utf8_event\<close> is
  the event that is read from it.
\<close>

section \<open>Encoding\<close>

text \<open>The text of a value.\<close>

fun json_text :: "json \<Rightarrow> string" where
  "json_text JNull = ''null''"
| "json_text (JBool b) = (if b then ''true'' else ''false'')"
| "json_text (JNum n) = n"
| "json_text (JStr s) = quote_json s"
| "json_text (JArr vs) = ''['' @ join '','' (map json_text vs) @ '']''"
| "json_text (JObj ms) = object_text (map (\<lambda>(k, v). (k, json_text v)) ms)"

definition strings_json :: "string list \<Rightarrow> json" where
  "strings_json vs = (if vs = [] then JNull else JArr (map JStr vs))"

text \<open>Members under \<open>omitempty\<close>.\<close>

definition opt_string :: "string \<Rightarrow> string \<Rightarrow> (string \<times> json) list" where
  "opt_string k v = (if v = [] then [] else [(k, JStr v)])"

definition opt_int :: "string \<Rightarrow> int \<Rightarrow> (string \<times> json) list" where
  "opt_int k n = (if n = 0 then [] else [(k, JNum (int_digits n))])"

definition evidence_json :: "(time \<Rightarrow> string option) \<Rightarrow> token_evidence \<Rightarrow> json option" where
  "evidence_json format_time e =
     (case (format_time (ev_issued_at e), format_time (ev_expires_at e)) of
        (Some iat, Some exp) \<Rightarrow> Some (JObj
          ([(''kind'', JStr (ev_kind e)), (''fingerprint'', JStr (ev_fingerprint e)),
            (''issuer'', JStr (ev_issuer e)), (''audience'', strings_json (ev_audience e)),
            (''scope'', strings_json (ev_scope e)), (''jwt_id'', JStr (ev_jwt_id e))]
           @ opt_string ''agent_instance_id'' (ev_agent_instance_id e)
           @ [(''issued_at'', JStr iat), (''expires_at'', JStr exp)]))
      | _ \<Rightarrow> None)"

definition event_members :: "string \<Rightarrow> json option \<Rightarrow> event \<Rightarrow> (string \<times> json) list" where
  "event_members ts tok e =
     [(''type'', JStr (evt_type e)), (''timestamp'', JStr ts)]
     @ opt_string ''transaction_id'' (evt_transaction_id e) @ opt_string ''user_id'' (evt_user_id e)
     @ opt_string ''agent_id'' (evt_agent_id e)
     @ opt_string ''transaction_workload_id'' (evt_transaction_workload_id e)
     @ opt_string ''immediate_caller_spiffe_id'' (evt_immediate_caller e)
     @ opt_string ''target'' (evt_target e) @ opt_string ''decision'' (evt_decision e)
     @ opt_string ''reason_code'' (evt_reason_code e)
     @ opt_string ''protocol_method'' (evt_protocol_method e) @ opt_string ''tool'' (evt_tool e)
     @ opt_string ''purpose'' (evt_purpose e) @ opt_int ''response_status'' (evt_response_status e)
     @ opt_string ''result_type'' (evt_result_type e) @ opt_int ''duration_ms'' (evt_duration_millis e)
     @ (case tok of None \<Rightarrow> [] | Some t \<Rightarrow> [(''verified_transaction_token'', t)])"

definition event_json :: "(time \<Rightarrow> string option) \<Rightarrow> event \<Rightarrow> json option" where
  "event_json format_time e =
     (case format_time (evt_timestamp e) of
        None \<Rightarrow> None
      | Some ts \<Rightarrow>
          (case evt_token e of
             None \<Rightarrow> Some (JObj (event_members ts None e))
           | Some t \<Rightarrow> map_option (\<lambda>j. JObj (event_members ts (Some j) e)) (evidence_json format_time t)))"

section \<open>Decoding\<close>

definition time_field ::
  "(string \<Rightarrow> time option) \<Rightarrow> string \<Rightarrow> (time \<Rightarrow> 'r \<Rightarrow> 'r) \<Rightarrow> 'r field" where
  "time_field parse_time name put_it =
     (name, \<lambda>j r. case j of
          JStr s \<Rightarrow> map_option (\<lambda>t. put_it t r) (parse_time s)
        | JNull \<Rightarrow> Some r | _ \<Rightarrow> None)"

definition evidence_wire_fields :: "(string \<Rightarrow> time option) \<Rightarrow> token_evidence field list" where
  "evidence_wire_fields parse_time =
     [string_field ''kind'' (\<lambda>s r. r\<lparr>ev_kind := s\<rparr>),
      string_field ''fingerprint'' (\<lambda>s r. r\<lparr>ev_fingerprint := s\<rparr>),
      string_field ''issuer'' (\<lambda>s r. r\<lparr>ev_issuer := s\<rparr>),
      strings_field ''audience'' ev_audience (\<lambda>s r. r\<lparr>ev_audience := s\<rparr>),
      strings_field ''scope'' ev_scope (\<lambda>s r. r\<lparr>ev_scope := s\<rparr>),
      string_field ''jwt_id'' (\<lambda>s r. r\<lparr>ev_jwt_id := s\<rparr>),
      string_field ''agent_instance_id'' (\<lambda>s r. r\<lparr>ev_agent_instance_id := s\<rparr>),
      time_field parse_time ''issued_at'' (\<lambda>t r. r\<lparr>ev_issued_at := t\<rparr>),
      time_field parse_time ''expires_at'' (\<lambda>t r. r\<lparr>ev_expires_at := t\<rparr>)]"

definition blank_evidence :: token_evidence where
  "blank_evidence =
     \<lparr>ev_kind = [], ev_fingerprint = [], ev_issuer = [], ev_audience = [], ev_scope = [],
      ev_jwt_id = [], ev_agent_instance_id = [], ev_issued_at = 0, ev_expires_at = 0\<rparr>"

definition event_wire_fields :: "(string \<Rightarrow> time option) \<Rightarrow> event field list" where
  "event_wire_fields parse_time =
     [string_field ''type'' (\<lambda>s r. r\<lparr>evt_type := s\<rparr>),
      time_field parse_time ''timestamp'' (\<lambda>t r. r\<lparr>evt_timestamp := t\<rparr>),
      string_field ''transaction_id'' (\<lambda>s r. r\<lparr>evt_transaction_id := s\<rparr>),
      string_field ''user_id'' (\<lambda>s r. r\<lparr>evt_user_id := s\<rparr>),
      string_field ''agent_id'' (\<lambda>s r. r\<lparr>evt_agent_id := s\<rparr>),
      string_field ''transaction_workload_id'' (\<lambda>s r. r\<lparr>evt_transaction_workload_id := s\<rparr>),
      string_field ''immediate_caller_spiffe_id'' (\<lambda>s r. r\<lparr>evt_immediate_caller := s\<rparr>),
      string_field ''target'' (\<lambda>s r. r\<lparr>evt_target := s\<rparr>),
      string_field ''decision'' (\<lambda>s r. r\<lparr>evt_decision := s\<rparr>),
      string_field ''reason_code'' (\<lambda>s r. r\<lparr>evt_reason_code := s\<rparr>),
      string_field ''protocol_method'' (\<lambda>s r. r\<lparr>evt_protocol_method := s\<rparr>),
      string_field ''tool'' (\<lambda>s r. r\<lparr>evt_tool := s\<rparr>),
      string_field ''purpose'' (\<lambda>s r. r\<lparr>evt_purpose := s\<rparr>),
      int_field ''response_status'' (\<lambda>n r. r\<lparr>evt_response_status := n\<rparr>),
      string_field ''result_type'' (\<lambda>s r. r\<lparr>evt_result_type := s\<rparr>),
      int_field ''duration_ms'' (\<lambda>n r. r\<lparr>evt_duration_millis := n\<rparr>),
      pointer_field ''verified_transaction_token'' (decode_struct (evidence_wire_fields parse_time) True)
        blank_evidence evt_token (\<lambda>p r. r\<lparr>evt_token := p\<rparr>)]"

text \<open>The collector's strict decoding of a body: unknown fields and trailing values are refused.\<close>

definition decode_event :: "(string \<Rightarrow> time option) \<Rightarrow> jtoken list \<Rightarrow> event option" where
  "decode_event parse_time ts =
     Option.bind (decode_all ts) (\<lambda>j. decode_struct (event_wire_fields parse_time) True j blank_event)"

section \<open>The round trip\<close>

text \<open>A key that is its own folded form names exactly the field of that name.\<close>

lemma decode_members_Cons:
  assumes "list_all (\<lambda>(n, _). fold_view n = n) fs" "fold_view k = k"
  shows "decode_members fs strict ((k, v) # ms) r =
     (case map_of fs k of
        None \<Rightarrow> if strict then None else decode_members fs strict ms r
      | Some f \<Rightarrow> Option.bind (f v r) (decode_members fs strict ms))"
proof -
  have "find (\<lambda>(n, _). equal_fold k n) fs = map_option (\<lambda>f. (k, f)) (map_of fs k)"
    using assms by (induction fs) (auto simp: equal_fold_def)
  then show ?thesis by (auto split: option.split)
qed

lemma event_names_folded: "list_all (\<lambda>(n, _). fold_view n = n) (event_wire_fields pt)"
proof -
  have "list_all (\<lambda>n. fold_view n = n) (map fst (event_wire_fields (\<lambda>_. None)))" by code_simp
  moreover have "map fst (event_wire_fields pt) = map fst (event_wire_fields (\<lambda>_. None))"
    by (simp add: event_wire_fields_def string_field_def int_field_def time_field_def pointer_field_def)
  ultimately have "list_all (\<lambda>n. fold_view n = n) (map fst (event_wire_fields pt))" by simp
  then show ?thesis by (simp add: list_all_iff case_prod_beta)
qed


lemma evidence_names_folded: "list_all (\<lambda>(n, _). fold_view n = n) (evidence_wire_fields pt)"
proof -
  have "list_all (\<lambda>n. fold_view n = n) (map fst (evidence_wire_fields (\<lambda>_. None)))" by code_simp
  moreover have "map fst (evidence_wire_fields pt) = map fst (evidence_wire_fields (\<lambda>_. None))"
    by (simp add: evidence_wire_fields_def string_field_def strings_field_def time_field_def)
  ultimately have "list_all (\<lambda>n. fold_view n = n) (map fst (evidence_wire_fields pt))" by simp
  then show ?thesis by (simp add: list_all_iff case_prod_beta)
qed

lemma folded_keys:
  "fold_view ''kind'' = ''kind''"
  "fold_view ''fingerprint'' = ''fingerprint''"
  "fold_view ''issuer'' = ''issuer''"
  "fold_view ''audience'' = ''audience''"
  "fold_view ''scope'' = ''scope''"
  "fold_view ''jwt_id'' = ''jwt_id''"
  "fold_view ''agent_instance_id'' = ''agent_instance_id''"
  "fold_view ''issued_at'' = ''issued_at''"
  "fold_view ''expires_at'' = ''expires_at''"
  "fold_view ''type'' = ''type''"
  "fold_view ''timestamp'' = ''timestamp''"
  "fold_view ''transaction_id'' = ''transaction_id''"
  "fold_view ''user_id'' = ''user_id''"
  "fold_view ''agent_id'' = ''agent_id''"
  "fold_view ''transaction_workload_id'' = ''transaction_workload_id''"
  "fold_view ''immediate_caller_spiffe_id'' = ''immediate_caller_spiffe_id''"
  "fold_view ''target'' = ''target''"
  "fold_view ''decision'' = ''decision''"
  "fold_view ''reason_code'' = ''reason_code''"
  "fold_view ''protocol_method'' = ''protocol_method''"
  "fold_view ''tool'' = ''tool''"
  "fold_view ''purpose'' = ''purpose''"
  "fold_view ''response_status'' = ''response_status''"
  "fold_view ''result_type'' = ''result_type''"
  "fold_view ''duration_ms'' = ''duration_ms''"
  "fold_view ''verified_transaction_token'' = ''verified_transaction_token''"
  by code_simp+

declare fold_view.simps [simp del] decode_members.simps(2) [simp del]

lemma decode_string_member:
  assumes "list_all (\<lambda>(n, _). fold_view n = n) fs" "fold_view k = k"
    and "map_of fs k = Some (snd (string_field k put_it))"
  shows "decode_members fs strict ((k, JStr v) # ms) r = decode_members fs strict ms (put_it v r)"
  using assms by (simp add: decode_members_Cons string_field_def)

lemma decode_opt_string:
  assumes "list_all (\<lambda>(n, _). fold_view n = n) fs" "fold_view k = k"
    and "map_of fs k = Some (snd (string_field k put_it))" and "put_it [] r = r"
  shows "decode_members fs strict (opt_string k v @ ms) r = decode_members fs strict ms (put_it v r)"
  using assms by (simp add: opt_string_def decode_string_member)

text \<open>Decimal digits, and back.\<close>

lemma nat_digits_digit: "c \<in> set (nat_digits n) \<Longrightarrow> 48 \<le> (of_char c :: nat) \<and> of_char c \<le> (57 :: nat)"
proof (induction n rule: nat_digits.induct)
  case (1 n)
  then show ?case
    by (cases "n < 10") (auto simp: nat_digits.simps [of n])
qed

lemma nat_digits_nonempty: "nat_digits n \<noteq> []"
  by (subst nat_digits.simps) simp

lemma digits_value_nat: "digits_value (nat_digits n) = int n"
proof (induction n rule: nat_digits.induct)
  case (1 n)
  show ?case
  proof (cases "n < 10")
    case True
    then show ?thesis by (simp add: nat_digits.simps [of n] digits_value_def)
  next
    case False
    with 1 have "digits_value (nat_digits (n div 10)) = int (n div 10)" by simp
    moreover have "10 * int (n div 10) + int (n mod 10) = int n" by presburger
    ultimately show ?thesis
      using False by (simp add: nat_digits.simps [of n] digits_value_def)
  qed
qed

definition all_digits :: "string \<Rightarrow> bool" where
  "all_digits ds = list_all (\<lambda>c. 48 \<le> (of_char c :: nat) \<and> of_char c \<le> (57 :: nat)) ds"

lemma parse_int64_minus:
  "parse_int64 (CHR ''-'' # ds) =
     (if ds = [] \<or> \<not> all_digits ds \<or> \<not> is_int64 (- digits_value ds) then None else Some (- digits_value ds))"
  by (simp add: parse_int64_def all_digits_def)

lemma parse_int64_plain:
  "c \<noteq> CHR ''-'' \<Longrightarrow> parse_int64 (c # ds) =
     (if \<not> all_digits (c # ds) \<or> \<not> is_int64 (digits_value (c # ds)) then None else Some (digits_value (c # ds)))"
  by (auto simp: parse_int64_def all_digits_def Let_def)

lemma all_digits_nat: "all_digits (nat_digits k)"
  using nat_digits_digit by (simp add: all_digits_def list_all_iff)

lemma parse_int_digits: "is_int64 n \<Longrightarrow> parse_int64 (int_digits n) = Some n"
proof (cases "n < 0")
  case True
  assume "is_int64 n"
  with True show ?thesis
    by (simp add: int_digits_def parse_int64_minus nat_digits_nonempty all_digits_nat digits_value_nat)
next
  case False
  assume r: "is_int64 n"
  obtain c cs where d: "nat_digits (nat n) = c # cs"
    using nat_digits_nonempty [of "nat n"] by (cases "nat_digits (nat n)") auto
  then have "48 \<le> (of_char c :: nat)" using nat_digits_digit [of c "nat n"] by simp
  then have "c \<noteq> CHR ''-''" by auto
  then show ?thesis
    using False r all_digits_nat [of "nat n"] digits_value_nat [of "nat n"]
    by (simp add: int_digits_def d parse_int64_plain)
qed

lemma decode_opt_int:
  assumes "list_all (\<lambda>(n, _). fold_view n = n) fs" "fold_view k = k"
    and "map_of fs k = Some (snd (int_field k put_it))" and "put_it 0 r = r" and "is_int64 n"
  shows "decode_members fs strict (opt_int k n @ ms) r = decode_members fs strict ms (put_it n r)"
  using assms by (simp add: opt_int_def decode_members_Cons int_field_def parse_int_digits)

lemma field_values [simp]:
  "snd (string_field k put_it) (JStr v) r = Some (put_it v r)"
  "snd (time_field pt k put_it2) (JStr v) r = map_option (\<lambda>t. put_it2 t r) (pt v)"
  "snd (strings_field k get put_it3) (strings_json vs) r = Some (put_it3 vs r)"
  "get4 r = None \<Longrightarrow> snd (pointer_field k dec zero get4 put_it4) (JObj ms) r
     = map_option (\<lambda>x. put_it4 (Some x) r) (dec (JObj ms) zero)"
  by (simp_all add: string_field_def time_field_def strings_field_def strings_json_def pointer_field_def)

lemma evidence_lookup:
  "map_of (evidence_wire_fields pt) ''kind'' = Some (snd (string_field ''kind'' (\<lambda>s r. r\<lparr>ev_kind := s\<rparr>)))"
  "map_of (evidence_wire_fields pt) ''fingerprint'' = Some (snd (string_field ''fingerprint'' (\<lambda>s r. r\<lparr>ev_fingerprint := s\<rparr>)))"
  "map_of (evidence_wire_fields pt) ''issuer'' = Some (snd (string_field ''issuer'' (\<lambda>s r. r\<lparr>ev_issuer := s\<rparr>)))"
  "map_of (evidence_wire_fields pt) ''audience'' = Some (snd (strings_field ''audience'' ev_audience (\<lambda>s r. r\<lparr>ev_audience := s\<rparr>)))"
  "map_of (evidence_wire_fields pt) ''scope'' = Some (snd (strings_field ''scope'' ev_scope (\<lambda>s r. r\<lparr>ev_scope := s\<rparr>)))"
  "map_of (evidence_wire_fields pt) ''jwt_id'' = Some (snd (string_field ''jwt_id'' (\<lambda>s r. r\<lparr>ev_jwt_id := s\<rparr>)))"
  "map_of (evidence_wire_fields pt) ''agent_instance_id'' = Some (snd (string_field ''agent_instance_id'' (\<lambda>s r. r\<lparr>ev_agent_instance_id := s\<rparr>)))"
  "map_of (evidence_wire_fields pt) ''issued_at'' = Some (snd (time_field pt ''issued_at'' (\<lambda>t r. r\<lparr>ev_issued_at := t\<rparr>)))"
  "map_of (evidence_wire_fields pt) ''expires_at'' = Some (snd (time_field pt ''expires_at'' (\<lambda>t r. r\<lparr>ev_expires_at := t\<rparr>)))"
  by (simp_all add: evidence_wire_fields_def string_field_def strings_field_def int_field_def time_field_def pointer_field_def)

lemma event_lookup:
  "map_of (event_wire_fields pt) ''type'' = Some (snd (string_field ''type'' (\<lambda>s r. r\<lparr>evt_type := s\<rparr>)))"
  "map_of (event_wire_fields pt) ''timestamp'' = Some (snd (time_field pt ''timestamp'' (\<lambda>t r. r\<lparr>evt_timestamp := t\<rparr>)))"
  "map_of (event_wire_fields pt) ''transaction_id'' = Some (snd (string_field ''transaction_id'' (\<lambda>s r. r\<lparr>evt_transaction_id := s\<rparr>)))"
  "map_of (event_wire_fields pt) ''user_id'' = Some (snd (string_field ''user_id'' (\<lambda>s r. r\<lparr>evt_user_id := s\<rparr>)))"
  "map_of (event_wire_fields pt) ''agent_id'' = Some (snd (string_field ''agent_id'' (\<lambda>s r. r\<lparr>evt_agent_id := s\<rparr>)))"
  "map_of (event_wire_fields pt) ''transaction_workload_id'' = Some (snd (string_field ''transaction_workload_id'' (\<lambda>s r. r\<lparr>evt_transaction_workload_id := s\<rparr>)))"
  "map_of (event_wire_fields pt) ''immediate_caller_spiffe_id'' = Some (snd (string_field ''immediate_caller_spiffe_id'' (\<lambda>s r. r\<lparr>evt_immediate_caller := s\<rparr>)))"
  "map_of (event_wire_fields pt) ''target'' = Some (snd (string_field ''target'' (\<lambda>s r. r\<lparr>evt_target := s\<rparr>)))"
  "map_of (event_wire_fields pt) ''decision'' = Some (snd (string_field ''decision'' (\<lambda>s r. r\<lparr>evt_decision := s\<rparr>)))"
  "map_of (event_wire_fields pt) ''reason_code'' = Some (snd (string_field ''reason_code'' (\<lambda>s r. r\<lparr>evt_reason_code := s\<rparr>)))"
  "map_of (event_wire_fields pt) ''protocol_method'' = Some (snd (string_field ''protocol_method'' (\<lambda>s r. r\<lparr>evt_protocol_method := s\<rparr>)))"
  "map_of (event_wire_fields pt) ''tool'' = Some (snd (string_field ''tool'' (\<lambda>s r. r\<lparr>evt_tool := s\<rparr>)))"
  "map_of (event_wire_fields pt) ''purpose'' = Some (snd (string_field ''purpose'' (\<lambda>s r. r\<lparr>evt_purpose := s\<rparr>)))"
  "map_of (event_wire_fields pt) ''response_status'' = Some (snd (int_field ''response_status'' (\<lambda>n r. r\<lparr>evt_response_status := n\<rparr>)))"
  "map_of (event_wire_fields pt) ''result_type'' = Some (snd (string_field ''result_type'' (\<lambda>s r. r\<lparr>evt_result_type := s\<rparr>)))"
  "map_of (event_wire_fields pt) ''duration_ms'' = Some (snd (int_field ''duration_ms'' (\<lambda>n r. r\<lparr>evt_duration_millis := n\<rparr>)))"
  "map_of (event_wire_fields pt) ''verified_transaction_token'' = Some (snd (pointer_field ''verified_transaction_token'' (decode_struct (evidence_wire_fields pt) True) blank_evidence evt_token (\<lambda>p r. r\<lparr>evt_token := p\<rparr>)))"
  by (simp_all add: event_wire_fields_def string_field_def strings_field_def int_field_def time_field_def pointer_field_def)

lemma evidence_round_trip:
  assumes "evidence_json ft e = Some j" and "\<And>t s. ft t = Some s \<Longrightarrow> pt s = Some t"
  shows "decode_struct (evidence_wire_fields pt) True j blank_evidence = Some e" and "\<exists>ms. j = JObj ms"
proof -
  obtain iat exp where t: "ft (ev_issued_at e) = Some iat" "ft (ev_expires_at e) = Some exp"
    using assms(1) by (auto simp: evidence_json_def split: option.splits)
  have pt: "pt iat = Some (ev_issued_at e)" "pt exp = Some (ev_expires_at e)"
    using t assms(2) by blast+
  note step = decode_members_Cons [OF evidence_names_folded]
    and opt = decode_opt_string [OF evidence_names_folded folded_keys(7) evidence_lookup(7)]
  show "decode_struct (evidence_wire_fields pt) True j blank_evidence = Some e"
    using assms(1) t pt
    by (auto simp: evidence_json_def decode_struct_def step opt folded_keys evidence_lookup blank_evidence_def)
  show "\<exists>ms. j = JObj ms" using assms(1) t by (auto simp: evidence_json_def)
qed

text \<open>What the collector decodes from the JSON of an event is the event.\<close>

lemma event_members_decode:
  assumes "pt ts = Some (evt_timestamp e)" "is_int64 (evt_response_status e)" "is_int64 (evt_duration_millis e)"
    and "case tok of None \<Rightarrow> evt_token e = None
      | Some j \<Rightarrow> \<exists>x ms. evt_token e = Some x \<and> j = JObj ms
          \<and> decode_struct (evidence_wire_fields pt) True j blank_evidence = Some x"
  shows "decode_members (event_wire_fields pt) True (event_members ts tok e) blank_event = Some e"
proof -
  note step = decode_members_Cons [OF event_names_folded]
    and opt = decode_opt_string [OF event_names_folded]
    and num = decode_opt_int [OF event_names_folded]
  show ?thesis
    using assms
    by (auto simp: event_members_def step folded_keys event_lookup blank_event_def
        opt [OF folded_keys(12) event_lookup(3)] opt [OF folded_keys(13) event_lookup(4)]
        opt [OF folded_keys(14) event_lookup(5)] opt [OF folded_keys(15) event_lookup(6)]
        opt [OF folded_keys(16) event_lookup(7)] opt [OF folded_keys(17) event_lookup(8)]
        opt [OF folded_keys(18) event_lookup(9)] opt [OF folded_keys(19) event_lookup(10)]
        opt [OF folded_keys(20) event_lookup(11)] opt [OF folded_keys(21) event_lookup(12)]
        opt [OF folded_keys(22) event_lookup(13)] num [OF folded_keys(23) event_lookup(14)]
        opt [OF folded_keys(24) event_lookup(15)] num [OF folded_keys(25) event_lookup(16)]
        split: option.splits)
qed

lemma event_round_trip:
  assumes "event_json ft e = Some j" "\<And>t s. ft t = Some s \<Longrightarrow> pt s = Some t"
    and "is_int64 (evt_response_status e)" "is_int64 (evt_duration_millis e)"
  shows "decode_event pt (tokens_of j) = Some e"
proof -
  from assms(1) obtain ts where ts: "ft (evt_timestamp e) = Some ts"
    by (auto simp: event_json_def split: option.splits)
  then have pt: "pt ts = Some (evt_timestamp e)" by (rule assms(2))
  obtain tok where j: "j = JObj (event_members ts tok e)"
    and tok: "case tok of None \<Rightarrow> evt_token e = None
      | Some j \<Rightarrow> \<exists>x ms. evt_token e = Some x \<and> j = JObj ms
          \<and> decode_struct (evidence_wire_fields pt) True j blank_evidence = Some x"
  proof (cases "evt_token e")
    case None
    with assms(1) ts that [of None] show ?thesis by (simp add: event_json_def)
  next
    case (Some x)
    with assms(1) ts obtain k where "evidence_json ft x = Some k" "j = JObj (event_members ts (Some k) e)"
      by (auto simp: event_json_def)
    with evidence_round_trip [OF _ assms(2)] that [of "Some k"] Some show ?thesis by force
  qed
  show ?thesis
    using event_members_decode [OF pt assms(3,4) tok]
    by (simp add: decode_event_def j decode_struct_def del: tokens_of.simps)
qed

section \<open>What the text keeps of an event\<close>

text \<open>The event with its strings as they are read back from the text.\<close>

definition utf8_evidence :: "token_evidence \<Rightarrow> token_evidence" where
  "utf8_evidence e =
     e\<lparr>ev_kind := utf8_string (ev_kind e), ev_fingerprint := utf8_string (ev_fingerprint e),
       ev_issuer := utf8_string (ev_issuer e), ev_audience := map utf8_string (ev_audience e),
       ev_scope := map utf8_string (ev_scope e), ev_jwt_id := utf8_string (ev_jwt_id e),
       ev_agent_instance_id := utf8_string (ev_agent_instance_id e)\<rparr>"

definition utf8_event :: "event \<Rightarrow> event" where
  "utf8_event e =
     e\<lparr>evt_type := utf8_string (evt_type e), evt_transaction_id := utf8_string (evt_transaction_id e),
       evt_user_id := utf8_string (evt_user_id e), evt_agent_id := utf8_string (evt_agent_id e),
       evt_transaction_workload_id := utf8_string (evt_transaction_workload_id e),
       evt_immediate_caller := utf8_string (evt_immediate_caller e), evt_target := utf8_string (evt_target e),
       evt_decision := utf8_string (evt_decision e), evt_reason_code := utf8_string (evt_reason_code e),
       evt_protocol_method := utf8_string (evt_protocol_method e), evt_tool := utf8_string (evt_tool e),
       evt_purpose := utf8_string (evt_purpose e), evt_result_type := utf8_string (evt_result_type e),
       evt_token := map_option utf8_evidence (evt_token e)\<rparr>"

lemma utf8_keys:
  "list_all is_ascii
     [''kind'', ''fingerprint'', ''issuer'', ''audience'', ''scope'', ''jwt_id'', ''agent_instance_id'',
      ''issued_at'', ''expires_at'', ''type'', ''timestamp'', ''transaction_id'', ''user_id'', ''agent_id'',
      ''transaction_workload_id'', ''immediate_caller_spiffe_id'', ''target'', ''decision'', ''reason_code'',
      ''protocol_method'', ''tool'', ''purpose'', ''response_status'', ''result_type'', ''duration_ms'',
      ''verified_transaction_token'']"
  by code_simp

lemma utf8_opt_string:
  "is_ascii k \<Longrightarrow> map (\<lambda>(k, v). (utf8_string k, utf8_json v)) (opt_string k v) = opt_string k (utf8_string v)"
  by (simp add: opt_string_def)

lemma utf8_opt_int:
  "is_ascii k \<Longrightarrow> map (\<lambda>(k, v). (utf8_string k, utf8_json v)) (opt_int k n) = opt_int k n"
  by (simp add: opt_int_def)

lemma utf8_strings: "utf8_json (strings_json vs) = strings_json (map utf8_string vs)"
  by (simp add: strings_json_def comp_def)

lemma utf8_evidence_json:
  assumes "evidence_json ft e = Some j" "\<And>t s. ft t = Some s \<Longrightarrow> is_ascii s"
  shows "evidence_json ft (utf8_evidence e) = Some (utf8_json j)"
  using assms utf8_keys
  by (auto simp: evidence_json_def utf8_evidence_def utf8_opt_string utf8_strings split: option.splits)

lemma utf8_event_members:
  assumes "is_ascii ts"
  shows "map (\<lambda>(k, v). (utf8_string k, utf8_json v)) (event_members ts tok e)
     = event_members ts (map_option utf8_json tok) (utf8_event e)"
  using assms utf8_keys
  by (simp add: event_members_def utf8_event_def utf8_opt_string utf8_opt_int split: option.split)

lemma utf8_event_json:
  assumes "event_json ft e = Some j" "\<And>t s. ft t = Some s \<Longrightarrow> is_ascii s"
  shows "event_json ft (utf8_event e) = Some (utf8_json j)"
proof -
  from assms(1) obtain ts where ts: "ft (evt_timestamp e) = Some ts"
    by (auto simp: event_json_def split: option.splits)
  note a = assms(2) [OF ts]
  have t: "evt_timestamp (utf8_event e) = evt_timestamp e" "evt_token (utf8_event e) = map_option utf8_evidence (evt_token e)"
    by (simp_all add: utf8_event_def)
  show ?thesis
  proof (cases "evt_token e")
    case None
    with assms(1) ts show ?thesis by (auto simp: event_json_def t utf8_event_members [OF a])
  next
    case (Some x)
    with assms(1) ts obtain k where k: "evidence_json ft x = Some k" "j = JObj (event_members ts (Some k) e)"
      by (auto simp: event_json_def)
    with Some ts utf8_evidence_json [OF k(1) assms(2)] show ?thesis
      by (simp add: event_json_def t utf8_event_members [OF a])
  qed
qed

lemma utf8_strings_id: "map utf8_string vs = vs \<longleftrightarrow> list_all utf8_valid vs"
  by (induction vs) (auto simp: utf8_string_id)

lemma utf8_evidence_id: "utf8_evidence e = e \<longleftrightarrow> list_all utf8_valid (evidence_fields e)"
proof -
  have "utf8_valid []" by (simp add: utf8_valid_def)
  then show ?thesis
    by (cases e) (auto simp: utf8_evidence_def evidence_fields_def utf8_string_id utf8_strings_id)
qed

lemma utf8_event_id: "utf8_event e = e \<longleftrightarrow> list_all utf8_valid (all_event_fields e)"
proof -
  have "utf8_event e = e \<longleftrightarrow> list_all utf8_valid (event_fields e) \<and> map_option utf8_evidence (evt_token e) = evt_token e"
    by (cases e) (auto simp: utf8_event_def event_fields_def utf8_string_id)
  then show ?thesis by (cases "evt_token e") (simp_all add: all_event_fields_def utf8_evidence_id)
qed

section \<open>Properties\<close>

text \<open>
  C13. The wire form of an event keeps everything but invalid UTF-8. For every event a sink may send,
  and a lexer that reads the text \<open>Marshal\<close> makes of it, the strict decoder of the collector gives
  back the event, omitted empty fields, the token evidence and its lists included, with the bytes EF
  BF BD in place of every byte of a string that belongs to no valid UTF-8 sequence; so it gives back
  the very event exactly when all its strings, those of the evidence included, are valid UTF-8.
\<close>
theorem event_wire_round_trip:
  assumes "validate_event e = None" and "event_json format_time e = Some j"
    and "lexer (json_text j) = tokens_of (utf8_json j)"
    and "\<And>t s. format_time t = Some s \<Longrightarrow> parse_time s = Some t \<and> is_ascii s"
  shows "decode_event parse_time (lexer (json_text j)) = Some (utf8_event e)
    \<and> (decode_event parse_time (lexer (json_text j)) = Some e \<longleftrightarrow> list_all utf8_valid (all_event_fields e))"
proof -
  have "is_int64 (evt_response_status (utf8_event e))" "is_int64 (evt_duration_millis (utf8_event e))"
    using assms(1)
    by (auto simp: utf8_event_def guards event_wf_def valid_outcome_def is_int64_def int64_min_def int64_max_def)
  with event_round_trip [OF utf8_event_json [OF assms(2)], of parse_time] assms(4)
  have "decode_event parse_time (lexer (json_text j)) = Some (utf8_event e)"
    unfolding assms(3) by blast
  then show ?thesis by (simp add: utf8_event_id)
qed

text \<open>An event whose tool is not valid UTF-8, with token evidence.\<close>

definition sample_wire_event :: event where
  "sample_wire_event =
     blank_event\<lparr>evt_type := downstream_request, evt_tool := [CHR ''l'', CHR 0xFF, CHR 0xC3, CHR 0xA9],
       evt_response_status := 200,
       evt_token := Some sample_evidence\<rparr>"

definition sample_format :: "time \<Rightarrow> string option" where
  "sample_format t = (if t = 0 then Some ''0'' else if t = 1 then Some ''1'' else if t = 2 then Some ''2'' else None)"

definition sample_parse :: "string \<Rightarrow> time option" where
  "sample_parse s = (if s = ''0'' then Some 0 else if s = ''1'' then Some 1 else if s = ''2'' then Some 2 else None)"

lemma sample_parse_format: "sample_format t = Some s \<Longrightarrow> sample_parse s = Some t"
  by (auto simp: sample_format_def sample_parse_def split: if_splits)

definition sample_lexer :: "string \<Rightarrow> jtoken list" where
  "sample_lexer text =
     (let j = the (event_json sample_format sample_wire_event)
      in if text = json_text j then tokens_of (utf8_json j) else [TErr])"

theorem event_wire_round_trip_witness:
  "decode_event sample_parse (sample_lexer (json_text (the (event_json sample_format sample_wire_event))))
     = Some (sample_wire_event\<lparr>evt_tool := [CHR ''l'', CHR 0xEF, CHR 0xBF, CHR 0xBD, CHR 0xC3, CHR 0xA9]\<rparr>)"
proof -
  let ?j = "the (event_json sample_format sample_wire_event)"
  have v: "validate_event sample_wire_event = None" by code_simp
  have "event_json sample_format sample_wire_event \<noteq> None" by code_simp
  then have j: "event_json sample_format sample_wire_event = Some ?j" by simp
  have l: "sample_lexer (json_text ?j) = tokens_of (utf8_json ?j)" by (simp add: sample_lexer_def Let_def)
  have t: "sample_parse s = Some t \<and> is_ascii s" if "sample_format t = Some s" for t s
    using that by (auto simp: sample_format_def sample_parse_def is_ascii_def split: if_splits)
  have u: "utf8_event sample_wire_event
      = sample_wire_event\<lparr>evt_tool := [CHR ''l'', CHR 0xEF, CHR 0xBF, CHR 0xBD, CHR 0xC3, CHR 0xA9]\<rparr>" by code_simp
  from event_wire_round_trip [where lexer = sample_lexer, OF v j l t] show ?thesis unfolding u by blast
qed

end
