(* ===== verification/Go_URL.thy ===== *)
theory Go_URL
  imports Go_HTTP
begin

text \<open>
  \<open>net/url\<close>: \<open>url.Parse\<close> and the \<open>URL\<close> fields the program reads. The host of an IP literal
  (a host with a bracket in it) is left to the parameter \<open>ip_literal\<close>, which returns the host
  or \<open>None\<close> for an error; everything else is computed.
\<close>

record url =
  url_scheme :: string
  url_opaque :: string
  url_user :: bool \<comment> \<open>whether \<open>User\<close> is not nil\<close>
  url_host :: string
  url_path :: string
  url_raw_query :: string
  url_fragment :: string

definition empty_url :: url where
  "empty_url = \<lparr>url_scheme = [], url_opaque = [], url_user = False, url_host = [],
     url_path = [], url_raw_query = [], url_fragment = []\<rparr>"

text \<open>\<open>strings.Cut\<close> at a byte: the part before, the part after, whether it was found.\<close>

fun cut :: "char \<Rightarrow> string \<Rightarrow> string \<times> string \<times> bool" where
  "cut d [] = ([], [], False)"
| "cut d (c # cs) =
     (if c = d then ([], cs, True) else case cut d cs of (a, b, f) \<Rightarrow> (c # a, b, f))"

definition is_letter :: "char \<Rightarrow> bool" where
  "is_letter c = (let n = of_char c :: nat in (65 \<le> n \<and> n \<le> 90) \<or> (97 \<le> n \<and> n \<le> 122))"

definition is_digit :: "char \<Rightarrow> bool" where
  "is_digit c = (let n = of_char c :: nat in 48 \<le> n \<and> n \<le> 57)"

definition ctl_byte :: "char \<Rightarrow> bool" where
  "ctl_byte c = (let n = of_char c :: nat in n < 32 \<or> n = 127)"

text \<open>\<open>getScheme\<close>: \<open>None\<close> is the error; \<open>seen\<close> is what precedes, reversed.\<close>

fun get_scheme_go :: "string \<Rightarrow> string \<Rightarrow> string \<Rightarrow> (string \<times> string) option" where
  "get_scheme_go raw seen [] = Some ([], raw)"
| "get_scheme_go raw seen (c # cs) =
     (if is_letter c then get_scheme_go raw (c # seen) cs
      else if is_digit c \<or> c \<in> set ''+-.'' then
        (if seen = [] then Some ([], raw) else get_scheme_go raw (c # seen) cs)
      else if c = CHR '':'' then (if seen = [] then None else Some (rev seen, cs))
      else Some ([], raw))"

definition get_scheme :: "string \<Rightarrow> (string \<times> string) option" where
  "get_scheme raw = get_scheme_go raw [] raw"

section \<open>Unescaping\<close>

datatype unescape_mode = EncodePath | EncodeHost | EncodeUserPassword | EncodeFragment

definition hex_value :: "char \<Rightarrow> nat option" where
  "hex_value c =
     (let n = of_char c :: nat in
      if 48 \<le> n \<and> n \<le> 57 then Some (n - 48)
      else if 65 \<le> n \<and> n \<le> 70 then Some (n - 55)
      else if 97 \<le> n \<and> n \<le> 102 then Some (n - 87) else None)"

definition host_byte :: "char \<Rightarrow> bool" where
  "host_byte c =
     (128 \<le> (of_char c :: nat) \<or> is_alnum c \<or> c \<in> set ''!$&()*+,;=:[]<>-_.~'' \<or> c = CHR 0x27
      \<or> c = CHR 0x22)"

fun unescape :: "unescape_mode \<Rightarrow> string \<Rightarrow> string option" where
  "unescape m [] = Some []"
| "unescape m (c # cs) =
     (if c = CHR ''%'' then
        (case cs of
           h # l # r \<Rightarrow>
             (case (hex_value h, hex_value l) of
                (Some x, Some y) \<Rightarrow>
                  if m = EncodeHost \<and> x < 8 \<and> \<not> (x = 2 \<and> y = 5) then None
                  else map_option (Cons (char_of (16 * x + y))) (unescape m r)
              | _ \<Rightarrow> None)
         | _ \<Rightarrow> None)
      else if m = EncodeHost \<and> \<not> host_byte c then None
      else map_option (Cons c) (unescape m cs))"

section \<open>Authority\<close>

definition valid_optional_port :: "string \<Rightarrow> bool" where
  "valid_optional_port p =
     (case p of [] \<Rightarrow> True | c # ds \<Rightarrow> c = CHR '':'' \<and> list_all is_digit ds)"

definition valid_userinfo_byte :: "char \<Rightarrow> bool" where
  "valid_userinfo_byte c = (is_alnum c \<or> c \<in> set ''-._:~!$&()*+,;=%@'' \<or> c = CHR 0x27)"

text \<open>The string before and after the last occurrence of a byte, if there is one.\<close>

definition cut_last :: "char \<Rightarrow> string \<Rightarrow> (string \<times> string) option" where
  "cut_last d s =
     (case cut d (rev s) of (a, b, f) \<Rightarrow> if f then Some (rev b, rev a) else None)"

definition parse_host :: "(string \<Rightarrow> string option) \<Rightarrow> string \<Rightarrow> string option" where
  "parse_host ip_literal host =
     (if CHR ''['' \<in> set host then ip_literal host
      else if (case cut_last (CHR '':'') host of
                 None \<Rightarrow> False | Some (_, port) \<Rightarrow> \<not> valid_optional_port (CHR '':'' # port))
      then None
      else unescape EncodeHost host)"

definition parse_authority :: "(string \<Rightarrow> string option) \<Rightarrow> string \<Rightarrow> (bool \<times> string) option" where
  "parse_authority ip_literal authority =
     (case cut_last (CHR ''@'') authority of
        None \<Rightarrow> map_option (Pair False) (parse_host ip_literal authority)
      | Some (userinfo, host) \<Rightarrow>
          (case parse_host ip_literal host of
             None \<Rightarrow> None
           | Some h \<Rightarrow>
               if \<not> list_all valid_userinfo_byte userinfo then None
               else if unescape EncodeUserPassword userinfo = None then None
               else Some (True, h)))"

section \<open>\<open>url.Parse\<close>\<close>

definition parse_no_fragment :: "(string \<Rightarrow> string option) \<Rightarrow> string \<Rightarrow> url option" where
  "parse_no_fragment ip_literal raw =
     (if list_ex ctl_byte raw then None
      else if raw = ''*'' then Some (empty_url\<lparr>url_path := ''*''\<rparr>)
      else case get_scheme raw of
        None \<Rightarrow> None
      | Some (sch, rest0) \<Rightarrow>
          (let scheme = map lower_char sch;
               (rest, query) =
                 (if suffix ''?'' rest0 \<and> count_byte rest0 (CHR ''?'') = 1
                  then (butlast rest0, [])
                  else case cut (CHR ''?'') rest0 of (a, q, _) \<Rightarrow> (a, q));
               u = empty_url\<lparr>url_scheme := scheme, url_raw_query := query\<rparr>
           in if \<not> has_prefix rest ''/'' \<and> scheme \<noteq> [] then Some (u\<lparr>url_opaque := rest\<rparr>)
              else if \<not> has_prefix rest ''/'' \<and> CHR '':'' \<in> set (fst (cut (CHR ''/'') rest)) then None
              else if (scheme \<noteq> [] \<or> \<not> has_prefix rest ''///'') \<and> has_prefix rest ''//'' then
                (let body = drop 2 rest;
                     authority = fst (cut (CHR ''/'') body);
                     path = drop (length authority) body
                 in case parse_authority ip_literal authority of
                      None \<Rightarrow> None
                    | Some (user, host) \<Rightarrow>
                        map_option (\<lambda>p. u\<lparr>url_user := user, url_host := host, url_path := p\<rparr>)
                          (unescape EncodePath path))
              else map_option (\<lambda>p. u\<lparr>url_path := p\<rparr>) (unescape EncodePath rest)))"

definition url_parse :: "(string \<Rightarrow> string option) \<Rightarrow> string \<Rightarrow> url option" where
  "url_parse ip_literal raw =
     (case cut (CHR ''#'') raw of
        (main, frag, _) \<Rightarrow>
          (case parse_no_fragment ip_literal main of
             None \<Rightarrow> None
           | Some u \<Rightarrow>
               if frag = [] then Some u
               else map_option (\<lambda>f. u\<lparr>url_fragment := f\<rparr>) (unescape EncodeFragment frag)))"

section \<open>The program's URL checks\<close>

text \<open>
  Nearly every constructor asks for an absolute HTTPS URL without query; the stricter ones
  also refuse user information and a fragment.
\<close>

definition https_endpoint :: "url \<Rightarrow> bool" where
  "https_endpoint u = (url_scheme u = ''https'' \<and> url_host u \<noteq> [] \<and> url_raw_query u = [])"

definition https_endpoint_no_fragment :: "url \<Rightarrow> bool" where
  "https_endpoint_no_fragment u = (https_endpoint u \<and> url_fragment u = [])"

definition bare_https_endpoint :: "url \<Rightarrow> bool" where
  "bare_https_endpoint u = (https_endpoint_no_fragment u \<and> \<not> url_user u)"

lemma url_parse_no_hash:
  "url_parse ip raw = Some u \<Longrightarrow> CHR ''#'' \<notin> set raw \<Longrightarrow> url_fragment u = []"
proof -
  have cut_id: "d \<notin> set s \<Longrightarrow> cut d s = (s, [], False)" for d and s :: string
    by (induction s) auto
  assume "url_parse ip raw = Some u" "CHR ''#'' \<notin> set raw"
  then have p: "parse_no_fragment ip raw = Some u"
    by (auto simp: url_parse_def cut_id split: option.splits)
  have "url_fragment empty_url = []" by (simp add: empty_url_def)
  with p show ?thesis
    by (auto simp: parse_no_fragment_def Let_def split: if_splits option.splits prod.splits)
qed

end
