(* ===== verification/Audit_Sinks.thy ===== *)
theory Audit_Sinks
  imports Audit_Wire Go_URL
begin

text \<open>
  Audit sinks (\<open>pkg/audit/event.go\<close>, \<open>fanout.go\<close>, \<open>remote.go\<close>). A sink is a function on the world
  \<open>'w\<close> it writes to: the error it returns and the world after. What it promises to its callers
  is the locale \<open>audit_sink\<close>; \<open>required_sinks\<close> is the same for a list of sinks that share a
  world, and gives the contract of their fan-out.
\<close>

type_synonym 'w sink = "event \<Rightarrow> 'w \<Rightarrow> audit_error option \<times> 'w"

section \<open>The interface\<close>

text \<open>
  \<open>recorded e w\<close>: the sink's log in \<open>w\<close> has the event. A write that returns \<open>nil\<close> has recorded a
  valid event, and no write removes what is recorded.
\<close>

locale audit_sink =
  fixes sink :: "'w sink" and recorded :: "event \<Rightarrow> 'w \<Rightarrow> bool"
  assumes written: "sink e w = (None, w') \<Longrightarrow> recorded e w'"
    and only_valid: "sink e w = (None, w') \<Longrightarrow> validate_event e = None"
    and kept: "sink e w = (r, w') \<Longrightarrow> recorded x w \<Longrightarrow> recorded x w'"
begin

lemma invalid_refused: "validate_event e \<noteq> None \<Longrightarrow> fst (sink e w) \<noteq> None"
  by (cases "sink e w"; cases "fst (sink e w)") (auto dest: only_valid)

lemma two_writes:
  "sink e w = (None, w') \<Longrightarrow> sink x w' = (None, w'') \<Longrightarrow> recorded e w'' \<and> recorded x w''"
  using written kept by blast

end

section \<open>The JSON sink\<close>

text \<open>\<open>encode\<close> is the encoder's \<open>Encode\<close> on the writer behind it; \<open>now\<close> the clock.\<close>

definition json_sink_write :: "'w sink \<Rightarrow> time \<Rightarrow> 'w sink" where
  "json_sink_write encode now e w =
     (case validate_event e of
        Some err \<Rightarrow> (Some err, w)
      | None \<Rightarrow> encode (if is_zero (evt_timestamp e) then e\<lparr>evt_timestamp := now\<rparr> else e) w)"

section \<open>The fan-out\<close>

text \<open>\<open>NewFanout\<close>: \<open>None\<close> is a nil sink.\<close>

definition new_fanout :: "'w sink option list \<Rightarrow> audit_error + 'w sink list" where
  "new_fanout sinks =
     (if length sinks = 0 then Inl SinkUnavailable
      else if list_ex (\<lambda>s. s = None) sinks then Inl SinkUnavailable
      else Inr (map the sinks))"

fun fanout_write :: "'w sink list \<Rightarrow> 'w sink" where
  "fanout_write [] e w = (None, w)"
| "fanout_write (s # ss) e w =
     (case s e w of
        (Some _, w') \<Rightarrow> (Some SinkUnavailable, w')
      | (None, w') \<Rightarrow> fanout_write ss e w')"

locale required_sinks =
  fixes sinks :: "('w sink \<times> (event \<Rightarrow> 'w \<Rightarrow> bool)) list"
  assumes some_sink: "sinks \<noteq> []"
    and each: "(s, r) \<in> set sinks \<Longrightarrow> audit_sink s r"
    and apart: "(s, r) \<in> set sinks \<Longrightarrow> (s', r') \<in> set sinks \<Longrightarrow>
      s e w = (res, w') \<Longrightarrow> r' x w \<Longrightarrow> r' x w'"
begin

lemma fanout_kept:
  "set ts \<subseteq> set sinks \<Longrightarrow> fanout_write (map fst ts) e w = (res, w') \<Longrightarrow>
     (s', r') \<in> set sinks \<Longrightarrow> r' x w \<Longrightarrow> r' x w'"
proof (induction ts arbitrary: w)
  case Nil
  then show ?case by simp
next
  case (Cons t ts)
  obtain s r where t: "t = (s, r)" by (cases t)
  obtain res1 w1 where s: "s e w = (res1, w1)" by (cases "s e w")
  with Cons.prems t have "r' x w1" using apart by fastforce
  with Cons t s show ?case by (auto split: option.splits)
qed

lemma fanout_written:
  "set ts \<subseteq> set sinks \<Longrightarrow> fanout_write (map fst ts) e w = (None, w') \<Longrightarrow>
     (s, r) \<in> set ts \<Longrightarrow> r e w' \<and> validate_event e = None"
proof (induction ts arbitrary: w)
  case Nil
  then show ?case by simp
next
  case (Cons t ts)
  obtain s1 r1 where t: "t = (s1, r1)" by (cases t)
  obtain res1 w1 where s1: "s1 e w = (res1, w1)" by (cases "s1 e w")
  with Cons.prems t have n: "s1 e w = (None, w1)" and f: "fanout_write (map fst ts) e w1 = (None, w')"
    by (auto split: option.splits)
  from Cons.prems t have in1: "(s1, r1) \<in> set sinks" by simp
  show ?case
  proof (cases "(s, r) = (s1, r1)")
    case True
    have "audit_sink s1 r1" by (rule each [OF in1])
    with n have "r1 e w1" "validate_event e = None"
      by (auto dest: audit_sink.written audit_sink.only_valid)
    with True Cons.prems(1) t f in1 fanout_kept [OF _ f in1] show ?thesis by simp
  next
    case False
    with Cons t f show ?thesis by auto
  qed
qed

end

sublocale required_sinks \<subseteq> fan: audit_sink "fanout_write (map fst sinks)" "\<lambda>e w. \<forall>(s, r) \<in> set sinks. r e w"
proof
  show "fanout_write (map fst sinks) e w = (None, w') \<Longrightarrow> \<forall>(s, r) \<in> set sinks. r e w'" for e w w'
    using fanout_written [of sinks e w w'] by blast
  show "fanout_write (map fst sinks) e w = (None, w') \<Longrightarrow> validate_event e = None" for e w w'
    using fanout_written [of sinks e w w'] some_sink by (cases sinks) fastforce+
  show "fanout_write (map fst sinks) e w = (r, w') \<Longrightarrow> \<forall>(s, r) \<in> set sinks. r x w
      \<Longrightarrow> \<forall>(s, r) \<in> set sinks. r x w'" for e w r w' x
    using fanout_kept [of sinks e w r w'] by blast
qed

section \<open>The remote sink and its queries\<close>

datatype remote_error =
  InvalidRemoteConfiguration | RemoteUserRequired | RemoteUnavailable | RemoteRejected
  | InvalidRemoteResponse | RemoteMissing

record remote =
  remote_endpoint :: url
  remote_max_response :: int

text \<open>The client is given by its timeout; \<open>None\<close> is a nil client.\<close>

definition new_remote ::
  "(string \<Rightarrow> string option) \<Rightarrow> string \<Rightarrow> duration option \<Rightarrow> int \<Rightarrow> remote_error + remote" where
  "new_remote ip_literal endpoint client maximum =
     (case url_parse ip_literal (trim_space endpoint) of
        None \<Rightarrow> Inl InvalidRemoteConfiguration
      | Some u \<Rightarrow>
          if \<not> bare_https_endpoint u \<or> (case client of None \<Rightarrow> True | Some timeout \<Rightarrow> timeout \<le> 0)
             \<or> maximum \<le> 0
          then Inl InvalidRemoteConfiguration
          else Inr \<lparr>remote_endpoint = u\<lparr>url_path := trim_suffix (url_path u) ''/'' @ ''/v1/events''\<rparr>,
                    remote_max_response = maximum\<rparr>)"

text \<open>
  \<open>Remote.Write\<close>. \<open>post\<close> sends a body to the endpoint (a request that cannot be made or sent gives
  \<open>None\<close>, otherwise the status of the answer).
\<close>

definition remote_write ::
  "(time \<Rightarrow> string option) \<Rightarrow> (string \<Rightarrow> 'w \<Rightarrow> nat option \<times> 'w) \<Rightarrow> 'w sink" where
  "remote_write format_time post e w =
     (case validate_event e of
        Some err \<Rightarrow> (Some err, w)
      | None \<Rightarrow>
          (case event_json format_time e of
             None \<Rightarrow> (Some SinkUnavailable, w)
           | Some j \<Rightarrow>
               (case post (json_text j) w of
                  (None, w') \<Rightarrow> (Some SinkUnavailable, w')
                | (Some status, w') \<Rightarrow>
                    if status \<noteq> 201 then (Some SinkUnavailable, w') else (None, w'))))"

text \<open>
  \<open>Remote.query\<close>: \<open>fetch\<close> answers a GET of the given identifier path for the given user with a
  status and a body; \<open>unmarshal\<close> decodes the body into the target.
\<close>

definition remote_query ::
  "remote \<Rightarrow> (string list \<Rightarrow> string \<Rightarrow> (nat \<times> string) option) \<Rightarrow> (string \<Rightarrow> 'r option)
    \<Rightarrow> string list \<Rightarrow> string \<Rightarrow> remote_error + 'r" where
  "remote_query r fetch unmarshal ids user =
     (if blank user \<or> trim_space user \<noteq> user then Inl RemoteUserRequired
      else case fetch ids user of
        None \<Rightarrow> Inl RemoteUnavailable
      | Some (status, body) \<Rightarrow>
          if status = 404 then Inl RemoteMissing
          else if status \<noteq> 200 then Inl RemoteRejected
          else if int (length (take (nat (remote_max_response r + 1)) body)) > remote_max_response r
          then Inl InvalidRemoteResponse
          else (case unmarshal (take (nat (remote_max_response r + 1)) body) of
                  None \<Rightarrow> Inl InvalidRemoteResponse
                | Some x \<Rightarrow> Inr x))"

definition remote_list where
  "remote_list r fetch unmarshal user = remote_query r fetch unmarshal [] user"

definition remote_get where
  "remote_get r fetch unmarshal user i =
     (if blank i \<or> CHR ''/'' \<in> set i then Inl RemoteMissing
      else remote_query r fetch unmarshal [i] user)"

end
