(* ===== verification/Audit_Store.thy ===== *)
theory Audit_Store
  imports Audit_Event
begin

text \<open>
  The in-memory audit store (\<open>pkg/audit/store.go\<close>): bounded, with a retention period, listed and
  read per user. \<open>now\<close> is what the configured clock returns at the call. The mutex makes each
  operation one step of the state.
\<close>

section \<open>Records and state\<close>

record audit_record =
  rec_id :: string
  rec_sequence :: int
  rec_timestamp :: time
  rec_transaction_id :: string
  rec_user_id :: string
  rec_event_type :: string
  rec_target :: string
  rec_decision :: string
  rec_reason_code :: string
  rec_agent_id :: string
  rec_transaction_workload_id :: string
  rec_immediate_caller :: string
  rec_submitting_spiffe_id :: string
  rec_protocol_method :: string
  rec_tool :: string
  rec_purpose :: string
  rec_response_status :: int
  rec_result_type :: string
  rec_duration_millis :: int
  rec_token :: "token_evidence option"

record store_config =
  sc_maximum_records :: int
  sc_maximum_field_bytes :: int
  sc_retention :: duration

record store =
  st_config :: store_config
  st_records :: "audit_record list"
  st_sequence :: int \<comment> \<open>a \<open>uint64\<close>\<close>

text \<open>\<open>uint64\<close> arithmetic wraps.\<close>

definition uint64 :: "int \<Rightarrow> int" where
  "uint64 n = n mod 18446744073709551616"

definition day :: duration where
  "day = 86400 * second"

definition new_store :: "store_config \<Rightarrow> audit_error + store" where
  "new_store c =
     (if sc_maximum_records c \<le> 0 \<or> sc_maximum_records c > 100000
         \<or> sc_maximum_field_bytes c \<le> 0 \<or> sc_maximum_field_bytes c > event_field_bytes
         \<or> sc_retention c \<le> 0 \<or> sc_retention c > day
      then Inl ErrInvalidRecord
      else Inr \<lparr>st_config = c, st_records = [], st_sequence = 0\<rparr>)"

section \<open>Operations\<close>

definition required_fields :: "audit_record \<Rightarrow> string list" where
  "required_fields r =
     [rec_id r, rec_transaction_id r, rec_user_id r, rec_event_type r, rec_submitting_spiffe_id r]"

definition record_fields :: "audit_record \<Rightarrow> string list" where
  "record_fields r =
     [rec_id r, rec_transaction_id r, rec_user_id r, rec_event_type r, rec_target r, rec_decision r,
      rec_reason_code r, rec_agent_id r, rec_transaction_workload_id r, rec_immediate_caller r,
      rec_submitting_spiffe_id r, rec_protocol_method r, rec_tool r, rec_purpose r, rec_result_type r]"

definition validate_record :: "store \<Rightarrow> audit_record \<Rightarrow> audit_error option" where
  "validate_record s r =
     (if list_ex blank (required_fields r) then Some ErrInvalidRecord
      else if \<not> valid_outcome (rec_event_type r) (rec_response_status r) (rec_duration_millis r) (rec_decision r)
      then Some ErrInvalidRecord
      else if list_ex (\<lambda>v. int (length v) > sc_maximum_field_bytes (st_config s) \<or> credential_shaped v) (record_fields r)
      then Some ErrInvalidRecord
      else if validate_token_evidence (rec_token r) (sc_maximum_field_bytes (st_config s)) \<noteq> None
      then Some ErrInvalidRecord
      else None)"

text \<open>\<open>purgeLocked\<close>: the leading records whose timestamp is before the cutoff go.\<close>

definition purge :: "time \<Rightarrow> store \<Rightarrow> store" where
  "purge now s =
     (let cutoff = now + (- sc_retention (st_config s))
      in s\<lparr>st_records := dropWhile (\<lambda>r. rec_timestamp r < cutoff) (st_records s)\<rparr>)"

definition store_add :: "time \<Rightarrow> audit_record \<Rightarrow> store \<Rightarrow> (audit_error + audit_record) \<times> store" where
  "store_add now r s =
     (case validate_record s r of
        Some e \<Rightarrow> (Inl e, s)
      | None \<Rightarrow>
          let s1 = purge now s in
          if list_ex (\<lambda>old. rec_id old = rec_id r) (st_records s1) then (Inl ErrInvalidRecord, s1)
          else
            let n = uint64 (st_sequence s1 + 1);
                r1 = r\<lparr>rec_sequence := n, rec_timestamp := now\<rparr>;
                rs = st_records s1
            in (Inr r1,
                s1\<lparr>st_sequence := n,
                   st_records :=
                     (if int (length rs) = sc_maximum_records (st_config s) then tl rs @ [r1]
                      else rs @ [r1])\<rparr>))"

definition list_by_user :: "time \<Rightarrow> string \<Rightarrow> store \<Rightarrow> audit_record list \<times> store" where
  "list_by_user now user s =
     (let s1 = purge now s in (filter (\<lambda>r. rec_user_id r = user) (st_records s1), s1))"

definition get_by_user ::
  "time \<Rightarrow> string \<Rightarrow> string \<Rightarrow> store \<Rightarrow> (audit_error + audit_record) \<times> store" where
  "get_by_user now user i s =
     (let s1 = purge now s in
      ((case find (\<lambda>r. rec_id r = i \<and> rec_user_id r = user) (st_records s1) of
          None \<Rightarrow> Inl ErrRecordMissing
        | Some r \<Rightarrow> Inr r), s1))"

section \<open>Runs of the store\<close>

text \<open>
  What a run has done: the operations applied to a fresh store at clock readings that do not go
  back. \<open>t\<close> is the last reading, \<open>log\<close> the accepted records in order.
\<close>

inductive store_run :: "store_config \<Rightarrow> time \<Rightarrow> audit_record list \<Rightarrow> store \<Rightarrow> bool" for c where
  fresh: "new_store c = Inr s \<Longrightarrow> store_run c t [] s"
| added: "store_run c t log s \<Longrightarrow> t \<le> now \<Longrightarrow> store_add now r s = (Inr r', s') \<Longrightarrow>
    store_run c now (log @ [r']) s'"
| invalid: "store_run c t log s \<Longrightarrow> validate_record s r \<noteq> None \<Longrightarrow> store_add now r s = (Inl e, s') \<Longrightarrow>
    store_run c t log s'"
| duplicate: "store_run c t log s \<Longrightarrow> t \<le> now \<Longrightarrow> validate_record s r = None \<Longrightarrow>
    store_add now r s = (Inl e, s') \<Longrightarrow> store_run c now log s'"
| listed: "store_run c t log s \<Longrightarrow> t \<le> now \<Longrightarrow> list_by_user now u s = (rs, s') \<Longrightarrow> store_run c now log s'"
| read: "store_run c t log s \<Longrightarrow> t \<le> now \<Longrightarrow> get_by_user now u i s = (r, s') \<Longrightarrow> store_run c now log s'"

inductive_cases store_run_cases: "store_run c t log s"

section \<open>What the store holds\<close>

text \<open>The last \<open>n\<close> of the log, and the records still within the retention period at \<open>t\<close>.\<close>

definition last_n :: "int \<Rightarrow> 'a list \<Rightarrow> 'a list" where
  "last_n n xs = drop (length xs - nat n) xs"

definition retained :: "store_config \<Rightarrow> time \<Rightarrow> audit_record \<Rightarrow> bool" where
  "retained c t r = (t - sc_retention c \<le> rec_timestamp r)"

definition store_inv :: "store_config \<Rightarrow> time \<Rightarrow> audit_record list \<Rightarrow> store \<Rightarrow> bool" where
  "store_inv c t log s \<longleftrightarrow>
     st_config s = c \<and> 0 < sc_maximum_records c \<and> 0 < sc_retention c
     \<and> sorted_wrt (\<lambda>a b. rec_timestamp a \<le> rec_timestamp b) log
     \<and> (\<forall>r \<in> set log. rec_timestamp r \<le> t)
     \<and> st_records s = filter (retained c t) (last_n (sc_maximum_records c) log)
     \<and> st_sequence s = uint64 (int (length log))
     \<and> map rec_sequence log = map (\<lambda>i. uint64 (int (Suc i))) [0..<length log]
     \<and> distinct (map rec_id (st_records s))
     \<and> (\<forall>r \<in> set log. validate_record s r = None)"

lemma length_last_n: "length (last_n n xs) = min (length xs) (nat n)"
  by (simp add: last_n_def)

lemma last_n_snoc:
  "0 < n \<Longrightarrow> last_n n (xs @ [x]) =
     (if nat n \<le> length xs then tl (last_n n xs) @ [x] else last_n n xs @ [x])"
  by (cases "nat n") (auto simp: last_n_def tl_drop drop_Suc [symmetric] Suc_diff_Suc)

lemma sorted_last_n: "sorted_wrt R xs \<Longrightarrow> sorted_wrt R (last_n n xs)"
  by (simp add: last_n_def sorted_wrt_drop)

lemma set_last_n: "x \<in> set (last_n n xs) \<Longrightarrow> x \<in> set xs"
  by (auto simp: last_n_def dest: in_set_dropD)

lemma purge_config [simp]: "st_config (purge now s) = st_config s" "st_sequence (purge now s) = st_sequence s"
  by (simp_all add: purge_def)

lemma validate_record_config: "st_config s = st_config s' \<Longrightarrow> validate_record s r = validate_record s' r"
  by (simp add: validate_record_def)

lemma purge_inv:
  assumes "store_inv c t log s" "t \<le> now"
  shows "store_inv c now log (purge now s)"
proof -
  have "dropWhile (\<lambda>r. rec_timestamp r < now - sc_retention c) (st_records s)
    = filter (\<lambda>r. \<not> rec_timestamp r < now - sc_retention c) (st_records s)"
  proof (rule dropWhile_eq_filter_mono)
    have "sorted_wrt (\<lambda>a b. rec_timestamp a \<le> rec_timestamp b) (st_records s)"
      using assms(1) by (auto simp: store_inv_def intro: sorted_wrt_filter sorted_last_n)
    then show "sorted_wrt (\<lambda>a b. rec_timestamp b < now - sc_retention c \<longrightarrow> rec_timestamp a < now - sc_retention c) (st_records s)"
      by (rule sorted_wrt_mono_rel [rotated]) auto
  qed
  moreover have "filter (\<lambda>r. \<not> rec_timestamp r < now - sc_retention c) (filter (retained c t) xs) = filter (retained c now) xs" for xs
    using assms(2) by (auto simp: retained_def intro: filter_cong)
  ultimately have recs: "st_records (purge now s) = filter (retained c now) (last_n (sc_maximum_records c) log)"
    using assms(1) by (simp add: store_inv_def purge_def)
  have v: "validate_record (purge now s) r = validate_record s r" for r
    by (rule validate_record_config) simp
  have d: "distinct (map rec_id (st_records (purge now s)))"
  proof -
    have "distinct (map rec_id (st_records s))" using assms(1) unfolding store_inv_def by blast
    then show ?thesis by (simp add: purge_def Let_def distinct_map_dropWhile)
  qed
  show ?thesis
    using assms unfolding store_inv_def recs [symmetric] v purge_config
    by (intro conjI) (use d in \<open>auto intro: order_trans\<close>)
qed

lemma store_add_Inr:
  assumes "store_add now r s = (Inr r', s')"
  shows "validate_record s r = None" "rec_id r \<notin> rec_id ` set (st_records (purge now s))"
    "r' = r\<lparr>rec_sequence := uint64 (st_sequence s + 1), rec_timestamp := now\<rparr>"
    "s' = (purge now s)\<lparr>st_sequence := uint64 (st_sequence s + 1),
       st_records := (if int (length (st_records (purge now s))) = sc_maximum_records (st_config s)
         then tl (st_records (purge now s)) @ [r'] else st_records (purge now s) @ [r'])\<rparr>"
  using assms by (auto simp: store_add_def Let_def list_ex_iff split: option.splits if_splits)

lemma uint64_step: "uint64 (uint64 (int n) + 1) = uint64 (1 + int n)"
  by (simp add: uint64_def mod_simps add.commute)

lemma uint64_small: "n < 2 ^ 64 \<Longrightarrow> uint64 (int n) = int n"
  by (simp add: uint64_def)

lemma validate_record_stamp [simp]:
  "validate_record s (r\<lparr>rec_sequence := n, rec_timestamp := t\<rparr>) = validate_record s r"
  by (simp add: validate_record_def required_fields_def record_fields_def)

text \<open>Appending a record to the log and to the retained window agree.\<close>

lemma window_snoc:
  assumes "sorted_wrt (\<lambda>a b. rec_timestamp a \<le> rec_timestamp b) log" and n: "0 < n"
    and "retained c t r"
  shows "filter (retained c t) (last_n n (log @ [r])) =
     (let w = filter (retained c t) (last_n n log) in
      if int (length w) = n then tl w @ [r] else w @ [r])"
proof -
  let ?w = "last_n n log" and ?P = "retained c t"
  show ?thesis
  proof (cases "nat n \<le> length log")
    case False
    then have "length ?w < nat n" by (simp add: length_last_n)
    then have "int (length (filter ?P ?w)) \<noteq> n"
      using length_filter_le [of ?P ?w] n by linarith
    with False n assms(3) show ?thesis by (simp add: last_n_snoc)
  next
    case True
    then have l: "length ?w = nat n" by (simp add: length_last_n)
    with n obtain x xs where w: "?w = x # xs" by (cases ?w) auto
    have s: "\<forall>y \<in> set xs. rec_timestamp x \<le> rec_timestamp y"
      using sorted_last_n [OF assms(1), of n] by (simp add: w)
    show ?thesis
    proof (cases "?P x")
      case True
      with s have "filter ?P xs = xs" by (auto simp: filter_id_conv retained_def)
      with True l w n assms(3) \<open>nat n \<le> length log\<close> show ?thesis by (simp add: last_n_snoc)
    next
      case False
      have "length (filter ?P xs) < nat n" using l w length_filter_le [of ?P xs] by (simp del: length_filter_le)
      then have "int (length (filter ?P xs)) \<noteq> n" using n by linarith
      with False w n assms(3) \<open>nat n \<le> length log\<close> show ?thesis by (simp add: last_n_snoc Let_def)
    qed
  qed
qed

lemma added_inv:
  assumes inv: "store_inv c t log s" and t: "t \<le> now" and add: "store_add now r s = (Inr r', s')"
  shows "store_inv c now (log @ [r']) s'"
proof -
  note p = purge_inv [OF inv t] and a = store_add_Inr [OF add]
  have c: "st_config s = c" "0 < sc_maximum_records c" "0 < sc_retention c"
    using inv by (simp_all add: store_inv_def)
  have r': "rec_timestamp r' = now" "rec_id r' = rec_id r" "validate_record s r' = None"
    using a(1,3) by simp_all
  have ret: "retained c now r'" using c(3) r'(1) by (simp add: retained_def)
  have w: "st_records (purge now s) = filter (retained c now) (last_n (sc_maximum_records c) log)"
    using p by (simp add: store_inv_def)
  have recs: "st_records s' = filter (retained c now) (last_n (sc_maximum_records c) (log @ [r']))"
    using p a(4) c by (simp add: window_snoc [OF _ c(2) ret] store_inv_def Let_def w)
  have "distinct (map rec_id (tl (st_records (purge now s)) @ [r']))"
    "distinct (map rec_id (st_records (purge now s) @ [r']))"
  proof -
    have "distinct (map rec_id (st_records (purge now s)))" using p unfolding store_inv_def by blast
    then show "distinct (map rec_id (tl (st_records (purge now s)) @ [r']))"
      "distinct (map rec_id (st_records (purge now s) @ [r']))"
      using a(2) r'(2) by (cases "st_records (purge now s)"; auto)+
  qed
  then have d: "distinct (map rec_id (st_records s'))" by (simp add: a(4))
  have v: "validate_record s' x = validate_record s x" for x
    by (rule validate_record_config) (simp add: a(4))
  have sq: "st_sequence s' = uint64 (int (Suc (length log)))" "rec_sequence r' = uint64 (int (Suc (length log)))"
    using inv a(3,4) by (simp_all add: store_inv_def uint64_step)
  show ?thesis
    unfolding store_inv_def
  proof (intro conjI)
    show "st_config s' = c" using c a(4) by simp
    show "sorted_wrt (\<lambda>a b. rec_timestamp a \<le> rec_timestamp b) (log @ [r'])"
      using p r'(1) by (simp add: sorted_wrt_snoc store_inv_def)
    show "\<forall>x \<in> set (log @ [r']). rec_timestamp x \<le> now"
      using p r'(1) by (simp add: store_inv_def)
    show "\<forall>x \<in> set (log @ [r']). validate_record s' x = None"
      using inv r'(3) by (simp add: store_inv_def v)
    show "map rec_sequence (log @ [r']) = map (\<lambda>i. uint64 (int (Suc i))) [0..<length (log @ [r'])]"
      using inv sq(2) by (simp add: store_inv_def)
  qed (use c recs d sq in simp_all)
qed

lemma store_run_inv: "store_run c t log s \<Longrightarrow> store_inv c t log s"
proof (induction rule: store_run.induct)
  case (fresh s t)
  then show ?case by (auto simp: store_inv_def new_store_def last_n_def uint64_def split: if_splits)
next
  case (added t log s now r r' s')
  then show ?case by (blast intro: added_inv)
next
  case (invalid t log s r now e s')
  then show ?case by (auto simp: store_add_def)
next
  case (duplicate t log s now r e s')
  then have "s' = purge now s" by (auto simp: store_add_def Let_def split: if_splits)
  with duplicate purge_inv show ?case by blast
next
  case (listed t log s now u rs s')
  then have "s' = purge now s" by (simp add: list_by_user_def Let_def)
  with listed purge_inv show ?case by blast
next
  case (read t log s now u i r s')
  then have "s' = purge now s" by (simp add: get_by_user_def Let_def)
  with read purge_inv show ?case by blast
qed

lemma list_by_user_run:
  assumes "store_run c t log s" "t \<le> now"
  shows "fst (list_by_user now u s) =
    filter (\<lambda>r. rec_user_id r = u) (filter (retained c now) (last_n (sc_maximum_records c) log))"
  using purge_inv [OF store_run_inv [OF assms(1)] assms(2)]
  by (simp add: list_by_user_def Let_def store_inv_def)

lemma sequences_increase:
  assumes "length log < 2 ^ 64" "map rec_sequence log = map (\<lambda>i. uint64 (int (Suc i))) [0..<length log]"
  shows "sorted_wrt (\<lambda>a b. rec_sequence a < rec_sequence b) log"
proof -
  have "uint64 (int (Suc i)) = int (Suc i)" if "i < length log" for i
    using that assms(1) by (intro uint64_small) linarith
  then have "map rec_sequence log = map (\<lambda>i. int (Suc i)) [0..<length log]"
    unfolding assms(2) by (intro map_cong) auto
  moreover have "sorted_wrt (<) (map (\<lambda>i. int (Suc i)) [0..<length log])"
    by (simp add: sorted_wrt_map)
  ultimately have "sorted_wrt (<) (map rec_sequence log)" by simp
  then show ?thesis by (simp add: sorted_wrt_map)
qed

lemma find_unique:
  "distinct (map f xs) \<Longrightarrow> find (\<lambda>x. f x = i \<and> P x) xs = Some r \<longleftrightarrow> r \<in> set xs \<and> f r = i \<and> P r"
  by (induction xs) (auto simp: image_iff)


section \<open>A worked run\<close>

definition sample_record :: "string \<Rightarrow> string \<Rightarrow> audit_record" where
  "sample_record i user =
     \<lparr>rec_id = i, rec_sequence = 0, rec_timestamp = 0, rec_transaction_id = ''t-1'', rec_user_id = user,
      rec_event_type = mcp_tool_allowed, rec_target = ''mcp'', rec_decision = ''allow'', rec_reason_code = [],
      rec_agent_id = ''agent-1'', rec_transaction_workload_id = [], rec_immediate_caller = [],
      rec_submitting_spiffe_id = ''spiffe://example.org/gw'', rec_protocol_method = ''POST'',
      rec_tool = ''lookup'', rec_purpose = [], rec_response_status = 200, rec_result_type = [],
      rec_duration_millis = 5, rec_token = None\<rparr>"

definition sample_store_config :: store_config where
  "sample_store_config = \<lparr>sc_maximum_records = 2, sc_maximum_field_bytes = 1024, sc_retention = 100\<rparr>"

definition stamped :: "int \<Rightarrow> time \<Rightarrow> audit_record \<Rightarrow> audit_record" where
  "stamped n t r = r\<lparr>rec_sequence := n, rec_timestamp := t\<rparr>"

definition sample_log :: "audit_record list" where
  "sample_log =
     [stamped 1 10 (sample_record ''a'' ''alice''), stamped 2 20 (sample_record ''b'' ''bob''),
      stamped 3 30 (sample_record ''c'' ''alice'')]"

definition sample_store :: store where
  "sample_store = \<lparr>st_config = sample_store_config, st_records = tl sample_log, st_sequence = 3\<rparr>"

lemma run_added:
  "store_run c t log s \<Longrightarrow> store_add now r s = (Inr r', s') \<Longrightarrow> t \<le> now \<Longrightarrow> store_run c now (log @ [r']) s'"
  by (rule store_run.added)

lemma sample_run: "store_run sample_store_config 30 sample_log sample_store"
proof -
  let ?s = "\<lambda>rs n. \<lparr>st_config = sample_store_config, st_records = rs, st_sequence = n\<rparr>"
  have "store_run sample_store_config 0 [] (?s [] 0)" by (rule store_run.fresh) code_simp
  moreover have "store_add 10 (sample_record ''a'' ''alice'') (?s [] 0)
    = (Inr (sample_log ! 0), ?s [sample_log ! 0] 1)" by code_simp
  ultimately have "store_run sample_store_config 10 ([] @ [sample_log ! 0]) (?s [sample_log ! 0] 1)"
    by (rule run_added) simp
  moreover have "store_add 20 (sample_record ''b'' ''bob'') (?s [sample_log ! 0] 1)
    = (Inr (sample_log ! 1), ?s [sample_log ! 0, sample_log ! 1] 2)" by code_simp
  ultimately have "store_run sample_store_config 20 (([] @ [sample_log ! 0]) @ [sample_log ! 1]) (?s [sample_log ! 0, sample_log ! 1] 2)"
    by (rule run_added) simp
  moreover have "store_add 30 (sample_record ''c'' ''alice'') (?s [sample_log ! 0, sample_log ! 1] 2)
    = (Inr (sample_log ! 2), sample_store)" by code_simp
  ultimately have "store_run sample_store_config 30 ((([] @ [sample_log ! 0]) @ [sample_log ! 1]) @ [sample_log ! 2]) sample_store"
    by (rule run_added) simp
  then show ?thesis by (simp add: sample_log_def)
qed

section \<open>Properties\<close>

text \<open>
  C11. The store refines a log: after any run with a clock that does not go back, a listing for a
  user returns, in the order they were accepted, exactly the user's records among the last
  \<open>MaximumRecords\<close> accepted that are within the retention period, and nobody else's.
\<close>
theorem store_lists_log:
  assumes "store_run c t log s" and "t \<le> now"
  shows "fst (list_by_user now u s) =
     filter (\<lambda>r. rec_user_id r = u) (filter (retained c now) (last_n (sc_maximum_records c) log))"
  by (rule list_by_user_run [OF assms])

theorem store_lists_log_witness:
  "map rec_id (fst (list_by_user 40 ''alice'' sample_store)) = [''c'']"
proof -
  have "(30 :: time) \<le> 40" by simp
  note eq = store_lists_log [OF sample_run this]
  show ?thesis unfolding eq by code_simp
qed

text \<open>
  C12. In every run the store holds at most \<open>MaximumRecords\<close> records, their identifiers are distinct,
  their timestamps do not decrease, and as long as fewer than \<open>2 ^ 64\<close> records were accepted
  their sequence numbers increase strictly and the counter is the number of accepted records.
\<close>
theorem store_bounded:
  assumes "store_run c t log s"
  shows "int (length (st_records s)) \<le> sc_maximum_records c \<and> distinct (map rec_id (st_records s))
    \<and> sorted_wrt (\<lambda>a b. rec_timestamp a \<le> rec_timestamp b) (st_records s)
    \<and> (length log < 2 ^ 64 \<longrightarrow> sorted_wrt (\<lambda>a b. rec_sequence a < rec_sequence b) (st_records s)
        \<and> st_sequence s = int (length log))"
proof -
  have inv: "store_inv c t log s" by (rule store_run_inv [OF assms])
  then have recs: "st_records s = filter (retained c t) (last_n (sc_maximum_records c) log)"
    and sq: "map rec_sequence log = map (\<lambda>i. uint64 (int (Suc i))) [0..<length log]"
    and d: "distinct (map rec_id (st_records s))"
    unfolding store_inv_def by blast+
  have "length (st_records s) \<le> nat (sc_maximum_records c)"
    using length_filter_le [of "retained c t" "last_n (sc_maximum_records c) log"]
    by (simp add: recs length_last_n del: length_filter_le)
  moreover have "sorted_wrt R (st_records s)" if "sorted_wrt R log" for R
    using that by (simp add: recs sorted_wrt_filter sorted_last_n)
  ultimately show ?thesis
    using inv d sequences_increase [OF _ sq] by (auto simp: store_inv_def uint64_small)
qed

theorem store_bounded_witness: "int (length (st_records sample_store)) \<le> 2"
  using store_bounded [OF sample_run] by (simp add: sample_store_config_def)

text \<open>
  C39. Reading a record returns it exactly when the listing of the same user at the same time has it
  under that identifier; a user never reads another user's record, and a missing record and
  somebody else's record give the same error.
\<close>
theorem store_read_isolated:
  assumes "store_run c t log s" and "t \<le> now"
  shows "(fst (get_by_user now u i s) = Inr r \<longleftrightarrow>
      r \<in> set (fst (list_by_user now u s)) \<and> rec_id r = i \<and> rec_user_id r = u)
    \<and> fst (get_by_user now u i s) \<in> {Inl ErrRecordMissing} \<union> Inr ` {x \<in> set log. rec_user_id x = u}"
proof -
  have inv: "store_inv c now log (purge now s)"
    by (rule purge_inv [OF store_run_inv [OF assms(1)] assms(2)])
  then have d: "distinct (map rec_id (st_records (purge now s)))"
    and sub: "set (st_records (purge now s)) \<subseteq> set log"
    unfolding store_inv_def by (auto dest: set_last_n)
  let ?x = "find (\<lambda>r. rec_id r = i \<and> rec_user_id r = u) (st_records (purge now s))"
  have get: "fst (get_by_user now u i s) = (case ?x of None \<Rightarrow> Inl ErrRecordMissing | Some x \<Rightarrow> Inr x)"
    by (simp add: get_by_user_def Let_def)
  have "fst (get_by_user now u i s) = Inr r \<longleftrightarrow> ?x = Some r" by (simp add: get split: option.split)
  also have "\<dots> \<longleftrightarrow> r \<in> set (fst (list_by_user now u s)) \<and> rec_id r = i \<and> rec_user_id r = u"
    unfolding find_unique [OF d] by (auto simp: list_by_user_def Let_def)
  finally have L: "fst (get_by_user now u i s) = Inr r
    \<longleftrightarrow> r \<in> set (fst (list_by_user now u s)) \<and> rec_id r = i \<and> rec_user_id r = u" .
  have "x \<in> set log \<and> rec_user_id x = u" if "?x = Some x" for x
    using that sub unfolding find_unique [OF d] by auto
  then have "fst (get_by_user now u i s) \<in> {Inl ErrRecordMissing} \<union> Inr ` {x \<in> set log. rec_user_id x = u}"
    unfolding get by (simp split: option.split)
  with L show ?thesis by blast
qed

theorem store_read_isolated_witness:
  "fst (get_by_user 40 ''alice'' ''b'' sample_store) \<noteq> Inr (stamped 2 20 (sample_record ''b'' ''bob''))"
proof -
  have "rec_user_id (stamped 2 20 (sample_record ''b'' ''bob'')) \<noteq> ''alice''" by code_simp
  with store_read_isolated [OF sample_run, of 40 "''alice''" "''b''"] show ?thesis by auto
qed



end
