(* ===== verification/Caller.thy ===== *)
theory Caller
  imports Identity Go_HTTP
begin

text \<open>
  The part of an \<open>http.Request\<close> that handlers look at, reading a body up to a limit, and the
  immediate caller of a request on a mutually authenticated connection
  (\<open>pkg/middleware/identity.go\<close>). \<open>from_uri\<close>, a parameter, is \<open>spiffeid.FromURI\<close> followed by
  \<open>String()\<close> on the text of a certificate's URI name.
\<close>

section \<open>Requests\<close>

text \<open>A body: the bytes it delivers, and whether it then fails instead of ending.\<close>

record request_body =
  body_bytes :: string
  body_fails :: bool

definition empty_body :: request_body where
  "empty_body = \<lparr>body_bytes = [], body_fails = False\<rparr>"

text \<open>\<open>io.ReadAll(io.LimitReader(body, n))\<close>: the failure shows only if it comes before the limit.\<close>

definition read_limited :: "int \<Rightarrow> request_body \<Rightarrow> string option" where
  "read_limited n b =
     (if int (length (body_bytes b)) < n \<and> body_fails b then None
      else Some (take (nat n) (body_bytes b)))"

text \<open>
  The idiom of every handler: read one byte more than the maximum, refuse an error or a longer
  body.
\<close>

definition read_body :: "int \<Rightarrow> request_body \<Rightarrow> string option" where
  "read_body maximum b =
     (case read_limited (maximum + 1) b of
        None \<Rightarrow> None
      | Some s \<Rightarrow> if int (length s) > maximum then None else Some s)"

lemma read_body_Some:
  assumes "0 \<le> maximum"
  shows "read_body maximum b = Some s \<longleftrightarrow>
     s = body_bytes b \<and> int (length s) \<le> maximum \<and> \<not> body_fails b"
proof (cases "int (length (body_bytes b)) \<le> maximum")
  case True
  then have "take (nat (maximum + 1)) (body_bytes b) = body_bytes b" by (simp add: nat_le_iff)
  with True show ?thesis by (auto simp: read_body_def read_limited_def)
next
  case False
  then have "int (length (take (nat (maximum + 1)) (body_bytes b))) = maximum + 1"
    using assms by auto
  with False show ?thesis by (auto simp: read_body_def read_limited_def)
qed

text \<open>For evaluation: no list of the length of the limit is built.\<close>

lemma read_limited_code [code]:
  "read_limited n b =
     (if int (length (body_bytes b)) < n \<and> body_fails b then None
      else if int (length (body_bytes b)) \<le> n then Some (body_bytes b)
      else Some (take (nat n) (body_bytes b)))"
  by (simp add: read_limited_def nat_le_iff)

lemma read_body_code [code]:
  "read_body maximum b =
     (if 0 \<le> maximum \<and> int (length (body_bytes b)) \<le> maximum \<and> \<not> body_fails b
      then Some (body_bytes b) else None)"
proof (cases "0 \<le> maximum")
  case True
  show ?thesis using read_body_Some [OF True, of b] True by (cases "read_body maximum b") auto
next
  case False
  then have "nat (maximum + 1) = 0" by simp
  with False show ?thesis by (auto simp: read_body_def read_limited_def)
qed

text \<open>
  A request. The path is given by its decoded segments (\<open>/v1/events\<close> is \<open>[''v1'', ''events'']\<close>);
  \<open>'c\<close> is the type of its context.
\<close>

record 'c request =
  rq_method :: string
  rq_segments :: "string list"
  rq_header :: header
  rq_tls :: "tls_state option"
  rq_body :: request_body
  rq_ctx :: 'c

text \<open>A request whose handler also looks at the raw query and the cookies; \<open>URL.Path\<close>.\<close>

record 'c web_request = "'c request" +
  rq_raw_query :: string
  rq_cookies :: "(string \<times> string) list"

definition rq_path :: "('c, 'x) request_scheme \<Rightarrow> string" where
  "rq_path rq = ''/'' @ join ''/'' (rq_segments rq)"

section \<open>The immediate caller\<close>

datatype auth_error = ErrUnauthenticated

definition immediate_caller :: "(string \<Rightarrow> string option) \<Rightarrow> tls_state option \<Rightarrow> bool \<Rightarrow> auth_error + string" where
  "immediate_caller from_uri state already_verified =
     (case state of
        None \<Rightarrow> Inl ErrUnauthenticated
      | Some t \<Rightarrow>
          if length (peer_certificates t) = 0 \<or> \<not> already_verified \<and> verified_chains t = 0
          then Inl ErrUnauthenticated
          else
            let ids = hd (peer_certificates t) in
            if length ids \<noteq> 1 then Inl ErrUnauthenticated
            else (case from_uri (hd ids) of
                    None \<Rightarrow> Inl ErrUnauthenticated
                  | Some i \<Rightarrow> Inr i))"

lemma immediate_caller_Inr [guards]:
  "immediate_caller from_uri state already = Inr i \<longleftrightarrow>
     (\<exists>t u rest. state = Some t \<and> peer_certificates t = [u] # rest
        \<and> (already \<or> 0 < verified_chains t) \<and> from_uri u = Some i)"
proof -
  have "length ids = 1 \<longleftrightarrow> (\<exists>u. ids = [u])" for ids :: "string list"
    by (cases ids) auto
  then show ?thesis
    by (cases "case state of None \<Rightarrow> [] | Some t \<Rightarrow> peer_certificates t")
      (auto simp: immediate_caller_def Let_def split: option.splits if_splits)
qed

text \<open>\<open>ImmediateCallerSPIFFEIDFromVerifiedMTLS\<close> and \<open>ImmediateCallerSPIFFEID\<close>.\<close>

definition immediate_caller_verified_mtls ::
  "(string \<Rightarrow> string option) \<Rightarrow> tls_state option \<Rightarrow> auth_error + string" where
  "immediate_caller_verified_mtls from_uri state = immediate_caller from_uri state True"

definition immediate_caller_spiffe_id ::
  "(string \<Rightarrow> string option) \<Rightarrow> tls_state option \<Rightarrow> auth_error + string" where
  "immediate_caller_spiffe_id from_uri state = immediate_caller from_uri state False"

end
