(* ===== verification/Audit_Collector.thy ===== *)
theory Audit_Collector
  imports Audit_Sinks Audit_Store Caller
begin

text \<open>
  The audit collector (\<open>pkg/auditcollector/handler.go\<close>): workloads submit events over mutual TLS,
  one query caller lists and reads the records of a user. Its state is the store and what the
  rejection callback was told. Parameters: \<open>parse_id\<close>, \<open>from_uri\<close> (go-spiffe), \<open>lexer\<close> (JSON
  lexer), \<open>parse_time\<close>; per request the clock and the 24 random bytes.
\<close>

section \<open>Configuration\<close>

datatype collector_error =
  InvalidCollectorConfiguration | InvalidSubmitter | DuplicateSubmitter | InvalidQueryCaller

record collector_config =
  cc_store :: "store option"
  cc_submitters :: "string list"
  cc_query_caller :: string
  cc_maximum_body :: int
  cc_on_rejection :: bool

record collector =
  col_submitters :: "string list"
  col_query_caller :: string
  col_max_body :: int
  col_on_rejection :: bool

record collector_state =
  cs_store :: store
  cs_rejections :: "string list"

fun add_submitters ::
  "(string \<Rightarrow> string option) \<Rightarrow> string list \<Rightarrow> string list \<Rightarrow> collector_error + string list" where
  "add_submitters parse_id seen [] = Inr seen"
| "add_submitters parse_id seen (c # cs) =
     (if trim_space c \<noteq> c \<or> c = [] then Inl InvalidSubmitter
      else if parse_id c = None then Inl InvalidSubmitter
      else if c \<in> set seen then Inl DuplicateSubmitter
      else add_submitters parse_id (seen @ [c]) cs)"

definition new_collector ::
  "(string \<Rightarrow> string option) \<Rightarrow> collector_config \<Rightarrow> collector_error + collector \<times> collector_state" where
  "new_collector parse_id c =
     (case cc_store c of
        None \<Rightarrow> Inl InvalidCollectorConfiguration
      | Some s \<Rightarrow>
          if length (cc_submitters c) = 0 \<or> length (cc_submitters c) > 100 \<or> blank (cc_query_caller c)
             \<or> cc_maximum_body c \<le> 0 \<or> cc_maximum_body c > 1048576
          then Inl InvalidCollectorConfiguration
          else (case add_submitters parse_id [] (cc_submitters c) of
             Inl e \<Rightarrow> Inl e
           | Inr subs \<Rightarrow>
               if parse_id (cc_query_caller c) = None then Inl InvalidQueryCaller
               else Inr (\<lparr>col_submitters = subs, col_query_caller = cc_query_caller c,
                          col_max_body = cc_maximum_body c, col_on_rejection = cc_on_rejection c\<rparr>,
                         \<lparr>cs_store = s, cs_rejections = []\<rparr>)))"

section \<open>Responses\<close>

datatype collector_body = IdBody string | ListBody "audit_record list" | RecordBody audit_record

type_synonym collector_replies = "collector_body replies"

definition col_deny :: collector_replies where
  "col_deny = [HttpError ''forbidden'' 403]"
definition col_invalid :: collector_replies where
  "col_invalid = [HttpError ''invalid audit event'' 400]"
definition col_unavailable :: collector_replies where
  "col_unavailable = [HttpError ''audit unavailable'' 500]"
definition col_write_json :: "collector_body \<Rightarrow> collector_replies" where
  "col_write_json b = [SetHeader ''Content-Type'' ''application/json'', Encode b]"

definition rejected :: "collector \<Rightarrow> string \<Rightarrow> collector_state \<Rightarrow> collector_state" where
  "rejected col reason st =
     (if col_on_rejection col then st\<lparr>cs_rejections := cs_rejections st @ [reason]\<rparr> else st)"

section \<open>Submitting\<close>

text \<open>The record made of an event; identifier and submitter come from the collector, not the event.\<close>

definition record_of_event :: "string \<Rightarrow> string \<Rightarrow> event \<Rightarrow> audit_record" where
  "record_of_event i caller e =
     \<lparr>rec_id = i, rec_sequence = 0, rec_timestamp = 0, rec_transaction_id = evt_transaction_id e,
      rec_user_id = evt_user_id e, rec_event_type = evt_type e, rec_target = evt_target e,
      rec_decision = evt_decision e, rec_reason_code = evt_reason_code e, rec_agent_id = evt_agent_id e,
      rec_transaction_workload_id = evt_transaction_workload_id e,
      rec_immediate_caller = evt_immediate_caller e, rec_submitting_spiffe_id = caller,
      rec_protocol_method = evt_protocol_method e, rec_tool = evt_tool e, rec_purpose = evt_purpose e,
      rec_response_status = evt_response_status e, rec_result_type = evt_result_type e,
      rec_duration_millis = evt_duration_millis e, rec_token = evt_token e\<rparr>"

text \<open>\<open>randomID\<close>: the bytes, unless the source fails.\<close>

definition random_id :: "string option \<Rightarrow> string option" where
  "random_id bytes = map_option b64_encode bytes"

definition collector_submit ::
  "(string \<Rightarrow> string option) \<Rightarrow> (string \<Rightarrow> jtoken list) \<Rightarrow> (string \<Rightarrow> time option) \<Rightarrow> collector
    \<Rightarrow> time \<Rightarrow> string option \<Rightarrow> 'c request \<Rightarrow> collector_state \<Rightarrow> collector_replies \<times> collector_state" where
  "collector_submit from_uri lexer parse_time col now bytes rq st =
     (case immediate_caller_verified_mtls from_uri (rq_tls rq) of
        Inl _ \<Rightarrow> (col_deny, rejected col ''caller_unverified'' st)
      | Inr caller \<Rightarrow>
          if caller \<notin> set (col_submitters col) then (col_deny, rejected col ''caller_denied'' st)
          else if header_get (rq_header rq) ''Content-Type'' \<noteq> ''application/json''
          then (col_invalid, rejected col ''content_type_invalid'' st)
          else case read_body (col_max_body col) (rq_body rq) of
            None \<Rightarrow> (col_invalid, rejected col ''body_invalid'' st)
          | Some body \<Rightarrow>
          (case decode_event parse_time (lexer body) of
             None \<Rightarrow> (col_invalid, rejected col ''encoding_invalid'' st)
           | Some event \<Rightarrow>
               (case random_id bytes of
                  None \<Rightarrow> (col_unavailable, rejected col ''identifier_unavailable'' st)
                | Some i \<Rightarrow>
                    (case store_add now (record_of_event i caller event) (cs_store st) of
                       (Inl _, s) \<Rightarrow> (col_invalid, rejected col ''record_invalid'' (st\<lparr>cs_store := s\<rparr>))
                     | (Inr stored, s) \<Rightarrow>
                         ([SetHeader ''Content-Type'' ''application/json'', WriteHeader 201, Encode (IdBody (rec_id stored))],
                          st\<lparr>cs_store := s\<rparr>)))))"

section \<open>Querying\<close>

definition query_user :: "(string \<Rightarrow> string option) \<Rightarrow> collector \<Rightarrow> 'c request \<Rightarrow> string option" where
  "query_user from_uri col rq =
     (let user = trim_space (header_get (rq_header rq) ''X-WAI-User-ID'') in
      case immediate_caller_verified_mtls from_uri (rq_tls rq) of
        Inl _ \<Rightarrow> None
      | Inr caller \<Rightarrow>
          if caller \<noteq> col_query_caller col \<or> user = [] \<or> user \<noteq> header_get (rq_header rq) ''X-WAI-User-ID''
          then None else Some user)"

definition collector_list ::
  "(string \<Rightarrow> string option) \<Rightarrow> collector \<Rightarrow> time \<Rightarrow> 'c request \<Rightarrow> collector_state
    \<Rightarrow> collector_replies \<times> collector_state" where
  "collector_list from_uri col now rq st =
     (case query_user from_uri col rq of
        None \<Rightarrow> (col_deny, st)
      | Some user \<Rightarrow>
          (case list_by_user now user (cs_store st) of
             (rs, s) \<Rightarrow> (col_write_json (ListBody rs), st\<lparr>cs_store := s\<rparr>)))"

definition collector_get ::
  "(string \<Rightarrow> string option) \<Rightarrow> collector \<Rightarrow> time \<Rightarrow> string \<Rightarrow> 'c request \<Rightarrow> collector_state
    \<Rightarrow> collector_replies \<times> collector_state" where
  "collector_get from_uri col now i rq st =
     (case query_user from_uri col rq of
        None \<Rightarrow> (col_deny, st)
      | Some user \<Rightarrow>
          (case get_by_user now user i (cs_store st) of
             (Inl _, s) \<Rightarrow> ([HttpError ''not found'' 404], st\<lparr>cs_store := s\<rparr>)
           | (Inr r, s) \<Rightarrow> (col_write_json (RecordBody r), st\<lparr>cs_store := s\<rparr>)))"

text \<open>
  \<open>ServeHTTP\<close> with its three routes. A \<open>GET\<close> pattern also takes \<open>HEAD\<close>; a known path with another
  method is 405, any other path 404.
\<close>

definition collector_serve ::
  "(string \<Rightarrow> string option) \<Rightarrow> (string \<Rightarrow> jtoken list) \<Rightarrow> (string \<Rightarrow> time option) \<Rightarrow> collector
    \<Rightarrow> time \<Rightarrow> string option \<Rightarrow> 'c request \<Rightarrow> collector_state \<Rightarrow> collector_replies \<times> collector_state" where
  "collector_serve from_uri lexer parse_time col now bytes rq st =
     (let pre = [SetHeader ''Cache-Control'' ''no-store'', SetHeader ''X-Content-Type-Options'' ''nosniff''];
          reads = rq_method rq \<in> {''GET'', ''HEAD''};
          (ws, st') =
            (case rq_segments rq of
               [v, e] \<Rightarrow>
                 if v \<noteq> ''v1'' \<or> e \<noteq> ''events'' then ([HttpError ''404 page not found'' 404], st)
                 else if rq_method rq = ''POST'' then collector_submit from_uri lexer parse_time col now bytes rq st
                 else if reads then collector_list from_uri col now rq st
                 else ([HttpError ''Method Not Allowed'' 405], st)
             | [v, e, i] \<Rightarrow>
                 if v \<noteq> ''v1'' \<or> e \<noteq> ''events'' \<or> i = [] then ([HttpError ''404 page not found'' 404], st)
                 else if reads then collector_get from_uri col now i rq st
                 else ([HttpError ''Method Not Allowed'' 405], st)
             | _ \<Rightarrow> ([HttpError ''404 page not found'' 404], st))
      in (pre @ ws, st'))"

section \<open>What the handlers do\<close>

lemma rejected_store [simp]: "cs_store (rejected col reason st) = cs_store st"
  by (simp add: rejected_def)

lemmas submit_shapes = collector_submit_def col_deny_def col_invalid_def col_unavailable_def

text \<open>A submission is answered 201 exactly when the store accepted the record made of its event.\<close>

lemma collector_submit_201:
  assumes "collector_submit fu lexer pt col now bytes rq st = (ws, st')"
  shows "status_of ws = 201 \<longleftrightarrow>
     (\<exists>caller body e i r. immediate_caller_verified_mtls fu (rq_tls rq) = Inr caller
        \<and> caller \<in> set (col_submitters col) \<and> header_get (rq_header rq) ''Content-Type'' = ''application/json''
        \<and> read_body (col_max_body col) (rq_body rq) = Some body \<and> decode_event pt (lexer body) = Some e
        \<and> random_id bytes = Some i
        \<and> store_add now (record_of_event i caller e) (cs_store st) = (Inr r, cs_store st')
        \<and> bodies ws = [IdBody i])"
  using assms store_add_Inr(3) [of now _ "cs_store st"]
  by (fastforce simp: submit_shapes record_of_event_def split: sum.splits if_splits option.splits prod.splits)

lemma query_user_Some:
  "query_user fu col rq = Some u \<longleftrightarrow>
     immediate_caller_verified_mtls fu (rq_tls rq) = Inr (col_query_caller col)
     \<and> header_get (rq_header rq) ''X-WAI-User-ID'' = u \<and> u \<noteq> [] \<and> trim_space u = u"
  by (auto simp: query_user_def Let_def split: sum.splits if_splits)

lemma store_add_Inl:
  "store_add now r s = (Inl e, s') \<Longrightarrow> set (st_records s') \<subseteq> set (st_records s)"
  by (auto simp: store_add_def purge_def Let_def dest: set_dropWhileD split: option.splits if_splits)

lemma collector_submit_other:
  assumes "collector_submit fu lx pt col now bytes rq st = (ws, st')" "status_of ws \<noteq> 201"
  shows "bodies ws = [] \<and> set (st_records (cs_store st')) \<subseteq> set (st_records (cs_store st))"
  using assms store_add_Inl [of now _ "cs_store st"]
  by (fastforce simp: submit_shapes split: sum.splits if_splits option.splits prod.splits)

text \<open>The records an answer gives away.\<close>

fun disclosed :: "collector_body \<Rightarrow> audit_record set" where
  "disclosed (IdBody i) = {}"
| "disclosed (ListBody rs) = set rs"
| "disclosed (RecordBody r) = {r}"

lemma get_by_user_Inr:
  "get_by_user now u i s = (Inr r, s') \<Longrightarrow> rec_user_id r = u \<and> rec_id r = i \<and> r \<in> set (st_records s)"
  by (auto simp: get_by_user_def purge_def Let_def find_Some_iff dest!: nth_mem set_dropWhileD split: option.splits)

lemma list_by_user_members:
  "list_by_user now u s = (rs, s') \<Longrightarrow> r \<in> set rs \<Longrightarrow> rec_user_id r = u \<and> r \<in> set (st_records s)"
  by (auto simp: list_by_user_def purge_def Let_def dest: set_dropWhileD)

lemma collector_list_bodies:
  assumes "collector_list fu col now rq st = (ws, st')" "b \<in> set (bodies ws)" "r \<in> disclosed b"
  shows "query_user fu col rq = Some (rec_user_id r)"
proof -
  from assms obtain u where u: "query_user fu col rq = Some u"
    by (auto simp: collector_list_def col_deny_def split: option.splits)
  obtain rs s where l: "list_by_user now u (cs_store st) = (rs, s)" by fastforce
  with u assms list_by_user_members [OF l] show ?thesis
    by (auto simp: collector_list_def col_write_json_def)
qed

lemma collector_get_bodies:
  assumes "collector_get fu col now i rq st = (ws, st')" "b \<in> set (bodies ws)" "r \<in> disclosed b"
  shows "query_user fu col rq = Some (rec_user_id r)"
proof -
  from assms obtain u where u: "query_user fu col rq = Some u"
    by (auto simp: collector_get_def col_deny_def split: option.splits)
  with assms get_by_user_Inr [of now u i "cs_store st"] show ?thesis
    by (auto simp: collector_get_def col_write_json_def split: sum.splits prod.splits)
qed

lemma collector_submit_discloses_nothing:
  "collector_submit fu lx pt col now bytes rq st = (ws, st') \<Longrightarrow> b \<in> set (bodies ws) \<Longrightarrow> disclosed b = {}"
  using collector_submit_201 [of fu lx pt col now bytes rq st ws st']
    collector_submit_other [of fu lx pt col now bytes rq st ws st'] by fastforce

lemma collector_serve_bodies:
  assumes "collector_serve fu lx pt col now bytes rq st = (ws, st')" "b \<in> set (bodies ws)" "r \<in> disclosed b"
  shows "query_user fu col rq = Some (rec_user_id r)"
proof -
  have "(\<exists>ws0. collector_submit fu lx pt col now bytes rq st = (ws0, st') \<and> bodies ws = bodies ws0)
     \<or> (\<exists>ws0. collector_list fu col now rq st = (ws0, st') \<and> bodies ws = bodies ws0)
     \<or> (\<exists>i ws0. collector_get fu col now i rq st = (ws0, st') \<and> bodies ws = bodies ws0)
     \<or> bodies ws = []"
    using assms(1)
    by (auto simp: collector_serve_def Let_def split: list.splits if_splits prod.splits) blast+
  with assms(2,3) show ?thesis
    using collector_submit_discloses_nothing collector_list_bodies collector_get_bodies by fastforce
qed

section \<open>Properties\<close>

lemma collector_submit_unanswered:
  assumes "collector_submit fu lx pt col now bytes rq st = (ws, st')" "status_of ws \<noteq> 201"
  shows "\<exists>reason. cs_rejections st' = cs_rejections st @ (if col_on_rejection col then [reason] else [])"
  using assms by (fastforce simp: submit_shapes rejected_def
      split: sum.splits if_splits option.splits prod.splits)

lemma collector_submit_silent:
  assumes "collector_submit fu lx pt col now bytes rq st = (ws, st')" "status_of ws = 201"
  shows "cs_rejections st' = cs_rejections st"
  using assms by (fastforce simp: submit_shapes split: sum.splits if_splits option.splits prod.splits)

text \<open>Adding succeeds exactly on a valid record with a fresh identifier, and the records then end in it.\<close>

lemma store_add_accepts:
  "(\<exists>r' s'. store_add now r s = (Inr r', s')) \<longleftrightarrow>
     validate_record s r = None \<and> rec_id r \<notin> rec_id ` set (st_records (purge now s))"
proof -
  have "list_ex (\<lambda>old. rec_id old = rec_id r) rs \<longleftrightarrow> rec_id r \<in> rec_id ` set rs" for rs :: "audit_record list"
    by (induction rs) auto
  then show ?thesis by (auto simp: store_add_def Let_def split: option.split)
qed

lemma store_add_last:
  assumes "store_add now r s = (Inr r', s')"
  shows "\<exists>gone kept. st_records s = gone @ kept \<and> st_records s' = kept @ [r']"
proof -
  let ?p = "st_records (purge now s)"
  obtain gone where g: "st_records s = gone @ ?p"
    unfolding purge_def Let_def by (metis (no_types, lifting) store.select_convs(2) store.surjective
        store.update_convs(2) takeWhile_dropWhile_id)
  show ?thesis
  proof (cases "int (length ?p) = sc_maximum_records (st_config s)")
    case True
    have "st_records s = (gone @ take 1 ?p) @ tl ?p"
      using g by (cases ?p) auto
    with True store_add_Inr(4) [OF assms] show ?thesis by simp
  next
    case False
    with g store_add_Inr(4) [OF assms] show ?thesis by simp
  qed
qed

lemma validate_record_stamped [simp]:
  "validate_record s (r\<lparr>rec_sequence := n, rec_timestamp := t\<rparr>) = validate_record s r"
  by (simp add: validate_record_def required_fields_def record_fields_def)

lemma collector_submit_takes:
  assumes "immediate_caller_verified_mtls fu (rq_tls rq) = Inr caller" "caller \<in> set (col_submitters col)"
    "header_get (rq_header rq) ''Content-Type'' = ''application/json''"
    "read_body (col_max_body col) (rq_body rq) = Some body" "decode_event pt (lx body) = Some e"
    "bytes = Some raw"
    and r: "r = (record_of_event (b64_encode raw) caller e)\<lparr>rec_sequence := n, rec_timestamp := t\<rparr>"
    and v: "validate_record (cs_store st) r = None" "rec_id r \<notin> rec_id ` set (st_records (purge now (cs_store st)))"
  shows "status_of (fst (collector_submit fu lx pt col now bytes rq st)) = 201"
proof -
  let ?r0 = "record_of_event (b64_encode raw) caller e"
  have "validate_record (cs_store st) ?r0 = None"
    using v(1) unfolding r validate_record_stamped .
  moreover have "rec_id ?r0 \<notin> rec_id ` set (st_records (purge now (cs_store st)))"
    using v(2) unfolding r by simp
  ultimately obtain r' s' where "store_add now ?r0 (cs_store st) = (Inr r', s')"
    using store_add_accepts by blast
  with assms(1-6) show ?thesis by (auto simp: submit_shapes random_id_def)
qed

text \<open>
  C14. A submission is answered 201 exactly when the peer certificate names one allowed submitter, the
  body is bounded JSON of one event, the random source gives an identifier, and the store takes the
  record: the fields of the event one by one, the identifier, the next sequence number and the
  collector's own clock, and as its submitter the workload of the peer certificate, whatever caller
  the event itself claims. That record is then the last of the store, behind a suffix of what was
  there, and the answer is its identifier. Any other answer has no body, adds no record and reports
  one reason to the rejection callback.
\<close>
theorem collector_accepts_only_submitters:
  assumes "collector_submit from_uri lexer parse_time col now bytes rq st = (ws, st')"
  shows "(status_of ws = 201 \<longleftrightarrow>
      (\<exists>caller body e raw r gone kept. immediate_caller_verified_mtls from_uri (rq_tls rq) = Inr caller
        \<and> caller \<in> set (col_submitters col) \<and> header_get (rq_header rq) ''Content-Type'' = ''application/json''
        \<and> read_body (col_max_body col) (rq_body rq) = Some body \<and> decode_event parse_time (lexer body) = Some e
        \<and> bytes = Some raw
        \<and> r = \<lparr>rec_id = b64_encode raw, rec_sequence = uint64 (st_sequence (cs_store st) + 1),
            rec_timestamp = now, rec_transaction_id = evt_transaction_id e, rec_user_id = evt_user_id e,
            rec_event_type = evt_type e, rec_target = evt_target e, rec_decision = evt_decision e,
            rec_reason_code = evt_reason_code e, rec_agent_id = evt_agent_id e,
            rec_transaction_workload_id = evt_transaction_workload_id e,
            rec_immediate_caller = evt_immediate_caller e, rec_submitting_spiffe_id = caller,
            rec_protocol_method = evt_protocol_method e, rec_tool = evt_tool e,
            rec_purpose = evt_purpose e, rec_response_status = evt_response_status e,
            rec_result_type = evt_result_type e, rec_duration_millis = evt_duration_millis e,
            rec_token = evt_token e\<rparr>
        \<and> validate_record (cs_store st) r = None
        \<and> rec_id r \<notin> rec_id ` set (st_records (purge now (cs_store st)))
        \<and> st_records (cs_store st) = gone @ kept \<and> st_records (cs_store st') = kept @ [r]
        \<and> bodies ws = [IdBody (rec_id r)] \<and> cs_rejections st' = cs_rejections st))
    \<and> (status_of ws \<noteq> 201 \<longrightarrow> bodies ws = [] \<and> set (st_records (cs_store st')) \<subseteq> set (st_records (cs_store st))
        \<and> (\<exists>reason. cs_rejections st' = cs_rejections st @ (if col_on_rejection col then [reason] else [])))"
    (is "(?ok \<longleftrightarrow> ?accepted) \<and> ?rest")
proof (intro conjI iffI)
  assume ?ok
  from iffD1 [OF collector_submit_201 [OF assms] this] obtain caller body e i r where
    acc: "immediate_caller_verified_mtls from_uri (rq_tls rq) = Inr caller" "caller \<in> set (col_submitters col)"
      "header_get (rq_header rq) ''Content-Type'' = ''application/json''"
      "read_body (col_max_body col) (rq_body rq) = Some body" "decode_event parse_time (lexer body) = Some e"
      "random_id bytes = Some i" "bodies ws = [IdBody i]"
    and add: "store_add now (record_of_event i caller e) (cs_store st) = (Inr r, cs_store st')" by blast
  obtain raw where raw: "bytes = Some raw" "i = b64_encode raw" using acc(6) by (auto simp: random_id_def)
  obtain gone kept where split: "st_records (cs_store st) = gone @ kept" "st_records (cs_store st') = kept @ [r]"
    using store_add_last [OF add] by blast
  note a = store_add_Inr [OF add]
  have v: "validate_record (cs_store st) r = None" "rec_id r \<notin> rec_id ` set (st_records (purge now (cs_store st)))"
    and id: "rec_id r = i"
    using a(1,2) unfolding a(3) validate_record_stamped by (simp_all add: record_of_event_def)
  show ?accepted
    by (rule exI [of _ caller], rule exI [of _ body], rule exI [of _ e], rule exI [of _ raw], rule exI [of _ r],
        rule exI [of _ gone], rule exI [of _ kept])
      (intro conjI acc(1-5) raw(1) v split collector_submit_silent [OF assms \<open>?ok\<close>],
        simp_all add: a(3) record_of_event_def raw(2) acc(7))
next
  assume ?accepted
  then obtain caller body e raw r where
    acc: "immediate_caller_verified_mtls from_uri (rq_tls rq) = Inr caller" "caller \<in> set (col_submitters col)"
      "header_get (rq_header rq) ''Content-Type'' = ''application/json''"
      "read_body (col_max_body col) (rq_body rq) = Some body" "decode_event parse_time (lexer body) = Some e"
      "bytes = Some raw"
    and r: "r = (record_of_event (b64_encode raw) caller e)
        \<lparr>rec_sequence := uint64 (st_sequence (cs_store st) + 1), rec_timestamp := now\<rparr>"
    and v: "validate_record (cs_store st) r = None" "rec_id r \<notin> rec_id ` set (st_records (purge now (cs_store st)))"
    by (auto simp: record_of_event_def)
  from collector_submit_takes [of from_uri rq caller col body parse_time lexer e bytes raw, OF acc r v] assms
  show ?ok by simp
next
  show ?rest using collector_submit_other [OF assms] collector_submit_unanswered [OF assms] by blast
qed

text \<open>
  C15. Whatever the request, every record an answer of the collector discloses belongs to the user
  the query caller names in \<open>X-WAI-User-ID\<close>, and the peer is that one query caller.
\<close>
theorem collector_discloses_own_records:
  assumes "collector_serve from_uri lexer parse_time col now bytes rq st = (ws, st')"
    and "b \<in> set (bodies ws)" and "r \<in> disclosed b"
  shows "immediate_caller_verified_mtls from_uri (rq_tls rq) = Inr (col_query_caller col)
    \<and> header_get (rq_header rq) ''X-WAI-User-ID'' = rec_user_id r"
  using collector_serve_bodies [OF assms] by (simp add: query_user_Some)

definition sample_query :: "string \<Rightarrow> unit request" where
  "sample_query peer =
     \<lparr>rq_method = ''GET'', rq_segments = [''v1'', ''events''],
      rq_header = [(''X-Wai-User-Id'', [''alice''])],
      rq_tls = Some \<lparr>peer_certificates = [[peer]], verified_chains = 0\<rparr>,
      rq_body = empty_body, rq_ctx = ()\<rparr>"

definition query_collector :: collector where
  "query_collector =
     \<lparr>col_submitters = [''spiffe://example.org/gw''], col_query_caller = ''spiffe://example.org/web'',
      col_max_body = 4096, col_on_rejection = True\<rparr>"

definition query_state :: collector_state where
  "query_state = \<lparr>cs_store = sample_store, cs_rejections = []\<rparr>"

text \<open>A submission whose event claims another caller.\<close>

definition submitted_event :: event where
  "submitted_event =
     blank_event\<lparr>evt_type := downstream_request, evt_transaction_id := ''t-1'', evt_user_id := ''alice'',
       evt_immediate_caller := ''spiffe://example.org/agent''\<rparr>"

definition sample_submission :: "unit request" where
  "sample_submission =
     \<lparr>rq_method = ''POST'', rq_segments = [''v1'', ''events''],
      rq_header = [(''Content-Type'', [''application/json''])],
      rq_tls = Some \<lparr>peer_certificates = [[''spiffe://example.org/gw'']], verified_chains = 0\<rparr>,
      rq_body = \<lparr>body_bytes = json_text (the (event_json sample_format submitted_event)), body_fails = False\<rparr>,
      rq_ctx = ()\<rparr>"

definition sample_submitted :: "collector_replies \<times> collector_state" where
  "sample_submitted =
     collector_submit Some (\<lambda>_. tokens_of (the (event_json sample_format submitted_event))) sample_parse
       query_collector 40 (Some ''abcdefghijklmnopqrstuvwx'') sample_submission query_state"

theorem collector_accepts_only_submitters_witness:
  "status_of (fst sample_submitted) = 201
   \<and> rec_submitting_spiffe_id (last (st_records (cs_store (snd sample_submitted)))) = ''spiffe://example.org/gw''"
proof -
  have c: "status_of (fst sample_submitted) = 201" by code_simp
  have m: "immediate_caller_verified_mtls Some (rq_tls sample_submission) = Inr ''spiffe://example.org/gw''" by code_simp
  have s: "collector_submit Some (\<lambda>_. tokens_of (the (event_json sample_format submitted_event))) sample_parse
       query_collector 40 (Some ''abcdefghijklmnopqrstuvwx'') sample_submission query_state
     = (fst sample_submitted, snd sample_submitted)" by (simp add: sample_submitted_def)
  from conjunct1 [OF collector_accepts_only_submitters [OF s], THEN iffD1, OF c] c m show ?thesis by auto
qed

theorem collector_discloses_own_records_witness:
  "immediate_caller_verified_mtls Some (rq_tls (sample_query ''spiffe://example.org/web'')) = Inr (col_query_caller query_collector)"
proof -
  let ?r = "collector_serve Some (\<lambda>_. []) (\<lambda>_. None) query_collector 40 None (sample_query ''spiffe://example.org/web'') query_state"
  have b: "bodies (fst ?r) = [ListBody [sample_log ! 2]]" by code_simp
  have s: "?r = (fst ?r, snd ?r)" by simp
  have "sample_log ! 2 \<in> disclosed (ListBody [sample_log ! 2])" by simp
  with collector_discloses_own_records [OF s, of "ListBody [sample_log ! 2]" "sample_log ! 2"] b
  show ?thesis by simp
qed

end
