(* ===== verification/Audit_Delivery.thy ===== *)
theory Audit_Delivery
  imports Audit_Collector
begin

text \<open>
  The audit path of a service end to end, as the \<open>cmd\<close> mains assemble it: a fan-out of the JSON
  sink on standard output and the remote sink, with the collector and its store behind the
  remote sink's request. The sinks' contracts are interpreted here on these definitions.
\<close>

section \<open>The world of one service and its collector\<close>

text \<open>\<open>dl_accepted\<close> is a ghost: the records the collector's store has accepted, in order.\<close>

record delivery =
  dl_lines :: "event list"
  dl_collector :: collector_state
  dl_accepted :: "audit_record list"

text \<open>Standard output as the JSON encoder's writer; \<open>broken\<close> says when it fails.\<close>

definition append_line :: "(event \<Rightarrow> delivery \<Rightarrow> bool) \<Rightarrow> delivery sink" where
  "append_line broken e w =
     (if broken e w then (Some SinkUnavailable, w) else (None, w\<lparr>dl_lines := dl_lines w @ [e]\<rparr>))"

text \<open>
  The surroundings of the request: the collector and its library, the connection the service
  makes to it, whether the network works, the collector's clock and randomness.
\<close>

record surroundings =
  su_from_uri :: "string \<Rightarrow> string option"
  su_lexer :: "string \<Rightarrow> jtoken list"
  su_format_time :: "time \<Rightarrow> string option"
  su_parse_time :: "string \<Rightarrow> time option"
  su_collector :: collector
  su_tls :: "tls_state option"
  su_up :: "delivery \<Rightarrow> bool"
  su_now :: "delivery \<Rightarrow> time"
  su_bytes :: "delivery \<Rightarrow> string option"
  su_broken :: "event \<Rightarrow> delivery \<Rightarrow> bool"
  su_clock :: time

definition event_request :: "surroundings \<Rightarrow> string \<Rightarrow> unit request" where
  "event_request su body =
     \<lparr>rq_method = ''POST'', rq_segments = [''v1'', ''events''],
      rq_header = header_set [] ''Content-Type'' ''application/json'', rq_tls = su_tls su,
      rq_body = \<lparr>body_bytes = body, body_fails = False\<rparr>, rq_ctx = ()\<rparr>"

definition post_to_collector :: "surroundings \<Rightarrow> string \<Rightarrow> delivery \<Rightarrow> nat option \<times> delivery" where
  "post_to_collector su body w =
     (if \<not> su_up su w then (None, w)
      else
        case collector_serve (su_from_uri su) (su_lexer su) (su_parse_time su) (su_collector su)
               (su_now su w) (su_bytes su w) (event_request su body) (dl_collector w) of
          (ws, st) \<Rightarrow>
            (Some (status_of ws),
             w\<lparr>dl_collector := st,
               dl_accepted := dl_accepted w
                 @ (if status_of ws = 201 then [last (st_records (cs_store st))] else [])\<rparr>))"

definition stdout_sink :: "surroundings \<Rightarrow> delivery sink" where
  "stdout_sink su = json_sink_write (append_line (su_broken su)) (su_clock su)"

definition remote_sink :: "surroundings \<Rightarrow> delivery sink" where
  "remote_sink su = remote_write (su_format_time su) (post_to_collector su)"

definition service_sink :: "surroundings \<Rightarrow> delivery sink" where
  "service_sink su = fanout_write [stdout_sink su, remote_sink su]"

section \<open>What the sinks record\<close>

definition same_event :: "event \<Rightarrow> event \<Rightarrow> bool" where
  "same_event e l = (l\<lparr>evt_timestamp := 0\<rparr> = e\<lparr>evt_timestamp := 0\<rparr>)"

definition on_stdout :: "event \<Rightarrow> delivery \<Rightarrow> bool" where
  "on_stdout e w = (\<exists>l \<in> set (dl_lines w). same_event e l)"

text \<open>The record of an event as the collector stored it: identifier, sequence and time are its own.\<close>

definition record_carries :: "audit_record \<Rightarrow> event \<Rightarrow> bool" where
  "record_carries r e =
     (\<exists>caller. r = (record_of_event (rec_id r) caller e)
        \<lparr>rec_sequence := rec_sequence r, rec_timestamp := rec_timestamp r\<rparr>)"

definition on_collector :: "surroundings \<Rightarrow> event \<Rightarrow> delivery \<Rightarrow> bool" where
  "on_collector su e w =
     (\<exists>j d. event_json (su_format_time su) e = Some j
        \<and> decode_event (su_parse_time su) (su_lexer su (json_text j)) = Some d
        \<and> (\<exists>r \<in> set (dl_accepted w). record_carries r d))"

interpretation stdout: audit_sink "stdout_sink su" on_stdout for su
proof
  fix e w w'
  assume "stdout_sink su e w = (None, w')"
  then show "on_stdout e w'" "validate_event e = None"
    by (auto simp: stdout_sink_def json_sink_write_def append_line_def on_stdout_def same_event_def
        split: option.splits if_splits)
next
  fix e w r w' x
  assume "stdout_sink su e w = (r, w')" "on_stdout x w"
  then show "on_stdout x w'"
    by (auto simp: stdout_sink_def json_sink_write_def append_line_def on_stdout_def split: option.splits if_splits)
qed

lemma collector_serve_post:
  "collector_serve fu lx pt col now bytes (event_request su body) st =
     (let (ws, st') = collector_submit fu lx pt col now bytes (event_request su body) st in
      ([SetHeader ''Cache-Control'' ''no-store'', SetHeader ''X-Content-Type-Options'' ''nosniff''] @ ws, st'))"
  by (simp add: collector_serve_def event_request_def)

lemma post_accepted:
  assumes "post_to_collector su body w = (Some 201, w')"
  shows "\<exists>d. decode_event (su_parse_time su) (su_lexer su body) = Some d
     \<and> (\<exists>r \<in> set (dl_accepted w'). record_carries r d)
     \<and> last (dl_accepted w') \<in> set (st_records (cs_store (dl_collector w')))"
proof -
  obtain ws st where s: "collector_submit (su_from_uri su) (su_lexer su) (su_parse_time su) (su_collector su)
      (su_now su w) (su_bytes su w) (event_request su body) (dl_collector w) = (ws, st)" by fastforce
  with assms have ws: "status_of ws = 201"
    and w': "dl_collector w' = st" "dl_accepted w' = dl_accepted w @ [last (st_records (cs_store st))]"
    by (auto simp: post_to_collector_def collector_serve_post Let_def split: if_splits)
  from collector_submit_201 [OF s] ws obtain caller b d i r where
    b: "read_body (col_max_body (su_collector su)) (rq_body (event_request su body)) = Some b"
    and d: "decode_event (su_parse_time su) (su_lexer su b) = Some d"
    and add: "store_add (su_now su w) (record_of_event i caller d) (cs_store (dl_collector w)) = (Inr r, cs_store st)"
    by blast
  have "b = body"
    using b by (auto simp: read_body_def read_limited_def event_request_def split: if_splits)
  note a = store_add_Inr [OF add]
  have l: "last (st_records (cs_store st)) = r" "r \<in> set (st_records (cs_store st))"
    unfolding a(4) by simp_all
  have "record_carries r d"
    unfolding record_carries_def by (rule exI [of _ caller]) (simp add: a(3) record_of_event_def)
  with d l \<open>b = body\<close> w' show ?thesis by auto
qed

interpretation collected: audit_sink "remote_sink su" "on_collector su" for su
proof
  fix e w w'
  assume s: "remote_sink su e w = (None, w')"
  then show "validate_event e = None"
    by (auto simp: remote_sink_def remote_write_def split: option.splits)
  from s obtain j where j: "event_json (su_format_time su) e = Some j"
    and p: "post_to_collector su (json_text j) w = (Some 201, w')"
    by (auto simp: remote_sink_def remote_write_def split: option.splits prod.splits if_splits)
  from post_accepted [OF p] j show "on_collector su e w'"
    unfolding on_collector_def by blast
next
  fix e w r w' x
  assume "remote_sink su e w = (r, w')"
  then have "set (dl_accepted w) \<subseteq> set (dl_accepted w')"
    by (auto simp: remote_sink_def remote_write_def post_to_collector_def
        split: option.splits prod.splits if_splits)
  moreover assume "on_collector su x w"
  ultimately show "on_collector su x w'" unfolding on_collector_def by blast
qed

interpretation service: required_sinks "[(stdout_sink su, on_stdout), (remote_sink su, on_collector su)]" for su
proof (rule required_sinks.intro)
  have l: "dl_accepted w' = dl_accepted w" if "stdout_sink su e w = (r, w')" for e w r w'
    using that by (auto simp: stdout_sink_def json_sink_write_def append_line_def split: option.splits if_splits)
  have m: "dl_lines w' = dl_lines w" if "remote_sink su e w = (r, w')" for e w r w'
    using that by (auto simp: remote_sink_def remote_write_def post_to_collector_def
        split: option.splits prod.splits if_splits)
  fix s r s' r' e w res w' x
  assume "(s, r) \<in> set [(stdout_sink su, on_stdout), (remote_sink su, on_collector su)]"
    and "(s', r') \<in> set [(stdout_sink su, on_stdout), (remote_sink su, on_collector su)]"
    and "s e w = (res, w')" "r' x w"
  then show "r' x w'"
    using stdout.kept collected.kept l m by (auto simp: on_stdout_def on_collector_def)
qed (auto intro: stdout.audit_sink_axioms collected.audit_sink_axioms)

section \<open>Properties\<close>

text \<open>
  C16. A required audit write that succeeds has been delivered to both sinks: the event stands on
  standard output up to the time the sink stamps on it, and the collector's store accepted a
  record with exactly its fields, for as long as the collector reads JSON as it was written.
\<close>
theorem audit_delivered:
  assumes "service_sink su e w = (None, w')"
    and "\<And>j. event_json (su_format_time su) e = Some j \<Longrightarrow> su_lexer su (json_text j) = tokens_of j"
    and "\<And>t s. su_format_time su t = Some s \<Longrightarrow> su_parse_time su s = Some t"
  shows "validate_event e = None \<and> (\<exists>l \<in> set (dl_lines w'). same_event e l)
    \<and> (\<exists>r \<in> set (dl_accepted w'). record_carries r e)"
proof -
  from assms(1) have s: "fanout_write (map fst [(stdout_sink su, on_stdout), (remote_sink su, on_collector su)]) e w = (None, w')"
    by (simp add: service_sink_def)
  note v = service.fan.only_valid [OF s]
  from service.fan.written [OF s] have o: "on_stdout e w'" and c: "on_collector su e w'" by simp_all
  from c obtain j d r where j: "event_json (su_format_time su) e = Some j"
    and d: "decode_event (su_parse_time su) (su_lexer su (json_text j)) = Some d"
    and r: "r \<in> set (dl_accepted w')" "record_carries r d"
    unfolding on_collector_def by blast
  have "is_int64 (evt_response_status e)" "is_int64 (evt_duration_millis e)"
    using v by (auto simp: guards event_wf_def valid_outcome_def is_int64_def int64_min_def int64_max_def)
  with event_round_trip [OF j assms(3)] d assms(2) [OF j] have "d = e" by simp
  with o r v show ?thesis unfolding on_stdout_def by blast
qed

definition sample_collector :: collector where
  "sample_collector =
     \<lparr>col_submitters = [''spiffe://example.org/gw''], col_query_caller = ''spiffe://example.org/web'',
      col_max_body = 4096, col_on_rejection = True\<rparr>"

definition delivery_event :: event where
  "delivery_event =
     blank_event\<lparr>evt_type := downstream_request, evt_transaction_id := ''t-1'', evt_user_id := ''alice''\<rparr>"

definition delivery_json :: json where
  "delivery_json = the (event_json sample_format delivery_event)"

definition sample_surroundings :: surroundings where
  "sample_surroundings =
     \<lparr>su_from_uri = Some, su_lexer = (\<lambda>_. tokens_of delivery_json), su_format_time = sample_format,
      su_parse_time = sample_parse, su_collector = sample_collector,
      su_tls = Some \<lparr>peer_certificates = [[''spiffe://example.org/gw'']], verified_chains = 0\<rparr>,
      su_up = (\<lambda>_. True), su_now = (\<lambda>_. 50), su_bytes = (\<lambda>_. Some ''abcdefghijklmnopqrstuvwx''),
      su_broken = (\<lambda>_ _. False), su_clock = 40\<rparr>"

definition delivery_start :: delivery where
  "delivery_start =
     \<lparr>dl_lines = [],
      dl_collector = \<lparr>cs_store = \<lparr>st_config = sample_store_config, st_records = [], st_sequence = 0\<rparr>, cs_rejections = []\<rparr>,
      dl_accepted = []\<rparr>"

theorem audit_delivered_witness:
  "\<exists>r \<in> set (dl_accepted (snd (service_sink sample_surroundings delivery_event delivery_start))).
     record_carries r delivery_event"
proof -
  have "fst (service_sink sample_surroundings delivery_event delivery_start) = None" by code_simp
  then have s: "service_sink sample_surroundings delivery_event delivery_start
      = (None, snd (service_sink sample_surroundings delivery_event delivery_start))"
    by (metis prod.collapse)
  from audit_delivered [OF s] show ?thesis
    by (simp add: sample_surroundings_def sample_parse_format delivery_json_def)
qed

end
