(* ===== verification/Json_Scan.thy ===== *)
theory Json_Scan
  imports Go_JSON
begin

text \<open>
  The duplicate-key scan a transaction token's header and payload go through before they are
  decoded (\<open>rejectDuplicateJSONKeys\<close>, \<open>scanJSONValue\<close> in \<open>pkg/transaction/txn_verifier.go\<close>).
  The recursion of the code follows the nesting of the text; here it spends fuel, and
  \<open>scan_enough_fuel\<close> shows that two units per token and one more never run out.
\<close>

fun scan_value :: "nat \<Rightarrow> jtoken list \<Rightarrow> json_error + jtoken list"
  and scan_members :: "nat \<Rightarrow> string set \<Rightarrow> jtoken list \<Rightarrow> json_error + jtoken list"
  and scan_elems :: "nat \<Rightarrow> jtoken list \<Rightarrow> json_error + jtoken list"
where
  "scan_value 0 ts = Inl OutOfFuel"
| "scan_value (Suc n) ts =
     (case token ts of
        Inl e \<Rightarrow> Inl e
      | Inr (t, r) \<Rightarrow>
          (case t of
             TDelim d \<Rightarrow>
               if d = CHR ''{'' then scan_members n {} r
               else if d = CHR ''['' then scan_elems n r
               else Inl UnexpectedDelimiter
           | _ \<Rightarrow> Inr r))"
| "scan_members 0 seen ts = Inl OutOfFuel"
| "scan_members (Suc n) seen ts =
     (if has_more ts then
        (case token ts of
           Inl e \<Rightarrow> Inl e
         | Inr (t, r) \<Rightarrow>
             (case t of
                TStr key \<Rightarrow>
                  if key \<in> seen then Inl DuplicateKey
                  else (case scan_value n r of
                          Inl e \<Rightarrow> Inl e
                        | Inr r' \<Rightarrow> scan_members n (insert key seen) r')
              | _ \<Rightarrow> Inl NonStringKey))
      else (case token ts of Inl e \<Rightarrow> Inl e | Inr (_, r) \<Rightarrow> Inr r))"
| "scan_elems 0 ts = Inl OutOfFuel"
| "scan_elems (Suc n) ts =
     (if has_more ts then
        (case scan_value n ts of Inl e \<Rightarrow> Inl e | Inr r \<Rightarrow> scan_elems n r)
      else (case token ts of Inl e \<Rightarrow> Inl e | Inr (_, r) \<Rightarrow> Inr r))"

definition scan_json_value :: "jtoken list \<Rightarrow> json_error + jtoken list" where
  "scan_json_value ts = scan_value (2 * length ts + 1) ts"

definition reject_duplicate_json_keys :: "jtoken list \<Rightarrow> json_error option" where
  "reject_duplicate_json_keys ts =
     (case scan_json_value ts of
        Inl e \<Rightarrow> Some e
      | Inr r \<Rightarrow> (case token r of Inl Eof \<Rightarrow> None | _ \<Rightarrow> Some Trailing))"

section \<open>The fuel is enough\<close>

lemma token_length: "token ts = Inr (t, r) \<Longrightarrow> length ts = Suc (length r)"
  by (cases ts rule: token.cases) auto

lemma token_fuel: "token ts \<noteq> Inl OutOfFuel"
  by (cases ts rule: token.cases) auto

lemma has_more_length: "has_more ts \<Longrightarrow> 0 < length ts"
  by (cases ts) auto

text \<open>A scan consumes tokens, and never runs out of fuel when it has two units per token.\<close>

lemma scan_progress:
  "scan_value n ts = Inr r \<Longrightarrow> length r < length ts"
  "scan_members n seen ts = Inr r \<Longrightarrow> length r < length ts"
  "scan_elems n ts = Inr r \<Longrightarrow> length r < length ts"
proof (induction n ts and n seen ts and n ts arbitrary: r and r and r
    rule: scan_value_scan_members_scan_elems.induct)
  case (2 n ts)
  then show ?case
    by (fastforce split: sum.splits jtoken.splits if_splits prod.splits dest: token_length)
next
  case (4 n seen ts)
  show ?case
  proof (cases "has_more ts")
    case False
    with "4.prems" show ?thesis by (fastforce split: sum.splits dest: token_length)
  next
    case True
    with "4.prems" obtain key r1 r2 where
      t: "token ts = Inr (TStr key, r1)" "key \<notin> seen" "scan_value n r1 = Inr r2"
      and m: "scan_members n (insert key seen) r2 = Inr r"
      by (auto split: sum.splits prod.splits jtoken.splits if_splits)
    have "length r2 < length r1" using "4.IH"(1) True t by auto
    moreover have "length r < length r2" using "4.IH"(2) True t m by auto
    moreover have "length ts = Suc (length r1)" using t(1) by (rule token_length)
    ultimately show ?thesis by linarith
  qed
next
  case (6 n ts)
  show ?case
  proof (cases "has_more ts")
    case False
    with "6.prems" show ?thesis by (fastforce split: sum.splits dest: token_length)
  next
    case True
    with "6.prems" obtain r1 where "scan_value n ts = Inr r1" "scan_elems n r1 = Inr r"
      by (auto split: sum.splits)
    with True "6.IH" have "length r1 < length ts" "length r < length r1" by auto
    then show ?thesis by linarith
  qed
qed simp_all

lemma scan_enough_fuel:
  "2 * length ts < n \<Longrightarrow> scan_value n ts \<noteq> Inl OutOfFuel"
  "2 * length ts < n \<Longrightarrow> scan_members n seen ts \<noteq> Inl OutOfFuel"
  "2 * length ts + 1 < n \<Longrightarrow> scan_elems n ts \<noteq> Inl OutOfFuel"
proof (induction n ts and n seen ts and n ts rule: scan_value_scan_members_scan_elems.induct)
  case (2 n ts)
  show ?case
  proof (cases "token ts")
    case (Inl e)
    then show ?thesis using token_fuel [of ts] by auto
  next
    case (Inr p)
    then obtain t r where p: "token ts = Inr (t, r)" by (cases p) auto
    with "2.prems" have "2 * length r + 1 < n" "2 * length r < n" by (auto dest: token_length)
    with p "2.IH" show ?thesis by (auto split: jtoken.splits)
  qed
next
  case (4 n seen ts)
  show ?case
  proof (cases "has_more ts")
    case False
    with token_fuel [of ts] show ?thesis by (auto split: sum.splits)
  next
    case more: True
    show ?thesis
    proof (cases "token ts")
      case (Inl e)
      with more token_fuel [of ts] show ?thesis by auto
    next
      case (Inr p)
      then obtain t r where p: "token ts = Inr (t, r)" by (cases p) auto
      with "4.prems" have r: "2 * length r < n" by (auto dest: token_length)
      have v: "scan_value n r \<noteq> Inl OutOfFuel" if "t = TStr k" "k \<notin> seen" for k
        using "4.IH"(1) more p r that by auto
      have "scan_members n (insert k seen) r' \<noteq> Inl OutOfFuel"
        if "t = TStr k" "k \<notin> seen" "scan_value n r = Inr r'" for k r'
        using "4.IH"(2) more p r that scan_progress(1) [OF that(3)] by auto
      with v more p show ?thesis by (auto split: jtoken.splits sum.splits)
    qed
  qed
next
  case (6 n ts)
  show ?case
  proof (cases "has_more ts")
    case False
    with token_fuel [of ts] show ?thesis by (auto split: sum.splits)
  next
    case True
    show ?thesis
    proof (cases "scan_value n ts")
      case (Inl e)
      with True "6.prems" "6.IH"(1) show ?thesis by auto
    next
      case (Inr r)
      with scan_progress(1) [OF Inr] "6.prems" True "6.IH"(2) show ?thesis by auto
    qed
  qed
qed auto

lemma scan_json_value_fuel: "scan_json_value ts \<noteq> Inl OutOfFuel"
  unfolding scan_json_value_def by (rule scan_enough_fuel(1)) simp

section \<open>What the scan accepts\<close>

text \<open>No object of the value has a key twice, at any depth.\<close>

fun no_duplicate_keys :: "json \<Rightarrow> bool" where
  "no_duplicate_keys (JArr vs) = list_all no_duplicate_keys vs"
| "no_duplicate_keys (JObj ms) =
     (distinct (map fst ms) \<and> list_all (\<lambda>(k, v). no_duplicate_keys v) ms)"
| "no_duplicate_keys _ = True"

text \<open>
  The scan of the tokens of a list of members or elements, given what it does on each value.
  \<open>scans n v\<close> says that with fuel \<open>n\<close> the scan behaves on \<open>v\<close> as it should.
\<close>

definition scans :: "nat \<Rightarrow> json \<Rightarrow> bool" where
  "scans n v \<longleftrightarrow> (\<forall>r. scan_value n (tokens_of v @ r) =
     (if no_duplicate_keys v then Inr r else Inl DuplicateKey))"

lemma scan_elems_tokens:
  assumes "\<And>v m. v \<in> set vs \<Longrightarrow> length (tokens_of v) \<le> m \<Longrightarrow> scans m v"
    and "length (concat (map tokens_of vs)) < n"
  shows "scan_elems n (concat (map tokens_of vs) @ TDelim (CHR '']'') # r) =
     (if list_all no_duplicate_keys vs then Inr r else Inl DuplicateKey)"
  using assms
proof (induction vs arbitrary: n)
  case Nil
  then show ?case by (cases n) auto
next
  case (Cons v vs)
  from Cons.prems(2) obtain m where n: "n = Suc m" by (cases n) auto
  with Cons.prems(2) have "length (tokens_of v) + length (concat (map tokens_of vs)) < Suc m" by simp
  with length_tokens_of [of v]
  have l: "length (tokens_of v) \<le> m" "length (concat (map tokens_of vs)) < m" by linarith+
  have "scans m v" using Cons.prems(1) l(1) by simp
  then show ?case using Cons.IH [OF Cons.prems(1) l(2)] by (simp add: scans_def n)
qed

lemma scan_members_tokens:
  assumes "\<And>k v m. (k, v) \<in> set ms \<Longrightarrow> length (tokens_of v) \<le> m \<Longrightarrow> scans m v"
    and "length (concat (map (\<lambda>(k, v). TStr k # tokens_of v) ms)) < n"
  shows "scan_members n seen (concat (map (\<lambda>(k, v). TStr k # tokens_of v) ms) @ TDelim (CHR ''}'') # r) =
     (if distinct (map fst ms) \<and> seen \<inter> fst ` set ms = {} \<and> list_all (\<lambda>(k, v). no_duplicate_keys v) ms
      then Inr r else Inl DuplicateKey)"
  using assms
proof (induction ms arbitrary: n seen)
  case Nil
  then show ?case by (cases n) auto
next
  case (Cons e ms)
  obtain k v where e: "e = (k, v)" by (cases e)
  from Cons.prems(2) obtain j where n: "n = Suc j" by (cases n) auto
  with Cons.prems(2) e
  have "Suc (length (tokens_of v)) + length (concat (map (\<lambda>(k, v). TStr k # tokens_of v) ms)) < Suc j"
    by simp
  then have l: "length (tokens_of v) \<le> j" "length (concat (map (\<lambda>(k, v). TStr k # tokens_of v) ms)) < j"
    by linarith+
  have v: "scans j v" using Cons.prems(1) l(1) e by auto
  have "scan_members j (insert k seen) (concat (map (\<lambda>(k, v). TStr k # tokens_of v) ms) @ TDelim (CHR ''}'') # r) =
     (if distinct (map fst ms) \<and> insert k seen \<inter> fst ` set ms = {} \<and> list_all (\<lambda>(k, v). no_duplicate_keys v) ms
      then Inr r else Inl DuplicateKey)"
    using Cons.prems(1) by (intro Cons.IH [OF _ l(2)]) auto
  with v show ?case by (auto simp: scans_def e n)
qed

lemma scans_value: "length (tokens_of v) \<le> n \<Longrightarrow> scans n v"
proof (induction v arbitrary: n rule: tokens_of.induct)
  case (5 vs)
  from "5.prems" obtain m where "n = Suc m" "length (concat (map tokens_of vs)) < m"
    by (cases n) auto
  with scan_elems_tokens [of vs m] "5.IH" show ?case by (simp add: scans_def)
next
  case (6 ms)
  from "6.prems" obtain m where m: "n = Suc m"
    "length (concat (map (\<lambda>(k, v). TStr k # tokens_of v) ms)) < m"
    by (cases n) auto
  have "scan_members m {} (concat (map (\<lambda>(k, v). TStr k # tokens_of v) ms) @ TDelim (CHR ''}'') # r) =
     (if distinct (map fst ms) \<and> {} \<inter> fst ` set ms = {} \<and> list_all (\<lambda>(k, v). no_duplicate_keys v) ms
      then Inr r else Inl DuplicateKey)" for r
    by (rule scan_members_tokens [OF _ m(2)]) (use "6.IH" in fastforce)
  then show ?case by (simp add: scans_def m)
next
  case 1
  then show ?case by (cases n) (simp_all add: scans_def)
next
  case (2 b)
  then show ?case by (cases n) (simp_all add: scans_def)
next
  case (3 m)
  then show ?case by (cases n) (simp_all add: scans_def)
next
  case (4 s)
  then show ?case by (cases n) (simp_all add: scans_def)
qed

lemma scan_json_value_tokens:
  "scan_json_value (tokens_of v @ r) = (if no_duplicate_keys v then Inr r else Inl DuplicateKey)"
proof -
  have "scans (2 * length (tokens_of v @ r) + 1) v" by (rule scans_value) simp
  then show ?thesis by (simp add: scan_json_value_def scans_def)
qed

lemma reject_duplicate_tokens:
  "reject_duplicate_json_keys (tokens_of v) = (if no_duplicate_keys v then None else Some DuplicateKey)"
  using scan_json_value_tokens [of v "[]"] by (simp add: reject_duplicate_json_keys_def)

end
