(* ===== verification/Txn_Verifier.thy ===== *)
theory Txn_Verifier
  imports Txn_Claims Txn_Transport Go_URL Json_Scan
begin

text \<open>
  The verifier of strict transaction tokens (\<open>pkg/transaction/txn_verifier.go\<close>): its
  configuration, the wire form of the claims, the verification pipeline, and the rules the
  claims have to meet.

  Parameters: \<open>lib\<close> holds what the code takes from outside (\<open>jose.ParseSigned\<close>, the signature
  check, the JSON lexer, the IP-literal hosts of \<open>url.Parse\<close>, \<open>strings.ToLower\<close> on non-ASCII
  strings, the key resolver); \<open>now\<close> is what the configured clock returns.
\<close>

section \<open>What the verifier takes from outside\<close>

text \<open>A \<open>jose.Header\<close>, and a parsed JWS: its signatures (protected, unprotected header).\<close>

record jose_header =
  jh_key_id :: string
  jh_has_jwk :: bool
  jh_algorithm :: string
  jh_nonce :: string
  jh_extra :: "(string \<times> json) list"

record 'j verifier_lib =
  vl_parse_signed :: "string \<Rightarrow> string list \<Rightarrow> ('j \<times> (jose_header \<times> jose_header) list) option"
  vl_verify_signature :: "'j \<Rightarrow> string \<Rightarrow> string option"
    \<comment> \<open>\<open>signed.Verify(key)\<close>; a key is named by a string\<close>
  vl_resolve_key :: "string \<Rightarrow> unit + string option"
    \<comment> \<open>\<open>ResolveVerificationKey\<close>: an error, or a key that may be nil\<close>
  vl_lex :: "string \<Rightarrow> jtoken list"
  vl_ip_literal :: "string \<Rightarrow> string option"
  vl_to_lower :: "string \<Rightarrow> string"

datatype verification_error =
    InvalidConfiguration
  | VerificationCancelled
  | InvalidCompactToken
  | InvalidProtectedHeaderJSON
  | InvalidSignedToken
  | InvalidProtectedHeader
  | UnsupportedProtectedHeader
  | DisallowedAlgorithm
  | InvalidKeyID
  | UnknownOrAmbiguousKeyID
  | SignatureValidationFailed
  | InvalidClaimsJSON
  | InvalidClaimsSchema
  | InvalidLocalContextSchema
  | InvalidStandardIdentityClaims
  | InvalidTokenTimeWindow
  | InvalidScope
  | ScopeNotAllowed
  | DuplicateScope
  | TransactionContextTooLarge
  | InvalidLocalTransactionContext
  | RequestingWorkloadBindingMismatch
  | InvalidRequestContext

section \<open>Value checks\<close>

definition valid_trust_domain :: "(string \<Rightarrow> string) \<Rightarrow> string \<Rightarrow> bool" where
  "valid_trust_domain to_lower v =
     (v \<noteq> [] \<and> \<not> contains_any v [CHR ''/'', CHR '':'', CHR ''@'', CHR '' '', CHR 0x09, CHR 0x0D, CHR 0x0A]
      \<and> (if is_ascii v then map lower_char v else to_lower v) = v)"

definition valid_spiffe_id :: "(string \<Rightarrow> string option) \<Rightarrow> string \<Rightarrow> string \<Rightarrow> bool" where
  "valid_spiffe_id ip_literal v trust_domain =
     (case url_parse ip_literal v of
        None \<Rightarrow> False
      | Some u \<Rightarrow> url_scheme u = ''spiffe'' \<and> url_host u = trust_domain \<and> url_path u \<noteq> []
                  \<and> url_raw_query u = [] \<and> url_fragment u = [] \<and> \<not> url_user u)"

definition bounded_value :: "string \<Rightarrow> int \<Rightarrow> bool" where
  "bounded_value v maximum =
     (v \<noteq> [] \<and> int (length v) \<le> maximum \<and> trim_space v = v
      \<and> \<not> contains_any v [CHR 0x00, CHR 0x0D, CHR 0x0A])"

definition empty_jose_header :: "jose_header \<Rightarrow> bool" where
  "empty_jose_header h =
     (jh_key_id h = [] \<and> \<not> jh_has_jwk h \<and> jh_algorithm h = [] \<and> jh_nonce h = []
      \<and> length (jh_extra h) = 0)"

section \<open>Configuration and constructor\<close>

record verifier_config =
  vc_mode :: profile_mode
  vc_issuer :: string
  vc_trust_domain :: string
  vc_algorithms :: "string list"
  vc_clock_skew :: duration
  vc_maximum_lifetime :: duration
  vc_maximum_token_bytes :: int
  vc_maximum_payload_bytes :: int
  vc_maximum_identifier_bytes :: int
  vc_maximum_context_bytes :: int
  vc_maximum_scopes :: int
  vc_allowed_scopes :: "string list" \<comment> \<open>the keys of the map\<close>
  vc_workload_agent_bindings :: "(string \<times> string) list" \<comment> \<open>the entries of the map\<close>
  vc_has_keys :: bool

record verifier =
  v_config :: verifier_config
  v_algs :: "string set"

definition new_txn_token_verifier ::
  "'j verifier_lib \<Rightarrow> verifier_config \<Rightarrow> verification_error + verifier" where
  "new_txn_token_verifier lib c =
     (if vc_mode c \<noteq> profile_txn_token_v11 \<or> profile_validate (vc_mode c) \<noteq> None
         \<or> blank (vc_issuer c) \<or> \<not> valid_trust_domain (vl_to_lower lib) (vc_trust_domain c)
         \<or> length (vc_algorithms c) = 0 \<or> vc_clock_skew c < 0 \<or> vc_maximum_lifetime c \<le> 0
         \<or> vc_maximum_token_bytes c \<le> 0 \<or> vc_maximum_payload_bytes c \<le> 0
         \<or> vc_maximum_identifier_bytes c \<le> 0 \<or> vc_maximum_context_bytes c \<le> 0
         \<or> vc_maximum_scopes c \<le> 0 \<or> length (vc_allowed_scopes c) = 0
         \<or> length (vc_workload_agent_bindings c) = 0 \<or> \<not> vc_has_keys c
      then Inl InvalidConfiguration
      else case url_parse (vl_ip_literal lib) (vc_issuer c) of
        None \<Rightarrow> Inl InvalidConfiguration
      | Some u \<Rightarrow>
          if url_scheme u \<noteq> ''https'' \<or> url_host u = [] \<or> url_fragment u \<noteq> []
          then Inl InvalidConfiguration
          else if list_ex blank (vc_algorithms c) then Inl InvalidConfiguration
          else if list_ex (\<lambda>s. \<not> bounded_value s (vc_maximum_identifier_bytes c)
                    \<or> contains_any s [CHR '' '', CHR 0x09, CHR 0x0D, CHR 0x0A]) (vc_allowed_scopes c)
          then Inl InvalidConfiguration
          else if list_ex (\<lambda>(w, a). \<not> valid_spiffe_id (vl_ip_literal lib) w (vc_trust_domain c)
                    \<or> \<not> bounded_value a (vc_maximum_identifier_bytes c)) (vc_workload_agent_bindings c)
          then Inl InvalidConfiguration
          else Inr \<lparr>v_config = c, v_algs = set (vc_algorithms c)\<rparr>)"

section \<open>Wire claims and their decoding\<close>

record wire_agent =
  wa_id :: string
  wa_instance_id :: string
  wa_workload_id :: string

record wire_wai =
  ww_version :: int
  ww_agent :: wire_agent
  ww_target :: string
  ww_tool :: string

record wire_context =
  wc_wai :: wire_wai

record wire_request_context =
  wr_authn :: string

record wire_claims =
  wire_iss :: string
  wire_sub :: string
  wire_aud :: string
  wire_iat :: int
  wire_exp :: int
  wire_txn :: string
  wire_scope :: string
  wire_req_wl :: string
  wire_tctx :: wire_context
  wire_rctx :: "wire_request_context option"
  wire_jti :: string

definition zero_agent :: wire_agent where
  "zero_agent = \<lparr>wa_id = [], wa_instance_id = [], wa_workload_id = []\<rparr>"

definition zero_wai :: wire_wai where
  "zero_wai = \<lparr>ww_version = 0, ww_agent = zero_agent, ww_target = [], ww_tool = []\<rparr>"

definition zero_wire :: wire_claims where
  "zero_wire = \<lparr>wire_iss = [], wire_sub = [], wire_aud = [], wire_iat = 0, wire_exp = 0,
     wire_txn = [], wire_scope = [], wire_req_wl = [], wire_tctx = \<lparr>wc_wai = zero_wai\<rparr>,
     wire_rctx = None, wire_jti = []\<rparr>"

definition agent_fields :: "wire_agent field list" where
  "agent_fields =
     [string_field ''id'' (\<lambda>s r. r\<lparr>wa_id := s\<rparr>),
      string_field ''instance_id'' (\<lambda>s r. r\<lparr>wa_instance_id := s\<rparr>),
      string_field ''workload_id'' (\<lambda>s r. r\<lparr>wa_workload_id := s\<rparr>)]"

definition wai_fields :: "bool \<Rightarrow> wire_wai field list" where
  "wai_fields strict =
     [int_field ''version'' (\<lambda>n r. r\<lparr>ww_version := n\<rparr>),
      struct_field ''agent'' (decode_struct agent_fields strict) ww_agent (\<lambda>s r. r\<lparr>ww_agent := s\<rparr>),
      string_field ''target'' (\<lambda>s r. r\<lparr>ww_target := s\<rparr>),
      string_field ''tool'' (\<lambda>s r. r\<lparr>ww_tool := s\<rparr>)]"

definition context_fields :: "bool \<Rightarrow> wire_context field list" where
  "context_fields strict =
     [struct_field ''wai'' (decode_struct (wai_fields strict) strict) wc_wai (\<lambda>s r. r\<lparr>wc_wai := s\<rparr>)]"

definition request_context_fields :: "wire_request_context field list" where
  "request_context_fields = [string_field ''authn'' (\<lambda>s r. r\<lparr>wr_authn := s\<rparr>)]"

definition wire_fields :: "wire_claims field list" where
  "wire_fields =
     [string_field ''iss'' (\<lambda>s r. r\<lparr>wire_iss := s\<rparr>),
      string_field ''sub'' (\<lambda>s r. r\<lparr>wire_sub := s\<rparr>),
      string_field ''aud'' (\<lambda>s r. r\<lparr>wire_aud := s\<rparr>),
      int_field ''iat'' (\<lambda>n r. r\<lparr>wire_iat := n\<rparr>),
      int_field ''exp'' (\<lambda>n r. r\<lparr>wire_exp := n\<rparr>),
      string_field ''txn'' (\<lambda>s r. r\<lparr>wire_txn := s\<rparr>),
      string_field ''scope'' (\<lambda>s r. r\<lparr>wire_scope := s\<rparr>),
      string_field ''req_wl'' (\<lambda>s r. r\<lparr>wire_req_wl := s\<rparr>),
      struct_field ''tctx'' (decode_struct (context_fields False) False) wire_tctx (\<lambda>s r. r\<lparr>wire_tctx := s\<rparr>),
      pointer_field ''rctx'' (decode_struct request_context_fields False) \<lparr>wr_authn = []\<rparr> wire_rctx
        (\<lambda>p r. r\<lparr>wire_rctx := p\<rparr>),
      string_field ''jti'' (\<lambda>s r. r\<lparr>wire_jti := s\<rparr>)]"

text \<open>\<open>json.Unmarshal(payload, &wire)\<close>.\<close>

definition unmarshal_wire :: "jtoken list \<Rightarrow> wire_claims option" where
  "unmarshal_wire ts =
     (case decode_all ts of None \<Rightarrow> None | Some j \<Rightarrow> decode_struct wire_fields False j zero_wire)"

text \<open>
  \<open>decodeStrictLocalContexts\<close>: the members \<open>tctx\<close> (required) and \<open>rctx\<close> are decoded again, over
  what the wire claims already hold, with unknown fields refused.
\<close>

definition decode_strict_local_contexts :: "jtoken list \<Rightarrow> wire_claims \<Rightarrow> wire_claims option" where
  "decode_strict_local_contexts ts w =
     (case Option.bind (decode_all ts) decode_raw_map of
        None \<Rightarrow> None
      | Some members \<Rightarrow>
          (case lookup members ''tctx'' of
             None \<Rightarrow> None
           | Some tctx \<Rightarrow>
               (case decode_struct (context_fields True) True tctx (wire_tctx w) of
                  None \<Rightarrow> None
                | Some c \<Rightarrow>
                    (let w1 = w\<lparr>wire_tctx := c\<rparr> in
                     case lookup members ''rctx'' of
                       None \<Rightarrow> Some w1
                     | Some rctx \<Rightarrow>
                         map_option (\<lambda>d. w1\<lparr>wire_rctx := Some d\<rparr>)
                           (decode_struct request_context_fields True rctx \<lparr>wr_authn = []\<rparr>)))))"

text \<open>The texts \<open>json.Marshal\<close> gives for the two contexts.\<close>

definition marshal_context :: "wire_context \<Rightarrow> string" where
  "marshal_context c =
     (let w = wc_wai c; a = ww_agent w in
      object_text [(''wai'', object_text
        [(''version'', int_digits (ww_version w)),
         (''agent'', object_text
            [(''id'', quote_json (wa_id a)), (''instance_id'', quote_json (wa_instance_id a)),
             (''workload_id'', quote_json (wa_workload_id a))]),
         (''target'', quote_json (ww_target w)), (''tool'', quote_json (ww_tool w))])])"

definition marshal_request_context :: "wire_request_context \<Rightarrow> string" where
  "marshal_request_context r = object_text [(''authn'', quote_json (wr_authn r))]"

section \<open>\<open>validateWire\<close>\<close>

text \<open>The scope loop: the first scope that is not allowed or was seen before stops it.\<close>

fun check_scopes :: "string list \<Rightarrow> string list \<Rightarrow> string list \<Rightarrow> verification_error option" where
  "check_scopes allowed seen [] = None"
| "check_scopes allowed seen (s # ss) =
     (if s \<notin> set allowed then Some ScopeNotAllowed
      else if s \<in> set seen then Some DuplicateScope
      else check_scopes allowed (s # seen) ss)"

definition validate_wire ::
  "(string \<Rightarrow> string option) \<Rightarrow> verifier_config \<Rightarrow> time \<Rightarrow> wire_claims \<Rightarrow> verification_error option" where
  "validate_wire ip_literal c now w =
     (let max_id = vc_maximum_identifier_bytes c;
          iat = time_unix (wire_iat w); exp = time_unix (wire_exp w);
          scopes = go_fields (wire_scope w);
          wai = wc_wai (wire_tctx w)
      in
      if wire_iss w \<noteq> vc_issuer c \<or> wire_aud w \<noteq> vc_trust_domain c
         \<or> \<not> bounded_value (wire_sub w) max_id \<or> \<not> bounded_value (wire_txn w) max_id
         \<or> wire_jti w \<noteq> [] \<and> \<not> bounded_value (wire_jti w) max_id
      then Some InvalidStandardIdentityClaims
      else if wire_iat w \<le> 0 \<or> wire_exp w \<le> 0 \<or> exp < now + (- vc_clock_skew c)
         \<or> iat > now + vc_clock_skew c \<or> \<not> exp > iat \<or> time_sub exp iat > vc_maximum_lifetime c
      then Some InvalidTokenTimeWindow
      else if length scopes = 0 \<or> int (length scopes) > vc_maximum_scopes c
         \<or> join '' '' scopes \<noteq> wire_scope w
      then Some InvalidScope
      else case check_scopes (vc_allowed_scopes c) [] scopes of
        Some e \<Rightarrow> Some e
      | None \<Rightarrow>
          if int (length (marshal_context (wire_tctx w))) > vc_maximum_context_bytes c
          then Some TransactionContextTooLarge
          else if ww_version wai \<noteq> 1
             \<or> \<not> valid_spiffe_id ip_literal (wire_req_wl w) (vc_trust_domain c)
             \<or> wa_workload_id (ww_agent wai) \<noteq> wire_req_wl w
             \<or> \<not> bounded_value (wa_id (ww_agent wai)) max_id
             \<or> \<not> bounded_value (wa_instance_id (ww_agent wai)) max_id
             \<or> \<not> bounded_value (ww_target wai) max_id \<or> \<not> bounded_value (ww_tool wai) max_id
          then Some InvalidLocalTransactionContext
          else if lookup (vc_workload_agent_bindings c) (wire_req_wl w) \<noteq> Some (wa_id (ww_agent wai))
          then Some RequestingWorkloadBindingMismatch
          else case wire_rctx w of
            None \<Rightarrow> None
          | Some r \<Rightarrow>
              if int (length (marshal_request_context r)) > vc_maximum_context_bytes c
                 \<or> \<not> bounded_value (wr_authn r) max_id
              then Some InvalidRequestContext else None)"

section \<open>\<open>Verify\<close>\<close>

definition map_request_context :: "wire_request_context option \<Rightarrow> request_context option" where
  "map_request_context r = map_option (\<lambda>w. \<lparr>rctx_authentication_method = wr_authn w\<rparr>) r"

definition claims_of_wire :: "wire_claims \<Rightarrow> txn_token_claims" where
  "claims_of_wire w =
     (let wai = wc_wai (wire_tctx w); a = ww_agent wai in
      \<lparr>txn_issuer = wire_iss w, txn_subject = wire_sub w, txn_audience = wire_aud w,
       txn_transaction_id = wire_txn w, txn_scope = go_fields (wire_scope w),
       txn_requesting_workload_id = wire_req_wl w,
       txn_context = \<lparr>wai_version = ww_version wai,
         wai_agent = \<lparr>wac_id = wa_id a, wac_instance_id = wa_instance_id a, wac_workload_id = wa_workload_id a\<rparr>,
         wai_target = ww_target wai, wai_tool = ww_tool wai\<rparr>,
       txn_request_context = map_request_context (wire_rctx w),
       txn_jwt_id = wire_jti w,
       txn_issued_at = time_unix (wire_iat w), txn_expires_at = time_unix (wire_exp w)\<rparr>)"

text \<open>The part of \<open>Verify\<close> up to the verified payload: compact form, protected header, key, signature.\<close>

definition verify_payload ::
  "'j verifier_lib \<Rightarrow> verifier \<Rightarrow> bool \<Rightarrow> string \<Rightarrow> verification_error + string" where
  "verify_payload lib v cancelled raw =
     (let c = v_config v in
      if cancelled then Inl VerificationCancelled
      else if length raw = 0 \<or> int (length raw) > vc_maximum_token_bytes c
         \<or> count_byte raw (CHR ''.'') \<noteq> 2 \<or> trim_space raw \<noteq> raw
      then Inl InvalidCompactToken
      else case b64_decode (hd (split_on (CHR ''.'') raw)) of
        None \<Rightarrow> Inl InvalidProtectedHeaderJSON
      | Some protected_json \<Rightarrow>
      if length protected_json = 0 \<or> int (length protected_json) > vc_maximum_context_bytes c
         \<or> reject_duplicate_json_keys (vl_lex lib protected_json) \<noteq> None
      then Inl InvalidProtectedHeaderJSON
      else case vl_parse_signed lib raw (vc_algorithms c) of
        Some (jws, [(protected, unprotected)]) \<Rightarrow>
          if \<not> empty_jose_header unprotected \<or> jh_key_id protected = [] \<or> jh_algorithm protected = []
             \<or> lookup (jh_extra protected) ''typ'' \<noteq> Some (JStr txn_token_jose_type)
          then Inl InvalidProtectedHeader
          else if length (jh_extra protected) \<noteq> 1 then Inl UnsupportedProtectedHeader
          else if jh_algorithm protected \<notin> v_algs v then Inl DisallowedAlgorithm
          else if \<not> bounded_value (jh_key_id protected) (vc_maximum_identifier_bytes c)
          then Inl InvalidKeyID
          else (case vl_resolve_key lib (jh_key_id protected) of
            Inr (Some key) \<Rightarrow>
              (case vl_verify_signature lib jws key of
                 None \<Rightarrow> Inl SignatureValidationFailed
               | Some payload \<Rightarrow> Inr payload)
          | _ \<Rightarrow> Inl UnknownOrAmbiguousKeyID)
      | _ \<Rightarrow> Inl InvalidSignedToken)"

text \<open>The rest: the payload is JSON without duplicate keys, has the wire schema, and meets the rules.\<close>

definition claims_of_payload ::
  "'j verifier_lib \<Rightarrow> verifier \<Rightarrow> time \<Rightarrow> string \<Rightarrow> verification_error + txn_token_claims" where
  "claims_of_payload lib v now payload =
     (let c = v_config v; ts = vl_lex lib payload in
      if length payload = 0 \<or> int (length payload) > vc_maximum_payload_bytes c
         \<or> reject_duplicate_json_keys ts \<noteq> None
      then Inl InvalidClaimsJSON
      else case unmarshal_wire ts of
        None \<Rightarrow> Inl InvalidClaimsSchema
      | Some wire \<Rightarrow>
          (case decode_strict_local_contexts ts wire of
             None \<Rightarrow> Inl InvalidLocalContextSchema
           | Some w \<Rightarrow>
               (case validate_wire (vl_ip_literal lib) c now w of
                  Some e \<Rightarrow> Inl e
                | None \<Rightarrow> Inr (claims_of_wire w))))"

definition txn_verify ::
  "'j verifier_lib \<Rightarrow> verifier \<Rightarrow> time \<Rightarrow> bool \<Rightarrow> string \<Rightarrow> verification_error + txn_token_claims" where
  "txn_verify lib v now cancelled raw =
     (case verify_payload lib v cancelled raw of
        Inl e \<Rightarrow> Inl e
      | Inr payload \<Rightarrow> claims_of_payload lib v now payload)"

section \<open>The rules, stated on their own\<close>

text \<open>
  The rules a token has to meet, without the order in which the code checks them: identity
  claims, time window, scope, local context with its workload binding, request context.
\<close>

definition identity_rules :: "verifier_config \<Rightarrow> wire_claims \<Rightarrow> bool" where
  "identity_rules c w \<longleftrightarrow>
     wire_iss w = vc_issuer c \<and> wire_aud w = vc_trust_domain c
     \<and> bounded_value (wire_sub w) (vc_maximum_identifier_bytes c)
     \<and> bounded_value (wire_txn w) (vc_maximum_identifier_bytes c)
     \<and> (wire_jti w = [] \<or> bounded_value (wire_jti w) (vc_maximum_identifier_bytes c))"

definition window_rules :: "verifier_config \<Rightarrow> time \<Rightarrow> wire_claims \<Rightarrow> bool" where
  "window_rules c now w \<longleftrightarrow>
     0 < wire_iat w \<and> 0 < wire_exp w
     \<and> now \<le> time_unix (wire_exp w) + vc_clock_skew c
     \<and> time_unix (wire_iat w) \<le> now + vc_clock_skew c
     \<and> time_unix (wire_iat w) < time_unix (wire_exp w)
     \<and> time_sub (time_unix (wire_exp w)) (time_unix (wire_iat w)) \<le> vc_maximum_lifetime c"

definition scope_rules :: "verifier_config \<Rightarrow> wire_claims \<Rightarrow> bool" where
  "scope_rules c w \<longleftrightarrow>
     go_fields (wire_scope w) \<noteq> [] \<and> int (length (go_fields (wire_scope w))) \<le> vc_maximum_scopes c
     \<and> join '' '' (go_fields (wire_scope w)) = wire_scope w
     \<and> set (go_fields (wire_scope w)) \<subseteq> set (vc_allowed_scopes c)
     \<and> distinct (go_fields (wire_scope w))"

definition context_rules :: "(string \<Rightarrow> string option) \<Rightarrow> verifier_config \<Rightarrow> wire_claims \<Rightarrow> bool" where
  "context_rules ip c w \<longleftrightarrow>
     (let wai = wc_wai (wire_tctx w); a = ww_agent wai; m = vc_maximum_identifier_bytes c in
      int (length (marshal_context (wire_tctx w))) \<le> vc_maximum_context_bytes c
      \<and> ww_version wai = 1 \<and> valid_spiffe_id ip (wire_req_wl w) (vc_trust_domain c)
      \<and> wa_workload_id a = wire_req_wl w
      \<and> bounded_value (wa_id a) m \<and> bounded_value (wa_instance_id a) m
      \<and> bounded_value (ww_target wai) m \<and> bounded_value (ww_tool wai) m
      \<and> lookup (vc_workload_agent_bindings c) (wire_req_wl w) = Some (wa_id a))"

definition request_context_rules :: "verifier_config \<Rightarrow> wire_claims \<Rightarrow> bool" where
  "request_context_rules c w \<longleftrightarrow>
     (case wire_rctx w of None \<Rightarrow> True
      | Some r \<Rightarrow> int (length (marshal_request_context r)) \<le> vc_maximum_context_bytes c
                  \<and> bounded_value (wr_authn r) (vc_maximum_identifier_bytes c))"

lemmas rule_defs =
  identity_rules_def window_rules_def scope_rules_def context_rules_def request_context_rules_def

lemma check_scopes_None:
  "check_scopes allowed seen ss = None \<longleftrightarrow>
     set ss \<subseteq> set allowed \<and> distinct ss \<and> set ss \<inter> set seen = {}"
  by (induction ss arbitrary: seen) auto

lemma validate_wire_None:
  "validate_wire ip c now w = None \<longleftrightarrow>
     identity_rules c w \<and> window_rules c now w \<and> scope_rules c w \<and> context_rules ip c w
     \<and> request_context_rules c w"
proof (cases "check_scopes (vc_allowed_scopes c) [] (go_fields (wire_scope w))")
  case (Some e)
  then have "\<not> scope_rules c w"
    using check_scopes_None [of "vc_allowed_scopes c" "[]" "go_fields (wire_scope w)"]
    by (auto simp: scope_rules_def)
  with Some show ?thesis by (simp add: validate_wire_def Let_def)
next
  case None
  then have sc: "set (go_fields (wire_scope w)) \<subseteq> set (vc_allowed_scopes c)"
    "distinct (go_fields (wire_scope w))"
    by (simp_all add: check_scopes_None)
  have neg: "\<And>a b s. (a < b + - s) = (\<not> b \<le> a + (s::int))" by auto
  show ?thesis
    by (simp add: validate_wire_def Let_def None rule_defs sc neg not_less not_le split: option.split)
      (auto simp: not_le)
qed

section \<open>Facts about a successful verification\<close>

lemma verify_payload_Inr:
  assumes "verify_payload lib v cancelled raw = Inr payload"
  shows "\<exists>jws h key. vl_parse_signed lib raw (vc_algorithms (v_config v)) = Some (jws, [h])
    \<and> jh_algorithm (fst h) \<in> v_algs v \<and> empty_jose_header (snd h)
    \<and> lookup (jh_extra (fst h)) ''typ'' = Some (JStr txn_token_jose_type)
    \<and> vl_resolve_key lib (jh_key_id (fst h)) = Inr (Some key)
    \<and> vl_verify_signature lib jws key = Some payload"
    and "\<not> cancelled" and "int (length raw) \<le> vc_maximum_token_bytes (v_config v)"
  using assms
  by (auto simp: verify_payload_def Let_def split: if_splits option.splits sum.splits list.splits)

lemma claims_of_payload_Inr:
  "claims_of_payload lib v now payload = Inr cl \<longleftrightarrow>
     payload \<noteq> [] \<and> int (length payload) \<le> vc_maximum_payload_bytes (v_config v)
     \<and> reject_duplicate_json_keys (vl_lex lib payload) = None
     \<and> (\<exists>w0 w. unmarshal_wire (vl_lex lib payload) = Some w0
          \<and> decode_strict_local_contexts (vl_lex lib payload) w0 = Some w
          \<and> validate_wire (vl_ip_literal lib) (v_config v) now w = None
          \<and> cl = claims_of_wire w)"
  by (auto simp: claims_of_payload_def Let_def split: option.splits)

lemma txn_verify_Inr:
  assumes "txn_verify lib v now cancelled raw = Inr cl"
  obtains payload w where "verify_payload lib v cancelled raw = Inr payload"
    and "validate_wire (vl_ip_literal lib) (v_config v) now w = None"
    and "cl = claims_of_wire w"
    and "\<exists>w0. unmarshal_wire (vl_lex lib payload) = Some w0
      \<and> decode_strict_local_contexts (vl_lex lib payload) w0 = Some w"
    and "reject_duplicate_json_keys (vl_lex lib payload) = None"
  using assms by (auto simp: txn_verify_def claims_of_payload_Inr split: sum.splits)

lemma claims_of_wire_simps [simp]:
  "txn_issuer (claims_of_wire w) = wire_iss w" "txn_subject (claims_of_wire w) = wire_sub w"
  "txn_audience (claims_of_wire w) = wire_aud w"
  "txn_transaction_id (claims_of_wire w) = wire_txn w"
  "txn_scope (claims_of_wire w) = go_fields (wire_scope w)"
  "txn_requesting_workload_id (claims_of_wire w) = wire_req_wl w"
  "wai_target (txn_context (claims_of_wire w)) = ww_target (wc_wai (wire_tctx w))"
  "wai_tool (txn_context (claims_of_wire w)) = ww_tool (wc_wai (wire_tctx w))"
  "wai_version (txn_context (claims_of_wire w)) = ww_version (wc_wai (wire_tctx w))"
  "wac_id (wai_agent (txn_context (claims_of_wire w))) = wa_id (ww_agent (wc_wai (wire_tctx w)))"
  "wac_instance_id (wai_agent (txn_context (claims_of_wire w))) = wa_instance_id (ww_agent (wc_wai (wire_tctx w)))"
  "wac_workload_id (wai_agent (txn_context (claims_of_wire w))) = wa_workload_id (ww_agent (wc_wai (wire_tctx w)))"
  "txn_jwt_id (claims_of_wire w) = wire_jti w"
  "txn_issued_at (claims_of_wire w) = time_unix (wire_iat w)"
  "txn_expires_at (claims_of_wire w) = time_unix (wire_exp w)"
  by (simp_all add: claims_of_wire_def Let_def)

text \<open>What every consumer of verified claims may rely on.\<close>

definition verified_claims :: "(string \<Rightarrow> string option) \<Rightarrow> verifier_config \<Rightarrow> time \<Rightarrow> txn_token_claims \<Rightarrow> bool" where
  "verified_claims ip c now cl \<longleftrightarrow>
     (let m = vc_maximum_identifier_bytes c; wai = txn_context cl; a = wai_agent wai in
      txn_issuer cl = vc_issuer c \<and> txn_audience cl = vc_trust_domain c
      \<and> bounded_value (txn_subject cl) m \<and> bounded_value (txn_transaction_id cl) m
      \<and> bounded_value (wac_id a) m \<and> bounded_value (wac_instance_id a) m
      \<and> bounded_value (wai_target wai) m \<and> bounded_value (wai_tool wai) m
      \<and> valid_spiffe_id ip (txn_requesting_workload_id cl) (vc_trust_domain c)
      \<and> wac_workload_id a = txn_requesting_workload_id cl
      \<and> lookup (vc_workload_agent_bindings c) (txn_requesting_workload_id cl) = Some (wac_id a)
      \<and> txn_scope cl \<noteq> [] \<and> distinct (txn_scope cl) \<and> set (txn_scope cl) \<subseteq> set (vc_allowed_scopes c)
      \<and> int (length (txn_scope cl)) \<le> vc_maximum_scopes c
      \<and> txn_issued_at cl < txn_expires_at cl
      \<and> time_sub (txn_expires_at cl) (txn_issued_at cl) \<le> vc_maximum_lifetime c
      \<and> now \<le> txn_expires_at cl + vc_clock_skew c \<and> txn_issued_at cl \<le> now + vc_clock_skew c)"

lemma txn_verify_verified:
  assumes "txn_verify lib v now cancelled raw = Inr cl"
  shows "verified_claims (vl_ip_literal lib) (v_config v) now cl"
proof -
  from assms obtain w where "validate_wire (vl_ip_literal lib) (v_config v) now w = None"
    and "cl = claims_of_wire w" by (rule txn_verify_Inr)
  then show ?thesis
    unfolding validate_wire_None rule_defs verified_claims_def by (simp add: Let_def)
qed

text \<open>The claims depend on the token and the configuration; the clock only decides acceptance.\<close>

lemma txn_verify_clock_independent:
  assumes "txn_verify lib v t1 c1 raw = Inr a" "txn_verify lib v t2 c2 raw = Inr b"
  shows "a = b"
proof -
  have "verify_payload lib v c1 raw = verify_payload lib v c2 raw"
    using assms by (auto simp: txn_verify_def verify_payload_def Let_def split: if_splits sum.splits)
  with assms show ?thesis
    by (auto simp: txn_verify_def claims_of_payload_Inr split: sum.splits)
qed

lemma new_txn_token_verifier_Inr:
  assumes "new_txn_token_verifier lib c = Inr v"
  shows "v_config v = c" "v_algs v = set (vc_algorithms c)" "0 \<le> vc_clock_skew c"
    "0 < vc_maximum_lifetime c" "vc_mode c = profile_txn_token_v11" "vc_algorithms c \<noteq> []"
    "\<forall>(w, a) \<in> set (vc_workload_agent_bindings c).
       valid_spiffe_id (vl_ip_literal lib) w (vc_trust_domain c)
       \<and> bounded_value a (vc_maximum_identifier_bytes c)"
    "\<forall>s \<in> set (vc_allowed_scopes c). bounded_value s (vc_maximum_identifier_bytes c)"
  using assms
  by (auto simp: new_txn_token_verifier_def list_ex_iff split: if_splits option.splits)

end
