(* ===== verification/Middleware.thy ===== *)
theory Middleware
  imports Audit_Sinks Caller Txn_Verifier
begin

text \<open>
  The two authentication middlewares (\<open>pkg/middleware/identity.go\<close>, \<open>strict_identity.go\<close>). Each
  turns a request into an error reply or a call of the next handler with the verified identity,
  token and evidence in the request context. A handler acts on a world \<open>'w\<close>, which the audit sink
  writes to. \<open>sha256_hex\<close> and \<open>from_uri\<close> are as in the theories of the audit events and the caller;
  the token verifier is a parameter with the interface \<open>token_verifier\<close>.
\<close>

section \<open>The request context of the packages\<close>

record mw_ctx = ctx +
  ctx_token :: "string option"
  ctx_evidence :: "token_evidence option"
  ctx_route :: "(string \<times> string) option" \<comment> \<open>\<open>SignedRoute\<close>: target, tool\<close>

definition background :: mw_ctx where
  "background =
     \<lparr>ctx_done = False, ctx_identity = None, ctx_token = None, ctx_evidence = None, ctx_route = None\<rparr>"

definition verified_transaction_token :: "mw_ctx \<Rightarrow> string option" where
  "verified_transaction_token c =
     (case ctx_token c of None \<Rightarrow> None | Some t \<Rightarrow> if t \<noteq> [] then Some t else None)"

definition verified_evidence :: "mw_ctx \<Rightarrow> token_evidence option" where
  "verified_evidence c = ctx_evidence c"

definition verified_signed_route :: "mw_ctx \<Rightarrow> (string \<times> string) option" where
  "verified_signed_route c =
     (case ctx_route c of
        None \<Rightarrow> None
      | Some (target, tool) \<Rightarrow> if target \<noteq> [] \<and> tool \<noteq> [] then Some (target, tool) else None)"

type_synonym ('w, 'b) handler = "mw_ctx request \<Rightarrow> 'w \<Rightarrow> 'b replies \<times> 'w"

section \<open>The interface of a token verifier\<close>

locale token_verifier =
  fixes verify :: "mw_ctx \<Rightarrow> string \<Rightarrow> 'e + 'k" and genuine :: "mw_ctx \<Rightarrow> string \<Rightarrow> 'k \<Rightarrow> bool"
  assumes verified: "verify c raw = Inr k \<Longrightarrow> genuine c raw k"
begin

lemma not_genuine: "(\<And>k. \<not> genuine c raw k) \<Longrightarrow> \<exists>e. verify c raw = Inl e"
  using verified by (cases "verify c raw") auto

end

definition strict_genuine ::
  "'j verifier_lib \<Rightarrow> verifier \<Rightarrow> time \<Rightarrow> mw_ctx \<Rightarrow> string \<Rightarrow> txn_token_claims \<Rightarrow> bool" where
  "strict_genuine lib v now c raw cl \<longleftrightarrow>
     \<not> ctx_done c \<and> verified_claims (vl_ip_literal lib) (v_config v) now cl
     \<and> (\<exists>payload. verify_payload lib v (ctx_done c) raw = Inr payload)"

interpretation strict_verifier: token_verifier "\<lambda>c :: mw_ctx. txn_verify lib v now (ctx_done c)" "strict_genuine lib v now"
  for lib v now
proof
  fix c :: mw_ctx and raw k
  assume a: "txn_verify lib v now (ctx_done c) raw = Inr k"
  then obtain p where "verify_payload lib v (ctx_done c) raw = Inr p"
    by (auto simp: txn_verify_def split: sum.splits)
  with txn_verify_verified [OF a] verify_payload_Inr(2) [OF this] show "strict_genuine lib v now c raw k"
    by (auto simp: strict_genuine_def)
qed

section \<open>The strict middleware\<close>

datatype middleware_error = InvalidStrictMiddleware

record strict_config =
  sm_has_verifier :: bool
  sm_maximum_token_bytes :: int
  sm_allowed_callers :: "string list"
  sm_already_verified :: bool
  sm_service :: string

record strict_middleware =
  sm_config :: strict_config
  sm_callers :: "string list"

definition new_strict_txn_middleware :: "strict_config \<Rightarrow> middleware_error + strict_middleware" where
  "new_strict_txn_middleware c =
     (if \<not> sm_has_verifier c \<or> sm_maximum_token_bytes c \<le> 0 \<or> length (sm_allowed_callers c) = 0
         \<or> blank (sm_service c)
      then Inl InvalidStrictMiddleware
      else if list_ex (\<lambda>caller. \<not> ok (new_workload_identity caller)) (sm_allowed_callers c)
      then Inl InvalidStrictMiddleware
      else Inr \<lparr>sm_config = c, sm_callers = sm_allowed_callers c\<rparr>)"

text \<open>The event of a verified request.\<close>

definition strict_event ::
  "strict_middleware \<Rightarrow> string \<Rightarrow> txn_token_claims \<Rightarrow> string \<Rightarrow> token_evidence \<Rightarrow> event" where
  "strict_event m rq_meth cl caller ev =
     (let wai = txn_context cl in
      blank_event\<lparr>evt_type := transaction_verify_succeeded, evt_transaction_id := txn_transaction_id cl,
        evt_user_id := txn_subject cl, evt_agent_id := wac_id (wai_agent wai),
        evt_transaction_workload_id := txn_requesting_workload_id cl, evt_immediate_caller := caller,
        evt_target := sm_service (sm_config m), evt_tool := wai_tool wai,
        evt_purpose := wai_target wai @ '':'' @ wai_tool wai, evt_decision := ''allow'',
        evt_reason_code := ''strict_txn_token_verified'', evt_protocol_method := rq_meth,
        evt_token := Some ev\<rparr>)"

definition strict_ctx :: "mw_ctx \<Rightarrow> request_identity \<Rightarrow> string \<Rightarrow> token_evidence \<Rightarrow> string \<times> string \<Rightarrow> mw_ctx" where
  "strict_ctx c v raw ev route =
     (with_context c v)\<lparr>ctx_token := Some raw, ctx_evidence := Some ev, ctx_route := Some route\<rparr>"

text \<open>Everything \<open>Handler\<close> decides before it writes the audit event.\<close>

definition strict_admit ::
  "(string \<Rightarrow> string option) \<Rightarrow> (string \<Rightarrow> string) \<Rightarrow> (mw_ctx \<Rightarrow> string \<Rightarrow> 'e + txn_token_claims)
    \<Rightarrow> strict_middleware \<Rightarrow> mw_ctx request \<Rightarrow> (string \<times> nat) + event \<times> mw_ctx" where
  "strict_admit from_uri sha256_hex verify m rq =
     (case extract_txn_token (Some (rq_header rq)) (sm_maximum_token_bytes (sm_config m)) of
        Inl _ \<Rightarrow> Inl (''unauthorized'', 401)
      | Inr raw \<Rightarrow>
     (case verify (rq_ctx rq) raw of
        Inl _ \<Rightarrow> Inl (''unauthorized'', 401)
      | Inr cl \<Rightarrow>
     (case immediate_caller from_uri (rq_tls rq) (sm_already_verified (sm_config m)) of
        Inl _ \<Rightarrow> Inl (''forbidden'', 403)
      | Inr caller \<Rightarrow>
          if caller \<notin> set (sm_callers m) then Inl (''forbidden'', 403)
          else
            let target = wai_target (txn_context cl); tool = wai_tool (txn_context cl);
                a = wai_agent (txn_context cl) in
            if target = [] \<or> tool = [] then Inl (''unauthorized'', 401)
            else case build_identity (txn_subject cl) (wac_id a, wac_instance_id a)
                   (txn_requesting_workload_id cl) caller (txn_transaction_id cl, target @ '':'' @ tool) (txn_scope cl) of
              Inl _ \<Rightarrow> Inl (''unauthorized'', 401)
            | Inr v \<Rightarrow>
                (case new_verified_txn_token_evidence sha256_hex raw cl of
                   Inl _ \<Rightarrow> Inl (''unauthorized'', 401)
                 | Inr ev \<Rightarrow>
                     Inr (strict_event m (rq_method rq) cl caller ev,
                          strict_ctx (rq_ctx rq) v raw ev (target, tool))))))"

text \<open>Only the answer of the verifier on the extracted token matters.\<close>

lemma strict_admit_cong:
  assumes "extract_txn_token (Some (rq_header rq)) (sm_maximum_token_bytes (sm_config m)) = Inr raw"
    and "verify (rq_ctx rq) raw = answer"
  shows "strict_admit fu h verify m rq = strict_admit fu h (\<lambda>_ _. answer) m rq"
  using assms by (simp add: strict_admit_def)

definition audited ::
  "'w sink option \<Rightarrow> ('w, 'b) handler \<Rightarrow> (string \<times> nat) + event \<times> mw_ctx \<Rightarrow> ('w, 'b) handler" where
  "audited sink next admitted rq w =
     (case admitted of
        Inl (msg, status) \<Rightarrow> ([HttpError msg status], w)
      | Inr (e, c) \<Rightarrow>
          (case (case sink of None \<Rightarrow> (None, w) | Some s \<Rightarrow> s e w) of
             (Some _, w') \<Rightarrow> ([HttpError ''audit unavailable'' 500], w')
           | (None, w') \<Rightarrow> next (rq\<lparr>rq_ctx := c\<rparr>) w'))"

definition strict_handler ::
  "(string \<Rightarrow> string option) \<Rightarrow> (string \<Rightarrow> string) \<Rightarrow> (mw_ctx \<Rightarrow> string \<Rightarrow> 'e + txn_token_claims)
    \<Rightarrow> 'w sink option \<Rightarrow> strict_middleware \<Rightarrow> ('w, 'b) handler \<Rightarrow> ('w, 'b) handler" where
  "strict_handler from_uri sha256_hex verify sink m next rq w =
     audited sink next (strict_admit from_uri sha256_hex verify m rq) rq w"

section \<open>The legacy middleware\<close>

definition bearer :: "string \<Rightarrow> auth_error + string" where
  "bearer value =
     (let parts = go_fields value in
      if length parts \<noteq> 2 \<or> \<not> equal_fold (parts ! 0) ''Bearer'' \<or> parts ! 1 = []
      then Inl ErrUnauthenticated else Inr (parts ! 1))"

record legacy_middleware =
  lm_has_verifier :: bool
  lm_has_callers :: bool
  lm_audience :: string
  lm_already_verified :: bool
  lm_target :: string

definition legacy_event ::
  "legacy_middleware \<Rightarrow> string \<Rightarrow> claims \<Rightarrow> string \<Rightarrow> token_evidence \<Rightarrow> event" where
  "legacy_event m rq_meth cl caller ev =
     blank_event\<lparr>evt_type := transaction_verify_succeeded, evt_transaction_id := claims_transaction_id cl,
       evt_user_id := subject cl, evt_agent_id := claims_agent_id cl,
       evt_transaction_workload_id := claims_workload_id cl, evt_immediate_caller := caller,
       evt_target := lm_target m, evt_decision := ''allow'', evt_reason_code := ''verified'',
       evt_protocol_method := rq_meth, evt_purpose := claims_purpose cl, evt_token := Some ev\<rparr>"

definition legacy_ctx :: "mw_ctx \<Rightarrow> request_identity \<Rightarrow> string \<Rightarrow> token_evidence \<Rightarrow> mw_ctx" where
  "legacy_ctx c v raw ev = (with_context c v)\<lparr>ctx_token := Some raw, ctx_evidence := Some ev\<rparr>"

definition legacy_admit ::
  "(string \<Rightarrow> string option) \<Rightarrow> (string \<Rightarrow> string) \<Rightarrow> (mw_ctx \<Rightarrow> string \<Rightarrow> string \<Rightarrow> 'e + claims)
    \<Rightarrow> (claims \<Rightarrow> string \<Rightarrow> bool) \<Rightarrow> legacy_middleware \<Rightarrow> mw_ctx request \<Rightarrow> (string \<times> nat) + event \<times> mw_ctx" where
  "legacy_admit from_uri sha256_hex verify callers m rq =
     (if \<not> lm_has_verifier m \<or> \<not> lm_has_callers m \<or> lm_audience m = []
      then Inl (''authentication unavailable'', 500)
      else case bearer (header_get (rq_header rq) ''Authorization'') of
        Inl _ \<Rightarrow> Inl (''unauthorized'', 401)
      | Inr raw \<Rightarrow>
     (case verify (rq_ctx rq) raw (lm_audience m) of
        Inl _ \<Rightarrow> Inl (''unauthorized'', 401)
      | Inr cl \<Rightarrow>
     (case immediate_caller from_uri (rq_tls rq) (lm_already_verified m) of
        Inl _ \<Rightarrow> Inl (''forbidden'', 403)
      | Inr caller \<Rightarrow>
          if \<not> callers cl caller then Inl (''forbidden'', 403)
          else case new_verified_transaction_token_evidence sha256_hex raw cl of
            Inl _ \<Rightarrow> Inl (''unauthorized'', 401)
          | Inr ev \<Rightarrow>
              (case build_identity (subject cl) (claims_agent_id cl, claims_agent_instance_id cl)
                      (claims_workload_id cl) caller (claims_transaction_id cl, claims_purpose cl) (claims_scope cl) of
                 Inl _ \<Rightarrow> Inl (''unauthorized'', 401)
               | Inr v \<Rightarrow> Inr (legacy_event m (rq_method rq) cl caller ev, legacy_ctx (rq_ctx rq) v raw ev)))))"

definition legacy_handler ::
  "(string \<Rightarrow> string option) \<Rightarrow> (string \<Rightarrow> string) \<Rightarrow> (mw_ctx \<Rightarrow> string \<Rightarrow> string \<Rightarrow> 'e + claims)
    \<Rightarrow> (claims \<Rightarrow> string \<Rightarrow> bool) \<Rightarrow> 'w sink option \<Rightarrow> legacy_middleware \<Rightarrow> ('w, 'b) handler \<Rightarrow> ('w, 'b) handler" where
  "legacy_handler from_uri sha256_hex verify callers sink m next rq w =
     audited sink next (legacy_admit from_uri sha256_hex verify callers m rq) rq w"

section \<open>What admission means\<close>

text \<open>The context of an admitted strict request, and the facts behind it.\<close>

definition strict_admission ::
  "(string \<Rightarrow> string option) \<Rightarrow> (string \<Rightarrow> string) \<Rightarrow> (mw_ctx \<Rightarrow> string \<Rightarrow> 'e + txn_token_claims)
    \<Rightarrow> strict_middleware \<Rightarrow> mw_ctx request \<Rightarrow> event \<Rightarrow> mw_ctx \<Rightarrow> bool" where
  "strict_admission from_uri sha256_hex verify m rq e c \<longleftrightarrow>
     (\<exists>raw cl caller v ev.
        extract_txn_token (Some (rq_header rq)) (sm_maximum_token_bytes (sm_config m)) = Inr raw
        \<and> verify (rq_ctx rq) raw = Inr cl
        \<and> immediate_caller from_uri (rq_tls rq) (sm_already_verified (sm_config m)) = Inr caller
        \<and> caller \<in> set (sm_callers m)
        \<and> wai_target (txn_context cl) \<noteq> [] \<and> wai_tool (txn_context cl) \<noteq> []
        \<and> build_identity (txn_subject cl) (wac_id (wai_agent (txn_context cl)), wac_instance_id (wai_agent (txn_context cl)))
            (txn_requesting_workload_id cl) caller
            (txn_transaction_id cl, wai_target (txn_context cl) @ '':'' @ wai_tool (txn_context cl)) (txn_scope cl) = Inr v
        \<and> wf_identity v \<and> new_verified_txn_token_evidence sha256_hex raw cl = Inr ev
        \<and> e = strict_event m (rq_method rq) cl caller ev
        \<and> c = strict_ctx (rq_ctx rq) v raw ev (wai_target (txn_context cl), wai_tool (txn_context cl)))"

lemma strict_admit_Inr:
  "strict_admit fu h verify m rq = Inr (e, c) \<longleftrightarrow> strict_admission fu h verify m rq e c"
proof
  assume "strict_admit fu h verify m rq = Inr (e, c)"
  then show "strict_admission fu h verify m rq e c"
    unfolding strict_admit_def strict_admission_def Let_def
    by (auto split: sum.splits if_splits intro: build_identity_wf)
next
  assume "strict_admission fu h verify m rq e c"
  then show "strict_admit fu h verify m rq = Inr (e, c)"
    unfolding strict_admission_def by (auto simp: strict_admit_def Let_def)
qed

lemma strict_admit_Inl:
  "strict_admit fu h verify m rq = Inl (msg, status) \<Longrightarrow> status \<in> {401, 403}"
  by (auto simp: strict_admit_def Let_def split: sum.splits if_splits)

lemma legacy_admit_Inl:
  "legacy_admit fu h verify callers m rq = Inl (msg, status) \<Longrightarrow> status \<in> {401, 403, 500}"
  by (auto simp: legacy_admit_def split: sum.splits if_splits)

lemma legacy_admit_Inr:
  assumes "legacy_admit fu h verify callers m rq = Inr (e, c)"
  shows "\<exists>raw cl caller v ev. bearer (header_get (rq_header rq) ''Authorization'') = Inr raw
    \<and> verify (rq_ctx rq) raw (lm_audience m) = Inr cl \<and> lm_audience m \<noteq> []
    \<and> immediate_caller fu (rq_tls rq) (lm_already_verified m) = Inr caller \<and> callers cl caller
    \<and> build_identity (subject cl) (claims_agent_id cl, claims_agent_instance_id cl) (claims_workload_id cl) caller
        (claims_transaction_id cl, claims_purpose cl) (claims_scope cl) = Inr v
    \<and> wf_identity v \<and> new_verified_transaction_token_evidence h raw cl = Inr ev
    \<and> e = legacy_event m (rq_method rq) cl caller ev \<and> c = legacy_ctx (rq_ctx rq) v raw ev"
  using assms by (auto simp: legacy_admit_def split: sum.splits if_splits intro: build_identity_wf)

lemma audited_cases:
  fixes w :: 'w and sink :: "'w sink option"
  obtains (refused) msg status where "admitted = Inl (msg, status)"
      "\<And>next :: ('w, 'b) handler. audited sink next admitted rq w = ([HttpError msg status], w)"
  | (unaudited) e c s err w' where "admitted = Inr (e, c)" "sink = Some s" "s e w = (Some err, w')"
      "\<And>next :: ('w, 'b) handler. audited sink next admitted rq w = ([HttpError ''audit unavailable'' 500], w')"
  | (passed) e c w' where "admitted = Inr (e, c)"
      "case sink of None \<Rightarrow> w' = w | Some s \<Rightarrow> s e w = (None, w')"
      "\<And>next :: ('w, 'b) handler. audited sink next admitted rq w = next (rq\<lparr>rq_ctx := c\<rparr>) w'"
proof (cases admitted)
  case (Inl x)
  then show ?thesis using refused by (cases x) (simp add: audited_def)
next
  case (Inr x)
  obtain e c where x: "x = (e, c)" by (cases x)
  show ?thesis
  proof (cases sink)
    case None
    with Inr x show ?thesis by (intro passed [of e c w]) (simp_all add: audited_def)
  next
    case (Some s)
    obtain res w' where s: "s e w = (res, w')" by (cases "s e w")
    show ?thesis
    proof (cases res)
      case None
      with Inr x Some s show ?thesis by (intro passed [of e c w']) (simp_all add: audited_def)
    next
      case err: (Some err)
      with Inr x Some s show ?thesis by (intro unaudited [of e c s err w']) (simp_all add: audited_def)
    qed
  qed
qed

text \<open>Whatever comes next: one fixed error reply, or one call after the audit.\<close>

lemma audited_outcome:
  fixes w :: 'w and sink :: "'w sink option"
  assumes "\<forall>msg status. admitted = Inl (msg, status) \<longrightarrow> status \<in> {401, 403, 500}"
  shows "(\<exists>msg status w'. status \<in> {401, 403, 500} \<and>
      (\<forall>next :: ('w, 'b) handler. audited sink next admitted rq w = ([HttpError msg status], w')))
   \<or> (\<exists>e c w'. admitted = Inr (e, c) \<and> (case sink of None \<Rightarrow> w' = w | Some s \<Rightarrow> s e w = (None, w'))
        \<and> (\<forall>next :: ('w, 'b) handler. audited sink next admitted rq w = next (rq\<lparr>rq_ctx := c\<rparr>) w'))"
proof (cases rule: audited_cases [where 'b = 'b, of admitted sink rq w])
  case (refused msg status)
  with assms show ?thesis
    by (intro disjI1 exI [of _ msg] exI [of _ status] exI [of _ w]) simp
next
  case (unaudited e c s err w')
  then show ?thesis
    by (intro disjI1 exI [of _ "''audit unavailable''"] exI [of _ 500] exI [of _ w']) simp
next
  case (passed e c w')
  then show ?thesis
    by (intro disjI2 exI [of _ e] exI [of _ c] exI [of _ w']) simp
qed

lemma strict_ctx_reads [simp]:
  "from_context (strict_ctx c v raw ev route) = Some v"
  "ctx_token (strict_ctx c v raw ev route) = Some raw"
  "verified_evidence (strict_ctx c v raw ev route) = Some ev"
  "ctx_route (strict_ctx c v raw ev route) = Some route"
  "ctx_done (strict_ctx c v raw ev route) = ctx_done c"
  by (simp_all add: strict_ctx_def from_context_def with_context_def verified_evidence_def)

lemma bearer_Inr [guards]:
  "bearer value = Inr raw \<longleftrightarrow> (\<exists>s. go_fields value = [s, raw] \<and> equal_fold s ''Bearer'')"
proof -
  have two: "length ps = 2 \<longleftrightarrow> (\<exists>a b. ps = [a, b])" for ps :: "string list"
    by (cases ps; cases "tl ps") auto
  show ?thesis
  proof (cases "length (go_fields value) = 2")
    case True
    then obtain a b where p: "go_fields value = [a, b]" by (auto simp: two)
    then have "b \<noteq> []" using go_fields_nonempty [of b "value"] by simp
    with p show ?thesis by (auto simp: bearer_def Let_def)
  next
    case False
    then show ?thesis by (auto simp: bearer_def Let_def)
  qed
qed

end
