(* ===== verification/Authz_Policy.thy ===== *)
theory Authz_Policy
  imports Identity Go_JSON
begin

text \<open>
  The static authorization policy (\<open>pkg/authorization/policy.go\<close>) and the interface by which the
  gateways ask an authorizer. \<open>lexer\<close> is the JSON lexer.
\<close>

section \<open>The interface of an authorizer\<close>

text \<open>
  \<open>authorize c v target tool\<close>: the call returned \<open>nil\<close>. \<open>permits\<close> is the policy it stands for: an
  authorizer may deny more, never allow more.
\<close>

locale authorizer =
  fixes authorize :: "'c \<Rightarrow> request_identity \<Rightarrow> string \<Rightarrow> string \<Rightarrow> bool"
    and permits :: "request_identity \<Rightarrow> string \<Rightarrow> string \<Rightarrow> bool"
  assumes sound: "authorize c v target tool \<Longrightarrow> permits v target tool"
begin

lemma not_permitted_denied: "\<not> permits v target tool \<Longrightarrow> \<not> authorize c v target tool"
  using sound by blast

end

section \<open>Rules and policy\<close>

datatype policy_load_error =
  PolicyReaderRequired | InvalidPolicyDocument | PolicyHasNoRules | RuleMissingBinding
  | RuleEmptyScope | RuleEmptyPurposeOrTool | RuleAmbiguous

record policy_rule =
  rule_agent_id :: string
  rule_workload_id :: string
  rule_purposes :: "string list"
  rule_scopes :: "string list"
  rule_target :: string
  rule_tools :: "string list"

record policy_key =
  key_agent :: string
  key_workload :: string
  key_purpose :: string
  key_target :: string
  key_tool :: string

text \<open>\<open>requiredScopes\<close>: the entries of the map; the scopes of a rule are a set, given by its elements.\<close>

type_synonym policy = "(policy_key \<times> string list) list"

definition blank_rule :: policy_rule where
  "blank_rule =
     \<lparr>rule_agent_id = [], rule_workload_id = [], rule_purposes = [], rule_scopes = [],
      rule_target = [], rule_tools = []\<rparr>"

definition rule_fields :: "policy_rule field list" where
  "rule_fields =
     [string_field ''agent_id'' (\<lambda>s r. r\<lparr>rule_agent_id := s\<rparr>),
      string_field ''workload_id'' (\<lambda>s r. r\<lparr>rule_workload_id := s\<rparr>),
      strings_field ''purposes'' rule_purposes (\<lambda>s r. r\<lparr>rule_purposes := s\<rparr>),
      strings_field ''scopes'' rule_scopes (\<lambda>s r. r\<lparr>rule_scopes := s\<rparr>),
      string_field ''target'' (\<lambda>s r. r\<lparr>rule_target := s\<rparr>),
      strings_field ''tools'' rule_tools (\<lambda>s r. r\<lparr>rule_tools := s\<rparr>)]"

definition document_fields :: "policy_rule list field list" where
  "document_fields =
     [structs_field ''rules'' (decode_struct rule_fields True) blank_rule (\<lambda>rs. rs) (\<lambda>rs _. rs)]"

text \<open>The inner two loops of \<open>add\<close>, over the trimmed purposes and tools.\<close>

fun add_pairs ::
  "policy_rule \<Rightarrow> string list \<Rightarrow> (string \<times> string) list \<Rightarrow> policy \<Rightarrow> policy_load_error + policy" where
  "add_pairs r scopes [] p = Inr p"
| "add_pairs r scopes ((purpose, tool) # rest) p =
     (if purpose = [] \<or> tool = [] then Inl RuleEmptyPurposeOrTool
      else
        let k = \<lparr>key_agent = rule_agent_id r, key_workload = rule_workload_id r, key_purpose = purpose,
                 key_target = rule_target r, key_tool = tool\<rparr>
        in if lookup p k \<noteq> None then Inl RuleAmbiguous
           else add_pairs r scopes rest (p @ [(k, scopes)]))"

definition trim_rule :: "policy_rule \<Rightarrow> policy_rule" where
  "trim_rule r =
     r\<lparr>rule_agent_id := trim_space (rule_agent_id r), rule_workload_id := trim_space (rule_workload_id r),
       rule_target := trim_space (rule_target r)\<rparr>"

definition rule_pairs :: "policy_rule \<Rightarrow> (string \<times> string) list" where
  "rule_pairs r =
     concat (map (\<lambda>p. map (\<lambda>t. (trim_space p, trim_space t)) (rule_tools r)) (rule_purposes r))"

definition add_rule :: "policy_rule \<Rightarrow> policy \<Rightarrow> policy_load_error + policy" where
  "add_rule rule p =
     (let r = trim_rule rule in
      if rule_agent_id r = [] \<or> \<not> has_prefix (rule_workload_id r) ''spiffe://'' \<or> rule_target r = []
         \<or> length (rule_purposes r) = 0 \<or> length (rule_scopes r) = 0 \<or> length (rule_tools r) = 0
      then Inl RuleMissingBinding
      else if list_ex blank (rule_scopes r) then Inl RuleEmptyScope
      else add_pairs r (map trim_space (rule_scopes r)) (rule_pairs r) p)"

fun add_rules :: "policy_rule list \<Rightarrow> policy \<Rightarrow> policy_load_error + policy" where
  "add_rules [] p = Inr p"
| "add_rules (r # rs) p = (case add_rule r p of Inl e \<Rightarrow> Inl e | Inr p' \<Rightarrow> add_rules rs p')"

definition policy_of_rules :: "policy_rule list \<Rightarrow> policy_load_error + policy" where
  "policy_of_rules rs = (if length rs = 0 then Inl PolicyHasNoRules else add_rules rs [])"

text \<open>
  \<open>LoadJSON\<close>: the reader delivers bytes (\<open>None\<close> is a nil reader); only the first MiB is looked at.
\<close>

definition load_policy ::
  "(string \<Rightarrow> jtoken list) \<Rightarrow> string option \<Rightarrow> policy_load_error + policy" where
  "load_policy lexer reader =
     (case reader of
        None \<Rightarrow> Inl PolicyReaderRequired
      | Some bytes \<Rightarrow>
          (case Option.bind (decode_all (lexer (take 1048576 bytes)))
                  (\<lambda>j. decode_struct document_fields True j []) of
             None \<Rightarrow> Inl InvalidPolicyDocument
           | Some rules \<Rightarrow> policy_of_rules rules))"

text \<open>\<open>Authorize\<close>: a nil policy denies.\<close>

definition policy_authorize :: "policy option \<Rightarrow> request_identity \<Rightarrow> string \<Rightarrow> string \<Rightarrow> bool" where
  "policy_authorize policy v target tool =
     (case policy of
        None \<Rightarrow> False
      | Some p \<Rightarrow>
          (case lookup p \<lparr>key_agent = agent_id (ric_agent v),
                          key_workload = workload_spiffe_id (ric_original_workload v),
                          key_purpose = transaction_purpose (ric_transaction v),
                          key_target = target, key_tool = tool\<rparr> of
             None \<Rightarrow> False
           | Some required \<Rightarrow> list_all (\<lambda>s. s \<in> set (auth_scope (ric_authorization v))) required))"

section \<open>What a policy permits\<close>

text \<open>The bindings of one rule, and the identity, target and tool a rule allows.\<close>

definition rule_keys :: "policy_rule \<Rightarrow> (policy_key \<times> string list) list" where
  "rule_keys r =
     map (\<lambda>(p, t). (\<lparr>key_agent = trim_space (rule_agent_id r), key_workload = trim_space (rule_workload_id r),
        key_purpose = p, key_target = trim_space (rule_target r), key_tool = t\<rparr>,
        map trim_space (rule_scopes r))) (rule_pairs r)"

definition rule_allows :: "policy_rule \<Rightarrow> request_identity \<Rightarrow> string \<Rightarrow> string \<Rightarrow> bool" where
  "rule_allows r v target tool \<longleftrightarrow>
     agent_id (ric_agent v) = trim_space (rule_agent_id r)
     \<and> workload_spiffe_id (ric_original_workload v) = trim_space (rule_workload_id r)
     \<and> transaction_purpose (ric_transaction v) \<in> trim_space ` set (rule_purposes r)
     \<and> target = trim_space (rule_target r) \<and> tool \<in> trim_space ` set (rule_tools r)
     \<and> trim_space ` set (rule_scopes r) \<subseteq> set (auth_scope (ric_authorization v))"

definition rule_wf :: "policy_rule \<Rightarrow> bool" where
  "rule_wf r \<longleftrightarrow>
     \<not> blank (rule_agent_id r) \<and> has_prefix (trim_space (rule_workload_id r)) ''spiffe://''
     \<and> \<not> blank (rule_target r) \<and> rule_purposes r \<noteq> [] \<and> rule_scopes r \<noteq> [] \<and> rule_tools r \<noteq> []
     \<and> list_all (\<lambda>x. \<not> blank x) (rule_scopes r @ rule_purposes r @ rule_tools r)"

lemma add_pairs_Inr:
  assumes "distinct (map fst p)"
  shows "add_pairs r sc ps p = Inr q \<longleftrightarrow>
     list_all (\<lambda>(a, b). a \<noteq> [] \<and> b \<noteq> []) ps
     \<and> q = p @ map (\<lambda>(a, b). (\<lparr>key_agent = rule_agent_id r, key_workload = rule_workload_id r,
          key_purpose = a, key_target = rule_target r, key_tool = b\<rparr>, sc)) ps
     \<and> distinct (map fst q)"
  using assms
proof (induction ps arbitrary: p)
  case Nil
  then show ?case by auto
next
  case (Cons x ps)
  obtain a b where x: "x = (a, b)" by (cases x)
  let ?k = "\<lparr>key_agent = rule_agent_id r, key_workload = rule_workload_id r, key_purpose = a,
    key_target = rule_target r, key_tool = b\<rparr>"
  show ?case
  proof (cases "a = [] \<or> b = [] \<or> ?k \<in> fst ` set p")
    case True
    then show ?thesis
      by (auto simp: x Let_def map_of_eq_None_iff)
  next
    case False
    then have "lookup p ?k = None" by (simp add: map_of_eq_None_iff)
    moreover have "distinct (map fst (p @ [(?k, sc)]))" using False Cons.prems by auto
    ultimately show ?thesis using False Cons.IH by (auto simp: x Let_def)
  qed
qed

lemma add_rule_Inr:
  assumes "distinct (map fst p)"
  shows "add_rule r p = Inr q \<longleftrightarrow> rule_wf r \<and> q = p @ rule_keys r \<and> distinct (map fst q)"
proof -
  have pairs: "list_all (\<lambda>(a, b). a \<noteq> [] \<and> b \<noteq> []) (rule_pairs r) \<longleftrightarrow>
      list_all (\<lambda>x. \<not> blank x) (rule_purposes r @ rule_tools r)"
    if "rule_purposes r \<noteq> []" "rule_tools r \<noteq> []"
    using that hd_in_set by (fastforce simp: rule_pairs_def list_all_iff blank_def)
  let ?ok = "list_all (\<lambda>(a, b). a \<noteq> [] \<and> b \<noteq> []) (rule_pairs r)"
  have t: "rule_pairs (trim_rule r) = rule_pairs r"
    "rule_purposes (trim_rule r) = rule_purposes r" "rule_scopes (trim_rule r) = rule_scopes r"
    "rule_tools (trim_rule r) = rule_tools r" "rule_agent_id (trim_rule r) = trim_space (rule_agent_id r)"
    "rule_workload_id (trim_rule r) = trim_space (rule_workload_id r)"
    "rule_target (trim_rule r) = trim_space (rule_target r)"
    by (simp_all add: rule_pairs_def trim_rule_def)
  have keys: "map (\<lambda>(a, b). (\<lparr>key_agent = trim_space (rule_agent_id r), key_workload = trim_space (rule_workload_id r),
      key_purpose = a, key_target = trim_space (rule_target r), key_tool = b\<rparr>, map trim_space (rule_scopes r)))
      (rule_pairs r) = rule_keys r"
    by (simp add: rule_keys_def)
  have "add_rule r p = Inr q \<longleftrightarrow>
     \<not> (blank (rule_agent_id r) \<or> \<not> has_prefix (trim_space (rule_workload_id r)) ''spiffe://'' \<or> blank (rule_target r)
        \<or> rule_purposes r = [] \<or> rule_scopes r = [] \<or> rule_tools r = [])
     \<and> \<not> list_ex blank (rule_scopes r) \<and> ?ok \<and> q = p @ rule_keys r \<and> distinct (map fst q)"
    unfolding add_rule_def Let_def t by (auto simp: add_pairs_Inr [OF assms] t keys blank_def)
  also have "\<dots> \<longleftrightarrow> rule_wf r \<and> q = p @ rule_keys r \<and> distinct (map fst q)"
    using pairs by (auto simp: rule_wf_def list_ex_iff list_all_iff)
  finally show ?thesis .
qed

lemma add_rules_Inr:
  assumes "distinct (map fst p)"
  shows "add_rules rs p = Inr q \<longleftrightarrow>
     list_all rule_wf rs \<and> q = p @ concat (map rule_keys rs) \<and> distinct (map fst q)"
  using assms
proof (induction rs arbitrary: p)
  case Nil
  then show ?case by auto
next
  case (Cons r rs)
  show ?case
  proof (cases "add_rule r p")
    case (Inl e)
    then have "\<not> (rule_wf r \<and> distinct (map fst (p @ rule_keys r)))"
      using add_rule_Inr [OF Cons.prems, of r "p @ rule_keys r"] by auto
    with Inl show ?thesis by auto
  next
    case (Inr p')
    with add_rule_Inr [OF Cons.prems, of r p'] have "rule_wf r" "p' = p @ rule_keys r" "distinct (map fst p')"
      by blast+
    with Inr Cons.IH show ?thesis by simp
  qed
qed

lemma policy_of_rules_Inr [guards]:
  "policy_of_rules rs = Inr p \<longleftrightarrow>
     rs \<noteq> [] \<and> list_all rule_wf rs \<and> p = concat (map rule_keys rs) \<and> distinct (map fst p)"
  by (simp add: policy_of_rules_def add_rules_Inr)

lemma rule_keys_member:
  "(k, sc) \<in> set (rule_keys r) \<longleftrightarrow>
     key_agent k = trim_space (rule_agent_id r) \<and> key_workload k = trim_space (rule_workload_id r)
     \<and> key_purpose k \<in> trim_space ` set (rule_purposes r) \<and> key_target k = trim_space (rule_target r)
     \<and> key_tool k \<in> trim_space ` set (rule_tools r) \<and> sc = map trim_space (rule_scopes r)"
  by (cases k) (auto simp: rule_keys_def rule_pairs_def image_iff)

lemma policy_authorize_rules:
  assumes "policy_of_rules rs = Inr p"
  shows "policy_authorize (Some p) v target tool \<longleftrightarrow> (\<exists>r \<in> set rs. rule_allows r v target tool)"
proof -
  let ?k = "\<lparr>key_agent = agent_id (ric_agent v), key_workload = workload_spiffe_id (ric_original_workload v),
    key_purpose = transaction_purpose (ric_transaction v), key_target = target, key_tool = tool\<rparr>"
  from assms have p: "p = concat (map rule_keys rs)" and d: "distinct (map fst p)"
    unfolding policy_of_rules_Inr by blast+
  have look: "lookup p ?k = Some sc \<longleftrightarrow> (\<exists>r \<in> set rs. (?k, sc) \<in> set (rule_keys r))" for sc
    unfolding map_of_eq_Some_iff [OF d] by (auto simp: p)
  have one: "(\<exists>sc. (?k, sc) \<in> set (rule_keys r) \<and> list_all (\<lambda>s. s \<in> set (auth_scope (ric_authorization v))) sc)
      \<longleftrightarrow> rule_allows r v target tool" for r
    by (auto simp: rule_keys_member rule_allows_def list_all_iff image_subset_iff)
  have "policy_authorize (Some p) v target tool
      \<longleftrightarrow> (\<exists>sc. lookup p ?k = Some sc \<and> list_all (\<lambda>s. s \<in> set (auth_scope (ric_authorization v))) sc)"
    by (auto simp: policy_authorize_def split: option.split)
  also have "\<dots> \<longleftrightarrow> (\<exists>r \<in> set rs. rule_allows r v target tool)"
    unfolding look using one by blast
  finally show ?thesis .
qed

definition policy_permits :: "policy option \<Rightarrow> request_identity \<Rightarrow> string \<Rightarrow> string \<Rightarrow> bool" where
  "policy_permits policy v target tool \<longleftrightarrow>
     (\<exists>p required. policy = Some p \<and> map_of p
         \<lparr>key_agent = agent_id (ric_agent v), key_workload = workload_spiffe_id (ric_original_workload v),
          key_purpose = transaction_purpose (ric_transaction v), key_target = target, key_tool = tool\<rparr> = Some required
       \<and> set required \<subseteq> set (auth_scope (ric_authorization v)))"

interpretation static: authorizer "\<lambda>c. policy_authorize p" "policy_permits p" for p
  by unfold_locales
    (auto simp: policy_authorize_def policy_permits_def list_all_iff split: option.splits)

section \<open>Properties\<close>

text \<open>
  C17. A policy that loads denies by default: it authorizes an identity for a target and tool exactly
  when one of its rules names that agent, workload, purpose, target and tool and the identity
  holds every scope of the rule; no two rules give a binding, so the order of the rules never
  matters.
\<close>
theorem policy_exact:
  assumes "policy_of_rules rs = Inr p"
  shows "(policy_authorize (Some p) v target tool \<longleftrightarrow> (\<exists>r \<in> set rs. rule_allows r v target tool))
    \<and> distinct (map fst (concat (map rule_keys rs))) \<and> list_all rule_wf rs"
  using policy_authorize_rules [OF assms] assms unfolding policy_of_rules_Inr by blast

definition sample_rule :: policy_rule where
  "sample_rule =
     \<lparr>rule_agent_id = ''agent-1'', rule_workload_id = ''spiffe://example.org/a'', rule_purposes = [''p''],
      rule_scopes = [''read''], rule_target = ''demo'', rule_tools = ['' lookup'', ''list'']\<rparr>"

definition sample_identity :: "string list \<Rightarrow> request_identity" where
  "sample_identity scopes =
     \<lparr>ric_user = \<lparr>user_id = ''alice''\<rparr>, ric_agent = \<lparr>agent_id = ''agent-1'', agent_instance_id = ''i''\<rparr>,
      ric_original_workload = \<lparr>workload_spiffe_id = ''spiffe://example.org/a''\<rparr>,
      ric_immediate_caller = \<lparr>workload_spiffe_id = ''spiffe://example.org/gw''\<rparr>,
      ric_transaction = \<lparr>transaction_id = ''t'', transaction_purpose = ''p''\<rparr>,
      ric_authorization = \<lparr>auth_scope = scopes\<rparr>\<rparr>"

theorem policy_exact_witness:
  "policy_authorize (Some (rule_keys sample_rule)) (sample_identity [''read'']) ''demo'' ''lookup''
   \<and> \<not> policy_authorize (Some (rule_keys sample_rule)) (sample_identity [''write'']) ''demo'' ''lookup''"
proof -
  have "policy_of_rules [sample_rule] = Inr (rule_keys sample_rule)" by code_simp
  note p = policy_exact [OF this]
  have "rule_allows sample_rule (sample_identity [''read'']) ''demo'' ''lookup''"
    "\<not> rule_allows sample_rule (sample_identity [''write'']) ''demo'' ''lookup''"
    unfolding rule_allows_def by code_simp+
  with p show ?thesis by simp
qed

end
