(* ===== verification/Authz_Remote.thy ===== *)
theory Authz_Remote
  imports Authz_Policy Go_URL "HOL-Library.List_Lexorder" "HOL-Library.Char_ord" "HOL-Library.Multiset"
begin

text \<open>
  The authorizers that ask a decision point: PingAuthorize over HTTPS
  (\<open>pkg/authorization/pingauthorize.go\<close>) and an embedded OPA query (\<open>opa.go\<close>). The decision
  point is a parameter: what it answers to a request, or that it does not answer in time.
\<close>

section \<open>Canonical scopes\<close>

definition canonical_scope :: "string \<Rightarrow> bool" where
  "canonical_scope s =
     (\<not> (s = [] \<or> trim_space s \<noteq> s \<or> contains_any s [CHR '' '', CHR 0x09, CHR 0x0D, CHR 0x0A]))"

text \<open>The loop over the sorted scopes; the second argument is the scope before.\<close>

fun check_canonical :: "string list \<Rightarrow> string option \<Rightarrow> bool" where
  "check_canonical [] previous = True"
| "check_canonical (s # ss) previous =
     (if \<not> canonical_scope s \<or> previous = Some s then False else check_canonical ss (Some s))"

definition canonical_scopes :: "string list \<Rightarrow> string list option" where
  "canonical_scopes scopes =
     (if length scopes = 0 then None
      else let result = sort scopes in if check_canonical result None then Some result else None)"

lemma check_canonical_iff:
  "sorted (case previous of None \<Rightarrow> ss | Some p \<Rightarrow> p # ss) \<Longrightarrow>
     check_canonical ss previous \<longleftrightarrow>
       list_all canonical_scope ss \<and> distinct ss \<and> (\<forall>p. previous = Some p \<longrightarrow> p \<notin> set ss)"
proof (induction ss arbitrary: previous)
  case Nil
  then show ?case by simp
next
  case (Cons s ss)
  then have "sorted (s # ss)" by (cases previous) auto
  with Cons.IH [of "Some s"]
  have IH: "check_canonical ss (Some s) \<longleftrightarrow> list_all canonical_scope ss \<and> distinct ss \<and> s \<notin> set ss" by simp
  show ?case
  proof (cases previous)
    case None
    with IH show ?thesis by auto
  next
    case (Some p)
    with Cons.prems have "p \<le> s" "\<forall>x \<in> set ss. s \<le> x" by auto
    then have "p \<noteq> s \<Longrightarrow> p \<notin> set ss" by auto
    with IH Some show ?thesis by auto
  qed
qed

lemma canonical_scopes_Some:
  "canonical_scopes scopes = Some r \<longleftrightarrow>
     scopes \<noteq> [] \<and> distinct scopes \<and> list_all canonical_scope scopes \<and> r = sort scopes"
  using check_canonical_iff [where previous = None and ss = "sort scopes"]
  by (auto simp: canonical_scopes_def Let_def list_all_iff)

lemma canonical_scopes_None:
  "canonical_scopes scopes = None \<longleftrightarrow> \<not> (scopes \<noteq> [] \<and> distinct scopes \<and> list_all canonical_scope scopes)"
  using canonical_scopes_Some [of scopes] by (cases "canonical_scopes scopes") auto

section \<open>PingAuthorize\<close>

datatype ping_error = PingEndpointRequired | PingBoundedClientRequired | PingInsecure

text \<open>The client: its timeout, and whether its transport skips certificate verification.\<close>

record ping_client =
  pc_timeout :: duration
  pc_insecure :: bool

record ping_authorize =
  pa_endpoint :: url
  pa_timeout :: duration

definition new_ping_authorize ::
  "(string \<Rightarrow> string option) \<Rightarrow> ping_client option \<Rightarrow> string \<Rightarrow> duration \<Rightarrow> ping_error + ping_authorize" where
  "new_ping_authorize ip_literal client endpoint timeout =
     (case url_parse ip_literal endpoint of
        None \<Rightarrow> Inl PingEndpointRequired
      | Some u \<Rightarrow>
          if \<not> bare_https_endpoint u \<or> url_path u \<noteq> ''/governance-engine'' then Inl PingEndpointRequired
          else (case client of
             None \<Rightarrow> Inl PingBoundedClientRequired
           | Some c \<Rightarrow>
               if pc_timeout c \<le> 0 \<or> timeout \<le> 0 then Inl PingBoundedClientRequired
               else if pc_insecure c then Inl PingInsecure
               else Inr \<lparr>pa_endpoint = u, pa_timeout = timeout\<rparr>))"

record ping_request =
  pr_service :: string
  pr_domain :: string
  pr_action :: string
  pr_attributes :: "(string \<times> string) list"

record ping_statement =
  ps_obligatory :: bool
  ps_fulfilled :: bool

record ping_status =
  pst_code :: string
  pst_errors :: "json list"

record ping_response =
  pres_id :: string
  pres_package_id :: string
  pres_timestamp :: string
  pres_decision :: string
  pres_authorised :: "bool option"
  pres_statements :: "ping_statement list"
  pres_status :: ping_status

text \<open>Fields the code decodes but never reads are checked for their type only.\<close>

definition skip_string :: "string \<Rightarrow> 'r field" where
  "skip_string name = string_field name (\<lambda>_ r. r)"

definition statement_fields :: "ping_statement field list" where
  "statement_fields =
     [skip_string ''id'', skip_string ''name'', skip_string ''code'', skip_string ''payload'',
      bool_field ''obligatory'' (\<lambda>b r. r\<lparr>ps_obligatory := b\<rparr>),
      bool_field ''fulfilled'' (\<lambda>b r. r\<lparr>ps_fulfilled := b\<rparr>), string_map_field ''attributes'']"

definition status_fields :: "ping_status field list" where
  "status_fields =
     [string_field ''code'' (\<lambda>s r. r\<lparr>pst_code := s\<rparr>), raw_list_field ''messages'' (\<lambda>_ r. r),
      raw_list_field ''errors'' (\<lambda>vs r. r\<lparr>pst_errors := vs\<rparr>)]"

definition response_fields :: "ping_response field list" where
  "response_fields =
     [string_field ''id'' (\<lambda>s r. r\<lparr>pres_id := s\<rparr>),
      string_field ''deploymentPackageId'' (\<lambda>s r. r\<lparr>pres_package_id := s\<rparr>),
      string_field ''timestamp'' (\<lambda>s r. r\<lparr>pres_timestamp := s\<rparr>),
      int_field ''elapsedTime'' (\<lambda>_ r. r),
      string_field ''decision'' (\<lambda>s r. r\<lparr>pres_decision := s\<rparr>),
      bool_pointer_field ''authorised'' (\<lambda>b r. r\<lparr>pres_authorised := b\<rparr>),
      structs_field ''statements'' (decode_struct statement_fields True)
        \<lparr>ps_obligatory = False, ps_fulfilled = False\<rparr> pres_statements (\<lambda>ss r. r\<lparr>pres_statements := ss\<rparr>),
      struct_field ''status'' (decode_struct status_fields True) pres_status (\<lambda>s r. r\<lparr>pres_status := s\<rparr>)]"

definition blank_response :: ping_response where
  "blank_response =
     \<lparr>pres_id = [], pres_package_id = [], pres_timestamp = [], pres_decision = [], pres_authorised = None,
      pres_statements = [], pres_status = \<lparr>pst_code = [], pst_errors = []\<rparr>\<rparr>"

definition ping_request_of :: "request_identity \<Rightarrow> string list \<Rightarrow> string \<Rightarrow> string \<Rightarrow> ping_request" where
  "ping_request_of v scopes target tool =
     \<lparr>pr_service = ''WAI MCP'', pr_domain = ''WAI'', pr_action = ''Invoke'',
      pr_attributes =
        [(''user_id'', user_id (ric_user v)), (''agent_id'', agent_id (ric_agent v)),
         (''agent_instance_id'', agent_instance_id (ric_agent v)),
         (''workload_id'', workload_spiffe_id (ric_original_workload v)),
         (''immediate_caller_id'', workload_spiffe_id (ric_immediate_caller v)),
         (''transaction_id'', transaction_id (ric_transaction v)),
         (''purpose'', transaction_purpose (ric_transaction v)), (''scope'', join '' '' scopes),
         (''target'', target), (''tool'', tool)]\<rparr>"

text \<open>The answer of the decision point to a request: status, \<open>Content-Type\<close>, body.\<close>

type_synonym ping_answer = "nat \<times> string \<times> string"

definition decode_ping_response :: "(string \<Rightarrow> jtoken list) \<Rightarrow> string \<Rightarrow> ping_response option" where
  "decode_ping_response lexer body =
     Option.bind (decode_all (lexer (take 65537 body))) (\<lambda>j. decode_struct response_fields True j blank_response)"

text \<open>What the code requires of a decoded answer.\<close>

definition ping_permit :: "ping_response \<Rightarrow> bool" where
  "ping_permit r =
     (\<not> (pres_id r = [] \<or> pres_package_id r = [] \<or> pres_timestamp r = [] \<or> pst_code (pres_status r) \<noteq> ''OKAY''
         \<or> length (pst_errors (pres_status r)) \<noteq> 0 \<or> pres_authorised r \<noteq> Some True
         \<or> pres_decision r \<noteq> ''PERMIT'')
      \<and> \<not> list_ex (\<lambda>s. ps_obligatory s \<and> \<not> ps_fulfilled s) (pres_statements r))"

definition ping_authorize ::
  "(string \<Rightarrow> jtoken list) \<Rightarrow> (ping_request \<Rightarrow> ping_answer option) \<Rightarrow> ping_authorize option
    \<Rightarrow> bool \<Rightarrow> request_identity \<Rightarrow> string \<Rightarrow> string \<Rightarrow> bool" where
  "ping_authorize lexer decide p cancelled v target tool =
     (if p = None \<or> cancelled \<or> blank target \<or> trim_space target \<noteq> target \<or> blank tool \<or> trim_space tool \<noteq> tool
         \<or> user_id (ric_user v) = [] \<or> agent_id (ric_agent v) = [] \<or> agent_instance_id (ric_agent v) = []
         \<or> workload_spiffe_id (ric_original_workload v) = [] \<or> workload_spiffe_id (ric_immediate_caller v) = []
         \<or> transaction_id (ric_transaction v) = [] \<or> transaction_purpose (ric_transaction v) = []
      then False
      else case canonical_scopes (auth_scope (ric_authorization v)) of
        None \<Rightarrow> False
      | Some scopes \<Rightarrow>
          (case decide (ping_request_of v scopes target tool) of
             None \<Rightarrow> False
           | Some (status, content_type, body) \<Rightarrow>
               if status \<noteq> 200 \<or> \<not> has_prefix (lower_view content_type) ''application/json'' then False
               else (case decode_ping_response lexer body of
                       None \<Rightarrow> False
                     | Some r \<Rightarrow> ping_permit r)))"

text \<open>
  What the decision point permits: it answered the request that carries exactly this identity, the
  sorted scopes and this route, with status 200 and JSON, by a complete, unconditional permit.
\<close>

definition unconditional_permit :: "ping_response \<Rightarrow> bool" where
  "unconditional_permit r \<longleftrightarrow>
     pres_decision r = ''PERMIT'' \<and> pres_authorised r = Some True
     \<and> pst_code (pres_status r) = ''OKAY'' \<and> pst_errors (pres_status r) = []
     \<and> pres_id r \<noteq> [] \<and> pres_package_id r \<noteq> [] \<and> pres_timestamp r \<noteq> []
     \<and> (\<forall>s \<in> set (pres_statements r). ps_obligatory s \<longrightarrow> ps_fulfilled s)"

lemma ping_permit_iff: "ping_permit r \<longleftrightarrow> unconditional_permit r"
  by (auto simp: ping_permit_def unconditional_permit_def list_ex_iff)

definition ping_permits ::
  "(string \<Rightarrow> jtoken list) \<Rightarrow> (ping_request \<Rightarrow> ping_answer option) \<Rightarrow> request_identity \<Rightarrow> string \<Rightarrow> string \<Rightarrow> bool" where
  "ping_permits lexer decide v target tool \<longleftrightarrow>
     auth_scope (ric_authorization v) \<noteq> [] \<and> distinct (auth_scope (ric_authorization v))
     \<and> list_all canonical_scope (auth_scope (ric_authorization v))
     \<and> (\<exists>ct body r. decide (ping_request_of v (sort (auth_scope (ric_authorization v))) target tool) = Some (200, ct, body)
          \<and> has_prefix (lower_view ct) ''application/json''
          \<and> decode_ping_response lexer body = Some r \<and> unconditional_permit r)"

definition ping_complete :: "request_identity \<Rightarrow> bool" where
  "ping_complete v \<longleftrightarrow>
     [] \<notin> {user_id (ric_user v), agent_id (ric_agent v), agent_instance_id (ric_agent v),
           workload_spiffe_id (ric_original_workload v), workload_spiffe_id (ric_immediate_caller v),
           transaction_id (ric_transaction v), transaction_purpose (ric_transaction v)}"

lemma ping_authorize_iff:
  "ping_authorize lexer decide p cancelled v target tool \<longleftrightarrow>
     p \<noteq> None \<and> \<not> cancelled \<and> canonical target \<and> canonical tool \<and> ping_complete v
     \<and> ping_permits lexer decide v target tool"
proof -
  let ?scopes = "auth_scope (ric_authorization v)"
  have c: "canonical s \<longleftrightarrow> \<not> blank s \<and> trim_space s = s" for s
    by (auto simp: canonical_def blank_def)
  have "(case canonical_scopes ?scopes of None \<Rightarrow> False | Some scopes \<Rightarrow>
      (case decide (ping_request_of v scopes target tool) of None \<Rightarrow> False
       | Some (status, content_type, body) \<Rightarrow>
           if status \<noteq> 200 \<or> \<not> has_prefix (lower_view content_type) ''application/json'' then False
           else (case decode_ping_response lexer body of None \<Rightarrow> False | Some r \<Rightarrow> ping_permit r)))
      \<longleftrightarrow> ping_permits lexer decide v target tool"
  proof (cases "canonical_scopes ?scopes")
    case None
    then have "\<not> ping_permits lexer decide v target tool"
      unfolding ping_permits_def canonical_scopes_None by blast
    with None show ?thesis by simp
  next
    case (Some scopes)
    then have "?scopes \<noteq> []" "distinct ?scopes" "list_all canonical_scope ?scopes" "scopes = sort ?scopes"
      by (simp_all add: canonical_scopes_Some)
    with Some show ?thesis
      by (auto simp: ping_permits_def ping_permit_iff split: option.splits)
  qed
  then show ?thesis
    unfolding ping_authorize_def by (auto simp: c ping_complete_def)
qed

interpretation ping: authorizer "ping_authorize lexer decide p" "ping_permits lexer decide" for lexer decide p
  by unfold_locales (simp add: ping_authorize_iff)

section \<open>OPA\<close>

record opa_input =
  oi_agent_id :: string
  oi_agent_instance_id :: string
  oi_workload_id :: string
  oi_purpose :: string
  oi_scopes :: "string list"
  oi_target :: string
  oi_tool :: string

datatype opa_error = OpaInvalidConfiguration | OpaOpenFailed | OpaReadFailed | OpaPolicySize | OpaCompileFailed

text \<open>
  \<open>NewOPA\<close>: the file under the path (\<open>None\<close> does not open; its bytes, whether reading or closing
  fails), and \<open>compile\<close>, which prepares the query without the network builtins.
\<close>

definition new_opa ::
  "(string \<Rightarrow> (string \<times> bool) option) \<Rightarrow> (string \<Rightarrow> 'q option) \<Rightarrow> bool \<Rightarrow> string \<Rightarrow> duration
    \<Rightarrow> opa_error + 'q \<times> duration" where
  "new_opa files compile has_ctx path timeout =
     (if \<not> has_ctx \<or> blank path \<or> timeout \<le> 0 then Inl OpaInvalidConfiguration
      else case files path of
        None \<Rightarrow> Inl OpaOpenFailed
      | Some (bytes, fails) \<Rightarrow>
          if fails then Inl OpaReadFailed
          else let m = take 1048577 bytes in
            if length m = 0 \<or> int (length m) > 1048576 then Inl OpaPolicySize
            else (case compile m of None \<Rightarrow> Inl OpaCompileFailed | Some q \<Rightarrow> Inr (q, timeout)))"

text \<open>
  \<open>Authorize\<close>: \<open>eval\<close> gives the result sets of the query, each with the values of its
  expressions, or \<open>None\<close> for an error or an expired deadline.
\<close>

fun opa_decision :: "json list list option \<Rightarrow> bool" where
  "opa_decision (Some [[JBool allowed]]) = allowed"
| "opa_decision _ = False"

lemma opa_decision_iff: "opa_decision r \<longleftrightarrow> r = Some [[JBool True]]"
  by (induction r rule: opa_decision.induct) auto

definition opa_authorize ::
  "(opa_input \<Rightarrow> json list list option) option \<Rightarrow> bool \<Rightarrow> request_identity \<Rightarrow> string \<Rightarrow> string \<Rightarrow> bool" where
  "opa_authorize opa cancelled v target tool =
     (case opa of
        None \<Rightarrow> False
      | Some eval \<Rightarrow>
          if cancelled then False
          else opa_decision (eval \<lparr>oi_agent_id = agent_id (ric_agent v), oi_agent_instance_id = agent_instance_id (ric_agent v),
                 oi_workload_id = workload_spiffe_id (ric_original_workload v),
                 oi_purpose = transaction_purpose (ric_transaction v),
                 oi_scopes = auth_scope (ric_authorization v), oi_target = target, oi_tool = tool\<rparr>))"

definition opa_permits ::
  "(opa_input \<Rightarrow> json list list option) option \<Rightarrow> request_identity \<Rightarrow> string \<Rightarrow> string \<Rightarrow> bool" where
  "opa_permits opa v target tool \<longleftrightarrow>
     (\<exists>eval. opa = Some eval \<and>
        eval \<lparr>oi_agent_id = agent_id (ric_agent v), oi_agent_instance_id = agent_instance_id (ric_agent v),
          oi_workload_id = workload_spiffe_id (ric_original_workload v),
          oi_purpose = transaction_purpose (ric_transaction v),
          oi_scopes = auth_scope (ric_authorization v), oi_target = target, oi_tool = tool\<rparr>
        = Some [[JBool True]])"

interpretation opa: authorizer "opa_authorize o'" "opa_permits o'" for o'
  by unfold_locales (auto simp: opa_authorize_def opa_permits_def opa_decision_iff split: option.splits if_splits)

section \<open>Properties\<close>

text \<open>
  C18. PingAuthorize allows a call exactly when it is configured, the context is live, the target, tool and
  identity are complete, the scopes are canonical and distinct, and the decision point answered the
  request that carries exactly this identity and route with status 200, JSON, and a complete \<open>PERMIT\<close>
  without unfulfilled obligations; everything else is a refusal. The order of the scopes does not matter.
\<close>
theorem ping_fails_closed:
  "(ping_authorize lexer decide p cancelled v target tool \<longleftrightarrow>
      p \<noteq> None \<and> \<not> cancelled \<and> canonical target \<and> canonical tool \<and> ping_complete v
      \<and> ping_permits lexer decide v target tool)
   \<and> (mset (auth_scope (ric_authorization v)) = mset scopes \<longrightarrow>
      ping_authorize lexer decide p cancelled (v\<lparr>ric_authorization := \<lparr>auth_scope = scopes\<rparr>\<rparr>) target tool
        = ping_authorize lexer decide p cancelled v target tool)"
proof (intro conjI impI)
  show "ping_authorize lexer decide p cancelled v target tool \<longleftrightarrow>
      p \<noteq> None \<and> \<not> cancelled \<and> canonical target \<and> canonical tool \<and> ping_complete v
      \<and> ping_permits lexer decide v target tool"
    by (rule ping_authorize_iff)
next
  assume m: "mset (auth_scope (ric_authorization v)) = mset scopes"
  then have "sort scopes = sort (auth_scope (ric_authorization v))"
    by (intro properties_for_sort) simp_all
  moreover from m have "length scopes = length (auth_scope (ric_authorization v))"
    by (metis size_mset)
  ultimately have cs: "canonical_scopes scopes = canonical_scopes (auth_scope (ric_authorization v))"
    by (auto simp: canonical_scopes_def)
  have pr: "ping_request_of (v\<lparr>ric_authorization := a\<rparr>) = ping_request_of v" for a
    by (simp add: fun_eq_iff ping_request_of_def)
  show "ping_authorize lexer decide p cancelled (v\<lparr>ric_authorization := \<lparr>auth_scope = scopes\<rparr>\<rparr>) target tool
    = ping_authorize lexer decide p cancelled v target tool"
    unfolding ping_authorize_def pr by (simp add: cs)
qed

definition sample_ping_json :: json where
  "sample_ping_json =
     JObj [(''id'', JStr ''1''), (''deploymentPackageId'', JStr ''d''), (''timestamp'', JStr ''t''),
       (''decision'', JStr ''PERMIT''), (''authorised'', JBool True), (''statements'', JArr []),
       (''status'', JObj [(''code'', JStr ''OKAY''), (''messages'', JArr []), (''errors'', JArr [])])]"

theorem ping_fails_closed_witness:
  "ping_permits (\<lambda>_. tokens_of sample_ping_json) (\<lambda>_. Some (200, ''application/json'', ''x''))
     (sample_identity [''write'', ''read'']) ''demo'' ''lookup''"
proof -
  have "ping_authorize (\<lambda>_. tokens_of sample_ping_json) (\<lambda>_. Some (200, ''application/json'', ''x''))
     (Some \<lparr>pa_endpoint = empty_url, pa_timeout = 1\<rparr>) False (sample_identity [''write'', ''read'']) ''demo'' ''lookup''"
    by code_simp
  with ping_fails_closed show ?thesis by blast
qed

end
