(* ===== verification/Gateway.thy ===== *)
theory Gateway
  imports Middleware Authz_Remote
begin

text \<open>
  The MCP gateway (\<open>pkg/mcp/gateway.go\<close>, \<open>strict.go\<close>): the routing table, authorization and audit
  of a call, and forwarding with the headers the profile allows. The HTTP client is a parameter
  \<open>send\<close> on the world \<open>'w\<close>; \<open>request_ok\<close> says for which URLs a request can be made.
\<close>

section \<open>Targets and constructors\<close>

record target =
  tg_name :: string
  tg_url :: "url option"
  tg_tools :: "string list" \<comment> \<open>the keys of the map, as an iteration meets them\<close>

type_synonym authorize = "mw_ctx \<Rightarrow> request_identity \<Rightarrow> string \<Rightarrow> string \<Rightarrow> bool"

text \<open>
  A gateway. The authorizer and the audit sink are there together or not at all: the two
  constructors that set one set both.
\<close>

record 'w gateway =
  gw_targets :: "(string \<times> target) list"
  gw_by_tool :: "(string \<times> target) list"
  gw_sole :: "target option"
  gw_guard :: "(authorize \<times> 'w sink) option"
  gw_strict :: bool
  gw_max_token_bytes :: int

datatype gateway_error =
  InvalidGateway | InvalidTarget | DuplicateTarget | EmptyTool | AmbiguousTool | GatewayRequirement | StrictDenied

fun add_tools :: "target \<Rightarrow> string list \<Rightarrow> (string \<times> target) list \<Rightarrow> gateway_error + (string \<times> target) list" where
  "add_tools tg [] m = Inr m"
| "add_tools tg (t # ts) m =
     (if t = [] then Inl EmptyTool
      else if lookup m t \<noteq> None then Inl AmbiguousTool
      else add_tools tg ts (m @ [(t, tg)]))"

definition valid_target :: "target \<Rightarrow> bool" where
  "valid_target tg =
     (\<not> (tg_name tg = [] \<or> (case tg_url tg of None \<Rightarrow> True | Some u \<Rightarrow> \<not> https_endpoint u)
         \<or> length (tg_tools tg) = 0))"

fun add_targets ::
  "target list \<Rightarrow> (string \<times> target) list \<Rightarrow> (string \<times> target) list
    \<Rightarrow> gateway_error + (string \<times> target) list \<times> (string \<times> target) list" where
  "add_targets [] by_name by_tool = Inr (by_name, by_tool)"
| "add_targets (tg # tgs) by_name by_tool =
     (if \<not> valid_target tg then Inl InvalidTarget
      else if lookup by_name (tg_name tg) \<noteq> None then Inl DuplicateTarget
      else case add_tools tg (tg_tools tg) by_tool of
             Inl e \<Rightarrow> Inl e
           | Inr by_tool' \<Rightarrow> add_targets tgs (by_name @ [(tg_name tg, tg)]) by_tool')"

text \<open>The client is given by its timeout (\<open>None\<close> is nil).\<close>

definition new_gateway_with ::
  "duration option \<Rightarrow> target list \<Rightarrow> (authorize \<times> 'w sink) option \<Rightarrow> gateway_error + 'w gateway" where
  "new_gateway_with client targets guard =
     (if (case client of None \<Rightarrow> True | Some timeout \<Rightarrow> timeout \<le> 0) \<or> length targets = 0
      then Inl InvalidGateway
      else case add_targets targets [] [] of
        Inl e \<Rightarrow> Inl e
      | Inr (by_name, by_tool) \<Rightarrow>
          Inr \<lparr>gw_targets = by_name, gw_by_tool = by_tool,
               gw_sole = (case targets of [tg] \<Rightarrow> Some tg | _ \<Rightarrow> None),
               gw_guard = guard, gw_strict = False, gw_max_token_bytes = 0\<rparr>)"

definition new_gateway :: "duration option \<Rightarrow> target list \<Rightarrow> gateway_error + 'w gateway" where
  "new_gateway client targets = new_gateway_with client targets None"

definition new_gateway_with_authorizer ::
  "duration option \<Rightarrow> target list \<Rightarrow> authorize option \<Rightarrow> 'w sink option \<Rightarrow> gateway_error + 'w gateway" where
  "new_gateway_with_authorizer client targets authz sink =
     (case (authz, sink) of
        (Some a, Some s) \<Rightarrow> new_gateway_with client targets (Some (a, s))
      | _ \<Rightarrow> Inl GatewayRequirement)"

section \<open>The signed route (\<open>strict.go\<close>)\<close>

definition new_signed_route_authorizer :: "authorize option \<Rightarrow> gateway_error + authorize" where
  "new_signed_route_authorizer inner = (case inner of None \<Rightarrow> Inl StrictDenied | Some a \<Rightarrow> Inr a)"

definition signed_route_authorize :: "authorize \<Rightarrow> authorize" where
  "signed_route_authorize inner c v target tool =
     (if ctx_done c then False
      else case verified_signed_route c of
        None \<Rightarrow> False
      | Some (t, n) \<Rightarrow>
          if blank target \<or> blank tool \<or> t \<noteq> target \<or> n \<noteq> tool then False
          else inner c v target tool)"

definition new_strict_gateway_with_authorizer ::
  "duration option \<Rightarrow> target list \<Rightarrow> authorize option \<Rightarrow> 'w sink option \<Rightarrow> int \<Rightarrow> gateway_error + 'w gateway" where
  "new_strict_gateway_with_authorizer client targets authz sink maximum =
     (case (authz, sink) of
        (Some a, Some s) \<Rightarrow>
          if maximum \<le> 0 then Inl GatewayRequirement
          else (case new_signed_route_authorizer authz of
             Inl e \<Rightarrow> Inl e
           | Inr inner \<Rightarrow>
               (case new_gateway_with client targets (Some (signed_route_authorize inner, s)) of
                  Inl e \<Rightarrow> Inl e
                | Inr g \<Rightarrow> Inr (g\<lparr>gw_strict := True, gw_max_token_bytes := maximum\<rparr>)))
      | _ \<Rightarrow> Inl GatewayRequirement)"

text \<open>\<open>PropagateVerifiedTxnToken\<close> on the header of the outgoing request.\<close>

definition propagate_verified_txn_token :: "mw_ctx \<Rightarrow> header option \<Rightarrow> int \<Rightarrow> gateway_error + header" where
  "propagate_verified_txn_token c header maximum =
     (if header = None \<or> maximum \<le> 0 then Inl StrictDenied
      else if verified_signed_route c = None then Inl StrictDenied
      else case verified_transaction_token c of
        None \<Rightarrow> Inl StrictDenied
      | Some raw \<Rightarrow>
          (case set_txn_token header raw maximum of Inl _ \<Rightarrow> Inl StrictDenied | Inr h \<Rightarrow> Inr h))"

section \<open>Headers\<close>

definition add_values :: "string \<Rightarrow> string list \<Rightarrow> header \<Rightarrow> header" where
  "add_values key vs h = fold (\<lambda>v h. header_add h key v) vs h"

definition copy_headers_except :: "string list \<Rightarrow> header \<Rightarrow> header \<Rightarrow> header" where
  "copy_headers_except excluded src dst =
     fold (\<lambda>(key, vs) h. if list_ex (equal_fold key) excluded then h else add_values key vs h) src dst"

definition strict_excluded :: "string list" where
  "strict_excluded = [''Connection'', ''Proxy-Authorization'', ''Authorization'', txn_token_header]"

definition copy_strict_headers :: "header \<Rightarrow> header \<Rightarrow> header" where
  "copy_strict_headers dst src = copy_headers_except strict_excluded src dst"

definition copy_headers :: "header \<Rightarrow> header \<Rightarrow> header" where
  "copy_headers dst src = copy_headers_except [''Connection'', ''Proxy-Authorization''] src dst"

text \<open>The same copy onto the response writer: the fields added, in order.\<close>

definition reply_headers :: "header \<Rightarrow> 'b replies" where
  "reply_headers src =
     concat (map (\<lambda>(key, vs). if list_ex (equal_fold key) [''Connection'', ''Proxy-Authorization''] then []
        else map (\<lambda>v. AddHeader key v) vs) src)"

section \<open>\<open>ServeHTTP\<close>\<close>

record out_request =
  out_url :: url
  out_header :: header
  out_body :: request_body
  out_ctx :: mw_ctx

record in_response =
  in_status :: nat
  in_header :: header
  in_body :: string

record 'w gateway_client =
  gc_request_ok :: "url \<Rightarrow> bool"
  gc_send :: "out_request \<Rightarrow> 'w \<Rightarrow> in_response option \<times> 'w"

definition route :: "'w gateway \<Rightarrow> mw_ctx request \<Rightarrow> target option" where
  "route g rq =
     (if header_get (rq_header rq) ''Mcp-Method'' = ''tools/call''
      then lookup (gw_by_tool g) (header_get (rq_header rq) ''Mcp-Name'')
      else gw_sole g)"

definition call_event :: "mw_ctx request \<Rightarrow> target \<Rightarrow> request_identity \<Rightarrow> event" where
  "call_event rq tg v =
     (let name = header_get (rq_header rq) ''Mcp-Name'' in
      blank_event\<lparr>evt_transaction_id := transaction_id (ric_transaction v), evt_user_id := user_id (ric_user v),
        evt_agent_id := agent_id (ric_agent v),
        evt_transaction_workload_id := workload_spiffe_id (ric_original_workload v),
        evt_immediate_caller := workload_spiffe_id (ric_immediate_caller v),
        evt_target := tg_name tg @ '':'' @ name,
        evt_protocol_method := header_get (rq_header rq) ''Mcp-Method'', evt_tool := name,
        evt_purpose := transaction_purpose (ric_transaction v), evt_token := verified_evidence (rq_ctx rq)\<rparr>)"

definition decided :: "string \<Rightarrow> string \<Rightarrow> string \<Rightarrow> event \<Rightarrow> event" where
  "decided typ decision reason e = e\<lparr>evt_type := typ, evt_decision := decision, evt_reason_code := reason\<rparr>"

definition identity_missing_event :: "target \<Rightarrow> event" where
  "identity_missing_event tg =
     blank_event\<lparr>evt_type := mcp_tool_denied, evt_target := tg_name tg, evt_decision := ''deny'',
       evt_reason_code := ''verified_identity_missing''\<rparr>"

text \<open>Authorization and audit: \<open>None\<close> to go on, or the error to answer; the world after.\<close>

definition gateway_guard ::
  "'w gateway \<Rightarrow> mw_ctx request \<Rightarrow> target \<Rightarrow> 'w \<Rightarrow> (string \<times> nat) option \<times> 'w" where
  "gateway_guard g rq tg w =
     (case gw_guard g of
        None \<Rightarrow> (None, w)
      | Some (authorize, sink) \<Rightarrow>
          (case from_context (rq_ctx rq) of
             None \<Rightarrow> (Some (''authorization denied'', 403), snd (sink (identity_missing_event tg) w))
           | Some v \<Rightarrow>
               if \<not> authorize (rq_ctx rq) v (tg_name tg) (header_get (rq_header rq) ''Mcp-Name'')
               then (Some (''authorization denied'', 403),
                     snd (sink (decided mcp_tool_denied ''deny'' ''policy_denied'' (call_event rq tg v)) w))
               else (case sink (decided mcp_tool_allowed ''allow'' ''policy_allowed'' (call_event rq tg v)) w of
                       (Some _, w') \<Rightarrow> (Some (''audit unavailable'', 500), w')
                     | (None, w') \<Rightarrow> (None, w'))))"

definition outgoing_header :: "'w gateway \<Rightarrow> mw_ctx request \<Rightarrow> gateway_error + header" where
  "outgoing_header g rq =
     (if gw_strict g
      then propagate_verified_txn_token (rq_ctx rq) (Some (copy_strict_headers [] (rq_header rq))) (gw_max_token_bytes g)
      else Inr (copy_headers [] (rq_header rq)))"

definition answer :: "in_response option \<times> 'w \<Rightarrow> 'b replies \<times> 'w" where
  "answer r =
     (case r of
        (None, w) \<Rightarrow> ([HttpError ''gateway failure'' 502], w)
      | (Some res, w) \<Rightarrow>
          (reply_headers (in_header res)
             @ [SetHeader ''X-WAI-Response-Source'' ''downstream'', WriteHeader (in_status res),
                CopyBody (take 8388608 (in_body res))], w))"

text \<open>Everything up to the call of the client: the error to answer, or the request to send.\<close>

definition gateway_plan ::
  "(url \<Rightarrow> bool) \<Rightarrow> 'w gateway \<Rightarrow> mw_ctx request \<Rightarrow> 'w \<Rightarrow> ((string \<times> nat) + out_request) \<times> 'w" where
  "gateway_plan request_ok g rq w =
     (if rq_method rq \<noteq> ''POST'' then (Inl (''method not allowed'', 405), w)
      else case route g rq of
        None \<Rightarrow> (Inl (''route denied'', 403), w)
      | Some tg \<Rightarrow>
          if gw_strict g \<and> key_present (rq_header rq) ''Authorization''
          then (Inl (''authorization denied'', 403), w)
          else (case gateway_guard g rq tg w of
             (Some (msg, status), w') \<Rightarrow> (Inl (msg, status), w')
           | (None, w') \<Rightarrow>
               (case tg_url tg of
                  None \<Rightarrow> (Inl (''gateway failure'', 502), w')
                | Some u \<Rightarrow>
                    if \<not> request_ok u then (Inl (''gateway failure'', 502), w')
                    else (case outgoing_header g rq of
                       Inl _ \<Rightarrow> (Inl (''gateway failure'', 502), w')
                     | Inr h \<Rightarrow>
                         (Inr \<lparr>out_url = u, out_header = h, out_body = rq_body rq, out_ctx = rq_ctx rq\<rparr>, w')))))"

definition gateway_serve :: "'w gateway_client \<Rightarrow> 'w gateway \<Rightarrow> ('w, 'b) handler" where
  "gateway_serve client g rq w =
     (case gateway_plan (gc_request_ok client) g rq w of
        (Inl (msg, status), w') \<Rightarrow> ([HttpError msg status], w')
      | (Inr out, w') \<Rightarrow> answer (gc_send client out w'))"

section \<open>Headers that never pass\<close>

lemma ascii_fold: "list_all (\<lambda>c. (of_char c :: nat) < 128) s \<Longrightarrow> fold_view s = map lower_char s"
  by (induction s) auto

lemma of_upper_lower:
  "(of_char (upper_char c) :: nat) = (if 97 \<le> (of_char c :: nat) \<and> of_char c \<le> (122 :: nat) then of_char c - 32 else of_char c)"
  "(of_char (lower_char c) :: nat) = (if 65 \<le> (of_char c :: nat) \<and> of_char c \<le> (90 :: nat) then of_char c + 32 else of_char c)"
  by (auto simp: upper_char_def lower_char_def)

lemma lower_of_cased [simp]: "lower_char (upper_char c) = lower_char c" "lower_char (lower_char c) = lower_char c"
proof -
  have "(of_char (lower_char (upper_char c)) :: nat) = of_char (lower_char c)"
    "(of_char (lower_char (lower_char c)) :: nat) = of_char (lower_char c)"
    unfolding of_upper_lower by auto
  then show "lower_char (upper_char c) = lower_char c" "lower_char (lower_char c) = lower_char c"
    by simp_all
qed

lemma canon_lower: "map lower_char (canon_go b s) = map lower_char s"
  by (induction b s rule: canon_go.induct) auto

lemma canon_ascii:
  "list_all (\<lambda>c. (of_char c :: nat) < 128) s \<Longrightarrow> list_all (\<lambda>c. (of_char c :: nat) < 128) (canon_go b s)"
  by (induction b s rule: canon_go.induct) (auto simp: of_upper_lower)

lemma valid_byte_ascii: "valid_header_byte c \<Longrightarrow> (of_char c :: nat) < 128"
  by (auto simp: valid_header_byte_def is_alnum_def Let_def)

lemma fold_canonical [simp]: "fold_view (canonical_key s) = fold_view s"
proof (cases "list_all valid_header_byte s")
  case True
  then have "list_all (\<lambda>c. (of_char c :: nat) < 128) s"
    by (auto simp: list_all_iff valid_byte_ascii)
  with True show ?thesis
    by (simp add: canonical_key_def ascii_fold canon_ascii canon_lower)
next
  case False
  then show ?thesis by (simp add: canonical_key_def)
qed

lemma key_present_add: "key_present (header_add h k v) n \<longleftrightarrow> equal_fold k n \<or> key_present h n"
  by (simp add: header_add_def key_present_put equal_fold_def)

lemma key_present_values:
  "key_present (add_values k vs h) n \<longleftrightarrow> vs \<noteq> [] \<and> equal_fold k n \<or> key_present h n"
  by (induction vs arbitrary: h) (auto simp: add_values_def key_present_add)

lemma copy_headers_except_Cons:
  "copy_headers_except ex ((k, vs) # src) dst =
     copy_headers_except ex src (if list_ex (equal_fold k) ex then dst else add_values k vs dst)"
  by (simp add: copy_headers_except_def)

lemma key_present_copy:
  "key_present (copy_headers_except ex src dst) n \<longleftrightarrow>
     key_present dst n \<or> (\<exists>(k, vs) \<in> set src. vs \<noteq> [] \<and> equal_fold k n \<and> \<not> list_ex (equal_fold k) ex)"
proof (induction src arbitrary: dst)
  case Nil
  then show ?case by (simp add: copy_headers_except_def)
next
  case (Cons e src)
  obtain k vs where e: "e = (k, vs)" by (cases e)
  show ?case unfolding e copy_headers_except_Cons Cons.IH by (auto simp: key_present_values)
qed

lemma excluded_absent:
  "n \<in> set ex \<Longrightarrow> \<not> key_present dst n \<Longrightarrow> \<not> key_present (copy_headers_except ex src dst) n"
  by (auto simp: key_present_copy list_ex_iff)

lemma no_keys [simp]: "\<not> key_present [] n"
  by (simp add: key_present_def)

section \<open>What a gateway sends\<close>

lemma propagate_Inr:
  "propagate_verified_txn_token c (Some h) m = Inr h' \<longleftrightarrow>
     verified_signed_route c \<noteq> None \<and> (\<exists>raw. verified_transaction_token c = Some raw
       \<and> set_txn_token (Some h) raw m = Inr h')"
proof -
  show ?thesis
  proof (cases "0 < m")
    case True
    then show ?thesis by (auto simp: propagate_verified_txn_token_def split: option.splits sum.splits)
  next
    case False
    then show ?thesis by (auto simp: propagate_verified_txn_token_def set_txn_token_Inr)
  qed
qed

lemma strict_header:
  assumes "gw_strict g" "outgoing_header g rq = Inr h"
  shows "\<exists>raw. verified_transaction_token (rq_ctx rq) = Some raw
      \<and> extract_txn_token (Some h) (gw_max_token_bytes g) = Inr raw
      \<and> header_values h ''Txn-Token'' = [raw]"
    and "\<not> key_present h ''Authorization''" "\<not> key_present h ''Proxy-Authorization''" "\<not> key_present h ''Connection''"
proof -
  let ?h0 = "copy_strict_headers [] (rq_header rq)"
  from assms obtain raw where raw: "verified_transaction_token (rq_ctx rq) = Some raw"
    and set: "set_txn_token (Some ?h0) raw (gw_max_token_bytes g) = Inr h"
    by (auto simp: outgoing_header_def propagate_Inr)
  note ex = extract_after_set [OF set]
  with raw show "\<exists>raw. verified_transaction_token (rq_ctx rq) = Some raw
      \<and> extract_txn_token (Some h) (gw_max_token_bytes g) = Inr raw
      \<and> header_values h ''Txn-Token'' = [raw]"
    by (auto simp: extract_txn_token_Inr)
  from ex show "\<not> key_present h ''Authorization''" by (simp add: extract_txn_token_Inr)
  have h: "h = put ''Txn-Token'' [raw] ?h0"
    using set by (simp add: set_txn_token_Inr header_set_def canonical_txn_token)
  have "\<not> equal_fold ''Txn-Token'' ''Proxy-Authorization''" "\<not> equal_fold ''Txn-Token'' ''Connection''"
    by code_simp+
  moreover have "\<not> key_present ?h0 ''Proxy-Authorization''" "\<not> key_present ?h0 ''Connection''"
    unfolding copy_strict_headers_def
    by (rule excluded_absent, simp add: strict_excluded_def, simp)+
  ultimately show "\<not> key_present h ''Proxy-Authorization''" "\<not> key_present h ''Connection''"
    unfolding h by (simp_all add: key_present_put)
qed

lemma gateway_plan_Inr:
  assumes "gateway_plan ok' g rq w = (Inr out, w')"
  shows "\<exists>tg u. rq_method rq = ''POST'' \<and> route g rq = Some tg \<and> tg_url tg = Some u
      \<and> \<not> (gw_strict g \<and> key_present (rq_header rq) ''Authorization'')
      \<and> gateway_guard g rq tg w = (None, w') \<and> outgoing_header g rq = Inr (out_header out)
      \<and> out = \<lparr>out_url = u, out_header = out_header out, out_body = rq_body rq, out_ctx = rq_ctx rq\<rparr>"
  using assms
  by (auto simp: gateway_plan_def split: if_splits option.splits prod.splits sum.splits)

lemma gateway_guard_None:
  assumes "gateway_guard g rq tg w = (None, w')" "gw_guard g = Some (a, sink)"
  shows "\<exists>v. from_context (rq_ctx rq) = Some v \<and> a (rq_ctx rq) v (tg_name tg) (header_get (rq_header rq) ''Mcp-Name'')
      \<and> sink (decided mcp_tool_allowed ''allow'' ''policy_allowed'' (call_event rq tg v)) w = (None, w')"
  using assms by (auto simp: gateway_guard_def split: option.splits if_splits prod.splits)

lemma signed_route_authorize_iff:
  "signed_route_authorize inner c v target tool \<longleftrightarrow>
     \<not> ctx_done c \<and> verified_signed_route c = Some (target, tool) \<and> \<not> blank target \<and> \<not> blank tool
     \<and> inner c v target tool"
  by (auto simp: signed_route_authorize_def split: option.splits prod.splits)

lemma new_strict_gateway_Inr:
  assumes "new_strict_gateway_with_authorizer client targets authz sink m = Inr g"
  shows "\<exists>a s. authz = Some a \<and> sink = Some s \<and> gw_guard g = Some (signed_route_authorize a, s)"
    and "gw_strict g" "gw_max_token_bytes g = m" "0 < m"
    and "\<exists>g0. new_gateway_with client targets (gw_guard g) = Inr g0 \<and> gw_by_tool g = gw_by_tool g0 \<and> gw_sole g = gw_sole g0"
  using assms
  by (auto simp: new_strict_gateway_with_authorizer_def new_signed_route_authorizer_def new_gateway_with_def
      split: option.splits if_splits sum.splits prod.splits)

section \<open>The routing table\<close>

lemma add_tools_Inr:
  "distinct (map fst m) \<Longrightarrow> add_tools tg ts m = Inr m' \<longleftrightarrow>
     list_all (\<lambda>t. t \<noteq> []) ts \<and> m' = m @ map (\<lambda>t. (t, tg)) ts \<and> distinct (map fst m')"
proof (induction ts arbitrary: m)
  case Nil
  then show ?case by auto
next
  case (Cons t ts)
  show ?case
  proof (cases "t = [] \<or> t \<in> fst ` set m")
    case True
    then show ?thesis by (auto simp: map_of_eq_None_iff)
  next
    case False
    then have "lookup m t = None" "distinct (map fst (m @ [(t, tg)]))"
      using Cons.prems by (auto simp: map_of_eq_None_iff)
    with False Cons.IH show ?thesis by auto
  qed
qed

definition tool_routes :: "target list \<Rightarrow> (string \<times> target) list" where
  "tool_routes tgs = concat (map (\<lambda>tg. map (\<lambda>t. (t, tg)) (tg_tools tg)) tgs)"

lemma add_targets_Inr:
  assumes "distinct (map fst bn)" "distinct (map fst bt)" "add_targets tgs bn bt = Inr (bn', bt')"
  shows "list_all valid_target tgs \<and> bn' = bn @ map (\<lambda>tg. (tg_name tg, tg)) tgs \<and> bt' = bt @ tool_routes tgs
     \<and> distinct (map fst bn') \<and> distinct (map fst bt')"
  using assms
proof (induction tgs arbitrary: bn bt)
  case Nil
  then show ?case by (simp add: tool_routes_def)
next
  case (Cons tg tgs)
  from Cons.prems(3) obtain bt1 where v: "valid_target tg" "lookup bn (tg_name tg) = None"
    and t: "add_tools tg (tg_tools tg) bt = Inr bt1"
    and r: "add_targets tgs (bn @ [(tg_name tg, tg)]) bt1 = Inr (bn', bt')"
    by (auto split: if_splits sum.splits)
  from t have "bt1 = bt @ map (\<lambda>t. (t, tg)) (tg_tools tg)" "distinct (map fst bt1)"
    unfolding add_tools_Inr [OF Cons.prems(2)] by blast+
  moreover have "distinct (map fst (bn @ [(tg_name tg, tg)]))"
    using v(2) Cons.prems(1) by (auto simp: map_of_eq_None_iff)
  ultimately have IH: "list_all valid_target tgs
     \<and> bn' = (bn @ [(tg_name tg, tg)]) @ map (\<lambda>tg. (tg_name tg, tg)) tgs \<and> bt' = bt1 @ tool_routes tgs
     \<and> distinct (map fst bn') \<and> distinct (map fst bt')" and bt1: "bt1 = bt @ map (\<lambda>t. (t, tg)) (tg_tools tg)"
    using Cons.IH [OF _ _ r] by blast+
  have eqs: "(bn @ [(tg_name tg, tg)]) @ map (\<lambda>tg. (tg_name tg, tg)) tgs = bn @ map (\<lambda>tg. (tg_name tg, tg)) (tg # tgs)"
    "bt1 @ tool_routes tgs = bt @ tool_routes (tg # tgs)"
    by (simp_all add: tool_routes_def bt1)
  from IH [unfolded eqs] v(1) show ?case unfolding list.pred_inject by blast
qed

lemma new_gateway_with_Inr:
  assumes "new_gateway_with client targets guard = Inr g"
  shows "list_all valid_target targets" "gw_by_tool g = tool_routes targets"
    "distinct (map fst (tool_routes targets))" "distinct (map tg_name targets)"
    "gw_sole g = (case targets of [tg] \<Rightarrow> Some tg | _ \<Rightarrow> None)" "gw_guard g = guard"
proof -
  from assms obtain bn bt where a: "add_targets targets [] [] = Inr (bn, bt)"
    and g: "g = \<lparr>gw_targets = bn, gw_by_tool = bt, gw_sole = (case targets of [tg] \<Rightarrow> Some tg | _ \<Rightarrow> None),
      gw_guard = guard, gw_strict = False, gw_max_token_bytes = 0\<rparr>"
    by (auto simp: new_gateway_with_def split: if_splits sum.splits prod.splits)
  from add_targets_Inr [OF _ _ a] have b: "list_all valid_target targets"
    "bn = map (\<lambda>tg. (tg_name tg, tg)) targets" "bt = tool_routes targets"
    "distinct (map fst bn)" "distinct (map fst bt)"
    by auto
  then show "list_all valid_target targets" "gw_by_tool g = tool_routes targets"
    "distinct (map fst (tool_routes targets))" "distinct (map tg_name targets)"
    "gw_sole g = (case targets of [tg] \<Rightarrow> Some tg | _ \<Rightarrow> None)" "gw_guard g = guard"
    by (simp_all add: g comp_def)
qed

lemma route_sound:
  assumes "new_gateway_with client targets guard = Inr g0" "gw_by_tool g = gw_by_tool g0" "gw_sole g = gw_sole g0"
    and "route g rq = Some tg"
  shows "tg \<in> set targets \<and> valid_target tg
    \<and> (header_get (rq_header rq) ''Mcp-Method'' = ''tools/call''
        \<longrightarrow> header_get (rq_header rq) ''Mcp-Name'' \<in> set (tg_tools tg))"
proof -
  note n = new_gateway_with_Inr [OF assms(1)]
  from assms n have "tg \<in> set targets \<and> (header_get (rq_header rq) ''Mcp-Method'' = ''tools/call''
        \<longrightarrow> header_get (rq_header rq) ''Mcp-Name'' \<in> set (tg_tools tg))"
    by (auto simp: route_def tool_routes_def dest!: map_of_SomeD split: if_splits list.splits)
  with n(1) show ?thesis by (auto simp: list_all_iff)
qed

section \<open>Authorizers behind a gateway\<close>

text \<open>
  An authorizer of a gateway is asked with the request context; wrapped in the signed route it
  keeps its policy.
\<close>

locale gateway_authorizer = authorizer authorize permits
  for authorize :: authorize and permits :: "request_identity \<Rightarrow> string \<Rightarrow> string \<Rightarrow> bool"
begin

lemma plan_permits:
  assumes "gateway_plan request_ok g rq w = (Inr out, w')" "gw_guard g = Some (signed_route_authorize authorize, s)"
  shows "\<exists>tg v. route g rq = Some tg \<and> from_context (rq_ctx rq) = Some v
    \<and> verified_signed_route (rq_ctx rq) = Some (tg_name tg, header_get (rq_header rq) ''Mcp-Name'')
    \<and> permits v (tg_name tg) (header_get (rq_header rq) ''Mcp-Name'')
    \<and> s (decided mcp_tool_allowed ''allow'' ''policy_allowed'' (call_event rq tg v)) w = (None, w')"
proof -
  from gateway_plan_Inr [OF assms(1)] obtain tg where tg: "route g rq = Some tg"
    and g: "gateway_guard g rq tg w = (None, w')" by blast
  from gateway_guard_None [OF g assms(2)] obtain v where v: "from_context (rq_ctx rq) = Some v"
    and a: "signed_route_authorize authorize (rq_ctx rq) v (tg_name tg) (header_get (rq_header rq) ''Mcp-Name'')"
    and "s (decided mcp_tool_allowed ''allow'' ''policy_allowed'' (call_event rq tg v)) w = (None, w')" by blast
  with tg sound show ?thesis unfolding signed_route_authorize_iff by blast
qed

end

sublocale gateway_authorizer \<subseteq> signed: authorizer "signed_route_authorize authorize" permits
  by unfold_locales (auto simp: signed_route_authorize_iff intro: sound)

interpretation static_gateway: gateway_authorizer "\<lambda>c. policy_authorize p" "policy_permits p" for p
  by unfold_locales (rule static.sound)

interpretation ping_gateway: gateway_authorizer "\<lambda>c. ping_authorize lexer decide p (ctx_done c)" "ping_permits lexer decide"
  for lexer decide p
  by unfold_locales (rule ping.sound)

interpretation opa_gateway: gateway_authorizer "\<lambda>c. opa_authorize o' (ctx_done c)" "opa_permits o'" for o'
  by unfold_locales (rule opa.sound)

end
