(* ===== verification/Txn_Verifier_Facts.thy ===== *)
theory Txn_Verifier_Facts
  imports Txn_Verifier
begin

text \<open>
  The properties of the strict verifier, with a worked instance: one signed token, the library
  answers that go with it, and a configuration that accepts it.
\<close>

section \<open>A worked instance\<close>

definition sample_config :: verifier_config where
  "sample_config =
     \<lparr>vc_mode = profile_txn_token_v11, vc_issuer = ''https://tts.example'',
      vc_trust_domain = ''example.org'', vc_algorithms = [''ES256''],
      vc_clock_skew = 5 * second, vc_maximum_lifetime = 300 * second,
      vc_maximum_token_bytes = 4096, vc_maximum_payload_bytes = 2048,
      vc_maximum_identifier_bytes = 256, vc_maximum_context_bytes = 1024,
      vc_maximum_scopes = 4, vc_allowed_scopes = [''read''],
      vc_workload_agent_bindings = [(''spiffe://example.org/agent'', ''agent-1'')],
      vc_has_keys = True\<rparr>"

definition sample_verifier :: verifier where
  "sample_verifier = \<lparr>v_config = sample_config, v_algs = {''ES256''}\<rparr>"

definition sample_tctx :: "string \<Rightarrow> json" where
  "sample_tctx tool =
     JObj [(''wai'', JObj
       [(''version'', JNum ''1''),
        (''agent'', JObj
          [(''id'', JStr ''agent-1''), (''instance_id'', JStr ''i-1''),
           (''workload_id'', JStr ''spiffe://example.org/agent'')]),
        (''target'', JStr ''mcp''), (''tool'', JStr tool)])]"

definition sample_members :: "(string \<times> json) list" where
  "sample_members =
     [(''iss'', JStr ''https://tts.example''), (''sub'', JStr ''alice''), (''aud'', JStr ''example.org''),
      (''iat'', JNum ''1700000000''), (''exp'', JNum ''1700000060''), (''txn'', JStr ''t-1''),
      (''scope'', JStr ''read''), (''req_wl'', JStr ''spiffe://example.org/agent'')]"

definition sample_payload :: json where
  "sample_payload = JObj (sample_members @ [(''tctx'', sample_tctx ''lookup'')])"

definition sample_token :: string where
  "sample_token = ''eyJ0eXAiOiJ0eG50b2tlbitqd3QifQ.e30.c2ln''"

definition sample_header :: jose_header where
  "sample_header =
     \<lparr>jh_key_id = ''k1'', jh_has_jwk = False, jh_algorithm = ''ES256'', jh_nonce = [],
      jh_extra = [(''typ'', JStr ''txntoken+jwt'')]\<rparr>"

definition no_header :: jose_header where
  "no_header = \<lparr>jh_key_id = [], jh_has_jwk = False, jh_algorithm = [], jh_nonce = [], jh_extra = []\<rparr>"

text \<open>The library: it parses \<open>sample_token\<close>, knows key \<open>k1\<close>, and reads payload \<open>{}\<close> as \<open>p\<close>.\<close>

definition sample_lib :: "json \<Rightarrow> string verifier_lib" where
  "sample_lib p =
     \<lparr>vl_parse_signed = (\<lambda>raw algs. if raw = sample_token then Some (raw, [(sample_header, no_header)]) else None),
      vl_verify_signature = (\<lambda>jws key. if key = ''key-1'' then Some ''{}'' else None),
      vl_resolve_key = (\<lambda>kid. if kid = ''k1'' then Inr (Some ''key-1'') else Inl ()),
      vl_lex = (\<lambda>s. if s = ''{}'' then tokens_of p else tokens_of (JObj [(''typ'', JStr ''txntoken+jwt'')])),
      vl_ip_literal = (\<lambda>_. None), vl_to_lower = (\<lambda>s. s)\<rparr>"

definition sample_now :: time where
  "sample_now = time_unix 1700000010"

definition sample_claims :: txn_token_claims where
  "sample_claims =
     \<lparr>txn_issuer = ''https://tts.example'', txn_subject = ''alice'', txn_audience = ''example.org'',
      txn_transaction_id = ''t-1'', txn_scope = [''read''],
      txn_requesting_workload_id = ''spiffe://example.org/agent'',
      txn_context = \<lparr>wai_version = 1,
        wai_agent = \<lparr>wac_id = ''agent-1'', wac_instance_id = ''i-1'', wac_workload_id = ''spiffe://example.org/agent''\<rparr>,
        wai_target = ''mcp'', wai_tool = ''lookup''\<rparr>,
      txn_request_context = None, txn_jwt_id = [],
      txn_issued_at = time_unix 1700000000, txn_expires_at = time_unix 1700000060\<rparr>"

lemma sample_constructed: "new_txn_token_verifier (sample_lib p) sample_config = Inr sample_verifier"
  by code_simp

definition sample_wire :: wire_claims where
  "sample_wire =
     (case unmarshal_wire (tokens_of sample_payload) of
        Some w \<Rightarrow> (case decode_strict_local_contexts (tokens_of sample_payload) w of Some w' \<Rightarrow> w'))"

text \<open>What does not depend on the clock.\<close>

lemma sample_decoded:
  "verify_payload (sample_lib sample_payload) sample_verifier False sample_token = Inr ''{}''"
  "\<exists>w. unmarshal_wire (tokens_of sample_payload) = Some w
     \<and> decode_strict_local_contexts (tokens_of sample_payload) w = Some sample_wire"
  "reject_duplicate_json_keys (tokens_of sample_payload) = None"
proof -
  show "verify_payload (sample_lib sample_payload) sample_verifier False sample_token = Inr ''{}''" by code_simp
  have "(case unmarshal_wire (tokens_of sample_payload) of None \<Rightarrow> False
      | Some w \<Rightarrow> decode_strict_local_contexts (tokens_of sample_payload) w \<noteq> None)" by code_simp
  then show "\<exists>w. unmarshal_wire (tokens_of sample_payload) = Some w
     \<and> decode_strict_local_contexts (tokens_of sample_payload) w = Some sample_wire"
    by (auto simp: sample_wire_def split: option.splits)
  show "reject_duplicate_json_keys (tokens_of sample_payload) = None"
    by (simp only: reject_duplicate_tokens) code_simp
qed

definition sample_later :: time where
  "sample_later = time_unix 1700000065"

lemma sample_rules:
  "claims_of_wire sample_wire = sample_claims
   \<and> validate_wire (\<lambda>_. None) sample_config sample_now sample_wire = None
   \<and> validate_wire (\<lambda>_. None) sample_config sample_later sample_wire = None"
  by code_simp

lemma sample_accepted_at:
  assumes "validate_wire (\<lambda>_. None) sample_config now sample_wire = None"
  shows "txn_verify (sample_lib sample_payload) sample_verifier now False sample_token = Inr sample_claims"
proof -
  have "vl_lex (sample_lib sample_payload) ''{}'' = tokens_of sample_payload" "vl_ip_literal (sample_lib sample_payload) = (\<lambda>_. None)"
    "v_config sample_verifier = sample_config" "int (length ''{}'') \<le> vc_maximum_payload_bytes sample_config"
    by (simp_all add: sample_lib_def sample_verifier_def sample_config_def)
  then have "claims_of_payload (sample_lib sample_payload) sample_verifier now ''{}'' = Inr sample_claims"
    unfolding claims_of_payload_Inr using sample_decoded(2,3) sample_rules assms by auto
  then show ?thesis by (simp add: txn_verify_def sample_decoded(1))
qed

lemma sample_accepted: "txn_verify (sample_lib sample_payload) sample_verifier sample_now False sample_token = Inr sample_claims"
  and sample_accepted_later: "txn_verify (sample_lib sample_payload) sample_verifier sample_later False sample_token = Inr sample_claims"
  using sample_rules sample_accepted_at by blast+

text \<open>
  The same claims with agent and tool left out of \<open>tctx\<close>, and a second member whose key differs in
  case and that names them, beside the given further members.
\<close>

definition sample_tctx_bare :: json where
  "sample_tctx_bare = JObj [(''wai'', JObj [(''version'', JNum ''1'')])]"

definition shadow_wai :: json where
  "shadow_wai = JObj
     [(''agent'', JObj
        [(''id'', JStr ''agent-1''), (''instance_id'', JStr ''i-1''),
         (''workload_id'', JStr ''spiffe://example.org/agent'')]),
      (''target'', JStr ''mcp''), (''tool'', JStr ''delete'')]"

definition shadow_payload :: "(string \<times> json) list \<Rightarrow> json" where
  "shadow_payload extra = JObj (sample_members @
     [(''tctx'', sample_tctx_bare), (''TCTX'', JObj ((''wai'', shadow_wai) # extra))])"

section \<open>Unknown members of the local context\<close>

lemma context_field_unknown:
  "\<not> equal_fold u ''wai'' \<Longrightarrow> find (\<lambda>(name, _). equal_fold u name) (context_fields strict) = None"
  by (simp add: context_fields_def struct_field_def)

lemma decode_unknown_member:
  assumes "find (\<lambda>(name, _). equal_fold u name) fs = None"
  shows "decode_members fs False (a @ (u, x) # b) r = decode_members fs False (a @ b) r"
    "decode_members fs True (a @ (u, x) # b) r = None"
proof -
  show "decode_members fs False (a @ (u, x) # b) r = decode_members fs False (a @ b) r"
    using assms by (cases "decode_members fs False a r") (simp_all add: decode_members_append)
  show "decode_members fs True (a @ (u, x) # b) r = None"
    using assms by (cases "decode_members fs True a r") (simp_all add: decode_members_append)
qed

lemma wire_field_tctx:
  assumes "equal_fold k ''tctx''"
  shows "find (\<lambda>(name, _). equal_fold k name) wire_fields
     = Some (struct_field ''tctx'' (decode_struct (context_fields False) False) wire_tctx (\<lambda>s r. r\<lparr>wire_tctx := s\<rparr>))"
proof -
  have k: "equal_fold k n = equal_fold ''tctx'' n" for n
    using assms by (simp add: equal_fold_def)
  have "\<not> equal_fold ''tctx'' ''iss''" "\<not> equal_fold ''tctx'' ''sub''" "\<not> equal_fold ''tctx'' ''aud''"
    "\<not> equal_fold ''tctx'' ''iat''" "\<not> equal_fold ''tctx'' ''exp''" "\<not> equal_fold ''tctx'' ''txn''"
    "\<not> equal_fold ''tctx'' ''scope''" "\<not> equal_fold ''tctx'' ''req_wl''" by code_simp+
  then show ?thesis
    unfolding k by (simp add: wire_fields_def string_field_def int_field_def struct_field_def)
qed

lemma unmarshal_unknown_context_member:
  assumes "equal_fold k ''tctx''" "\<not> equal_fold u ''wai''"
  shows "unmarshal_wire (tokens_of (JObj (before @ (k, JObj (a @ (u, x) # b)) # after)))
     = unmarshal_wire (tokens_of (JObj (before @ (k, JObj (a @ b)) # after)))"
  using decode_unknown_member(1) [OF context_field_unknown [OF assms(2)]]
  by (cases "decode_members wire_fields False before zero_wire")
    (simp_all add: unmarshal_wire_def decode_struct_def decode_members_append [of _ _ before]
      wire_field_tctx [OF assms(1)] struct_field_def del: tokens_of.simps)

lemma no_duplicate_keys_insert:
  assumes "no_duplicate_keys (JObj (before @ (k, JObj (a @ b)) # after))"
    and "u \<notin> fst ` set (a @ b)" "no_duplicate_keys x"
  shows "no_duplicate_keys (JObj (before @ (k, JObj (a @ (u, x) # b)) # after))"
  using assms by auto

lemma strict_unknown_context_member:
  assumes "\<not> equal_fold u ''wai''"
    and "no_duplicate_keys (JObj (before @ (''tctx'', JObj (a @ (u, x) # b)) # after))"
  shows "decode_strict_local_contexts (tokens_of (JObj (before @ (''tctx'', JObj (a @ (u, x) # b)) # after))) w = None"
proof -
  let ?m = "before @ (''tctx'', JObj (a @ (u, x) # b)) # after"
  have "distinct (map fst (rev ?m))" unfolding rev_map [symmetric] distinct_rev using assms(2) by simp
  then have "lookup (rev ?m) ''tctx'' = Some (JObj (a @ (u, x) # b))"
    by (simp only: map_of_eq_Some_iff) simp
  then show ?thesis
    using decode_unknown_member(2) [OF context_field_unknown [OF assms(1)]]
    by (simp add: decode_strict_local_contexts_def decode_raw_map_def decode_struct_def
        del: tokens_of.simps rev_append rev.simps)
qed

lemma strict_ignores_other_spelling:
  assumes "equal_fold k ''tctx''" "k \<noteq> ''tctx''"
  shows "decode_strict_local_contexts (tokens_of (JObj (before @ (k, y) # after))) w
     = decode_strict_local_contexts (tokens_of (JObj (before @ (k, z) # after))) w"
proof -
  have "\<not> equal_fold ''rctx'' ''tctx''" by code_simp
  with assms have k: "k \<noteq> ''rctx''" by auto
  have "lookup (rev (before @ (k, y) # after)) n = lookup (rev (before @ (k, z) # after)) n" if "n \<noteq> k" for n
    using that by (auto simp: map_add_def split: option.splits)
  from this [of "''tctx''"] this [of "''rctx''"] k assms(2) show ?thesis
    unfolding decode_strict_local_contexts_def decode_all_tokens decode_raw_map_def
    by (simp only: json.case bind.bind_lunit option.case cong: option.case_cong)
qed

section \<open>Properties\<close>

lemma window_rules_distance:
  assumes "window_rules c t w" "window_rules c u w" "vc_maximum_lifetime c < int64_max"
  shows "\<bar>t - u\<bar> \<le> vc_maximum_lifetime c + 2 * vc_clock_skew c"
proof -
  have "time_unix (wire_exp w) - time_unix (wire_iat w) \<le> vc_maximum_lifetime c"
    using assms by (auto simp: window_rules_def intro: time_sub_le_less_max)
  with assms show ?thesis unfolding window_rules_def by linarith
qed

lemma txn_verify_window:
  assumes "txn_verify lib v now cancelled raw = Inr cl"
  shows "\<exists>payload w. verify_payload lib v cancelled raw = Inr payload
     \<and> window_rules (v_config v) now w
     \<and> Option.bind (unmarshal_wire (vl_lex lib payload)) (decode_strict_local_contexts (vl_lex lib payload)) = Some w"
  using assms by (rule txn_verify_Inr) (auto simp: validate_wire_None)

lemma verify_payload_same:
  assumes "verify_payload lib v a raw = Inr p" "verify_payload lib v b raw = Inr q"
  shows "p = q"
  using assms by (simp add: verify_payload_def Let_def split: if_splits)

text \<open>
  C1. A token that \<open>Verify\<close> of a constructed verifier accepts was parsed as one signature with the
  expected \<open>typ\<close>, under a configured algorithm, and its payload is what the signature check
  returned for the key its key ID resolves to; its claims meet every rule of the configuration:
  issuer, audience, bounded values, time window, allowed and distinct scopes, and the configured
  binding of the requesting workload to the agent.
\<close>
theorem txn_verify_sound:
  assumes "new_txn_token_verifier lib c = Inr v" and "txn_verify lib v now cancelled raw = Inr cl"
  shows "verified_claims (vl_ip_literal lib) c now cl
    \<and> (\<exists>jws h key payload. vl_parse_signed lib raw (vc_algorithms c) = Some (jws, [h])
      \<and> jh_algorithm (fst h) \<in> set (vc_algorithms c) \<and> empty_jose_header (snd h)
      \<and> lookup (jh_extra (fst h)) ''typ'' = Some (JStr txn_token_jose_type)
      \<and> vl_resolve_key lib (jh_key_id (fst h)) = Inr (Some key)
      \<and> vl_verify_signature lib jws key = Some payload
      \<and> claims_of_payload lib v now payload = Inr cl)
    \<and> \<not> cancelled \<and> int (length raw) \<le> vc_maximum_token_bytes c"
proof (intro conjI)
  note v = new_txn_token_verifier_Inr [OF assms(1)]
  show "verified_claims (vl_ip_literal lib) c now cl"
    using txn_verify_verified [OF assms(2)] v(1) by simp
  from assms(2) obtain payload where p: "verify_payload lib v cancelled raw = Inr payload"
    and cl: "claims_of_payload lib v now payload = Inr cl"
    by (auto simp: txn_verify_def split: sum.splits)
  show "\<exists>jws h key payload. vl_parse_signed lib raw (vc_algorithms c) = Some (jws, [h])
      \<and> jh_algorithm (fst h) \<in> set (vc_algorithms c) \<and> empty_jose_header (snd h)
      \<and> lookup (jh_extra (fst h)) ''typ'' = Some (JStr txn_token_jose_type)
      \<and> vl_resolve_key lib (jh_key_id (fst h)) = Inr (Some key)
      \<and> vl_verify_signature lib jws key = Some payload
      \<and> claims_of_payload lib v now payload = Inr cl"
    using verify_payload_Inr(1) [OF p] cl v(1,2) by auto
  show "\<not> cancelled" "int (length raw) \<le> vc_maximum_token_bytes c"
    using verify_payload_Inr(2,3) [OF p] v(1) by simp_all
qed

theorem txn_verify_sound_witness:
  "verified_claims (vl_ip_literal (sample_lib sample_payload)) sample_config sample_now sample_claims"
  using txn_verify_sound [OF sample_constructed sample_accepted] by blast

text \<open>
  \<open>Verify\<close> accepts a token with claims \<open>cl\<close> exactly when its signature part succeeds, its payload
  is within bounds and free of duplicate keys, both decodings succeed, and the decoded wire
  claims meet the identity, time-window, scope, context and request-context rules; \<open>cl\<close> is then
  the image of the wire claims. Nothing else is rejected.
\<close>
theorem txn_verify_accepts_iff:
  "txn_verify lib v now cancelled raw = Inr cl \<longleftrightarrow>
     (\<exists>payload w0 w. verify_payload lib v cancelled raw = Inr payload
        \<and> payload \<noteq> [] \<and> int (length payload) \<le> vc_maximum_payload_bytes (v_config v)
        \<and> reject_duplicate_json_keys (vl_lex lib payload) = None
        \<and> unmarshal_wire (vl_lex lib payload) = Some w0
        \<and> decode_strict_local_contexts (vl_lex lib payload) w0 = Some w
        \<and> identity_rules (v_config v) w \<and> window_rules (v_config v) now w
        \<and> scope_rules (v_config v) w \<and> context_rules (vl_ip_literal lib) (v_config v) w
        \<and> request_context_rules (v_config v) w \<and> cl = claims_of_wire w)"
  by (auto simp: txn_verify_def claims_of_payload_Inr validate_wire_None split: sum.splits)

text \<open>
  C2. A token has a bounded life: two acceptances of the same token by the same verifier are at
  most the maximum lifetime plus twice the clock skew apart, whatever times the token claims.
\<close>
theorem txn_verify_bounded_life:
  assumes "txn_verify lib v t c1 raw = Inr a" and "txn_verify lib v u c2 raw = Inr b"
    and "vc_maximum_lifetime (v_config v) < int64_max"
  shows "\<bar>t - u\<bar> \<le> vc_maximum_lifetime (v_config v) + 2 * vc_clock_skew (v_config v)"
proof -
  from txn_verify_window [OF assms(1)] txn_verify_window [OF assms(2)]
  obtain w where "window_rules (v_config v) t w" "window_rules (v_config v) u w"
    using verify_payload_same by (metis option.inject)
  with assms(3) show ?thesis by (blast intro: window_rules_distance)
qed

theorem txn_verify_bounded_life_witness:
  "\<bar>sample_now - sample_later\<bar> \<le> vc_maximum_lifetime (v_config sample_verifier) + 2 * vc_clock_skew (v_config sample_verifier)"
proof (rule txn_verify_bounded_life [OF sample_accepted sample_accepted_later])
  show "vc_maximum_lifetime (v_config sample_verifier) < int64_max" by code_simp
qed

text \<open>
  Whenever a token is accepted its claims are the same: the clock and the request decide only
  whether it is accepted, so two services that hold the same token see the same identity and scope.
\<close>
theorem txn_verify_deterministic:
  assumes "txn_verify lib v t1 c1 raw = Inr a" "txn_verify lib v t2 c2 raw = Inr b"
  shows "a = b"
  by (rule txn_verify_clock_independent [OF assms])

theorem txn_verify_deterministic_witness:
  "\<exists>a b. txn_verify (sample_lib sample_payload) sample_verifier sample_now False sample_token = Inr a
     \<and> txn_verify (sample_lib sample_payload) sample_verifier sample_later False sample_token = Inr b \<and> a = b"
  using sample_accepted sample_accepted_later
    txn_verify_deterministic [OF sample_accepted sample_accepted_later] by blast

text \<open>
  C3. The duplicate-key scan accepts a JSON value exactly when no object in it, at any depth, has
  a key twice, and otherwise reports the duplicate; on no token stream does its fuel run out.
\<close>
theorem duplicate_scan_exact:
  "reject_duplicate_json_keys (tokens_of v) = (if no_duplicate_keys v then None else Some DuplicateKey)
   \<and> scan_json_value ts \<noteq> Inl OutOfFuel"
  by (intro conjI reject_duplicate_tokens scan_json_value_fuel)

text \<open>
  C4. A member of \<open>tctx\<close> the schema does not have is refused, but only under the exact key: take any
  accepted token and one that differs from it only in a further member \<open>u\<close>, unknown to the
  schema, of the object under a key \<open>k\<close> that is \<open>tctx\<close> up to case. If \<open>k\<close> is \<open>tctx\<close> itself the second
  token is refused for its local context; under every other spelling it is accepted, with the
  same claims, since the lenient decoding takes the member by its folded key and the strict one looks
  up \<open>tctx\<close> alone.
\<close>
theorem strict_context_shadowed:
  assumes "txn_verify lib v now cancelled raw = Inr cl"
    and "verify_payload lib v cancelled raw = Inr p" and "verify_payload lib v cancelled raw' = Inr p'"
    and "vl_lex lib p = tokens_of (JObj (before @ (k, JObj (a @ b)) # after))"
    and "vl_lex lib p' = tokens_of (JObj (before @ (k, JObj (a @ (u, x) # b)) # after))"
    and "equal_fold k ''tctx''" and "\<not> equal_fold u ''wai''"
    and "u \<notin> fst ` set (a @ b)" and "no_duplicate_keys x"
    and "p' \<noteq> []" and "int (length p') \<le> vc_maximum_payload_bytes (v_config v)"
  shows "txn_verify lib v now cancelled raw' = (if k = ''tctx'' then Inl InvalidLocalContextSchema else Inr cl)"
proof -
  let ?m = "before @ (k, JObj (a @ b)) # after" and ?m' = "before @ (k, JObj (a @ (u, x) # b)) # after"
  from assms(1,2) have "claims_of_payload lib v now p = Inr cl" by (simp add: txn_verify_def)
  then obtain w0 w where nd: "no_duplicate_keys (JObj ?m)"
    and w0: "unmarshal_wire (tokens_of (JObj ?m)) = Some w0"
    and w: "decode_strict_local_contexts (tokens_of (JObj ?m)) w0 = Some w"
    and ok: "validate_wire (vl_ip_literal lib) (v_config v) now w = None" "cl = claims_of_wire w"
    unfolding claims_of_payload_Inr assms(4) reject_duplicate_tokens by (metis option.distinct(1))
  have nd': "no_duplicate_keys (JObj ?m')" by (rule no_duplicate_keys_insert [OF nd assms(8,9)])
  have w0': "unmarshal_wire (tokens_of (JObj ?m')) = Some w0"
    using w0 unmarshal_unknown_context_member [OF assms(6,7)] by metis
  have head: "reject_duplicate_json_keys (vl_lex lib p') = None" "length p' \<noteq> 0"
    using nd' assms(10) by (simp_all only: assms(5) reject_duplicate_tokens) simp_all
  show ?thesis
  proof (cases "k = ''tctx''")
    case True
    have "decode_strict_local_contexts (tokens_of (JObj ?m')) w0 = None"
      using strict_unknown_context_member [OF assms(7)] nd' unfolding True by blast
    with True head w0' assms(3,11) show ?thesis
      by (simp add: txn_verify_def claims_of_payload_def Let_def assms(5) del: tokens_of.simps)
  next
    case False
    have "decode_strict_local_contexts (tokens_of (JObj ?m')) w0 = Some w"
      using w strict_ignores_other_spelling [OF assms(6) False] by metis
    with False head w0' ok assms(3,11) show ?thesis
      by (simp add: txn_verify_def claims_of_payload_def Let_def assms(5) del: tokens_of.simps)
  qed
qed

definition shadow_token :: string where
  "shadow_token = ''eyJ0eXAiOiJ0eG50b2tlbitqd3QifQ.e31.c2ln''"

definition shadow_lib :: "string verifier_lib" where
  "shadow_lib =
     \<lparr>vl_parse_signed = (\<lambda>raw algs. Some (raw, [(sample_header, no_header)])),
      vl_verify_signature = (\<lambda>jws key. Some (if jws = sample_token then ''{}'' else ''{ }'')),
      vl_resolve_key = (\<lambda>kid. Inr (Some ''key-1'')),
      vl_lex = (\<lambda>s. if s = ''{}'' then tokens_of (shadow_payload [])
                    else if s = ''{ }'' then tokens_of (shadow_payload [(''approved'', JBool True)])
                    else tokens_of (JObj [(''typ'', JStr ''txntoken+jwt'')])),
      vl_ip_literal = (\<lambda>_. None), vl_to_lower = (\<lambda>s. s)\<rparr>"

theorem strict_context_shadowed_witness:
  "\<exists>cl. txn_verify shadow_lib sample_verifier sample_now False shadow_token = Inr cl
     \<and> wai_tool (txn_context cl) = ''delete''"
proof -
  have "map_sum id (\<lambda>cl. wai_tool (txn_context cl))
      (txn_verify shadow_lib sample_verifier sample_now False sample_token) = Inr ''delete''" by code_simp
  then obtain cl where cl: "txn_verify shadow_lib sample_verifier sample_now False sample_token = Inr cl"
    and tool: "wai_tool (txn_context cl) = ''delete''"
    by (cases "txn_verify shadow_lib sample_verifier sample_now False sample_token") auto
  have p: "verify_payload shadow_lib sample_verifier False sample_token = Inr ''{}''"
    "verify_payload shadow_lib sample_verifier False shadow_token = Inr ''{ }''" by code_simp+
  have side: "equal_fold ''TCTX'' ''tctx''" "\<not> equal_fold ''approved'' ''wai''" by code_simp+
  have l: "vl_lex shadow_lib ''{}'' = tokens_of (JObj ((sample_members @ [(''tctx'', sample_tctx_bare)]) @ (''TCTX'', JObj ([(''wai'', shadow_wai)] @ [])) # []))"
    "vl_lex shadow_lib ''{ }'' = tokens_of (JObj ((sample_members @ [(''tctx'', sample_tctx_bare)]) @ (''TCTX'', JObj ([(''wai'', shadow_wai)] @ (''approved'', JBool True) # [])) # []))"
    by (simp_all add: shadow_lib_def shadow_payload_def del: tokens_of.simps)
  have "txn_verify shadow_lib sample_verifier sample_now False shadow_token
      = (if ''TCTX'' = ''tctx'' then Inl InvalidLocalContextSchema else Inr cl)"
    by (rule strict_context_shadowed [OF cl p l side]) (simp_all add: sample_verifier_def sample_config_def)
  then show ?thesis using tool by simp
qed

text \<open>
  \<open>validSPIFFEID\<close> is laxer than a SPIFFE ID parser: it accepts an upper-case scheme, an empty
  query, and a path that is only a slash; it refuses another trust domain, user info and a query.
\<close>
theorem valid_spiffe_id_lax:
  "valid_spiffe_id ip ''SPIFFE://example.org/agent'' ''example.org''
   \<and> valid_spiffe_id ip ''spiffe://example.org/agent?'' ''example.org''
   \<and> valid_spiffe_id ip ''spiffe://example.org/'' ''example.org''
   \<and> \<not> valid_spiffe_id ip ''spiffe://evil.org/agent'' ''example.org''
   \<and> \<not> valid_spiffe_id ip ''spiffe://u@example.org/agent'' ''example.org''
   \<and> \<not> valid_spiffe_id ip ''spiffe://example.org/agent?x=1'' ''example.org''"
  by code_simp

end
