(* ===== verification/Middleware_Facts.thy ===== *)
theory Middleware_Facts
  imports Middleware Txn_Verifier_Facts
begin

text \<open>The properties of the two authentication middlewares, on the worked token of the verifier.\<close>

section \<open>A worked request\<close>

definition sample_middleware :: strict_middleware where
  "sample_middleware =
     \<lparr>sm_config = \<lparr>sm_has_verifier = True, sm_maximum_token_bytes = 4096,
        sm_allowed_callers = [''spiffe://example.org/agent''], sm_already_verified = True, sm_service = ''gateway''\<rparr>,
      sm_callers = [''spiffe://example.org/agent'']\<rparr>"

definition sample_request :: "mw_ctx request" where
  "sample_request =
     \<lparr>rq_method = ''POST'', rq_segments = [''mcp''], rq_header = [(''Txn-Token'', [sample_token])],
      rq_tls = Some \<lparr>peer_certificates = [[''spiffe://example.org/agent'']], verified_chains = 0\<rparr>,
      rq_body = empty_body, rq_ctx = background\<rparr>"

definition sample_strict_verify :: "mw_ctx \<Rightarrow> string \<Rightarrow> verification_error + txn_token_claims" where
  "sample_strict_verify c = txn_verify (sample_lib sample_payload) sample_verifier sample_now (ctx_done c)"

lemma sample_verified: "sample_strict_verify background sample_token = Inr sample_claims"
  using sample_accepted by (simp add: sample_strict_verify_def background_def)

lemma sample_admitted:
  "ok (strict_admit Some sample_digest sample_strict_verify sample_middleware sample_request)"
proof -
  have "extract_txn_token (Some (rq_header sample_request)) (sm_maximum_token_bytes (sm_config sample_middleware)) = Inr sample_token"
    and c: "rq_ctx sample_request = background" by code_simp+
  from strict_admit_cong [where verify = sample_strict_verify, OF this(1), unfolded c, OF sample_verified]
  have e: "strict_admit Some sample_digest sample_strict_verify sample_middleware sample_request
      = strict_admit Some sample_digest (\<lambda>_ _. Inr sample_claims :: verification_error + txn_token_claims) sample_middleware sample_request" .
  show ?thesis unfolding e by code_simp
qed

section \<open>Properties\<close>

lemma bounded_trim: "bounded_value v m \<Longrightarrow> trim_space v = v"
  by (simp add: bounded_value_def)

lemma map_trim_bounded: "\<forall>s \<in> set ss. bounded_value s m \<Longrightarrow> map trim_space ss = ss"
  by (induction ss) (auto simp: bounded_trim)

text \<open>
  C19. The strict middleware either answers 401, 403 or 500 itself, whatever the next handler is, or
  calls it once with a context that holds the verified token, its evidence, the signed route and
  a well-formed identity built from the claims of that token and the allowed mTLS caller, after
  the audit event of exactly these facts was written. No other call of the next handler exists.
\<close>
theorem strict_middleware_admits:
  "(\<exists>msg status w'. status \<in> {401, 403, 500} \<and>
      (\<forall>next :: ('w, 'b) handler. strict_handler fu h verify sink m next rq w = ([HttpError msg status], w')))
   \<or> (\<exists>e c w'. strict_admission fu h verify m rq e c
        \<and> (case sink of None \<Rightarrow> w' = w | Some s \<Rightarrow> s e w = (None, w'))
        \<and> (\<forall>next :: ('w, 'b) handler. strict_handler fu h verify sink m next rq w = next (rq\<lparr>rq_ctx := c\<rparr>) w'))"
proof -
  have "\<forall>msg status. strict_admit fu h verify m rq = Inl (msg, status) \<longrightarrow> status \<in> {401, 403, 500}"
    using strict_admit_Inl by fastforce
  from audited_outcome [where 'b = 'b, OF this, of sink rq w] show ?thesis
    unfolding strict_handler_def strict_admit_Inr .
qed

lemma admitted_identity:
  assumes "new_txn_token_verifier lib cfg = Inr v"
    and "strict_admit fu h (\<lambda>c. txn_verify lib v now (ctx_done c)) m rq = Inr (e, c)"
  shows "\<exists>i cl raw. from_context c = Some i \<and> wf_identity i \<and> ctx_token c = Some raw
    \<and> txn_verify lib v now (ctx_done (rq_ctx rq)) raw = Inr cl
    \<and> verified_claims (vl_ip_literal lib) cfg now cl
    \<and> user_id (ric_user i) = txn_subject cl
    \<and> lookup (vc_workload_agent_bindings cfg) (txn_requesting_workload_id cl) = Some (agent_id (ric_agent i))
    \<and> workload_spiffe_id (ric_original_workload i) = trim_space (txn_requesting_workload_id cl)
    \<and> auth_scope (ric_authorization i) = txn_scope cl
    \<and> set (auth_scope (ric_authorization i)) \<subseteq> set (vc_allowed_scopes cfg)
    \<and> workload_spiffe_id (ric_immediate_caller i) \<in> trim_space ` set (sm_callers m)"
proof -
  note cfg = new_txn_token_verifier_Inr [OF assms(1)]
  from assms(2) obtain raw cl caller i ev where
    v: "txn_verify lib v now (ctx_done (rq_ctx rq)) raw = Inr cl"
    and caller: "caller \<in> set (sm_callers m)"
    and b: "build_identity (txn_subject cl) (wac_id (wai_agent (txn_context cl)), wac_instance_id (wai_agent (txn_context cl)))
            (txn_requesting_workload_id cl) caller
            (txn_transaction_id cl, wai_target (txn_context cl) @ '':'' @ wai_tool (txn_context cl)) (txn_scope cl) = Inr i"
    and c: "c = strict_ctx (rq_ctx rq) i raw ev (wai_target (txn_context cl), wai_tool (txn_context cl))"
    unfolding strict_admit_Inr strict_admission_def by blast
  have "strict_genuine lib v now (rq_ctx rq) raw cl"
    by (rule strict_verifier.verified [OF v])
  then have ver: "verified_claims (vl_ip_literal lib) cfg now cl"
    using cfg(1) by (simp add: strict_genuine_def)
  have i: "user_id (ric_user i) = trim_space (txn_subject cl)"
    "agent_id (ric_agent i) = trim_space (wac_id (wai_agent (txn_context cl)))"
    "workload_spiffe_id (ric_original_workload i) = trim_space (txn_requesting_workload_id cl)"
    "workload_spiffe_id (ric_immediate_caller i) = trim_space caller"
    "auth_scope (ric_authorization i) = map trim_space (txn_scope cl)"
    using b unfolding build_identity_Inr by simp_all
  have "map trim_space (txn_scope cl) = txn_scope cl"
    by (rule map_trim_bounded) (use ver cfg(8) in \<open>auto simp: verified_claims_def Let_def\<close>)
  moreover have "trim_space (txn_subject cl) = txn_subject cl"
    "trim_space (wac_id (wai_agent (txn_context cl))) = wac_id (wai_agent (txn_context cl))"
    using ver by (auto simp: verified_claims_def Let_def intro: bounded_trim)
  ultimately have "from_context c = Some i \<and> wf_identity i \<and> ctx_token c = Some raw
    \<and> user_id (ric_user i) = txn_subject cl
    \<and> lookup (vc_workload_agent_bindings cfg) (txn_requesting_workload_id cl) = Some (agent_id (ric_agent i))
    \<and> auth_scope (ric_authorization i) = txn_scope cl
    \<and> set (auth_scope (ric_authorization i)) \<subseteq> set (vc_allowed_scopes cfg)
    \<and> workload_spiffe_id (ric_immediate_caller i) \<in> trim_space ` set (sm_callers m)"
    using ver i caller build_identity_wf [OF b] c by (simp add: verified_claims_def Let_def)
  with v ver i(3) show ?thesis by blast
qed

text \<open>
  With the strict verifier of a configuration behind it, the identity an admitted request carries
  is that of the token: its user is the subject, its agent is the one the configuration binds the
  requesting workload to, its scopes are the token's and allowed by the configuration, and its
  caller is one of the allowed callers; the token in the context is the one that was verified.
\<close>
theorem strict_identity_bound:
  assumes "new_txn_token_verifier lib cfg = Inr v"
    and "strict_admit fu h (\<lambda>c. txn_verify lib v now (ctx_done c)) m rq = Inr (e, c)"
  shows "\<exists>i cl raw. from_context c = Some i \<and> wf_identity i \<and> ctx_token c = Some raw
    \<and> txn_verify lib v now (ctx_done (rq_ctx rq)) raw = Inr cl
    \<and> verified_claims (vl_ip_literal lib) cfg now cl
    \<and> user_id (ric_user i) = txn_subject cl
    \<and> lookup (vc_workload_agent_bindings cfg) (txn_requesting_workload_id cl) = Some (agent_id (ric_agent i))
    \<and> workload_spiffe_id (ric_original_workload i) = trim_space (txn_requesting_workload_id cl)
    \<and> auth_scope (ric_authorization i) = txn_scope cl
    \<and> set (auth_scope (ric_authorization i)) \<subseteq> set (vc_allowed_scopes cfg)
    \<and> workload_spiffe_id (ric_immediate_caller i) \<in> trim_space ` set (sm_callers m)"
  using assms by (rule admitted_identity)

theorem strict_identity_bound_witness:
  "\<exists>i :: request_identity. lookup (vc_workload_agent_bindings sample_config) ''spiffe://example.org/agent'' = Some (agent_id (ric_agent i))"
proof -
  obtain e c where x: "strict_admit Some sample_digest sample_strict_verify sample_middleware sample_request = Inr (e, c)"
    using sample_admitted by (auto simp: ok_iff)
  from strict_identity_bound [OF sample_constructed [of sample_payload] x [unfolded sample_strict_verify_def]]
  have "\<exists>(i :: request_identity) w. lookup (vc_workload_agent_bindings sample_config) w = Some (agent_id (ric_agent i))" by blast
  then show ?thesis by (auto simp: sample_config_def split: if_splits)
qed

text \<open>
  C20. The legacy middleware calls the next handler only with an identity built from claims the
  verifier accepted for its audience, for a bearer token of exactly two fields, with a caller the
  caller policy accepts for those claims, after the audit event was written; every other request
  is answered 401, 403 or 500 whatever the next handler is.
\<close>
theorem legacy_middleware_admits:
  "(\<exists>msg status w'. status \<in> {401, 403, 500} \<and>
      (\<forall>next :: ('w, 'b) handler. legacy_handler fu h verify callers sink m next rq w = ([HttpError msg status], w')))
   \<or> (\<exists>raw cl caller v ev w' s.
        go_fields (header_get (rq_header rq) ''Authorization'') = [s, raw] \<and> equal_fold s ''Bearer''
        \<and> verify (rq_ctx rq) raw (lm_audience m) = Inr cl \<and> lm_audience m \<noteq> []
        \<and> immediate_caller fu (rq_tls rq) (lm_already_verified m) = Inr caller \<and> callers cl caller
        \<and> wf_identity v \<and> user_id (ric_user v) = trim_space (subject cl)
        \<and> workload_spiffe_id (ric_immediate_caller v) = trim_space caller
        \<and> new_verified_transaction_token_evidence h raw cl = Inr ev
        \<and> (case sink of None \<Rightarrow> w' = w | Some s \<Rightarrow> s (legacy_event m (rq_method rq) cl caller ev) w = (None, w'))
        \<and> (\<forall>next :: ('w, 'b) handler. legacy_handler fu h verify callers sink m next rq w
             = next (rq\<lparr>rq_ctx := legacy_ctx (rq_ctx rq) v raw ev\<rparr>) w'))"
proof -
  have "\<forall>msg status. legacy_admit fu h verify callers m rq = Inl (msg, status) \<longrightarrow> status \<in> {401, 403, 500}"
    using legacy_admit_Inl by blast
  from audited_outcome [where 'b = 'b, OF this, of sink rq w]
  show ?thesis
  proof (elim disjE)
    assume "\<exists>msg status w'. status \<in> {401, 403, 500} \<and> (\<forall>next :: ('w, 'b) handler.
      audited sink next (legacy_admit fu h verify callers m rq) rq w = ([HttpError msg status], w'))"
    then show ?thesis unfolding legacy_handler_def by (rule disjI1)
  next
    assume "\<exists>e c w'. legacy_admit fu h verify callers m rq = Inr (e, c)
      \<and> (case sink of None \<Rightarrow> w' = w | Some s \<Rightarrow> s e w = (None, w'))
      \<and> (\<forall>next :: ('w, 'b) handler. audited sink next (legacy_admit fu h verify callers m rq) rq w = next (rq\<lparr>rq_ctx := c\<rparr>) w')"
    then obtain e c w' where passed: "legacy_admit fu h verify callers m rq = Inr (e, c)"
      "case sink of None \<Rightarrow> w' = w | Some s \<Rightarrow> s e w = (None, w')"
      "\<forall>next :: ('w, 'b) handler. legacy_handler fu h verify callers sink m next rq w = next (rq\<lparr>rq_ctx := c\<rparr>) w'"
      unfolding legacy_handler_def by (elim exE conjE)
  from legacy_admit_Inr [OF passed(1)] obtain raw cl caller v ev where
    f: "bearer (header_get (rq_header rq) ''Authorization'') = Inr raw" "verify (rq_ctx rq) raw (lm_audience m) = Inr cl"
      "lm_audience m \<noteq> []" "immediate_caller fu (rq_tls rq) (lm_already_verified m) = Inr caller" "callers cl caller"
      "wf_identity v" "new_verified_transaction_token_evidence h raw cl = Inr ev"
      "e = legacy_event m (rq_method rq) cl caller ev" "c = legacy_ctx (rq_ctx rq) v raw ev"
    and b: "build_identity (subject cl) (claims_agent_id cl, claims_agent_instance_id cl) (claims_workload_id cl) caller
        (claims_transaction_id cl, claims_purpose cl) (claims_scope cl) = Inr v"
    by blast
  have "user_id (ric_user v) = trim_space (subject cl)" "workload_spiffe_id (ric_immediate_caller v) = trim_space caller"
    using b unfolding build_identity_Inr by simp_all
  moreover obtain s where "go_fields (header_get (rq_header rq) ''Authorization'') = [s, raw]" "equal_fold s ''Bearer''"
    using f(1) unfolding bearer_Inr by blast
  ultimately show ?thesis
      using f passed(2) [unfolded f(8)] passed(3)
      by - (rule disjI2, rule exI [of _ raw], rule exI [of _ cl], rule exI [of _ caller], rule exI [of _ v],
        rule exI [of _ ev], rule exI [of _ w'], rule exI [of _ s], simp)
  qed
qed

end
