(* ===== verification/Gateway_Facts.thy ===== *)
theory Gateway_Facts
  imports Gateway Middleware_Facts
begin

text \<open>
  The properties of the gateway, alone and behind the strict middleware, on the worked token.
\<close>

section \<open>A worked gateway\<close>

definition demo_url :: url where
  "demo_url = empty_url\<lparr>url_scheme := ''https'', url_host := ''mcp.example''\<rparr>"

definition demo_target :: target where
  "demo_target = \<lparr>tg_name = ''mcp'', tg_url = Some demo_url, tg_tools = [''lookup'']\<rparr>"

definition demo_rule :: policy_rule where
  "demo_rule =
     \<lparr>rule_agent_id = ''agent-1'', rule_workload_id = ''spiffe://example.org/agent'',
      rule_purposes = [''mcp:lookup''], rule_scopes = [''read''], rule_target = ''mcp'', rule_tools = [''lookup'']\<rparr>"

definition list_sink :: "event list sink" where
  "list_sink e w = (None, e # w)"

definition demo_gateway :: "event list gateway" where
  "demo_gateway =
     \<lparr>gw_targets = [(''mcp'', demo_target)], gw_by_tool = [(''lookup'', demo_target)], gw_sole = Some demo_target,
      gw_guard = Some (signed_route_authorize (\<lambda>c. policy_authorize (Some (rule_keys demo_rule))), list_sink),
      gw_strict = True, gw_max_token_bytes = 4096\<rparr>"

lemma demo_gateway_built:
  "new_strict_gateway_with_authorizer (Some second) [demo_target]
     (Some (\<lambda>c. policy_authorize (Some (rule_keys demo_rule)))) (Some list_sink) 4096 = Inr demo_gateway"
proof -
  have "valid_target demo_target" by code_simp
  then show ?thesis
    by (simp add: new_strict_gateway_with_authorizer_def new_signed_route_authorizer_def new_gateway_with_def
        demo_gateway_def demo_target_def second_def)
qed

definition demo_request :: "mw_ctx request" where
  "demo_request =
     sample_request\<lparr>rq_header :=
       [(''Txn-Token'', [sample_token]), (''Mcp-Method'', [''tools/call'']), (''Mcp-Name'', [''lookup''])]\<rparr>"

definition demo_evidence :: token_evidence where
  "demo_evidence =
     \<lparr>ev_kind = ''txn_token'', ev_fingerprint = ''sha256:'' @ replicate 64 CHR ''0'',
      ev_issuer = ''https://tts.example'', ev_audience = [''example.org''], ev_scope = [''read''],
      ev_jwt_id = [], ev_agent_instance_id = ''i-1'', ev_issued_at = 63835596800000000000,
      ev_expires_at = 63835596860000000000\<rparr>"

definition demo_ctx :: mw_ctx where
  "demo_ctx =
     \<lparr>ctx_done = False,
      ctx_identity = Some
        \<lparr>ric_user = \<lparr>user_id = ''alice''\<rparr>,
         ric_agent = \<lparr>agent_id = ''agent-1'', agent_instance_id = ''i-1''\<rparr>,
         ric_original_workload = \<lparr>workload_spiffe_id = ''spiffe://example.org/agent''\<rparr>,
         ric_immediate_caller = \<lparr>workload_spiffe_id = ''spiffe://example.org/agent''\<rparr>,
         ric_transaction = \<lparr>transaction_id = ''t-1'', transaction_purpose = ''mcp:lookup''\<rparr>,
         ric_authorization = \<lparr>auth_scope = [''read'']\<rparr>\<rparr>,
      ctx_token = Some sample_token,
      ctx_evidence = Some demo_evidence,
      ctx_route = Some (''mcp'', ''lookup'')\<rparr>"

definition demo_event :: event where
  "demo_event =
     strict_event sample_middleware ''POST'' sample_claims ''spiffe://example.org/agent'' demo_evidence"

definition demo_admitted :: "event \<times> mw_ctx" where
  "demo_admitted = (demo_event, demo_ctx)"

lemma demo_context: "snd demo_admitted = demo_ctx"
  by (simp add: demo_admitted_def)

lemma demo_admits:
  "strict_admit Some sample_digest sample_strict_verify sample_middleware demo_request
     = Inr (fst demo_admitted, snd demo_admitted)"
proof -
  have "extract_txn_token (Some (rq_header demo_request)) (sm_maximum_token_bytes (sm_config sample_middleware)) = Inr sample_token"
    and c: "rq_ctx demo_request = background" by code_simp+
  from strict_admit_cong [where verify = sample_strict_verify, OF this(1), unfolded c, OF sample_verified]
  have e: "strict_admit Some sample_digest sample_strict_verify sample_middleware demo_request
      = strict_admit Some sample_digest (\<lambda>_ _. Inr sample_claims :: verification_error + txn_token_claims) sample_middleware demo_request" .
  show ?thesis unfolding e by code_simp
qed

definition demo_header :: header where
  "demo_header =
     [(''Mcp-Method'', [''tools/call'']), (''Mcp-Name'', [''lookup'']), (''Txn-Token'', [sample_token])]"

lemma demo_outgoing: "outgoing_header demo_gateway (demo_request\<lparr>rq_ctx := demo_ctx\<rparr>) = Inr demo_header"
proof -
  have c: "copy_strict_headers [] (rq_header demo_request)
      = [(''Mcp-Method'', [''tools/call'']), (''Mcp-Name'', [''lookup''])]" by code_simp
  have s: "set_txn_token (Some [(''Mcp-Method'', [''tools/call'']), (''Mcp-Name'', [''lookup''])]) sample_token 4096
      = Inr demo_header" by code_simp
  have "sample_token \<noteq> []" by code_simp
  then show ?thesis
    by (simp add: outgoing_header_def propagate_Inr demo_gateway_def c s demo_ctx_def verified_signed_route_def
        verified_transaction_token_def)
qed

definition demo_plan :: "out_request \<times> event list" where
  "demo_plan =
     (\<lparr>out_url = demo_url, out_header = demo_header, out_body = empty_body, out_ctx = demo_ctx\<rparr>,
      [decided mcp_tool_allowed ''allow'' ''policy_allowed''
         (call_event (demo_request\<lparr>rq_ctx := demo_ctx\<rparr>) demo_target (the (ctx_identity demo_ctx)))])"

lemma demo_guard:
  "gateway_guard demo_gateway (demo_request\<lparr>rq_ctx := demo_ctx\<rparr>) demo_target [] = (None, snd demo_plan)"
proof -
  let ?i = "the (ctx_identity demo_ctx)"
  have i: "from_context demo_ctx = Some ?i" by code_simp
  have a: "signed_route_authorize (\<lambda>c. policy_authorize (Some (rule_keys demo_rule))) demo_ctx ?i ''mcp'' ''lookup''"
  proof -
    have "policy_authorize (Some (rule_keys demo_rule)) ?i ''mcp'' ''lookup''" "\<not> blank ''mcp''" "\<not> blank ''lookup''"
      by code_simp+
    then show ?thesis by (simp add: signed_route_authorize_iff demo_ctx_def verified_signed_route_def)
  qed
  have n: "header_get (rq_header demo_request) ''Mcp-Name'' = ''lookup''" by code_simp
  show ?thesis using i a by (simp add: gateway_guard_def demo_gateway_def demo_plan_def list_sink_def n demo_target_def)
qed

lemma demo_plans:
  "gateway_plan (\<lambda>_. True) demo_gateway (demo_request\<lparr>rq_ctx := snd demo_admitted\<rparr>) []
     = (Inr (fst demo_plan), snd demo_plan)"
proof -
  have r: "route demo_gateway (demo_request\<lparr>rq_ctx := demo_ctx\<rparr>) = Some demo_target"
    "rq_method demo_request = ''POST''" "rq_body demo_request = empty_body"
    "\<not> key_present (rq_header demo_request) ''Authorization''" "tg_url demo_target = Some demo_url"
    by code_simp+
  then show ?thesis
    by (simp add: gateway_plan_def demo_context demo_guard demo_outgoing) (simp add: demo_plan_def)
qed

section \<open>Properties\<close>

lemma forwarded_request:
  assumes "new_strict_gateway_with_authorizer client targets (Some inner) (Some sink) maximum = Inr g"
    and "gateway_plan request_ok g rq w = (Inr out, w')"
  shows "\<exists>tg v raw name. tg \<in> set targets \<and> tg_url tg = Some (out_url out)
    \<and> name = header_get (rq_header rq) ''Mcp-Name'' \<and> from_context (rq_ctx rq) = Some v
    \<and> verified_signed_route (rq_ctx rq) = Some (tg_name tg, name) \<and> inner (rq_ctx rq) v (tg_name tg) name
    \<and> sink (decided mcp_tool_allowed ''allow'' ''policy_allowed'' (call_event rq tg v)) w = (None, w')
    \<and> verified_transaction_token (rq_ctx rq) = Some raw
    \<and> extract_txn_token (Some (out_header out)) maximum = Inr raw
    \<and> header_values (out_header out) ''Txn-Token'' = [raw]
    \<and> \<not> key_present (out_header out) ''Authorization'' \<and> \<not> key_present (out_header out) ''Proxy-Authorization''
    \<and> \<not> key_present (rq_header rq) ''Authorization''"
proof -
  note g = new_strict_gateway_Inr [OF assms(1)]
  from g(1) have guard: "gw_guard g = Some (signed_route_authorize inner, sink)" by simp
  from gateway_plan_Inr [OF assms(2)] obtain tg u where tg: "route g rq = Some tg" "tg_url tg = Some u"
    and auth: "\<not> (gw_strict g \<and> key_present (rq_header rq) ''Authorization'')"
    and gg: "gateway_guard g rq tg w = (None, w')" and h: "outgoing_header g rq = Inr (out_header out)"
    and out: "out = \<lparr>out_url = u, out_header = out_header out, out_body = rq_body rq, out_ctx = rq_ctx rq\<rparr>"
    by blast
  from out have u: "out_url out = u" by (metis out_request.select_convs(1))
  from gateway_guard_None [OF gg guard] obtain v where v: "from_context (rq_ctx rq) = Some v"
    "signed_route_authorize inner (rq_ctx rq) v (tg_name tg) (header_get (rq_header rq) ''Mcp-Name'')"
    "sink (decided mcp_tool_allowed ''allow'' ''policy_allowed'' (call_event rq tg v)) w = (None, w')" by blast
  note sh = strict_header [OF g(2) h]
  from sh(1) obtain raw where raw: "verified_transaction_token (rq_ctx rq) = Some raw"
    "extract_txn_token (Some (out_header out)) maximum = Inr raw" "header_values (out_header out) ''Txn-Token'' = [raw]"
    unfolding g(3) by blast
  from g(5) obtain g0 where "new_gateway_with client targets (gw_guard g) = Inr g0"
    "gw_by_tool g = gw_by_tool g0" "gw_sole g = gw_sole g0" by blast
  from route_sound [OF this tg(1)] have "tg \<in> set targets" by blast
  with tg(2) u v raw sh auth g(2) show ?thesis unfolding signed_route_authorize_iff by blast
qed

text \<open>
  C21. A strict gateway forwards a request only if it carries no \<open>Authorization\<close> header, the context
  has a verified identity and a signed route equal to the routed target and the named tool, the
  wrapped authorizer returned nil for exactly these, and the allow event was written. What it
  sends carries the verified token as the only \<open>Txn-Token\<close>, within the bound, and neither
  \<open>Authorization\<close> nor \<open>Proxy-Authorization\<close> under any spelling, whatever the client sent.
\<close>
theorem strict_gateway_forwards:
  assumes "new_strict_gateway_with_authorizer client targets (Some inner) (Some sink) maximum = Inr g"
    and "gateway_plan request_ok g rq w = (Inr out, w')"
  shows "\<exists>tg v raw name. tg \<in> set targets \<and> tg_url tg = Some (out_url out)
    \<and> name = header_get (rq_header rq) ''Mcp-Name'' \<and> from_context (rq_ctx rq) = Some v
    \<and> verified_signed_route (rq_ctx rq) = Some (tg_name tg, name) \<and> inner (rq_ctx rq) v (tg_name tg) name
    \<and> sink (decided mcp_tool_allowed ''allow'' ''policy_allowed'' (call_event rq tg v)) w = (None, w')
    \<and> verified_transaction_token (rq_ctx rq) = Some raw
    \<and> extract_txn_token (Some (out_header out)) maximum = Inr raw
    \<and> header_values (out_header out) ''Txn-Token'' = [raw]
    \<and> \<not> key_present (out_header out) ''Authorization'' \<and> \<not> key_present (out_header out) ''Proxy-Authorization''
    \<and> \<not> key_present (rq_header rq) ''Authorization''"
  using assms by (rule forwarded_request)

theorem strict_gateway_forwards_witness:
  "\<exists>raw. extract_txn_token (Some (out_header (fst demo_plan))) 4096 = Inr raw
     \<and> verified_transaction_token (snd demo_admitted) = Some raw"
  using strict_gateway_forwards [OF demo_gateway_built demo_plans] by auto

text \<open>
  C22. The routing table of a gateway is unambiguous: target names are distinct, every tool belongs to
  exactly one configured target, and a call is routed to a target exactly when the target lists
  the named tool; without \<open>tools/call\<close> only a gateway with a single target routes at all.
\<close>
theorem gateway_routes:
  assumes "new_gateway_with client targets guard = Inr g"
  shows "distinct (map tg_name targets) \<and> distinct (concat (map tg_tools targets))
    \<and> (header_get (rq_header rq) ''Mcp-Method'' = ''tools/call'' \<longrightarrow>
         (route g rq = Some tg \<longleftrightarrow> tg \<in> set targets \<and> header_get (rq_header rq) ''Mcp-Name'' \<in> set (tg_tools tg)))
    \<and> (header_get (rq_header rq) ''Mcp-Method'' \<noteq> ''tools/call'' \<longrightarrow> (route g rq = Some tg \<longleftrightarrow> targets = [tg]))"
proof -
  note n = new_gateway_with_Inr [OF assms]
  have "map fst (tool_routes targets) = concat (map tg_tools targets)"
    by (simp add: tool_routes_def map_concat comp_def)
  with n(3) have d: "distinct (concat (map tg_tools targets))" by simp
  have "lookup (tool_routes targets) t = Some tg \<longleftrightarrow> tg \<in> set targets \<and> t \<in> set (tg_tools tg)" for t
    unfolding map_of_eq_Some_iff [OF n(3)] by (auto simp: tool_routes_def)
  with n(2,5) have "(header_get (rq_header rq) ''Mcp-Method'' = ''tools/call'' \<longrightarrow>
         (route g rq = Some tg \<longleftrightarrow> tg \<in> set targets \<and> header_get (rq_header rq) ''Mcp-Name'' \<in> set (tg_tools tg)))
    \<and> (header_get (rq_header rq) ''Mcp-Method'' \<noteq> ''tools/call'' \<longrightarrow> (route g rq = Some tg \<longleftrightarrow> targets = [tg]))"
    by (auto simp: route_def split: list.splits)
  with n(4) d show ?thesis by blast
qed

theorem gateway_routes_witness:
  "route demo_gateway demo_request = Some demo_target"
proof -
  have "valid_target demo_target" by code_simp
  then have b: "new_gateway_with (Some second) [demo_target] (gw_guard demo_gateway)
      = Inr (demo_gateway\<lparr>gw_strict := False, gw_max_token_bytes := 0\<rparr>)"
    by (simp add: new_gateway_with_def demo_gateway_def demo_target_def second_def)
  have "header_get (rq_header demo_request) ''Mcp-Method'' = ''tools/call''"
    "demo_target \<in> set [demo_target]" "header_get (rq_header demo_request) ''Mcp-Name'' \<in> set (tg_tools demo_target)"
    by code_simp+
  with gateway_routes [OF b, of demo_request demo_target] show ?thesis by (simp add: route_def)
qed

text \<open>
  C23. End to end behind the strict middleware, with the strict verifier and a loaded policy: what the
  gateway sends carries the very token the middleware verified; the token's signed target and
  tool are the route taken, a rule of the policy allows its identity for them, and the agent the
  rule names is the one the verifier's configuration binds to the requesting workload.
\<close>
theorem strict_path_end_to_end:
  assumes "new_txn_token_verifier lib cfg = Inr ver" and "policy_of_rules rules = Inr p"
    and "strict_admit fu h (\<lambda>c. txn_verify lib ver now (ctx_done c)) m rq = Inr (e, c)"
    and "new_strict_gateway_with_authorizer client targets (Some (\<lambda>_. policy_authorize (Some p))) (Some sink) maximum = Inr g"
    and "gateway_plan request_ok g (rq\<lparr>rq_ctx := c\<rparr>) w = (Inr out, w')"
  shows "\<exists>raw cl r tg i. txn_verify lib ver now (ctx_done (rq_ctx rq)) raw = Inr cl
    \<and> verified_claims (vl_ip_literal lib) cfg now cl
    \<and> extract_txn_token (Some (rq_header rq)) (sm_maximum_token_bytes (sm_config m)) = Inr raw
    \<and> extract_txn_token (Some (out_header out)) maximum = Inr raw
    \<and> tg \<in> set targets \<and> tg_url tg = Some (out_url out)
    \<and> wai_target (txn_context cl) = tg_name tg \<and> wai_tool (txn_context cl) = header_get (rq_header rq) ''Mcp-Name''
    \<and> from_context c = Some i \<and> r \<in> set rules \<and> rule_allows r i (tg_name tg) (wai_tool (txn_context cl))
    \<and> lookup (vc_workload_agent_bindings cfg) (txn_requesting_workload_id cl) = Some (trim_space (rule_agent_id r))"
proof -
  from admitted_identity [OF assms(1,3)] obtain i cl raw where
    i: "from_context c = Some i" "ctx_token c = Some raw"
    and cl: "txn_verify lib ver now (ctx_done (rq_ctx rq)) raw = Inr cl" "verified_claims (vl_ip_literal lib) cfg now cl"
      "lookup (vc_workload_agent_bindings cfg) (txn_requesting_workload_id cl) = Some (agent_id (ric_agent i))" by blast
  from assms(3) obtain raw' cl' where
    adm: "extract_txn_token (Some (rq_header rq)) (sm_maximum_token_bytes (sm_config m)) = Inr raw'"
      "txn_verify lib ver now (ctx_done (rq_ctx rq)) raw' = Inr cl'" "ctx_token c = Some raw'"
      "ctx_route c = Some (wai_target (txn_context cl'), wai_tool (txn_context cl'))"
    unfolding strict_admit_Inr strict_admission_def by auto
  from adm i cl have same: "raw' = raw" "cl' = cl" by auto
  from forwarded_request [OF assms(4,5)] obtain tg raw2 where
    tg: "tg \<in> set targets" "tg_url tg = Some (out_url out)"
    and r: "verified_signed_route c = Some (tg_name tg, header_get (rq_header rq) ''Mcp-Name'')"
    and a: "policy_authorize (Some p) i (tg_name tg) (header_get (rq_header rq) ''Mcp-Name'')"
    and raw2: "verified_transaction_token c = Some raw2" "extract_txn_token (Some (out_header out)) maximum = Inr raw2"
    using i(1) by auto
  from raw2 i(2) have "raw2 = raw" by (simp add: verified_transaction_token_def split: if_splits)
  moreover from r adm(4) same have route: "wai_target (txn_context cl) = tg_name tg"
    "wai_tool (txn_context cl) = header_get (rq_header rq) ''Mcp-Name''"
    by (auto simp: verified_signed_route_def split: if_splits)
  moreover from a obtain ru where "ru \<in> set rules" "rule_allows ru i (tg_name tg) (header_get (rq_header rq) ''Mcp-Name'')"
    unfolding policy_authorize_rules [OF assms(2)] by blast
  moreover from this have "agent_id (ric_agent i) = trim_space (rule_agent_id ru)" by (simp add: rule_allows_def)
  ultimately show ?thesis using cl i tg raw2 adm(1) same by metis
qed

theorem strict_path_end_to_end_witness:
  "\<exists>raw. extract_txn_token (Some (out_header (fst demo_plan))) 4096 = Inr raw
     \<and> extract_txn_token (Some (rq_header demo_request)) 4096 = Inr raw"
proof -
  have p: "policy_of_rules [demo_rule] = Inr (rule_keys demo_rule)" by code_simp
  have "sm_maximum_token_bytes (sm_config sample_middleware) = 4096" by code_simp
  then show ?thesis
    using strict_path_end_to_end [OF sample_constructed [of sample_payload] p
      demo_admits [unfolded sample_strict_verify_def] demo_gateway_built demo_plans] by auto
qed

end
