(* ===== verification/Web_Session.thy ===== *)
theory Web_Session
  imports Go_HTTP
begin

text \<open>
  The state of the web application (\<open>pkg/webapp/handler.go\<close>): login flows in progress and sessions,
  each in a map behind one mutex. The five critical sections are the atomic steps here; whatever
  requests run concurrently, the state changes by a sequence of them.
\<close>

section \<open>State\<close>

record pre_auth =
  pa_nonce :: string
  pa_verifier :: string
  pa_expires :: time

record session =
  se_subject :: string
  se_access_token :: string
  se_csrf :: string
  se_expires :: time

record web_state =
  ws_pre_auth :: "(string \<times> pre_auth) list"
  ws_sessions :: "(string \<times> session) list"

definition empty_web_state :: web_state where
  "empty_web_state = \<lparr>ws_pre_auth = [], ws_sessions = []\<rparr>"

text \<open>\<open>delete(m, k)\<close>.\<close>

definition forget :: "'k \<Rightarrow> ('k \<times> 'v) list \<Rightarrow> ('k \<times> 'v) list" where
  "forget k m = filter (\<lambda>(k', _). k' \<noteq> k) m"

definition web_purge :: "time \<Rightarrow> web_state \<Rightarrow> web_state" where
  "web_purge now s =
     \<lparr>ws_pre_auth = filter (\<lambda>(_, f). now < pa_expires f) (ws_pre_auth s),
      ws_sessions = filter (\<lambda>(_, x). now < se_expires x) (ws_sessions s)\<rparr>"

section \<open>The critical sections\<close>

text \<open>In \<open>login\<close>: remember a flow unless too many are pending.\<close>

definition begin_flow :: "int \<Rightarrow> time \<Rightarrow> string \<Rightarrow> pre_auth \<Rightarrow> web_state \<Rightarrow> bool \<times> web_state" where
  "begin_flow maximum now state f s =
     (let s1 = web_purge now s in
      if int (length (ws_pre_auth s1)) \<ge> maximum then (False, s1)
      else (True, s1\<lparr>ws_pre_auth := put state f (ws_pre_auth s1)\<rparr>))"

text \<open>In \<open>callback\<close>: the flow of a state is removed whether or not the callback then succeeds.\<close>

definition take_flow :: "time \<Rightarrow> string \<Rightarrow> web_state \<Rightarrow> pre_auth option \<times> web_state" where
  "take_flow now state s =
     (let s1 = web_purge now s;
          flow = lookup (ws_pre_auth s1) state;
          s2 = s1\<lparr>ws_pre_auth := forget state (ws_pre_auth s1)\<rparr>
      in (case flow of
            None \<Rightarrow> (None, s2)
          | Some f \<Rightarrow> if now < pa_expires f then (Some f, s2) else (None, s2)))"

definition open_session :: "int \<Rightarrow> time \<Rightarrow> string \<Rightarrow> session \<Rightarrow> web_state \<Rightarrow> bool \<times> web_state" where
  "open_session maximum now i x s =
     (let s1 = web_purge now s in
      if int (length (ws_sessions s1)) \<ge> maximum then (False, s1)
      else (True, s1\<lparr>ws_sessions := put i x (ws_sessions s1)\<rparr>))"

text \<open>In \<open>authenticate\<close>.\<close>

definition look_session :: "time \<Rightarrow> string \<Rightarrow> web_state \<Rightarrow> session option \<times> web_state" where
  "look_session now i s =
     (let s1 = web_purge now s in
      (case lookup (ws_sessions s1) i of
         None \<Rightarrow> (None, s1)
       | Some x \<Rightarrow> if now < se_expires x then (Some x, s1) else (None, s1)))"

text \<open>In \<open>logout\<close>.\<close>

definition close_session :: "string \<Rightarrow> web_state \<Rightarrow> web_state" where
  "close_session i s = s\<lparr>ws_sessions := forget i (ws_sessions s)\<rparr>"

lemmas section_defs = begin_flow_def take_flow_def open_session_def look_session_def close_session_def

section \<open>Runs\<close>

text \<open>
  What a critical section did. \<open>Took\<close> is every attempt to consume a state, \<open>Looked\<close> every
  authentication, each with its result. The instants are not required to be in order: a request
  keeps the time it read while others overtake it.
\<close>

datatype web_event =
    Began time string pre_auth
  | Took time string "pre_auth option"
  | Opened time string session
  | Looked time string "session option"
  | Closed string
  | Refused time

fun event_time :: "web_event \<Rightarrow> time option" where
  "event_time (Began t _ _) = Some t"
| "event_time (Took t _ _) = Some t"
| "event_time (Opened t _ _) = Some t"
| "event_time (Looked t _ _) = Some t"
| "event_time (Closed _) = None"
| "event_time (Refused t) = Some t"

text \<open>One critical section of an application with room for \<open>maximum\<close> flows and sessions.\<close>

inductive web_step :: "int \<Rightarrow> web_state \<Rightarrow> web_event \<Rightarrow> web_state \<Rightarrow> bool" for maximum where
  began: "begin_flow maximum now state f s = (True, s') \<Longrightarrow> web_step maximum s (Began now state f) s'"
| full: "begin_flow maximum now state f s = (False, s') \<Longrightarrow> web_step maximum s (Refused now) s'"
| took: "take_flow now state s = (r, s') \<Longrightarrow> web_step maximum s (Took now state r) s'"
| opened: "open_session maximum now i x s = (True, s') \<Longrightarrow> web_step maximum s (Opened now i x) s'"
| no_room: "open_session maximum now i x s = (False, s') \<Longrightarrow> web_step maximum s (Refused now) s'"
| looked: "look_session now i s = (r, s') \<Longrightarrow> web_step maximum s (Looked now i r) s'"
| closed: "web_step maximum s (Closed i) (close_session i s)"

inductive_cases web_stepE: "web_step maximum s e s'"

text \<open>Runs from one state to another, with their log.\<close>

inductive web_steps :: "int \<Rightarrow> web_state \<Rightarrow> web_event list \<Rightarrow> web_state \<Rightarrow> bool" for maximum where
  none: "web_steps maximum s [] s"
| more: "web_steps maximum s es s' \<Longrightarrow> web_step maximum s' e s'' \<Longrightarrow> web_steps maximum s (es @ [e]) s''"

lemma web_steps_trans:
  "web_steps m s' fs s'' \<Longrightarrow> web_steps m s es s' \<Longrightarrow> web_steps m s (es @ fs) s''"
  by (induction rule: web_steps.induct) (auto intro: web_steps.more simp flip: append_assoc)

lemma web_steps_one: "web_step m s e s' \<Longrightarrow> web_steps m s [e] s'"
  using web_steps.more [OF web_steps.none] by fastforce

definition web_run :: "int \<Rightarrow> web_event list \<Rightarrow> web_state \<Rightarrow> bool" where
  "web_run maximum es s = web_steps maximum empty_web_state es s"

section \<open>The specification: what the log says\<close>

text \<open>The flow pending for a state: begun, and not asked for since.\<close>

fun flow_after :: "string \<Rightarrow> pre_auth option \<Rightarrow> web_event \<Rightarrow> pre_auth option" where
  "flow_after k old (Began t k' f) = (if k' = k then Some f else old)"
| "flow_after k old (Took t k' r) = (if k' = k then None else old)"
| "flow_after k old _ = old"

definition pending :: "web_event list \<Rightarrow> string \<Rightarrow> pre_auth option" where
  "pending es k = foldl (flow_after k) None es"

text \<open>The session of an identifier: opened, and not logged out since.\<close>

fun session_after :: "string \<Rightarrow> session option \<Rightarrow> web_event \<Rightarrow> session option" where
  "session_after i old (Opened t i' x) = (if i' = i then Some x else old)"
| "session_after i old (Closed i') = (if i' = i then None else old)"
| "session_after i old _ = old"

definition active :: "web_event list \<Rightarrow> string \<Rightarrow> session option" where
  "active es i = foldl (session_after i) None es"

text \<open>No instant of the log is after \<open>t\<close>.\<close>

definition until :: "web_event list \<Rightarrow> time \<Rightarrow> bool" where
  "until es t = (\<forall>e \<in> set es. \<forall>u. event_time e = Some u \<longrightarrow> u \<le> t)"


section \<open>Maps\<close>

lemma lookup_filter_value:
  "distinct (map fst m) \<Longrightarrow> lookup (filter (\<lambda>(_, v). P v) m) k =
     (case lookup m k of None \<Rightarrow> None | Some v \<Rightarrow> if P v then Some v else None)"
proof (induction m)
  case (Cons e m)
  then show ?case by (cases e) (auto simp: map_of_eq_None_iff split: option.splits)
qed simp

lemma distinct_filter_keys: "distinct (map fst m) \<Longrightarrow> distinct (map fst (filter P m))"
  by (induction m) auto

lemma lookup_forget [simp]: "lookup (forget k m) = (lookup m)(k := None)"
  by (induction m) (auto simp: forget_def fun_eq_iff)

lemma distinct_forget: "distinct (map fst m) \<Longrightarrow> distinct (map fst (forget k m))"
  by (simp add: forget_def distinct_filter_keys)

lemma length_forget: "length (forget k m) \<le> length m"
  by (simp add: forget_def)

lemma length_put: "length (put k v m) \<le> Suc (length m)"
  by (induction m) auto

lemmas map_facts = lookup_filter_value distinct_filter_keys distinct_put distinct_forget

section \<open>The invariant\<close>

definition web_inv :: "int \<Rightarrow> web_event list \<Rightarrow> web_state \<Rightarrow> bool" where
  "web_inv maximum es s \<longleftrightarrow>
     distinct (map fst (ws_pre_auth s)) \<and> distinct (map fst (ws_sessions s))
     \<and> int (length (ws_pre_auth s)) \<le> maximum \<and> int (length (ws_sessions s)) \<le> maximum
     \<and> (\<forall>k f. lookup (ws_pre_auth s) k = Some f \<longrightarrow> pending es k = Some f)
     \<and> (\<forall>i x. lookup (ws_sessions s) i = Some x \<longrightarrow> active es i = Some x)
     \<and> (\<forall>k f t. pending es k = Some f \<longrightarrow> until es t \<longrightarrow> t < pa_expires f \<longrightarrow> lookup (ws_pre_auth s) k = Some f)
     \<and> (\<forall>i x t. active es i = Some x \<longrightarrow> until es t \<longrightarrow> t < se_expires x \<longrightarrow> lookup (ws_sessions s) i = Some x)"

lemma web_invD:
  assumes "web_inv m es s"
  shows "distinct (map fst (ws_pre_auth s))" "distinct (map fst (ws_sessions s))"
    "int (length (ws_pre_auth s)) \<le> m" "int (length (ws_sessions s)) \<le> m"
    "lookup (ws_pre_auth s) k = Some f \<Longrightarrow> pending es k = Some f"
    "lookup (ws_sessions s) i = Some x \<Longrightarrow> active es i = Some x"
    "pending es k = Some f \<Longrightarrow> until es t \<Longrightarrow> t < pa_expires f \<Longrightarrow> lookup (ws_pre_auth s) k = Some f"
    "active es i = Some x \<Longrightarrow> until es t \<Longrightarrow> t < se_expires x \<Longrightarrow> lookup (ws_sessions s) i = Some x"
  using assms unfolding web_inv_def by blast+

lemma web_inv_start: "0 \<le> m \<Longrightarrow> web_inv m [] empty_web_state"
  unfolding web_inv_def by (simp add: empty_web_state_def pending_def active_def)

lemma pending_snoc [simp]: "pending (es @ [e]) k = flow_after k (pending es k) e"
  by (simp add: pending_def)

lemma active_snoc [simp]: "active (es @ [e]) i = session_after i (active es i) e"
  by (simp add: active_def)

lemma until_snoc [simp]:
  "until (es @ [e]) t \<longleftrightarrow> until es t \<and> (\<forall>u. event_time e = Some u \<longrightarrow> u \<le> t)"
  by (auto simp: until_def)

text \<open>When a log with one more event has a flow or a session.\<close>

lemma flow_after_Some:
  "flow_after k old e = Some f \<longleftrightarrow>
     (\<exists>t. e = Began t k f) \<or> old = Some f \<and> (\<forall>t g. e \<noteq> Began t k g) \<and> (\<forall>t r. e \<noteq> Took t k r)"
  by (cases e) auto

lemma session_after_Some:
  "session_after i old e = Some x \<longleftrightarrow>
     (\<exists>t. e = Opened t i x) \<or> old = Some x \<and> (\<forall>t y. e \<noteq> Opened t i y) \<and> e \<noteq> Closed i"
  by (cases e) auto

text \<open>What is left of an entry after a purge.\<close>

definition keep :: "('a \<Rightarrow> bool) \<Rightarrow> 'a option \<Rightarrow> 'a option" where
  "keep P x = (case x of None \<Rightarrow> None | Some y \<Rightarrow> if P y then Some y else None)"

lemma keep_Some [simp]: "keep P x = Some y \<longleftrightarrow> x = Some y \<and> P y"
  by (auto simp: keep_def split: option.splits)

lemma keep_simps [simp]: "keep P None = None" "keep P (Some y) = (if P y then Some y else None)"
  by (simp_all add: keep_def)

lemma keep_True [simp]: "keep (\<lambda>_. True) x = x"
  by (simp add: keep_def split: option.splits)

lemma lookup_filter_keep:
  "distinct (map fst m) \<Longrightarrow> lookup (filter (\<lambda>(_, v). P v) m) k = keep P (lookup m k)"
  by (simp add: lookup_filter_value keep_def)

text \<open>A purge keeps the keys apart and removes exactly what is expired.\<close>

lemma purge_facts:
  assumes "distinct (map fst (ws_pre_auth s))" "distinct (map fst (ws_sessions s))"
  shows "distinct (map fst (ws_pre_auth (web_purge now s)))" "distinct (map fst (ws_sessions (web_purge now s)))"
    "length (ws_pre_auth (web_purge now s)) \<le> length (ws_pre_auth s)"
    "length (ws_sessions (web_purge now s)) \<le> length (ws_sessions s)"
    "lookup (ws_pre_auth (web_purge now s)) k = keep (\<lambda>f. now < pa_expires f) (lookup (ws_pre_auth s) k)"
    "lookup (ws_sessions (web_purge now s)) i = keep (\<lambda>x. now < se_expires x) (lookup (ws_sessions s) i)"
  using assms by (simp_all add: web_purge_def lookup_filter_keep distinct_filter_keys)

text \<open>
  A step that removes only dead entries and otherwise does what the log says keeps the invariant;
  \<open>alive u\<close> says that what expires at \<open>u\<close> is kept.
\<close>

lemma web_inv_after:
  assumes inv: "web_inv m es s"
    and d: "distinct (map fst (ws_pre_auth s'))" "distinct (map fst (ws_sessions s'))"
    and l: "int (length (ws_pre_auth s')) \<le> m" "int (length (ws_sessions s')) \<le> m"
    and f: "\<And>k. lookup (ws_pre_auth s') k = flow_after k (keep (\<lambda>f. alive (pa_expires f)) (lookup (ws_pre_auth s) k)) e"
    and x: "\<And>i. lookup (ws_sessions s') i = session_after i (keep (\<lambda>x. alive (se_expires x)) (lookup (ws_sessions s) i)) e"
    and t: "\<And>t u. until (es @ [e]) t \<Longrightarrow> t < u \<Longrightarrow> alive u"
  shows "web_inv m (es @ [e]) s'"
proof -
  have un: "until (es @ [e]) t \<Longrightarrow> until es t" for t by simp
  have 1: "\<forall>k f. lookup (ws_pre_auth s') k = Some f \<longrightarrow> pending (es @ [e]) k = Some f"
    and 2: "\<forall>i x. lookup (ws_sessions s') i = Some x \<longrightarrow> active (es @ [e]) i = Some x"
    using inv unfolding f x pending_snoc active_snoc flow_after_Some session_after_Some keep_Some web_inv_def by blast+
  have 3: "\<forall>k f t. pending (es @ [e]) k = Some f \<longrightarrow> until (es @ [e]) t \<longrightarrow> t < pa_expires f \<longrightarrow> lookup (ws_pre_auth s') k = Some f"
    using inv un t unfolding f pending_snoc flow_after_Some keep_Some web_inv_def by blast
  have 4: "\<forall>i x t. active (es @ [e]) i = Some x \<longrightarrow> until (es @ [e]) t \<longrightarrow> t < se_expires x \<longrightarrow> lookup (ws_sessions s') i = Some x"
    using inv un t unfolding x active_snoc session_after_Some keep_Some web_inv_def by blast
  from d l 1 2 3 4 show ?thesis unfolding web_inv_def by blast
qed

text \<open>Every critical section purges at its instant and then does one thing.\<close>

lemma web_step_shape:
  assumes "web_step m s e s'"
  shows "(\<exists>i. e = Closed i \<and> s' = close_session i s)
    \<or> (\<exists>now. event_time e = Some now \<and>
        (let s1 = web_purge now s in
         (\<exists>k f. e = Began now k f \<and> int (length (ws_pre_auth s1)) < m \<and> s' = s1\<lparr>ws_pre_auth := put k f (ws_pre_auth s1)\<rparr>)
       \<or> (\<exists>i x. e = Opened now i x \<and> int (length (ws_sessions s1)) < m \<and> s' = s1\<lparr>ws_sessions := put i x (ws_sessions s1)\<rparr>)
       \<or> (\<exists>k r. e = Took now k r \<and> s' = s1\<lparr>ws_pre_auth := forget k (ws_pre_auth s1)\<rparr>)
       \<or> (\<exists>i r. e = Looked now i r \<and> s' = s1) \<or> e = Refused now \<and> s' = s1))"
  using assms
  by cases (auto simp: section_defs Let_def split: option.splits if_splits)

lemma web_step_inv:
  assumes inv: "web_inv m es s" and step: "web_step m s e s'"
  shows "web_inv m (es @ [e]) s'"
proof -
  note d = web_invD(1,2) [OF inv] and len = web_invD(3,4) [OF inv]
  note p = purge_facts [OF d]
  have lp: "int (length (ws_pre_auth (web_purge now s))) \<le> m" "int (length (ws_sessions (web_purge now s))) \<le> m" for now
    using p(3,4) [of now] len by linarith+
  have lf: "int (length (forget k (ws_pre_auth (web_purge now s)))) \<le> m" for k now
    using length_forget [of k "ws_pre_auth (web_purge now s)"] lp(1) [of now] by linarith
  from web_step_shape [OF step] show ?thesis
  proof (elim disjE exE conjE)
    fix i assume e: "e = Closed i" "s' = close_session i s"
    have "int (length (forget i (ws_sessions s))) \<le> m"
      using length_forget [of i "ws_sessions s"] len(2) by linarith
    with d len show ?thesis
      by (intro web_inv_after [OF inv, where alive = "\<lambda>_. True"]) (simp_all add: e close_session_def distinct_forget)
  next
    fix now
    let ?s1 = "web_purge now s"
    assume n: "event_time e = Some now"
      and "let s1 = ?s1 in
         (\<exists>k f. e = Began now k f \<and> int (length (ws_pre_auth s1)) < m \<and> s' = s1\<lparr>ws_pre_auth := put k f (ws_pre_auth s1)\<rparr>)
       \<or> (\<exists>i x. e = Opened now i x \<and> int (length (ws_sessions s1)) < m \<and> s' = s1\<lparr>ws_sessions := put i x (ws_sessions s1)\<rparr>)
       \<or> (\<exists>k r. e = Took now k r \<and> s' = s1\<lparr>ws_pre_auth := forget k (ws_pre_auth s1)\<rparr>)
       \<or> (\<exists>i r. e = Looked now i r \<and> s' = s1) \<or> e = Refused now \<and> s' = s1"
    then have shape: "(\<exists>k f. e = Began now k f \<and> int (length (ws_pre_auth ?s1)) < m \<and> s' = ?s1\<lparr>ws_pre_auth := put k f (ws_pre_auth ?s1)\<rparr>)
       \<or> (\<exists>i x. e = Opened now i x \<and> int (length (ws_sessions ?s1)) < m \<and> s' = ?s1\<lparr>ws_sessions := put i x (ws_sessions ?s1)\<rparr>)
       \<or> (\<exists>k r. e = Took now k r \<and> s' = ?s1\<lparr>ws_pre_auth := forget k (ws_pre_auth ?s1)\<rparr>)
       \<or> (\<exists>i r. e = Looked now i r \<and> s' = ?s1) \<or> e = Refused now \<and> s' = ?s1"
      by (simp add: Let_def)
    have put: "int (length xs) < m \<Longrightarrow> int (length (put k v xs)) \<le> m" for k v and xs :: "('k \<times> 'v) list"
      using length_put [of k v xs] by linarith
    show ?thesis
    proof (rule web_inv_after [OF inv, where alive = "\<lambda>u. now < u"])
      show "distinct (map fst (ws_pre_auth s'))" "distinct (map fst (ws_sessions s'))"
        using shape p(1,2) by (auto simp: distinct_put distinct_forget)
      show "int (length (ws_pre_auth s')) \<le> m" "int (length (ws_sessions s')) \<le> m"
        using shape lp lf put by auto
      show "lookup (ws_pre_auth s') k = flow_after k (keep (\<lambda>f. now < pa_expires f) (lookup (ws_pre_auth s) k)) e" for k
        using shape by (auto simp: p(5))
      show "lookup (ws_sessions s') i = session_after i (keep (\<lambda>x. now < se_expires x) (lookup (ws_sessions s) i)) e" for i
        using shape by (auto simp: p(6))
      show "until (es @ [e]) t \<Longrightarrow> t < u \<Longrightarrow> now < u" for t u
        using n by simp
    qed
  qed
qed

lemma web_steps_inv: "web_steps m s fs s' \<Longrightarrow> web_inv m es s \<Longrightarrow> web_inv m (es @ fs) s'"
  by (induction rule: web_steps.induct) (auto dest: web_step_inv)

lemma web_run_inv: "0 \<le> m \<Longrightarrow> web_run m es s \<Longrightarrow> web_inv m es s"
  using web_steps_inv [of m empty_web_state es s "[]"] web_inv_start [of m]
  by (simp add: web_run_def)

section \<open>What a state and an identifier give\<close>

definition unexpired :: "time \<Rightarrow> ('a \<Rightarrow> time) \<Rightarrow> 'a option \<Rightarrow> 'a option" where
  "unexpired now expires = keep (\<lambda>y. now < expires y)"

lemma take_flow_fst:
  assumes "web_inv m es s"
  shows "fst (take_flow now k s) = unexpired now pa_expires (lookup (ws_pre_auth s) k)"
proof -
  have "lookup (ws_pre_auth (web_purge now s)) k = unexpired now pa_expires (lookup (ws_pre_auth s) k)"
    unfolding unexpired_def by (rule purge_facts(5) [OF web_invD(1,2) [OF assms]])
  then show ?thesis
    by (auto simp: take_flow_def Let_def unexpired_def split: option.splits)
qed

lemma look_session_fst:
  assumes "web_inv m es s"
  shows "fst (look_session now i s) = unexpired now se_expires (lookup (ws_sessions s) i)"
proof -
  have "lookup (ws_sessions (web_purge now s)) i = unexpired now se_expires (lookup (ws_sessions s) i)"
    unfolding unexpired_def by (rule purge_facts(6) [OF web_invD(1,2) [OF assms]])
  then show ?thesis
    by (auto simp: look_session_def Let_def unexpired_def split: option.splits)
qed

lemma take_flow_sound:
  assumes "web_inv m es s" "take_flow now k s = (Some f, s')"
  shows "pending es k = Some f \<and> now < pa_expires f"
proof -
  from take_flow_fst [OF assms(1), of now k] assms(2)
  have "lookup (ws_pre_auth s) k = Some f" "now < pa_expires f" unfolding unexpired_def by (simp_all add: eq_commute [of "Some f"])
  with web_invD(5) [OF assms(1)] show ?thesis by blast
qed

lemma look_session_sound:
  assumes "web_inv m es s" "look_session now i s = (Some x, s')"
  shows "active es i = Some x \<and> now < se_expires x"
proof -
  from look_session_fst [OF assms(1), of now i] assms(2)
  have "lookup (ws_sessions s) i = Some x" "now < se_expires x" unfolding unexpired_def by (simp_all add: eq_commute [of "Some x"])
  with web_invD(6) [OF assms(1)] show ?thesis by blast
qed

lemma keep_eqI:
  "(\<And>y. a = Some y \<Longrightarrow> b = Some y) \<Longrightarrow> (\<And>y. b = Some y \<Longrightarrow> P y \<Longrightarrow> a = Some y) \<Longrightarrow> keep P a = keep P b"
  by (cases a; cases b) auto

lemma take_flow_exact:
  assumes "web_inv m es s" "until es now"
  shows "fst (take_flow now k s) = unexpired now pa_expires (pending es k)"
  unfolding take_flow_fst [OF assms(1)] unexpired_def
  by (rule keep_eqI) (rule web_invD(5) [OF assms(1)], assumption, rule web_invD(7) [OF assms(1) _ assms(2)], assumption+)

lemma look_session_exact:
  assumes "web_inv m es s" "until es now"
  shows "fst (look_session now i s) = unexpired now se_expires (active es i)"
  unfolding look_session_fst [OF assms(1)] unexpired_def
  by (rule keep_eqI) (rule web_invD(6) [OF assms(1)], assumption, rule web_invD(8) [OF assms(1) _ assms(2)], assumption+)

text \<open>A pending flow was begun, and its state has not been used since.\<close>

lemma pending_Some:
  "pending es k = Some f \<Longrightarrow>
     \<exists>t as bs. es = as @ Began t k f # bs \<and> (\<forall>e \<in> set bs. (\<forall>u g. e \<noteq> Began u k g) \<and> (\<forall>u r. e \<noteq> Took u k r))"
proof (induction es rule: rev_induct)
  case Nil
  then show ?case by (simp add: pending_def)
next
  case (snoc e es)
  show ?case
  proof (cases "\<exists>t. e = Began t k f")
    case True
    then show ?thesis by fastforce
  next
    case False
    with snoc.prems have e: "pending es k = Some f" "\<forall>u g. e \<noteq> Began u k g" "\<forall>u r. e \<noteq> Took u k r"
      by (auto simp: flow_after_Some)
    from snoc.IH [OF e(1)] obtain t as bs where "es = as @ Began t k f # bs"
      "\<forall>e \<in> set bs. (\<forall>u g. e \<noteq> Began u k g) \<and> (\<forall>u r. e \<noteq> Took u k r)" by blast
    with e show ?thesis by (intro exI [of _ t] exI [of _ as] exI [of _ "bs @ [e]"]) auto
  qed
qed

lemma active_Some:
  "active es i = Some x \<Longrightarrow>
     \<exists>t as bs. es = as @ Opened t i x # bs \<and> (\<forall>e \<in> set bs. (\<forall>u y. e \<noteq> Opened u i y) \<and> e \<noteq> Closed i)"
proof (induction es rule: rev_induct)
  case Nil
  then show ?case by (simp add: active_def)
next
  case (snoc e es)
  show ?case
  proof (cases "\<exists>t. e = Opened t i x")
    case True
    then show ?thesis by fastforce
  next
    case False
    with snoc.prems have e: "active es i = Some x" "\<forall>u y. e \<noteq> Opened u i y" "e \<noteq> Closed i"
      by (auto simp: session_after_Some)
    from snoc.IH [OF e(1)] obtain t as bs where "es = as @ Opened t i x # bs"
      "\<forall>e \<in> set bs. (\<forall>u y. e \<noteq> Opened u i y) \<and> e \<noteq> Closed i" by blast
    with e show ?thesis by (intro exI [of _ t] exI [of _ as] exI [of _ "bs @ [e]"]) auto
  qed
qed

text \<open>A run can be cut before any of its events.\<close>

lemma web_steps_cut:
  "web_steps m s es s' \<Longrightarrow> es = as @ e # bs \<Longrightarrow>
     \<exists>s1 s2. web_steps m s as s1 \<and> web_step m s1 e s2 \<and> web_steps m s2 bs s'"
proof (induction arbitrary: bs rule: web_steps.induct)
  case (none s)
  then show ?case by simp
next
  case (more s es s' e' s'')
  show ?case
  proof (cases bs rule: rev_cases)
    case Nil
    with more show ?thesis by (auto intro: web_steps.none)
  next
    case (snoc bs' b)
    with more.prems have "es = as @ e # bs'" "e' = b" by auto
    with more.IH more.hyps snoc show ?thesis by (blast intro: web_steps.more)
  qed
qed

end
