(* ===== verification/Go_Form.thy ===== *)
theory Go_Form
  imports Go_URL "HOL-Library.List_Lexorder" "HOL-Library.Char_ord"
begin

text \<open>
  What the program uses of \<open>url.Values\<close>: \<open>QueryEscape\<close>, \<open>Encode\<close>, \<open>ParseQuery\<close> and lookups; and
  that parsing an encoded form gives the form back.
\<close>

section \<open>Escaping\<close>

definition unreserved_byte :: "char \<Rightarrow> bool" where
  "unreserved_byte c = (is_alnum c \<or> c \<in> set ''-_.~'')"

definition upper_hex :: "nat \<Rightarrow> char" where
  "upper_hex n = ''0123456789ABCDEF'' ! (n mod 16)"

definition escape_byte :: "char \<Rightarrow> string" where
  "escape_byte c =
     (if unreserved_byte c then [c]
      else if c = CHR '' '' then ''+''
      else let n = of_char c :: nat in [CHR ''%'', upper_hex (n div 16), upper_hex (n mod 16)])"

definition query_escape :: "string \<Rightarrow> string" where
  "query_escape s = concat (map escape_byte s)"

fun query_unescape :: "string \<Rightarrow> string option" where
  "query_unescape [] = Some []"
| "query_unescape (c # cs) =
     (if c = CHR ''%'' then
        (case cs of
           a # b # rest \<Rightarrow>
             (case (hex_value a, hex_value b) of
                (Some x, Some y) \<Rightarrow> map_option (\<lambda>s. char_of (16 * x + y) # s) (query_unescape rest)
              | _ \<Rightarrow> None)
         | _ \<Rightarrow> None)
      else map_option (\<lambda>s. (if c = CHR ''+'' then CHR '' '' else c) # s) (query_unescape cs))"

section \<open>Forms\<close>

type_synonym form = "(string \<times> string list) list"

definition form_values :: "form \<Rightarrow> string \<Rightarrow> string list" where
  "form_values f k = (case lookup f k of None \<Rightarrow> [] | Some vs \<Rightarrow> vs)"

definition form_get :: "form \<Rightarrow> string \<Rightarrow> string" where
  "form_get f k = (case form_values f k of [] \<Rightarrow> [] | v # _ \<Rightarrow> v)"

definition add_value :: "string \<Rightarrow> string \<Rightarrow> form \<Rightarrow> form" where
  "add_value k v f = put k (form_values f k @ [v]) f"

text \<open>\<open>Encode\<close>, for a form with one value for every key: sorted by key.\<close>

definition pair_text :: "string \<times> string \<Rightarrow> string" where
  "pair_text p = query_escape (fst p) @ ''='' @ query_escape (snd p)"

definition encode_form :: "(string \<times> string) list \<Rightarrow> string" where
  "encode_form ps = join ''&'' (map pair_text (sort_key fst ps))"

text \<open>
  \<open>ParseQuery\<close>: the form, and whether all of it could be parsed. What cannot be parsed is left out
  (\<open>URL.Query\<close> uses the form and ignores the error).
\<close>

definition parse_pair :: "string \<Rightarrow> form \<times> bool \<Rightarrow> form \<times> bool" where
  "parse_pair s r =
     (case r of (f, good) \<Rightarrow>
        if CHR '';'' \<in> set s then (f, False)
        else if s = [] then (f, good)
        else case cut (CHR ''='') s of
          (k, v, _) \<Rightarrow>
            (case (query_unescape k, query_unescape v) of
               (Some k', Some v') \<Rightarrow> (add_value k' v' f, good)
             | _ \<Rightarrow> (f, False)))"

definition parse_query :: "string \<Rightarrow> form \<times> bool" where
  "parse_query s = fold parse_pair (split_on (CHR ''&'') s) ([], True)"

section \<open>Parsing what was encoded\<close>

lemma upper_hex_value: "hex_value (upper_hex n) = Some (n mod 16)"
proof -
  have "\<forall>m < 16. hex_value (''0123456789ABCDEF'' ! m) = Some m" by code_simp
  then show ?thesis by (simp add: upper_hex_def)
qed

lemma unescape_escape_byte: "query_unescape (escape_byte c @ s) = map_option (Cons c) (query_unescape s)"
proof (cases "unreserved_byte c")
  case True
  then have "c \<noteq> CHR ''%''" "c \<noteq> CHR ''+''" by (auto simp: unreserved_byte_def is_alnum_def)
  with True show ?thesis by (simp add: escape_byte_def)
next
  case False
  have "(of_char c :: nat) < 256" by simp
  then have "(of_char c :: nat) div 16 < 16" by linarith
  then have "(of_char c :: nat) div 16 mod 16 = of_char c div 16" by simp
  then have c: "char_of (16 * ((of_char c :: nat) div 16 mod 16) + of_char c mod 16) = c" by simp
  show ?thesis
  proof (cases "c = CHR '' ''")
    case True
    with False show ?thesis by (simp add: escape_byte_def)
  next
    case ne: False
    with False c show ?thesis by (simp add: escape_byte_def Let_def upper_hex_value)
  qed
qed

lemma unescape_escape [simp]: "query_unescape (query_escape s) = Some s"
  by (induction s) (simp_all add: query_escape_def unescape_escape_byte)

lemma escaped_bytes: "c \<in> set (query_escape s) \<Longrightarrow> unreserved_byte c \<or> c = CHR ''+'' \<or> c = CHR ''%''"
proof -
  have "unreserved_byte (upper_hex n)" for n
  proof -
    have "\<forall>m < 16. unreserved_byte (''0123456789ABCDEF'' ! m)" by code_simp
    then show ?thesis by (simp add: upper_hex_def)
  qed
  then show "c \<in> set (query_escape s) \<Longrightarrow> unreserved_byte c \<or> c = CHR ''+'' \<or> c = CHR ''%''"
    by (auto simp: query_escape_def escape_byte_def Let_def split: if_splits)
qed

lemma escaped_free:
  "CHR ''&'' \<notin> set (query_escape s)" "CHR ''='' \<notin> set (query_escape s)" "CHR '';'' \<notin> set (query_escape s)"
  using escaped_bytes [of "CHR ''&''" s] escaped_bytes [of "CHR ''=''" s] escaped_bytes [of "CHR '';''" s]
  by (auto simp: unreserved_byte_def is_alnum_def)

lemma cut_at: "d \<notin> set a \<Longrightarrow> cut d (a @ d # b) = (a, b, True)"
  by (induction a) auto

lemma parse_pair_text [simp]: "parse_pair (pair_text (k, v)) (f, good) = (add_value k v f, good)"
proof -
  have "pair_text (k, v) = query_escape k @ CHR ''='' # query_escape v" by (simp add: pair_text_def)
  then show ?thesis using escaped_free by (simp add: parse_pair_def cut_at)
qed

lemma split_on_join:
  "ss \<noteq> [] \<Longrightarrow> \<forall>s \<in> set ss. d \<notin> set s \<Longrightarrow> split_on d (join [d] ss) = ss"
proof (induction ss)
  case (Cons s ss)
  then show ?case by (cases ss) (auto simp: split_on_free split_on_append)
qed simp

lemma pair_text_free: "CHR ''&'' \<notin> set (pair_text p)"
  using escaped_free by (simp add: pair_text_def)

lemma fold_pairs: "fold parse_pair (map pair_text ps) (f, good) = (fold (\<lambda>(k, v). add_value k v) ps f, good)"
  by (induction ps arbitrary: f) auto

lemma fold_add_new:
  "distinct (map fst ps) \<Longrightarrow> fst ` set ps \<inter> fst ` set f = {} \<Longrightarrow>
     fold (\<lambda>(k, v). add_value k v) ps f = f @ map (\<lambda>(k, v). (k, [v])) ps"
proof (induction ps arbitrary: f)
  case (Cons p ps)
  obtain k v where p: "p = (k, v)" by (cases p)
  from Cons.prems p have new: "k \<notin> fst ` set f" by auto
  then have "lookup f k = None" by (simp add: map_of_eq_None_iff)
  moreover have "put k x f = f @ [(k, x)]" for x using new by (induction f) auto
  ultimately have a: "add_value k v f = f @ [(k, [v])]" by (simp add: add_value_def form_values_def)
  have "fold (\<lambda>(k, v). add_value k v) ps (f @ [(k, [v])]) = (f @ [(k, [v])]) @ map (\<lambda>(k, v). (k, [v])) ps"
    using Cons.prems p by (intro Cons.IH) auto
  with a p show ?case by simp
qed simp

lemma map_fst_sort: "distinct (map fst ps) \<Longrightarrow> distinct (map fst (sort_key fst ps))"
  by (simp add: distinct_map inj_on_def)

text \<open>A form with distinct keys comes back with the same values, its keys in order.\<close>

lemma parse_encode_form:
  assumes "distinct (map fst ps)"
  shows "parse_query (encode_form ps) = (map (\<lambda>(k, v). (k, [v])) (sort_key fst ps), True)"
proof (cases "ps = []")
  case True
  then show ?thesis by (simp add: parse_query_def encode_form_def parse_pair_def)
next
  case False
  then have "sort_key fst ps \<noteq> []" by (metis length_0_conv length_sort)
  then have "split_on (CHR ''&'') (encode_form ps) = map pair_text (sort_key fst ps)"
    unfolding encode_form_def by (intro split_on_join) (auto simp: pair_text_free)
  then show ?thesis
    using fold_add_new [OF map_fst_sort [OF assms], of "[]"] by (simp add: parse_query_def fold_pairs)
qed

lemma form_values_encoded:
  assumes "distinct (map fst ps)" "parse_query (encode_form ps) = (f, good)"
  shows "good \<and> length f = length ps \<and> fst ` set f = fst ` set ps
    \<and> (\<forall>k v. (k, v) \<in> set ps \<longrightarrow> lookup f k = Some [v] \<and> form_get f k = v)"
proof -
  from assms have f: "f = map (\<lambda>(k, v). (k, [v])) (sort_key fst ps)" and good
    by (simp_all add: parse_encode_form)
  have keys: "map fst f = map fst (sort_key fst ps)" by (simp add: f case_prod_beta comp_def)
  then have "lookup f k = Some [v]" if "(k, v) \<in> set ps" for k v
    using that map_fst_sort [OF assms(1)] unfolding keys [symmetric] by (intro map_of_is_SomeI) (auto simp: f)
  moreover have "fst ` set f = fst ` set ps" using keys by (metis list.set_map set_sort)
  ultimately show ?thesis using \<open>good\<close> by (auto simp: f form_get_def form_values_def)
qed

end
