(* ===== verification/Web_App.thy ===== *)
theory Web_App
  imports Web_Session Go_Form Audit_Collector "HOL-Library.State_Monad"
begin

text \<open>
  The web application (\<open>pkg/webapp/handler.go\<close>): configuration, login and callback of the
  authorization code flow with PKCE, sessions, CSRF protection, interactions and their audit
  records. A handler is a program in the state monad over the application state and the outside
  world; other requests may change the state whenever a handler calls out, but not inside a
  critical section.
\<close>

section \<open>Configuration\<close>

record web_config =
  wcf_authorization_endpoint :: string
  wcf_token_endpoint :: string
  wcf_redirect_uri :: string
  wcf_public_origin :: string
  wcf_client_id :: string
  wcf_client_secret :: string
  wcf_scopes :: "string list"
  wcf_cookie_name :: string
  wcf_session_ttl :: duration
  wcf_pre_auth_ttl :: duration
  wcf_maximum_sessions :: int
  wcf_client_timeout :: "duration option" \<comment> \<open>\<open>None\<close>: no HTTP client\<close>
  wcf_has_verifier :: bool
  wcf_has_interactions :: bool
  wcf_allowed_interactions :: "(string \<times> string) list" \<comment> \<open>tool, purpose\<close>
  wcf_has_audit :: bool

record web_handler =
  wh_config :: web_config
  wh_allowed :: "(string \<times> string) list"

datatype web_config_error = WebInvalidConfiguration

definition secure_url :: "(string \<Rightarrow> string option) \<Rightarrow> string \<Rightarrow> url option" where
  "secure_url ip_literal raw =
     (case url_parse ip_literal raw of
        None \<Rightarrow> None
      | Some u \<Rightarrow> if bare_https_endpoint u then Some u else None)"

fun add_interactions ::
  "(string \<times> string) list \<Rightarrow> (string \<times> string) list \<Rightarrow> web_config_error + (string \<times> string) list" where
  "add_interactions [] m = Inr m"
| "add_interactions ((tool, purpose) # is) m =
     (if trim_space tool \<noteq> tool \<or> trim_space purpose \<noteq> purpose \<or> tool = [] \<or> purpose = []
      then Inl WebInvalidConfiguration
      else if (tool, purpose) \<in> set m then Inl WebInvalidConfiguration
      else add_interactions is (m @ [(tool, purpose)]))"

definition new_web :: "(string \<Rightarrow> string option) \<Rightarrow> web_config \<Rightarrow> web_config_error + web_handler" where
  "new_web ip_literal c =
     (case (secure_url ip_literal (wcf_authorization_endpoint c), secure_url ip_literal (wcf_token_endpoint c),
            secure_url ip_literal (wcf_redirect_uri c), secure_url ip_literal (wcf_public_origin c)) of
        (Some authz, Some tok, Some redirect, Some public) \<Rightarrow>
          if url_scheme authz \<noteq> url_scheme tok \<or> url_host authz \<noteq> url_host tok
             \<or> url_scheme redirect \<noteq> url_scheme public \<or> url_host redirect \<noteq> url_host public
             \<or> url_path redirect \<noteq> ''/oauth/callback'' \<or> url_path public \<noteq> [] \<and> url_path public \<noteq> ''/''
             \<or> blank (wcf_client_id c) \<or> blank (wcf_client_secret c)
             \<or> length (wcf_scopes c) = 0 \<or> ''openid'' \<notin> set (wcf_scopes c)
             \<or> \<not> has_prefix (wcf_cookie_name c) ''__Host-'' \<or> wcf_session_ttl c \<le> 0
             \<or> wcf_pre_auth_ttl c \<le> 0 \<or> wcf_maximum_sessions c \<le> 0
             \<or> (case wcf_client_timeout c of None \<Rightarrow> True | Some t \<Rightarrow> t \<le> 0) \<or> \<not> wcf_has_verifier c
          then Inl WebInvalidConfiguration
          else (case add_interactions (wcf_allowed_interactions c) [] of
                  Inl e \<Rightarrow> Inl e
                | Inr allowed \<Rightarrow>
                    if (\<not> wcf_has_interactions c) \<noteq> (length allowed = 0) then Inl WebInvalidConfiguration
                    else Inr \<lparr>wh_config = c, wh_allowed = allowed\<rparr>)
      | _ \<Rightarrow> Inl WebInvalidConfiguration)"

section \<open>The outside\<close>

record 'w web_world =
  ww_state :: web_state
  ww_out :: 'w

record token_request =
  tr_url :: string
  tr_form :: "(string \<times> string) list"
  tr_basic_user :: string
  tr_basic_password :: string

type_synonym ('w, 'a) web = "('w web_world, 'a) state"

text \<open>
  What the application calls: the clock, the random source (32 bytes, or a failure), the token
  endpoint (a request that cannot be made or sent gives \<open>None\<close>), the ID token verifier, the
  interaction invoker, the audit reader; SHA-256, the JSON lexer, \<open>URL.String\<close> and the embedded
  files.
\<close>

record 'w web_env =
  we_now :: "('w, time) web"
  we_random :: "('w, string option) web"
  we_token :: "token_request \<Rightarrow> ('w, (nat \<times> request_body) option) web"
  we_verify_id :: "string \<Rightarrow> string \<Rightarrow> string \<Rightarrow> ('w, string option) web"
  we_invoke :: "string \<Rightarrow> string \<Rightarrow> string \<Rightarrow> ('w, string option) web"
  we_list :: "string \<Rightarrow> ('w, remote_error + audit_record list) web"
  we_get :: "string \<Rightarrow> string \<Rightarrow> ('w, remote_error + audit_record) web"
  we_sha256 :: "string \<Rightarrow> string"
  we_lexer :: "string \<Rightarrow> jtoken list"
  we_ip_literal :: "string \<Rightarrow> string option"
  we_render :: "url \<Rightarrow> string"
  we_static :: "string \<Rightarrow> string option"

text \<open>A critical section: nothing happens between its reads and its writes.\<close>

definition atomic :: "(web_state \<Rightarrow> 'a \<times> web_state) \<Rightarrow> ('w, 'a) web" where
  "atomic f = State (\<lambda>w. case f (ww_state w) of (a, s) \<Rightarrow> (a, w\<lparr>ww_state := s\<rparr>))"

section \<open>Responses\<close>

datatype web_body =
    SessionBody string string
  | CreatedBody string string
  | WebRecords "audit_record list"
  | WebRecord audit_record

type_synonym web_replies = "web_body replies"

definition web_unauthorized :: web_replies where
  "web_unauthorized = [HttpError ''authentication failed'' 401]"
definition web_server_error :: web_replies where
  "web_server_error = [HttpError ''request failed'' 500]"
definition web_bad_request :: web_replies where
  "web_bad_request = [HttpError ''invalid request'' 400]"
definition web_unavailable :: web_replies where
  "web_unavailable = [HttpError ''interaction unavailable'' 502]"

lemmas web_errors = web_unauthorized_def web_server_error_def web_bad_request_def web_unavailable_def

abbreviation give :: "'a \<Rightarrow> ('w, 'a) web" where
  "give \<equiv> State_Monad.return"

section \<open>Login\<close>

definition web_random_id :: "'w web_env \<Rightarrow> ('w, string option) web" where
  "web_random_id env = do { bytes \<leftarrow> we_random env; give (map_option b64_encode bytes) }"

definition login_query :: "'w web_env \<Rightarrow> web_config \<Rightarrow> string \<Rightarrow> string \<Rightarrow> string \<Rightarrow> (string \<times> string) list" where
  "login_query env c state nonce verifier =
     [(''response_type'', ''code''), (''client_id'', wcf_client_id c), (''redirect_uri'', wcf_redirect_uri c),
      (''scope'', join '' '' (wcf_scopes c)), (''state'', state), (''nonce'', nonce),
      (''code_challenge'', b64_encode (we_sha256 env verifier)), (''code_challenge_method'', ''S256'')]"

text \<open>The endpoint parsed once in \<open>new_web\<close>, so it parses here; a nil URL would be a panic.\<close>

definition login_redirect :: "'w web_env \<Rightarrow> web_config \<Rightarrow> string \<Rightarrow> string \<Rightarrow> string \<Rightarrow> web_replies" where
  "login_redirect env c state nonce verifier =
     (case url_parse (we_ip_literal env) (wcf_authorization_endpoint c) of
        None \<Rightarrow> []
      | Some u \<Rightarrow>
          [Redirect (we_render env (u\<lparr>url_raw_query := encode_form (login_query env c state nonce verifier)\<rparr>)) 302])"

definition web_login :: "'w web_env \<Rightarrow> web_handler \<Rightarrow> ('w, web_replies) web" where
  "web_login env h = do {
     r1 \<leftarrow> web_random_id env;
     (case r1 of None \<Rightarrow> give web_server_error | Some state \<Rightarrow> do {
     r2 \<leftarrow> web_random_id env;
     (case r2 of None \<Rightarrow> give web_server_error | Some nonce \<Rightarrow> do {
     r3 \<leftarrow> web_random_id env;
     (case r3 of None \<Rightarrow> give web_server_error | Some verifier \<Rightarrow> do {
     now \<leftarrow> we_now env;
     begun \<leftarrow> atomic (begin_flow (wcf_maximum_sessions (wh_config h)) now state
       \<lparr>pa_nonce = nonce, pa_verifier = verifier, pa_expires = now + wcf_pre_auth_ttl (wh_config h)\<rparr>);
     give (if \<not> begun then web_server_error else login_redirect env (wh_config h) state nonce verifier) }) }) }) }"

section \<open>Callback\<close>

definition exactly_one :: "form \<Rightarrow> string \<Rightarrow> string \<times> bool" where
  "exactly_one f key =
     (let items = form_values f key;
          v = (if length items = 1 then trim_space (items ! 0) else [])
      in (v, length items = 1 \<and> v \<noteq> []))"

record token_response =
  tok_access_token :: string
  tok_id_token :: string
  tok_token_type :: string
  tok_refresh_token :: string
  tok_scope :: string
  tok_expires_in :: int

definition blank_token_response :: token_response where
  "blank_token_response = \<lparr>tok_access_token = [], tok_id_token = [], tok_token_type = [],
     tok_refresh_token = [], tok_scope = [], tok_expires_in = 0\<rparr>"

definition token_response_fields :: "token_response field list" where
  "token_response_fields =
     [string_field ''access_token'' (\<lambda>s r. r\<lparr>tok_access_token := s\<rparr>),
      string_field ''id_token'' (\<lambda>s r. r\<lparr>tok_id_token := s\<rparr>),
      string_field ''token_type'' (\<lambda>s r. r\<lparr>tok_token_type := s\<rparr>),
      string_field ''refresh_token'' (\<lambda>s r. r\<lparr>tok_refresh_token := s\<rparr>),
      string_field ''scope'' (\<lambda>s r. r\<lparr>tok_scope := s\<rparr>),
      int_field ''expires_in'' (\<lambda>n r. r\<lparr>tok_expires_in := n\<rparr>)]"

definition token_form :: "web_config \<Rightarrow> string \<Rightarrow> string \<Rightarrow> (string \<times> string) list" where
  "token_form c code verifier =
     [(''grant_type'', ''authorization_code''), (''code'', code), (''redirect_uri'', wcf_redirect_uri c),
      (''code_verifier'', verifier)]"

text \<open>What \<open>exchange\<close> makes of the answer of the token endpoint.\<close>

definition token_answer :: "(string \<Rightarrow> jtoken list) \<Rightarrow> (nat \<times> request_body) option \<Rightarrow> token_response option" where
  "token_answer lexer answer =
     (case answer of
        None \<Rightarrow> None
      | Some (status, body) \<Rightarrow>
          if status \<noteq> 200 then None
          else (case read_body 1048576 body of
             None \<Rightarrow> None
           | Some bytes \<Rightarrow>
               (case decode_all (lexer bytes) of
                  None \<Rightarrow> None
                | Some j \<Rightarrow>
                    (case decode_struct token_response_fields False j blank_token_response of
                       None \<Rightarrow> None
                     | Some r \<Rightarrow>
                         if blank (tok_access_token r) \<or> blank (tok_id_token r)
                            \<or> \<not> equal_fold (tok_token_type r) ''Bearer''
                         then None else Some r))))"

definition web_exchange :: "'w web_env \<Rightarrow> web_config \<Rightarrow> string \<Rightarrow> string \<Rightarrow> ('w, token_response option) web" where
  "web_exchange env c code verifier = do {
     answer \<leftarrow> we_token env \<lparr>tr_url = wcf_token_endpoint c, tr_form = token_form c code verifier,
       tr_basic_user = wcf_client_id c, tr_basic_password = wcf_client_secret c\<rparr>;
     give (token_answer (we_lexer env) answer) }"

text \<open>\<open>int(SessionTTL.Seconds())\<close>.\<close>

definition whole_seconds :: "duration \<Rightarrow> int" where
  "whole_seconds d = d div second"

definition session_cookie :: "web_config \<Rightarrow> string \<Rightarrow> int \<Rightarrow> cookie" where
  "session_cookie c v age =
     \<lparr>ck_name = wcf_cookie_name c, ck_value = v, ck_path = ''/'', ck_secure = True, ck_http_only = True,
      ck_same_site_lax = True, ck_max_age = age\<rparr>"

text \<open>The callback from the moment it has an ID token's subject.\<close>

definition establish :: "'w web_env \<Rightarrow> web_handler \<Rightarrow> time \<Rightarrow> string \<Rightarrow> string \<Rightarrow> ('w, web_replies) web" where
  "establish env h now user access_token = do {
     r1 \<leftarrow> web_random_id env;
     (case r1 of None \<Rightarrow> give web_server_error | Some i \<Rightarrow> do {
     r2 \<leftarrow> web_random_id env;
     (case r2 of None \<Rightarrow> give web_server_error | Some csrf \<Rightarrow> do {
     opened \<leftarrow> atomic (open_session (wcf_maximum_sessions (wh_config h)) now i
       \<lparr>se_subject = user, se_access_token = access_token, se_csrf = csrf,
        se_expires = now + wcf_session_ttl (wh_config h)\<rparr>);
     give (if \<not> opened then web_server_error
           else [SetCookie (session_cookie (wh_config h) i (whole_seconds (wcf_session_ttl (wh_config h)))),
                 Redirect ''/'' 303]) }) }) }"

text \<open>From the moment it has consumed a flow: exchange, then verification of the ID token.\<close>

definition redeem :: "'w web_env \<Rightarrow> web_handler \<Rightarrow> time \<Rightarrow> string \<Rightarrow> pre_auth \<Rightarrow> ('w, web_replies) web" where
  "redeem env h now code flow = do {
     tokens \<leftarrow> web_exchange env (wh_config h) code (pa_verifier flow);
     (case tokens of None \<Rightarrow> give web_unauthorized | Some t \<Rightarrow>
       if tok_refresh_token t \<noteq> [] then give web_unauthorized
       else do {
         verified \<leftarrow> we_verify_id env (tok_id_token t) (wcf_client_id (wh_config h)) (pa_nonce flow);
         (case verified of None \<Rightarrow> give web_unauthorized | Some user \<Rightarrow>
            if blank user then give web_unauthorized
            else establish env h now user (tok_access_token t)) }) }"

definition web_callback :: "'w web_env \<Rightarrow> web_handler \<Rightarrow> 'c web_request \<Rightarrow> ('w, web_replies) web" where
  "web_callback env h rq =
     (let f = fst (parse_query (rq_raw_query rq));
          (state, ok_state) = exactly_one f ''state'';
          (code, ok_code) = exactly_one f ''code'' in
      if \<not> ok_state \<or> \<not> ok_code \<or> length (form_values f ''error'') \<noteq> 0 then give web_unauthorized
      else do {
        now \<leftarrow> we_now env;
        taken \<leftarrow> atomic (take_flow now state);
        (case taken of None \<Rightarrow> give web_unauthorized | Some flow \<Rightarrow> redeem env h now code flow) })"

section \<open>Sessions\<close>

definition web_authenticate ::
  "'w web_env \<Rightarrow> web_handler \<Rightarrow> 'c web_request \<Rightarrow> ('w, (string \<times> session) option) web" where
  "web_authenticate env h rq =
     (case find (\<lambda>(n, _). n = wcf_cookie_name (wh_config h)) (rq_cookies rq) of
        None \<Rightarrow> give None
      | Some (_, v) \<Rightarrow>
          if v = [] then give None
          else do {
            now \<leftarrow> we_now env;
            found \<leftarrow> atomic (look_session now v);
            give (map_option (Pair v) found) })"

definition valid_csrf :: "web_handler \<Rightarrow> 'c web_request \<Rightarrow> session \<Rightarrow> bool" where
  "valid_csrf h rq current =
     (header_get (rq_header rq) ''Origin'' = trim_suffix (wcf_public_origin (wh_config h)) ''/''
      \<and> header_get (rq_header rq) ''X-CSRF-Token'' = se_csrf current)"

definition web_get_session :: "'w web_env \<Rightarrow> web_handler \<Rightarrow> 'c web_request \<Rightarrow> ('w, web_replies) web" where
  "web_get_session env h rq = do {
     a \<leftarrow> web_authenticate env h rq;
     (case a of None \<Rightarrow> give web_unauthorized | Some (_, current) \<Rightarrow>
        give [SetHeader ''Content-Type'' ''application/json'',
              Encode (SessionBody (se_subject current) (se_csrf current))]) }"

definition web_logout :: "'w web_env \<Rightarrow> web_handler \<Rightarrow> 'c web_request \<Rightarrow> ('w, web_replies) web" where
  "web_logout env h rq = do {
     a \<leftarrow> web_authenticate env h rq;
     (case a of None \<Rightarrow> give web_unauthorized | Some (i, current) \<Rightarrow>
        if \<not> valid_csrf h rq current then give web_unauthorized
        else do {
          _ \<leftarrow> atomic (\<lambda>s. ((), close_session i s));
          give [SetCookie (session_cookie (wh_config h) [] (-1)), WriteHeader 204] }) }"

section \<open>Interactions\<close>

definition interaction_fields :: "(string \<times> string) field list" where
  "interaction_fields =
     [string_field ''tool'' (\<lambda>s (t, p). (s, p)), string_field ''purpose'' (\<lambda>s (t, p). (t, s))]"

text \<open>The interaction a request asks for, if it is well formed and allowed.\<close>

definition requested_interaction :: "(string \<Rightarrow> jtoken list) \<Rightarrow> web_handler \<Rightarrow> 'c web_request \<Rightarrow> (string \<times> string) option" where
  "requested_interaction lexer h rq =
     (if header_get (rq_header rq) ''Content-Type'' \<noteq> ''application/json'' then None
      else case read_body 4096 (rq_body rq) of
        None \<Rightarrow> None
      | Some body \<Rightarrow>
          (case decode_all (lexer body) of
             None \<Rightarrow> None
           | Some j \<Rightarrow>
               (case decode_struct interaction_fields True j ([], []) of
                  None \<Rightarrow> None
                | Some (tool, purpose) \<Rightarrow>
                    if (tool, purpose) \<notin> set (wh_allowed h) then None else Some (tool, purpose))))"

definition web_invoke :: "'w web_env \<Rightarrow> web_handler \<Rightarrow> 'c web_request \<Rightarrow> ('w, web_replies) web" where
  "web_invoke env h rq = do {
     a \<leftarrow> web_authenticate env h rq;
     (case a of None \<Rightarrow> give web_unauthorized | Some (_, current) \<Rightarrow>
        if \<not> valid_csrf h rq current then give web_unauthorized
        else case requested_interaction (we_lexer env) h rq of
          None \<Rightarrow> give web_bad_request
        | Some (tool, purpose) \<Rightarrow> do {
            r \<leftarrow> we_invoke env (se_access_token current) purpose tool;
            (case r of None \<Rightarrow> give web_unavailable | Some transaction \<Rightarrow>
               if blank transaction then give web_unavailable
               else give [SetHeader ''Content-Type'' ''application/json'', WriteHeader 201,
                          Encode (CreatedBody transaction ''completed'')]) }) }"

definition web_list :: "'w web_env \<Rightarrow> web_handler \<Rightarrow> 'c web_request \<Rightarrow> ('w, web_replies) web" where
  "web_list env h rq = do {
     a \<leftarrow> web_authenticate env h rq;
     (case a of None \<Rightarrow> give web_unauthorized | Some (_, current) \<Rightarrow> do {
        r \<leftarrow> we_list env (se_subject current);
        (case r of Inl _ \<Rightarrow> give web_unavailable | Inr records \<Rightarrow>
           give [SetHeader ''Content-Type'' ''application/json'', Encode (WebRecords records)]) }) }"

definition web_get :: "'w web_env \<Rightarrow> web_handler \<Rightarrow> string \<Rightarrow> 'c web_request \<Rightarrow> ('w, web_replies) web" where
  "web_get env h i rq = do {
     a \<leftarrow> web_authenticate env h rq;
     (case a of None \<Rightarrow> give web_unauthorized | Some (_, current) \<Rightarrow> do {
        r \<leftarrow> we_get env (se_subject current) i;
        (case r of
           Inl e \<Rightarrow> give (if e = RemoteMissing then [HttpError ''not found'' 404] else web_unavailable)
         | Inr found \<Rightarrow> give [SetHeader ''Content-Type'' ''application/json'', Encode (WebRecord found)]) }) }"

section \<open>Routes\<close>

definition web_static :: "'w web_env \<Rightarrow> string \<Rightarrow> string \<Rightarrow> web_replies" where
  "web_static env name content_type =
     (case we_static env name of
        None \<Rightarrow> [HttpError ''not found'' 404]
      | Some content \<Rightarrow> [SetHeader ''Content-Type'' content_type, CopyBody content])"

definition quoted :: "string \<Rightarrow> string" where
  "quoted s = [CHR 0x27] @ s @ [CHR 0x27]"

definition security_headers :: web_replies where
  "security_headers =
     [SetHeader ''Cache-Control'' ''no-store'', SetHeader ''Referrer-Policy'' ''no-referrer'',
      SetHeader ''X-Content-Type-Options'' ''nosniff'',
      SetHeader ''Content-Security-Policy''
        (concat [''default-src '', quoted ''none'', ''; script-src '', quoted ''self'', ''; style-src '', quoted ''self'',
           ''; connect-src '', quoted ''self'', ''; img-src '', quoted ''self'', ''; font-src '', quoted ''self'',
           ''; base-uri '', quoted ''none'', ''; form-action '', quoted ''self'', ''; frame-ancestors '', quoted ''none'']),
      SetHeader ''Permissions-Policy'' ''camera=(), microphone=(), geolocation=(), payment=()'',
      SetHeader ''Strict-Transport-Security'' ''max-age=31536000'', SetHeader ''X-Frame-Options'' ''DENY'']"

datatype web_route =
    ToLogin | ToCallback | ToSession | ToLogout | ToStatic string string
  | ToInvoke | ToList | ToGet string | NoMethod | NoPath

text \<open>The patterns registered in \<open>New\<close>; a \<open>GET\<close> pattern also takes \<open>HEAD\<close>.\<close>

definition web_route_of :: "web_config \<Rightarrow> string \<Rightarrow> string list \<Rightarrow> web_route" where
  "web_route_of c meth path =
     (let reads = meth \<in> {''GET'', ''HEAD''}; get = (\<lambda>r. if reads then r else NoMethod);
          post = (\<lambda>r. if meth = ''POST'' then r else NoMethod) in
      if path = [''login''] then get ToLogin
      else if path = [''oauth'', ''callback''] then get ToCallback
      else if path = [''api'', ''session''] then get ToSession
      else if path = [''logout''] then post ToLogout
      else if path = [''''] then get (ToStatic ''static/index.html'' ''text/html; charset=utf-8'')
      else if path = [''app.css''] then get (ToStatic ''static/app.css'' ''text/css; charset=utf-8'')
      else if path = [''app.js''] then get (ToStatic ''static/app.js'' ''text/javascript; charset=utf-8'')
      else if path = [''api'', ''interactions''] then
        (if meth = ''POST'' \<and> wcf_has_interactions c then ToInvoke
         else if reads \<and> wcf_has_audit c then ToList
         else if wcf_has_interactions c \<or> wcf_has_audit c then NoMethod else NoPath)
      else case path of
        [a, b, i] \<Rightarrow>
          if a = ''api'' \<and> b = ''interactions'' \<and> i \<noteq> [] \<and> wcf_has_audit c then get (ToGet i) else NoPath
      | _ \<Rightarrow> NoPath)"

definition web_dispatch ::
  "'w web_env \<Rightarrow> web_handler \<Rightarrow> 'c web_request \<Rightarrow> web_route \<Rightarrow> ('w, web_replies) web" where
  "web_dispatch env h rq r =
     (case r of
        ToLogin \<Rightarrow> web_login env h
      | ToCallback \<Rightarrow> web_callback env h rq
      | ToSession \<Rightarrow> web_get_session env h rq
      | ToLogout \<Rightarrow> web_logout env h rq
      | ToStatic name content_type \<Rightarrow> give (web_static env name content_type)
      | ToInvoke \<Rightarrow> web_invoke env h rq
      | ToList \<Rightarrow> web_list env h rq
      | ToGet i \<Rightarrow> web_get env h i rq
      | NoMethod \<Rightarrow> give [HttpError ''Method Not Allowed'' 405]
      | NoPath \<Rightarrow> give [HttpError ''404 page not found'' 404])"

definition web_serve :: "'w web_env \<Rightarrow> web_handler \<Rightarrow> 'c web_request \<Rightarrow> ('w, web_replies) web" where
  "web_serve env h rq = do {
     ws \<leftarrow> web_dispatch env h rq (web_route_of (wh_config h) (rq_method rq) (rq_segments rq));
     give (security_headers @ ws) }"

end
