(* ===== verification/Web_Log.thy ===== *)
theory Web_Log
  imports Web_App
begin

text \<open>
  A small program logic for the handlers of the web application: what a handler returns, and the
  log of the critical sections that ran meanwhile, its own and those of other requests.
\<close>

section \<open>Programs and their logs\<close>

text \<open>Whatever the world, \<open>m\<close> runs along a log \<open>es\<close> and returns \<open>a\<close> with \<open>P a es\<close>.\<close>

definition logged :: "int \<Rightarrow> ('w, 'a) web \<Rightarrow> ('a \<Rightarrow> web_event list \<Rightarrow> bool) \<Rightarrow> bool" where
  "logged maximum m P \<longleftrightarrow>
     (\<forall>w a w'. run_state m w = (a, w') \<longrightarrow> (\<exists>es. web_steps maximum (ww_state w) es (ww_state w') \<and> P a es))"

text \<open>A value an outside call can return.\<close>

definition can_return :: "('w, 'a) web \<Rightarrow> 'a \<Rightarrow> bool" where
  "can_return m a = (\<exists>w w'. run_state m w = (a, w'))"

text \<open>
  The outside touches the state of the application only through its other requests: by critical
  sections.
\<close>

definition orderly :: "int \<Rightarrow> 'w web_env \<Rightarrow> bool" where
  "orderly maximum env \<longleftrightarrow>
     logged maximum (we_now env) (\<lambda>_ _. True) \<and> logged maximum (we_random env) (\<lambda>_ _. True)
     \<and> (\<forall>q. logged maximum (we_token env q) (\<lambda>_ _. True))
     \<and> (\<forall>t c n. logged maximum (we_verify_id env t c n) (\<lambda>_ _. True))
     \<and> (\<forall>t p n. logged maximum (we_invoke env t p n) (\<lambda>_ _. True))
     \<and> (\<forall>u. logged maximum (we_list env u) (\<lambda>_ _. True)) \<and> (\<forall>u i. logged maximum (we_get env u i) (\<lambda>_ _. True))"

lemma loggedI:
  "(\<And>w a w'. run_state m w = (a, w') \<Longrightarrow> \<exists>es. web_steps M (ww_state w) es (ww_state w') \<and> P a es) \<Longrightarrow> logged M m P"
  by (simp add: logged_def)

lemma loggedD:
  "logged M m P \<Longrightarrow> run_state m w = (a, w') \<Longrightarrow> \<exists>es. web_steps M (ww_state w) es (ww_state w') \<and> P a es"
  by (simp add: logged_def)

lemma logged_mono: "logged M m Q \<Longrightarrow> (\<And>a es. Q a es \<Longrightarrow> P a es) \<Longrightarrow> logged M m P"
  unfolding logged_def by blast

lemma logged_return: "P a [] \<Longrightarrow> logged M (State_Monad.return a) P"
  by (rule loggedI) (auto intro: web_steps.none)

lemma logged_bind:
  assumes "logged M m Q" "\<And>a es. Q a es \<Longrightarrow> logged M (f a) (\<lambda>b fs. P b (es @ fs))"
  shows "logged M (State_Monad.bind m f) P"
proof (rule loggedI)
  fix w b w'
  assume "run_state (State_Monad.bind m f) w = (b, w')"
  then obtain a w1 where 1: "run_state m w = (a, w1)" and 2: "run_state (f a) w1 = (b, w')"
    by (auto split: prod.splits)
  from loggedD [OF assms(1) 1] obtain es where es: "web_steps M (ww_state w) es (ww_state w1)" "Q a es" by blast
  from loggedD [OF assms(2) [OF es(2)] 2] obtain fs where "web_steps M (ww_state w1) fs (ww_state w')" "P b (es @ fs)"
    by blast
  with es(1) show "\<exists>es. web_steps M (ww_state w) es (ww_state w') \<and> P b es"
    by (blast intro: web_steps_trans)
qed

lemma logged_option:
  assumes "x = None \<Longrightarrow> logged M f P" "\<And>y. x = Some y \<Longrightarrow> logged M (g y) P"
  shows "logged M (case x of None \<Rightarrow> f | Some y \<Rightarrow> g y) P"
  using assms by (cases x) simp_all

lemma logged_if:
  assumes "b \<Longrightarrow> logged M f P" "\<not> b \<Longrightarrow> logged M g P"
  shows "logged M (if b then f else g) P"
  using assms by simp

text \<open>An outside call: any log, and a value it can return.\<close>

lemma logged_call: "logged M m (\<lambda>_ _. True) \<Longrightarrow> logged M m (\<lambda>a _. can_return m a)"
  unfolding logged_def can_return_def by blast

lemma logged_atomic:
  assumes "\<And>s a s'. f s = (a, s') \<Longrightarrow> \<exists>e. web_step M s e s' \<and> P a [e]"
  shows "logged M (atomic f) P"
proof (rule loggedI)
  fix w a w'
  assume "run_state (atomic f) w = (a, w')"
  then have "f (ww_state w) = (a, ww_state w')" by (auto simp: atomic_def split: prod.splits)
  from assms [OF this] show "\<exists>es. web_steps M (ww_state w) es (ww_state w') \<and> P a es"
    by (blast intro: web_steps_one)
qed

lemma logged_begin:
  "logged M (atomic (begin_flow M now k f)) (\<lambda>r es. es = [if r then Began now k f else Refused now])"
  by (rule logged_atomic) (metis web_step.began web_step.full)

lemma logged_take: "logged M (atomic (take_flow now k)) (\<lambda>r es. es = [Took now k r])"
  by (rule logged_atomic) (blast intro: web_step.took)

lemma logged_open:
  "logged M (atomic (open_session M now i x)) (\<lambda>r es. es = [if r then Opened now i x else Refused now])"
  by (rule logged_atomic) (metis web_step.opened web_step.no_room)

lemma logged_look: "logged M (atomic (look_session now i)) (\<lambda>r es. es = [Looked now i r])"
  by (rule logged_atomic) (blast intro: web_step.looked)

lemma logged_close: "logged M (atomic (\<lambda>s. ((), close_session i s))) (\<lambda>_ es. es = [Closed i])"
  by (rule logged_atomic) (auto intro: web_step.closed)

lemmas log_rules = logged_begin logged_take logged_open logged_look logged_close

lemma orderly_calls:
  assumes "orderly M env"
  shows "logged M (we_now env) (\<lambda>a _. can_return (we_now env) a)"
    "logged M (we_random env) (\<lambda>a _. can_return (we_random env) a)"
    "logged M (we_token env q) (\<lambda>a _. can_return (we_token env q) a)"
    "logged M (we_verify_id env t c n) (\<lambda>a _. can_return (we_verify_id env t c n) a)"
    "logged M (we_invoke env t p n) (\<lambda>a _. can_return (we_invoke env t p n) a)"
    "logged M (we_list env u) (\<lambda>a _. can_return (we_list env u) a)"
    "logged M (we_get env u i) (\<lambda>a _. can_return (we_get env u i) a)"
  using assms unfolding orderly_def by (blast intro: logged_call)+

section \<open>The handlers\<close>

lemma logged_random:
  assumes "orderly M env"
  shows "logged M (web_random_id env) (\<lambda>_ _. True)"
  unfolding web_random_id_def
  by (rule logged_bind [OF orderly_calls(2) [OF assms]], rule logged_return) simp

text \<open>
  A login that redirects has begun the flow its redirect names: state, nonce and verifier are
  those of the flow, whose life is the configured one.
\<close>

lemma logged_login:
  assumes "orderly (wcf_maximum_sessions (wh_config h)) env"
  shows "logged (wcf_maximum_sessions (wh_config h)) (web_login env h)
    (\<lambda>ws es. ws = web_server_error
       \<or> (\<exists>pre now k f. es = pre @ [Began now k f] \<and> pa_expires f = now + wcf_pre_auth_ttl (wh_config h)
            \<and> ws = login_redirect env (wh_config h) k (pa_nonce f) (pa_verifier f)))"
  unfolding web_login_def
  by (rule logged_bind [OF logged_random [OF assms]], rule logged_option, rule logged_return, simp,
      rule logged_bind [OF logged_random [OF assms]], rule logged_option, rule logged_return, simp,
      rule logged_bind [OF logged_random [OF assms]], rule logged_option, rule logged_return, simp,
      rule logged_bind [OF orderly_calls(1) [OF assms]], rule logged_bind [OF logged_begin], rule logged_return)
    (force simp: append_assoc [symmetric] simp del: append_assoc)

text \<open>What a handler gives back on an error path.\<close>

lemma error_shapes [simp]:
  "status_of web_unauthorized = 401" "status_of web_server_error = 500" "status_of web_bad_request = 400"
  "status_of web_unavailable = 502" "bodies web_unauthorized = []" "bodies web_server_error = []"
  "bodies web_bad_request = []" "bodies web_unavailable = []"
  by (simp_all add: web_errors)

text \<open>A callback that redirects to the application ends with the session it opened.\<close>

definition opens :: "web_config \<Rightarrow> time \<Rightarrow> string \<Rightarrow> string \<Rightarrow> web_replies \<Rightarrow> web_event list \<Rightarrow> bool" where
  "opens c now user access_token ws es \<longleftrightarrow>
     (\<exists>pre i x. es = pre @ [Opened now i x] \<and> se_subject x = user \<and> se_access_token x = access_token
        \<and> se_expires x = now + wcf_session_ttl c
        \<and> ws = [SetCookie (session_cookie c i (whole_seconds (wcf_session_ttl c))), Redirect ''/'' 303])"

lemma opens_later: "opens c now u a ws fs \<Longrightarrow> opens c now u a ws (es @ fs)"
  unfolding opens_def by (metis append_assoc)

lemma established:
  assumes "fs = [if opened then Opened now i x else Refused now]"
    and "x = \<lparr>se_subject = user, se_access_token = a, se_csrf = csrf, se_expires = now + wcf_session_ttl c\<rparr>"
    and "ws = (if \<not> opened then web_server_error
        else [SetCookie (session_cookie c i (whole_seconds (wcf_session_ttl c))), Redirect ''/'' 303])"
  shows "bodies ws = [] \<and> (status_of ws = 303 \<longrightarrow> opens c now user a ws (es1 @ es2 @ fs))"
proof (cases opened)
  case True
  then have "opens c now user a ws ((es1 @ es2) @ [Opened now i x])"
    unfolding opens_def using assms by (intro exI [of _ "es1 @ es2"] exI [of _ i] exI [of _ x]) simp
  with True assms(1,3) show ?thesis by simp
next
  case False
  with assms(3) show ?thesis by simp
qed

lemma logged_establish:
  assumes "orderly (wcf_maximum_sessions (wh_config h)) env"
  shows "logged (wcf_maximum_sessions (wh_config h)) (establish env h now user access_token)
    (\<lambda>ws es. bodies ws = [] \<and> (status_of ws = 303 \<longrightarrow> opens (wh_config h) now user access_token ws es))"
  unfolding establish_def
  apply (rule logged_bind [OF logged_random [OF assms]], rule logged_option, rule logged_return, simp)
  apply (rule logged_bind [OF logged_random [OF assms]], rule logged_option, rule logged_return, simp)
  apply (rule logged_bind [OF logged_open], rule logged_return)
  by (simp only: append_Nil2) (rule established, rule refl, rule refl, rule refl)

text \<open>What was verified before a flow gives a session: the tokens and the ID token's subject.\<close>

definition redeemed :: "'w web_env \<Rightarrow> web_config \<Rightarrow> string \<Rightarrow> pre_auth \<Rightarrow> string \<Rightarrow> string \<Rightarrow> bool" where
  "redeemed env c code flow user access_token \<longleftrightarrow>
     (\<exists>answer t. can_return (we_token env \<lparr>tr_url = wcf_token_endpoint c,
            tr_form = token_form c code (pa_verifier flow), tr_basic_user = wcf_client_id c,
            tr_basic_password = wcf_client_secret c\<rparr>) answer
        \<and> token_answer (we_lexer env) answer = Some t \<and> tok_refresh_token t = [] \<and> tok_access_token t = access_token
        \<and> can_return (we_verify_id env (tok_id_token t) (wcf_client_id c) (pa_nonce flow)) (Some user) \<and> \<not> blank user)"

lemma redeemedI:
  assumes "\<exists>answer. can_return (we_token env \<lparr>tr_url = wcf_token_endpoint c, tr_form = token_form c code (pa_verifier flow),
            tr_basic_user = wcf_client_id c, tr_basic_password = wcf_client_secret c\<rparr>) answer
        \<and> token_answer (we_lexer env) answer = r" "r = Some t" "\<not> tok_refresh_token t \<noteq> []"
    "can_return (we_verify_id env (tok_id_token t) (wcf_client_id c) (pa_nonce flow)) v" "v = Some user" "\<not> blank user"
  shows "redeemed env c code flow user (tok_access_token t)"
  using assms unfolding redeemed_def by blast

lemma logged_exchange:
  assumes "orderly M env"
  shows "logged M (web_exchange env c code verifier)
    (\<lambda>r _. \<exists>answer. can_return (we_token env \<lparr>tr_url = wcf_token_endpoint c, tr_form = token_form c code verifier,
            tr_basic_user = wcf_client_id c, tr_basic_password = wcf_client_secret c\<rparr>) answer
        \<and> token_answer (we_lexer env) answer = r)"
  unfolding web_exchange_def
  by (rule logged_bind [OF orderly_calls(3) [OF assms]], rule logged_return) blast

lemma logged_redeem:
  assumes "orderly (wcf_maximum_sessions (wh_config h)) env"
  shows "logged (wcf_maximum_sessions (wh_config h)) (redeem env h now code flow)
    (\<lambda>ws es. bodies ws = [] \<and> (status_of ws = 303 \<longrightarrow>
       (\<exists>user access_token. redeemed env (wh_config h) code flow user access_token
          \<and> opens (wh_config h) now user access_token ws es)))"
  unfolding redeem_def
  apply (rule logged_bind [OF logged_exchange [OF assms]], rule logged_option, rule logged_return, simp)
  apply (rule logged_if, rule logged_return, simp)
  apply (rule logged_bind [OF orderly_calls(4) [OF assms]], rule logged_option, rule logged_return, simp)
  apply (rule logged_if, rule logged_return, simp)
  apply (rule logged_mono [OF logged_establish [OF assms]], erule conjE, rule conjI, assumption)
  by (intro impI exI conjI, erule (5) redeemedI, intro opens_later, drule (1) mp)

definition callback_of :: "'c web_request \<Rightarrow> (string \<times> string) option" where
  "callback_of rq =
     (let f = fst (parse_query (rq_raw_query rq)) in
      if snd (exactly_one f ''state'') \<and> snd (exactly_one f ''code'') \<and> form_values f ''error'' = []
      then Some (fst (exactly_one f ''state''), fst (exactly_one f ''code'')) else None)"

lemma logged_callback:
  assumes "orderly (wcf_maximum_sessions (wh_config h)) env"
  shows "logged (wcf_maximum_sessions (wh_config h)) (web_callback env h rq)
    (\<lambda>ws es. bodies ws = [] \<and> (status_of ws = 303 \<longrightarrow>
       (\<exists>k code now pre flow mid user access_token. callback_of rq = Some (k, code)
          \<and> es = pre @ Took now k (Some flow) # mid
          \<and> redeemed env (wh_config h) code flow user access_token
          \<and> opens (wh_config h) now user access_token ws mid)))"
proof (cases "callback_of rq")
  case None
  then have "web_callback env h rq = State_Monad.return web_unauthorized"
    by (auto simp: callback_of_def web_callback_def Let_def split: prod.splits if_splits)
  then show ?thesis by (auto intro: logged_return)
next
  case (Some kc)
  obtain k code where kc: "kc = (k, code)" by (cases kc)
  with Some have w: "web_callback env h rq = do {
        now \<leftarrow> we_now env;
        taken \<leftarrow> atomic (take_flow now k);
        (case taken of None \<Rightarrow> give web_unauthorized | Some flow \<Rightarrow> redeem env h now code flow) }"
    by (auto simp: callback_of_def web_callback_def Let_def split: prod.splits if_splits)
  show ?thesis unfolding w
    apply (rule logged_bind [OF orderly_calls(1) [OF assms]], rule logged_bind [OF logged_take],
        rule logged_option, rule logged_return, simp)
    apply (rule logged_mono [OF logged_redeem [OF assms]])
    using Some kc by fastforce
qed

definition session_cookie_of :: "web_handler \<Rightarrow> 'c web_request \<Rightarrow> string option" where
  "session_cookie_of h rq =
     (case find (\<lambda>(n, _). n = wcf_cookie_name (wh_config h)) (rq_cookies rq) of
        None \<Rightarrow> None | Some (_, v) \<Rightarrow> if v = [] then None else Some v)"

lemma logged_authenticate:
  assumes "orderly M env"
  shows "logged M (web_authenticate env h rq)
    (\<lambda>r es. \<forall>i x. r = Some (i, x) \<longrightarrow> session_cookie_of h rq = Some i \<and> (\<exists>pre now. es = pre @ [Looked now i (Some x)]))"
  unfolding web_authenticate_def
  by (rule logged_option, rule logged_return, simp)
    (auto split: prod.splits simp: session_cookie_of_def
      intro!: logged_if logged_return logged_bind [OF orderly_calls(1) [OF assms]] logged_bind [OF logged_look])

text \<open>What the body of an answer owes to the session of its request.\<close>

definition body_of_session :: "'w web_env \<Rightarrow> web_handler \<Rightarrow> 'c web_request \<Rightarrow> session \<Rightarrow> web_body \<Rightarrow> bool" where
  "body_of_session env h rq x b =
     (case b of
        SessionBody u c \<Rightarrow> u = se_subject x \<and> c = se_csrf x
      | CreatedBody t s \<Rightarrow> valid_csrf h rq x
          \<and> (\<exists>tool purpose. (tool, purpose) \<in> set (wh_allowed h) \<and> can_return (we_invoke env (se_access_token x) purpose tool) (Some t))
      | WebRecords rs \<Rightarrow> can_return (we_list env (se_subject x)) (Inr rs)
      | WebRecord r \<Rightarrow> (\<exists>i. can_return (we_get env (se_subject x) i) (Inr r)))"

definition owed :: "'w web_env \<Rightarrow> web_handler \<Rightarrow> 'c web_request \<Rightarrow> web_replies \<Rightarrow> web_event list \<Rightarrow> bool" where
  "owed env h rq ws es \<longleftrightarrow>
     (\<forall>b \<in> set (bodies ws). \<exists>i x pre now post. session_cookie_of h rq = Some i
        \<and> es = pre @ Looked now i (Some x) # post \<and> body_of_session env h rq x b)"

lemma owed_none: "bodies ws = [] \<Longrightarrow> owed env h rq ws es"
  by (simp add: owed_def)

lemma requested_allowed: "requested_interaction lexer h rq = Some (tool, purpose) \<Longrightarrow> (tool, purpose) \<in> set (wh_allowed h)"
  by (auto simp: requested_interaction_def split: if_splits option.splits prod.splits)

lemma logged_session:
  assumes "orderly M env"
  shows "logged M (web_get_session env h rq) (owed env h rq)"
  unfolding web_get_session_def
  by (rule logged_bind [OF logged_authenticate [OF assms]], rule logged_option, rule logged_return, simp add: owed_none)
    (fastforce intro!: logged_return simp: owed_def body_of_session_def split: prod.splits)

lemma logged_logout:
  assumes "orderly M env"
  shows "logged M (web_logout env h rq) (owed env h rq)"
  unfolding web_logout_def
  by (rule logged_bind [OF logged_authenticate [OF assms]], rule logged_option, rule logged_return, simp add: owed_none)
    (auto intro!: logged_return logged_if logged_bind [OF logged_close] owed_none split: prod.splits)

lemma logged_invoke:
  assumes "orderly M env"
  shows "logged M (web_invoke env h rq) (owed env h rq)"
  unfolding web_invoke_def
  apply (rule logged_bind [OF logged_authenticate [OF assms]], rule logged_option, rule logged_return, simp add: owed_none)
  apply (split prod.splits, intro allI impI)
  apply (rule logged_if, rule logged_return, simp add: owed_none)
  apply (rule logged_option, rule logged_return, simp add: owed_none)
  apply (split prod.splits, intro allI impI)
  apply (rule logged_bind [OF orderly_calls(5) [OF assms]], rule logged_option, rule logged_return, simp add: owed_none)
  apply (rule logged_if, rule logged_return, simp add: owed_none)
  by (rule logged_return) (fastforce simp: owed_def body_of_session_def dest: requested_allowed)

lemma logged_list:
  assumes "orderly M env"
  shows "logged M (web_list env h rq) (owed env h rq)"
  unfolding web_list_def
  apply (rule logged_bind [OF logged_authenticate [OF assms]], rule logged_option, rule logged_return, simp add: owed_none)
  apply (split prod.splits, intro allI impI)
  apply (rule logged_bind [OF orderly_calls(6) [OF assms]])
  by (fastforce intro!: logged_return simp: owed_def body_of_session_def split: sum.splits)

lemma logged_get:
  assumes "orderly M env"
  shows "logged M (web_get env h i rq) (owed env h rq)"
  unfolding web_get_def
  apply (rule logged_bind [OF logged_authenticate [OF assms]], rule logged_option, rule logged_return, simp add: owed_none)
  apply (split prod.splits, intro allI impI)
  apply (rule logged_bind [OF orderly_calls(7) [OF assms]])
  by (fastforce intro!: logged_return simp: owed_def body_of_session_def split: sum.splits)

lemma bodies_append: "bodies (xs @ ys) = bodies xs @ bodies ys"
  by (induction xs rule: bodies.induct) auto

text \<open>The whole application: every body is owed to a live session of the request.\<close>

lemma logged_dispatch:
  assumes "orderly (wcf_maximum_sessions (wh_config h)) env"
  shows "logged (wcf_maximum_sessions (wh_config h)) (web_dispatch env h rq r) (owed env h rq)"
proof (cases r)
  case ToLogin
  have "bodies (login_redirect env c k n v) = []" for c k n v
    by (simp add: login_redirect_def split: option.splits)
  then show ?thesis unfolding ToLogin web_dispatch_def
    by (auto intro!: logged_mono [OF logged_login [OF assms]] owed_none)
next
  case ToCallback
  then show ?thesis unfolding web_dispatch_def
    by (auto intro!: logged_mono [OF logged_callback [OF assms]] owed_none)
qed (auto simp: web_dispatch_def web_static_def intro!: logged_session logged_logout logged_invoke logged_list logged_get
      logged_return owed_none assms split: option.splits)

end
