(* ===== verification/Web_Facts.thy ===== *)
theory Web_Facts
  imports Web_Log
begin

text \<open>The properties of the web application, on a worked login.\<close>

section \<open>A worked application\<close>

definition demo_web_config :: web_config where
  "demo_web_config =
     \<lparr>wcf_authorization_endpoint = ''https://idp/as'', wcf_token_endpoint = ''https://idp/tok'',
      wcf_redirect_uri = ''https://app/oauth/callback'', wcf_public_origin = ''https://app'',
      wcf_client_id = ''web'', wcf_client_secret = ''pw'', wcf_scopes = [''openid''],
      wcf_cookie_name = ''__Host-s'', wcf_session_ttl = 60 * second, wcf_pre_auth_ttl = 30 * second,
      wcf_maximum_sessions = 2, wcf_client_timeout = Some second, wcf_has_verifier = True,
      wcf_has_interactions = True, wcf_allowed_interactions = [(''lookup'', ''mcp:lookup'')], wcf_has_audit = True\<rparr>"

definition demo_web :: web_handler where
  "demo_web = \<lparr>wh_config = demo_web_config, wh_allowed = [(''lookup'', ''mcp:lookup'')]\<rparr>"

definition demo_random :: "(string list, string option) web" where
  "demo_random = State (\<lambda>w. case ww_out w of [] \<Rightarrow> (None, w) | b # bs \<Rightarrow> (Some b, w\<lparr>ww_out := bs\<rparr>))"

definition demo_env :: "string list web_env" where
  "demo_env =
     \<lparr>we_now = give 1000, we_random = demo_random,
      we_token = (\<lambda>_. give (Some (200, \<lparr>body_bytes = ''t'', body_fails = False\<rparr>))),
      we_verify_id = (\<lambda>_ _ _. give (Some ''alice'')), we_invoke = (\<lambda>_ _ _. give (Some ''txn-1'')),
      we_list = (\<lambda>_. give (Inr [])), we_get = (\<lambda>_ _. give (Inl RemoteMissing)),
      we_sha256 = (\<lambda>s. s),
      we_lexer = (\<lambda>s. if s = ''t'' then tokens_of (JObj [(''access_token'', JStr ''at''), (''id_token'', JStr ''it''),
         (''token_type'', JStr ''bearer'')])
         else tokens_of (JObj [(''tool'', JStr ''lookup''), (''purpose'', JStr ''mcp:lookup'')])),
      we_ip_literal = (\<lambda>_. None), we_render = url_host, we_static = (\<lambda>_. None)\<rparr>"

lemma demo_orderly: "orderly m demo_env"
proof -
  have "logged m demo_random (\<lambda>_ _. True)"
  proof (rule loggedI)
    fix w a w'
    assume "run_state demo_random w = (a, w')"
    then have "ww_state w' = ww_state w" by (auto simp: demo_random_def split: list.splits)
    then show "\<exists>es. web_steps m (ww_state w) es (ww_state w') \<and> True" by (metis web_steps.none)
  qed
  then show ?thesis by (auto simp: orderly_def demo_env_def intro: logged_return)
qed

lemma demo_web_built: "new_web (\<lambda>_. None) demo_web_config = Inr demo_web"
  by code_simp

definition demo_start :: "string list web_world" where
  "demo_start = \<lparr>ww_state = empty_web_state, ww_out = [''s0'', ''n0'', ''v0'', ''i0'', ''c0'']\<rparr>"

definition demo_web_request :: "string \<Rightarrow> string \<Rightarrow> string list \<Rightarrow> unit web_request" where
  "demo_web_request meth query path =
     \<lparr>rq_method = meth, rq_segments = path,
      rq_header = [(''Origin'', [''https://app'']), (''X-Csrf-Token'', [''YzA'']), (''Content-Type'', [''application/json''])],
      rq_tls = None, rq_body = \<lparr>body_bytes = ''i'', body_fails = False\<rparr>, rq_ctx = (),
      rq_raw_query = query, rq_cookies = [(''__Host-s'', ''aTA'')]\<rparr>"

definition demo_began :: "string list web_world" where
  "demo_began = \<lparr>ww_state = \<lparr>ws_pre_auth = [(''czA'', \<lparr>pa_nonce = ''bjA'', pa_verifier = ''djA'', pa_expires = 30000001000\<rparr>)],
      ws_sessions = []\<rparr>, ww_out = [''i0'', ''c0'']\<rparr>"

definition demo_session :: session where
  "demo_session = \<lparr>se_subject = ''alice'', se_access_token = ''at'', se_csrf = ''YzA'', se_expires = 60000001000\<rparr>"

definition demo_opened :: "string list web_world" where
  "demo_opened = \<lparr>ww_state = \<lparr>ws_pre_auth = [], ws_sessions = [(''aTA'', demo_session)]\<rparr>, ww_out = []\<rparr>"

lemma demo_logs_in: "snd (run_state (web_login demo_env demo_web) demo_start) = demo_began"
  by code_simp

lemma demo_calls_back:
  "snd (run_state (web_callback demo_env demo_web (demo_web_request ''GET'' ''state=czA&code=abc'' [''oauth'', ''callback'']))
     demo_began) = demo_opened"
  "status_of (fst (run_state (web_callback demo_env demo_web
     (demo_web_request ''GET'' ''state=czA&code=abc'' [''oauth'', ''callback''])) demo_began)) = 303"
  by code_simp+

definition demo_log :: "web_event list" where
  "demo_log =
     [Began 1000 ''czA'' \<lparr>pa_nonce = ''bjA'', pa_verifier = ''djA'', pa_expires = 30000001000\<rparr>,
      Took 1000 ''czA'' (Some \<lparr>pa_nonce = ''bjA'', pa_verifier = ''djA'', pa_expires = 30000001000\<rparr>),
      Opened 1000 ''aTA'' demo_session]"

lemma demo_runs: "web_run 2 (take 1 demo_log) (ww_state demo_began)" "web_run 2 demo_log (ww_state demo_opened)"
proof -
  let ?f = "\<lparr>pa_nonce = ''bjA'', pa_verifier = ''djA'', pa_expires = 30000001000\<rparr>"
  let ?s1 = "ww_state demo_began" and ?s2 = "\<lparr>ws_pre_auth = [], ws_sessions = []\<rparr>"
  have "begin_flow 2 1000 ''czA'' ?f empty_web_state = (True, ?s1)" by code_simp
  from web_steps_one [OF web_step.began [OF this]]
  have 1: "web_steps 2 empty_web_state [Began 1000 ''czA'' ?f] ?s1" .
  have "take_flow 1000 ''czA'' ?s1 = (Some ?f, ?s2)" by code_simp
  from web_steps.more [OF 1 web_step.took [OF this]]
  have 2: "web_steps 2 empty_web_state ([Began 1000 ''czA'' ?f] @ [Took 1000 ''czA'' (Some ?f)]) ?s2" .
  have "open_session 2 1000 ''aTA'' demo_session ?s2 = (True, ww_state demo_opened)" by code_simp
  from web_steps.more [OF 2 web_step.opened [OF this]] 1
  show "web_run 2 (take 1 demo_log) ?s1" "web_run 2 demo_log (ww_state demo_opened)"
    by (simp_all add: web_run_def demo_log_def)
qed

text \<open>A state taken was begun and not asked for since.\<close>

lemma login_once:
  assumes "0 \<le> maximum" and "web_run maximum (as @ Took now k (Some f) # bs) s"
  shows "now < pa_expires f \<and> (\<exists>t xs ys. as = xs @ Began t k f # ys
    \<and> (\<forall>e \<in> set ys. (\<forall>u g. e \<noteq> Began u k g) \<and> (\<forall>u r. e \<noteq> Took u k r)))"
proof -
  from web_steps_cut [OF assms(2) [unfolded web_run_def] refl] obtain s1 s2
    where 1: "web_steps maximum empty_web_state as s1" and 2: "web_step maximum s1 (Took now k (Some f)) s2" by blast
  have "web_inv maximum as s1" using web_run_inv [OF assms(1)] 1 by (simp add: web_run_def)
  moreover from 2 obtain s3 where "take_flow now k s1 = (Some f, s3)" by (cases rule: web_step.cases) blast
  ultimately show ?thesis using take_flow_sound pending_Some by blast
qed

section \<open>Properties\<close>

text \<open>
  C24. The state of the web application refines its log, however requests interleave: never more than
  \<open>MaximumSessions\<close> flows or sessions are kept, under distinct keys; and whenever an instant is
  not before those already seen, a callback gets exactly the unexpired flow begun for its state
  and not asked for since, and a cookie authenticates exactly the unexpired session opened under
  it and not logged out since.
\<close>
theorem web_state_exact:
  assumes "0 \<le> maximum" and "web_run maximum es s" and "until es now"
  shows "fst (take_flow now k s) = unexpired now pa_expires (pending es k)
    \<and> fst (look_session now i s) = unexpired now se_expires (active es i)
    \<and> int (length (ws_pre_auth s)) \<le> maximum \<and> int (length (ws_sessions s)) \<le> maximum
    \<and> distinct (map fst (ws_pre_auth s)) \<and> distinct (map fst (ws_sessions s))"
proof -
  note inv = web_run_inv [OF assms(1,2)]
  show ?thesis
    using take_flow_exact [OF inv assms(3)] look_session_exact [OF inv assms(3)] web_invD(1-4) [OF inv] by blast
qed

theorem web_state_exact_witness:
  "fst (look_session 2000 ''aTA'' (ww_state demo_opened)) = Some demo_session
   \<and> fst (take_flow 2000 ''czA'' (ww_state demo_opened)) = None"
proof -
  have "until demo_log 2000" by (simp add: until_def demo_log_def)
  from web_state_exact [OF _ demo_runs(2) this, of "''czA''" "''aTA''"]
  show ?thesis by (simp add: unexpired_def pending_def active_def demo_log_def demo_session_def)
qed

text \<open>
  C25. A login state is good for one callback: each successful consumption of a state is of the very
  flow a login began under it, before its expiry, and no callback asked for that state between
  the two; a replayed state, a failed exchange or a state no login issued gets nothing.
\<close>
theorem login_used_once:
  assumes "0 \<le> maximum" and "web_run maximum (as @ Took now k (Some f) # bs) s"
  shows "now < pa_expires f \<and> (\<exists>t xs ys. as = xs @ Began t k f # ys
    \<and> (\<forall>e \<in> set ys. (\<forall>u g. e \<noteq> Began u k g) \<and> (\<forall>u r. e \<noteq> Took u k r)))"
  by (rule login_once [OF assms])

theorem login_used_once_witness:
  "\<exists>t xs ys. take 1 demo_log = xs @ Began t ''czA''
     \<lparr>pa_nonce = ''bjA'', pa_verifier = ''djA'', pa_expires = 30000001000\<rparr> # ys"
proof -
  have "web_run 2 (take 1 demo_log @ Took 1000 ''czA''
      (Some \<lparr>pa_nonce = ''bjA'', pa_verifier = ''djA'', pa_expires = 30000001000\<rparr>) # drop 2 demo_log) (ww_state demo_opened)"
    using demo_runs(2) by (simp add: demo_log_def)
  from login_used_once [OF _ this] show ?thesis by fastforce
qed

text \<open>
  C26. A callback that logs a user in, whatever other requests do meanwhile, has consumed the unexpired
  flow a login began under the state of its query, redeemed the code with that flow's PKCE verifier
  for an answer without a refresh token, and had the ID token verified with that flow's nonce; the
  session it opens is for the verified subject, holds the access token of the answer, expires
  after the configured time and is the one the cookie names.
\<close>
theorem web_callback_authentic:
  assumes "0 \<le> wcf_maximum_sessions (wh_config h)" and "orderly (wcf_maximum_sessions (wh_config h)) env"
    and "web_run (wcf_maximum_sessions (wh_config h)) log (ww_state w)"
    and "run_state (web_callback env h rq) w = (ws, w')" and "status_of ws = 303"
  shows "\<exists>k code now pre flow mid i x t xs ys. callback_of rq = Some (k, code)
    \<and> web_run (wcf_maximum_sessions (wh_config h))
        (log @ pre @ Took now k (Some flow) # mid @ [Opened now i x]) (ww_state w')
    \<and> now < pa_expires flow \<and> log @ pre = xs @ Began t k flow # ys \<and> (\<forall>e \<in> set ys. \<forall>u r. e \<noteq> Took u k r)
    \<and> redeemed env (wh_config h) code flow (se_subject x) (se_access_token x)
    \<and> se_expires x = now + wcf_session_ttl (wh_config h)
    \<and> ws = [SetCookie (session_cookie (wh_config h) i (whole_seconds (wcf_session_ttl (wh_config h)))), Redirect ''/'' 303]"
proof -
  from loggedD [OF logged_callback [OF assms(2)] assms(4)] assms(5)
  obtain k code now pre flow mid user a where cb: "callback_of rq = Some (k, code)"
    and st: "web_steps (wcf_maximum_sessions (wh_config h)) (ww_state w) (pre @ Took now k (Some flow) # mid) (ww_state w')"
    and red: "redeemed env (wh_config h) code flow user a" and op: "opens (wh_config h) now user a ws mid"
    by fastforce
  from op obtain mid' i x where mid: "mid = mid' @ [Opened now i x]" and x: "se_subject x = user" "se_access_token x = a"
    "se_expires x = now + wcf_session_ttl (wh_config h)"
    and ws: "ws = [SetCookie (session_cookie (wh_config h) i (whole_seconds (wcf_session_ttl (wh_config h)))), Redirect ''/'' 303]"
    unfolding opens_def by blast
  from web_steps_trans [OF st] assms(3)
  have run: "web_run (wcf_maximum_sessions (wh_config h)) (log @ pre @ Took now k (Some flow) # mid) (ww_state w')"
    by (simp add: web_run_def)
  then have "web_run (wcf_maximum_sessions (wh_config h)) ((log @ pre) @ Took now k (Some flow) # mid) (ww_state w')"
    by simp
  from login_once [OF assms(1) this] obtain t xs ys where "now < pa_expires flow" "log @ pre = xs @ Began t k flow # ys"
    "\<forall>e \<in> set ys. \<forall>u r. e \<noteq> Took u k r" by blast
  with cb run mid red x ws show ?thesis by blast
qed

theorem web_callback_authentic_witness:
  "\<exists>now k flow as bs. web_run 2 (as @ Took now k (Some flow) # bs) (ww_state demo_opened) \<and> now < pa_expires flow"
proof -
  let ?rq = "demo_web_request ''GET'' ''state=czA&code=abc'' [''oauth'', ''callback'']"
  obtain ws where r: "run_state (web_callback demo_env demo_web ?rq) demo_began = (ws, demo_opened)" "status_of ws = 303"
    using demo_calls_back by (metis prod.collapse)
  have m: "wcf_maximum_sessions (wh_config demo_web) = 2" by (simp add: demo_web_def demo_web_config_def)
  from web_callback_authentic [of demo_web demo_env, unfolded m, OF _ demo_orderly demo_runs(1) r]
  show ?thesis by (metis append_assoc zero_le_numeral)
qed

text \<open>
  C27. Whatever the application answers, on every route and with any interleaving, each body it sends
  is owed to a session that is live when its request's cookie is looked up: opened under that
  cookie, not logged out and not expired. The session resource shows its subject and CSRF token, a
  created interaction was invoked with its access token for an allowed tool and purpose under a
  valid CSRF token, and audit records are those the reader gave for its subject.
\<close>
theorem web_discloses_own:
  assumes "0 \<le> wcf_maximum_sessions (wh_config h)" and "orderly (wcf_maximum_sessions (wh_config h)) env"
    and "web_run (wcf_maximum_sessions (wh_config h)) log (ww_state w)"
    and "run_state (web_serve env h rq) w = (ws, w')" and "b \<in> set (bodies ws)"
  shows "\<exists>i x pre now. session_cookie_of h rq = Some i \<and> active (log @ pre) i = Some x \<and> now < se_expires x
    \<and> body_of_session env h rq x b"
proof -
  let ?m = "wcf_maximum_sessions (wh_config h)"
  from assms(4) obtain ws' where d: "run_state (web_dispatch env h rq (web_route_of (wh_config h) (rq_method rq) (rq_segments rq))) w = (ws', w')"
    and ws: "ws = security_headers @ ws'"
    by (auto simp: web_serve_def split: prod.splits)
  have "bodies security_headers = []" by (simp add: security_headers_def)
  with assms(5) ws have b: "b \<in> set (bodies ws')" by (simp add: bodies_append)
  from loggedD [OF logged_dispatch [OF assms(2)] d] b obtain i x pre now post where
    c: "session_cookie_of h rq = Some i" "body_of_session env h rq x b"
    and st: "web_steps ?m (ww_state w) (pre @ Looked now i (Some x) # post) (ww_state w')"
    unfolding owed_def by blast
  from web_steps_cut [OF st refl] obtain s1 s2 where s1: "web_steps ?m (ww_state w) pre s1"
    and l: "web_step ?m s1 (Looked now i (Some x)) s2" by blast
  have "web_inv ?m (log @ pre) s1"
    using web_run_inv [OF assms(1)] web_steps_trans [OF s1] assms(3) by (simp add: web_run_def)
  moreover from l obtain s3 where "look_session now i s1 = (Some x, s3)" by (cases rule: web_step.cases) blast
  ultimately show ?thesis using look_session_sound c by blast
qed

theorem web_discloses_own_witness:
  "\<exists>i x pre now. active (demo_log @ pre) i = Some x \<and> now < se_expires x
     \<and> body_of_session demo_env demo_web (demo_web_request ''POST'' [] [''api'', ''interactions'']) x (CreatedBody ''txn-1'' ''completed'')"
proof -
  let ?rq = "demo_web_request ''POST'' [] [''api'', ''interactions'']"
  obtain ws w' where r: "run_state (web_serve demo_env demo_web ?rq) demo_opened = (ws, w')" by (metis surj_pair)
  have "CreatedBody ''txn-1'' ''completed'' \<in> set (bodies (fst (run_state (web_serve demo_env demo_web ?rq) demo_opened)))"
    by code_simp
  then have b: "CreatedBody ''txn-1'' ''completed'' \<in> set (bodies ws)" unfolding r by simp
  have m: "wcf_maximum_sessions (wh_config demo_web) = 2" by (simp add: demo_web_def demo_web_config_def)
  from web_discloses_own [of demo_web demo_env, unfolded m, OF _ demo_orderly demo_runs(2) r b]
  show ?thesis by auto
qed

end
