(* ===== verification/PF_Keys.thy ===== *)
theory PF_Keys
  imports Txn_Verifier Caller
begin

text \<open>
  PingFederate's keys and the verification of the tokens it issues
  (\<open>pkg/pingfederate/jwks_resolver.go\<close>, \<open>verifier.go\<close>, \<open>oidc.go\<close>): the key resolver of the strict
  verifier, the legacy transaction JWT verifier and the ID token verifier. go-jose is the
  parameter \<open>lib\<close>; \<open>answer\<close> is what the JWKS endpoint answers to the request of the call (a request
  that cannot be made or sent gives \<open>None\<close>).
\<close>

section \<open>What go-jose does\<close>

text \<open>\<open>jwt.Claims\<close>, and the two claim sets that embed it.\<close>

record jwt_claims =
  jc_issuer :: string
  jc_subject :: string
  jc_audience :: "string list"
  jc_id :: string
  jc_expiry :: "time option"
  jc_not_before :: "time option"
  jc_issued_at :: "time option"

record legacy_wire = jwt_claims +
  lw_agent_id :: string
  lw_agent_instance_id :: string
  lw_workload_id :: string
  lw_transaction_id :: string
  lw_purpose :: string
  lw_scope :: string

record oidc_claims = jwt_claims +
  oc_nonce :: string
  oc_azp :: string

text \<open>
  \<open>ParseSigned\<close> gives the JWS and the key IDs of its headers; \<open>Claims(key, dest)\<close> checks the signature
  and decodes; a key set is the list of key IDs with their keys (\<open>None\<close> is a nil key);
  \<open>ValidateWithLeeway\<close> is given issuer, audience and time.
\<close>

record 'j jose_lib =
  jl_parse_signed :: "string \<Rightarrow> string list \<Rightarrow> ('j \<times> string list) option"
  jl_claims :: "'j \<Rightarrow> string option \<Rightarrow> legacy_wire option"
  jl_oidc_claims :: "'j \<Rightarrow> string option \<Rightarrow> oidc_claims option"
  jl_unmarshal_jwks :: "string \<Rightarrow> (string \<times> string option) list option"
  jl_validate :: "string \<Rightarrow> string \<Rightarrow> time \<Rightarrow> duration \<Rightarrow> jwt_claims \<Rightarrow> bool"

text \<open>\<open>JSONWebKeySet.Key\<close>.\<close>

definition keys_named :: "(string \<times> string option) list \<Rightarrow> string \<Rightarrow> string option list" where
  "keys_named ks kid = map snd (filter (\<lambda>(k, _). k = kid) ks)"

section \<open>The key resolver (\<open>jwks_resolver.go\<close>)\<close>

datatype jwks_error =
  JwksInvalidConfiguration | JwksInvalidKeyID | JwksRequestFailed | JwksRejected | JwksInvalidResponse
  | JwksUnknownKey

record jwks_resolver =
  jr_endpoint :: url
  jr_maximum :: int

definition new_jwks_key_resolver ::
  "(string \<Rightarrow> string option) \<Rightarrow> string \<Rightarrow> duration option \<Rightarrow> int \<Rightarrow> jwks_error + jwks_resolver" where
  "new_jwks_key_resolver ip_literal endpoint client maximum =
     (case url_parse ip_literal (trim_space endpoint) of
        None \<Rightarrow> Inl JwksInvalidConfiguration
      | Some u \<Rightarrow>
          if \<not> bare_https_endpoint u \<or> (case client of None \<Rightarrow> True | Some timeout \<Rightarrow> timeout \<le> 0) \<or> maximum \<le> 0
          then Inl JwksInvalidConfiguration
          else Inr \<lparr>jr_endpoint = u, jr_maximum = maximum\<rparr>)"

text \<open>\<open>scanJSON\<close> and \<open>rejectDuplicateJSON\<close> are the scan of the strict verifier, token for token.\<close>

definition scan_json :: "jtoken list \<Rightarrow> json_error + jtoken list" where
  "scan_json ts = scan_json_value ts"

definition reject_duplicate_json :: "jtoken list \<Rightarrow> json_error option" where
  "reject_duplicate_json ts =
     (case scan_json ts of
        Inl e \<Rightarrow> Some e
      | Inr r \<Rightarrow> (case token r of Inl Eof \<Rightarrow> None | _ \<Rightarrow> Some Trailing))"

definition resolve_verification_key ::
  "'j jose_lib \<Rightarrow> (string \<Rightarrow> jtoken list) \<Rightarrow> jwks_resolver \<Rightarrow> (nat \<times> request_body) option \<Rightarrow> string
    \<Rightarrow> jwks_error + string" where
  "resolve_verification_key lib lexer r answer kid =
     (if blank kid \<or> length kid > 256 \<or> trim_space kid \<noteq> kid then Inl JwksInvalidKeyID
      else case answer of
        None \<Rightarrow> Inl JwksRequestFailed
      | Some (status, body) \<Rightarrow>
          if status \<noteq> 200 then Inl JwksRejected
          else (case read_body (jr_maximum r) body of
             None \<Rightarrow> Inl JwksInvalidResponse
           | Some bytes \<Rightarrow>
               if reject_duplicate_json (lexer bytes) \<noteq> None then Inl JwksInvalidResponse
               else (case jl_unmarshal_jwks lib bytes of
                  None \<Rightarrow> Inl JwksInvalidResponse
                | Some ks \<Rightarrow>
                    if length ks = 0 then Inl JwksInvalidResponse
                    else (case keys_named ks kid of
                       [Some key] \<Rightarrow> Inr key
                     | _ \<Rightarrow> Inl JwksUnknownKey))))"

section \<open>The legacy verifier (\<open>verifier.go\<close>)\<close>

datatype jwt_error =
    JwtInvalidConfiguration | JwtInputRequired | JwtParseFailed | JwtAmbiguousKeyID | JwtKeysRequestFailed
  | JwtKeysRejected | JwtKeysReadFailed | JwtInvalidKeys | JwtUnknownKey | JwtSignatureInvalid
  | JwtStandardClaims | JwtRequiredClaims | JwtIssuedInFuture | JwtAmbiguousAudience

record jwt_verifier =
  jv_issuer :: string
  jv_algorithms :: "string list"
  jv_clock_skew :: duration

definition new_jwt_verifier ::
  "(string \<Rightarrow> string option) \<Rightarrow> string \<Rightarrow> string \<Rightarrow> string list \<Rightarrow> duration \<Rightarrow> duration option \<Rightarrow> jwt_error + jwt_verifier" where
  "new_jwt_verifier ip_literal iss jwks_url algorithms skew client =
     (if (case url_parse ip_literal iss of None \<Rightarrow> True | Some u \<Rightarrow> url_scheme u \<noteq> ''https'' \<or> url_host u = [])
         \<or> (case url_parse ip_literal jwks_url of None \<Rightarrow> True | Some u \<Rightarrow> url_scheme u \<noteq> ''https'' \<or> url_host u = [])
         \<or> length algorithms = 0 \<or> (case client of None \<Rightarrow> True | Some timeout \<Rightarrow> timeout \<le> 0) \<or> skew < 0
      then Inl JwtInvalidConfiguration
      else Inr \<lparr>jv_issuer = iss, jv_algorithms = algorithms, jv_clock_skew = skew\<rparr>)"

definition fetch_keys ::
  "'j jose_lib \<Rightarrow> (nat \<times> request_body) option \<Rightarrow> jwt_error + (string \<times> string option) list" where
  "fetch_keys lib answer =
     (case answer of
        None \<Rightarrow> Inl JwtKeysRequestFailed
      | Some (status, body) \<Rightarrow>
          if status \<noteq> 200 then Inl JwtKeysRejected
          else (case read_limited 1048576 body of
             None \<Rightarrow> Inl JwtKeysReadFailed
           | Some bytes \<Rightarrow>
               (case jl_unmarshal_jwks lib bytes of
                  None \<Rightarrow> Inl JwtInvalidKeys
                | Some ks \<Rightarrow> if length ks = 0 then Inl JwtInvalidKeys else Inr ks)))"

text \<open>The part both verifiers share: the signature of one header checked with the one key it names.\<close>

definition signed_claims ::
  "'j jose_lib \<Rightarrow> jwt_verifier \<Rightarrow> ('j \<Rightarrow> string option \<Rightarrow> 'c option) \<Rightarrow> (nat \<times> request_body) option \<Rightarrow> string \<Rightarrow> jwt_error + 'c" where
  "signed_claims lib v claims_with answer raw =
     (case jl_parse_signed lib raw (jv_algorithms v) of
        None \<Rightarrow> Inl JwtParseFailed
      | Some (jws, kids) \<Rightarrow>
          if length kids \<noteq> 1 \<or> hd kids = [] then Inl JwtAmbiguousKeyID
          else (case fetch_keys lib answer of
             Inl e \<Rightarrow> Inl e
           | Inr ks \<Rightarrow>
               (case keys_named ks (hd kids) of
                  [key] \<Rightarrow>
                    (case claims_with jws key of None \<Rightarrow> Inl JwtSignatureInvalid | Some c \<Rightarrow> Inr c)
                | _ \<Rightarrow> Inl JwtUnknownKey)))"

definition time_or_zero :: "time option \<Rightarrow> time" where
  "time_or_zero t = (case t of None \<Rightarrow> 0 | Some u \<Rightarrow> u)"

definition claims_of_legacy :: "legacy_wire \<Rightarrow> claims" where
  "claims_of_legacy w =
     \<lparr>issuer = jc_issuer w, subject = jc_subject w, audience = jc_audience w, jwt_id = jc_id w,
      claims_agent_id = lw_agent_id w, claims_agent_instance_id = lw_agent_instance_id w,
      claims_workload_id = lw_workload_id w, claims_transaction_id = lw_transaction_id w,
      claims_purpose = lw_purpose w, claims_scope = go_fields (lw_scope w),
      issued_at = time_or_zero (jc_issued_at w), not_before = time_or_zero (jc_not_before w),
      expires_at = time_or_zero (jc_expiry w)\<rparr>"

definition jwt_verify ::
  "'j jose_lib \<Rightarrow> jwt_verifier \<Rightarrow> time \<Rightarrow> (nat \<times> request_body) option \<Rightarrow> string \<Rightarrow> string \<Rightarrow> jwt_error + claims" where
  "jwt_verify lib v now answer raw required =
     (if blank raw \<or> blank required then Inl JwtInputRequired
      else case signed_claims lib v (jl_claims lib) answer raw of
        Inl e \<Rightarrow> Inl e
      | Inr w \<Rightarrow>
          if \<not> jl_validate lib (jv_issuer v) required now (jv_clock_skew v) (jwt_claims.truncate w)
          then Inl JwtStandardClaims
          else if claims_validate (claims_of_legacy w) now (jv_clock_skew v) \<noteq> None then Inl JwtRequiredClaims
          else Inr (claims_of_legacy w))"

section \<open>ID tokens (\<open>oidc.go\<close>)\<close>

definition verify_id_token ::
  "'j jose_lib \<Rightarrow> jwt_verifier \<Rightarrow> time \<Rightarrow> (nat \<times> request_body) option \<Rightarrow> string \<Rightarrow> string \<Rightarrow> string \<Rightarrow> jwt_error + string" where
  "verify_id_token lib v now answer raw client nonce =
     (if blank raw \<or> blank client \<or> blank nonce then Inl JwtInputRequired
      else case signed_claims lib v (jl_oidc_claims lib) answer raw of
        Inl e \<Rightarrow> Inl e
      | Inr c \<Rightarrow>
          if \<not> jl_validate lib (jv_issuer v) client now (jv_clock_skew v) (jwt_claims.truncate c)
          then Inl JwtStandardClaims
          else if jc_subject c = [] \<or> oc_nonce c \<noteq> nonce then Inl JwtRequiredClaims
          else (case (jc_expiry c, jc_issued_at c) of
             (Some _, Some iat) \<Rightarrow>
               if iat > now + jv_clock_skew v then Inl JwtIssuedInFuture
               else if length (jc_audience c) > 1 \<and> oc_azp c \<noteq> client then Inl JwtAmbiguousAudience
               else Inr (jc_subject c)
           | _ \<Rightarrow> Inl JwtRequiredClaims))"

section \<open>What acceptance says\<close>

text \<open>A set has exactly one key under an ID, and it is \<open>key\<close>.\<close>

definition only_key :: "(string \<times> string option) list \<Rightarrow> string \<Rightarrow> string option \<Rightarrow> bool" where
  "only_key ks kid key \<longleftrightarrow> (\<exists>as bs. ks = as @ (kid, key) # bs \<and> kid \<notin> fst ` set as \<and> kid \<notin> fst ` set bs)"

lemma keys_named_single: "keys_named ks kid = [key] \<longleftrightarrow> only_key ks kid key"
proof
  assume "keys_named ks kid = [key]"
  then obtain p where p: "filter (\<lambda>(k, _). k = kid) ks = [p]" "snd p = key"
    by (auto simp: keys_named_def map_eq_Cons_conv)
  from p(1) have "p \<in> set (filter (\<lambda>(k, _). k = kid) ks)" by simp
  with p(2) have e: "p = (kid, key)" by auto
  from p(1) [unfolded e filter_eq_Cons_iff] obtain as bs where ks: "ks = as @ (kid, key) # bs"
    and a: "\<forall>u\<in>set as. \<not> (case u of (k, _) \<Rightarrow> k = kid)" and b: "[] = filter (\<lambda>(k, _). k = kid) bs" by auto
  from b have "\<forall>u\<in>set bs. \<not> (case u of (k, _) \<Rightarrow> k = kid)" by (metis filter_empty_conv)
  with ks a show "only_key ks kid key" unfolding only_key_def by (intro exI [of _ as] exI [of _ bs]) auto
next
  assume "only_key ks kid key"
  then obtain as bs where "ks = as @ (kid, key) # bs" "kid \<notin> fst ` set as" "kid \<notin> fst ` set bs"
    unfolding only_key_def by blast
  moreover from this have "filter (\<lambda>(k, _). k = kid) as = []" "filter (\<lambda>(k, _). k = kid) bs = []"
    by (force simp: filter_empty_conv)+
  ultimately show "keys_named ks kid = [key]" by (simp add: keys_named_def)
qed

text \<open>The keys the endpoint served.\<close>

definition served_keys :: "'j jose_lib \<Rightarrow> int \<Rightarrow> (nat \<times> request_body) option \<Rightarrow> (string \<times> string option) list \<Rightarrow> bool" where
  "served_keys lib limit answer ks \<longleftrightarrow>
     (\<exists>body bytes. answer = Some (200, body) \<and> bytes = take (nat limit) (body_bytes body)
        \<and> jl_unmarshal_jwks lib bytes = Some ks)"

lemma resolve_verification_key_Inr:
  assumes "0 < jr_maximum r"
  shows "resolve_verification_key lib lexer r answer kid = Inr key \<longleftrightarrow>
     \<not> blank kid \<and> length kid \<le> 256 \<and> trim_space kid = kid
     \<and> (\<exists>body ks. answer = Some (200, body) \<and> int (length (body_bytes body)) \<le> jr_maximum r \<and> \<not> body_fails body
          \<and> reject_duplicate_json (lexer (body_bytes body)) = None
          \<and> jl_unmarshal_jwks lib (body_bytes body) = Some ks \<and> only_key ks kid (Some key))"
proof -
  have one: "(case xs of [Some k] \<Rightarrow> Inr k | _ \<Rightarrow> Inl e) = Inr key \<longleftrightarrow> xs = [Some key]" for xs :: "string option list" and e :: jwks_error
    by (auto split: list.splits option.splits)
  have ne: "only_key ks kid k \<Longrightarrow> ks \<noteq> []" for ks k by (auto simp: only_key_def)
  have b: "read_body (jr_maximum r) body =
      (if int (length (body_bytes body)) \<le> jr_maximum r \<and> \<not> body_fails body then Some (body_bytes body) else None)" for body
    using assms by (simp add: read_body_code)
  show ?thesis
    unfolding resolve_verification_key_def
    by (auto simp: one b keys_named_single dest: ne split: option.splits prod.splits if_splits)
qed

lemma signed_claims_Inr:
  assumes "signed_claims lib v claims_with answer raw = Inr c"
  shows "\<exists>jws kid ks key. jl_parse_signed lib raw (jv_algorithms v) = Some (jws, [kid]) \<and> kid \<noteq> []
    \<and> fetch_keys lib answer = Inr ks \<and> only_key ks kid key \<and> claims_with jws key = Some c"
proof -
  have one: "length kids \<noteq> Suc 0 \<longleftrightarrow> (\<forall>k. kids \<noteq> [k])" for kids :: "string list" by (cases kids) auto
  from assms show ?thesis
    unfolding signed_claims_def keys_named_single [symmetric]
    by (auto simp: one split: option.splits prod.splits if_splits sum.splits list.splits)
qed

lemma fetch_keys_served: "fetch_keys lib answer = Inr ks \<Longrightarrow> served_keys lib 1048576 answer ks"
  unfolding fetch_keys_def served_keys_def
  by (auto simp: read_limited_def split: option.splits prod.splits if_splits)

end
