(* ===== verification/PF_Facts.thy ===== *)
theory PF_Facts
  imports PF_Keys
begin

text \<open>
  What the tokens PingFederate's clients accept are: the interface between the strict verifier and
  its key resolver, and what the legacy and the ID token verifier accept.
\<close>

section \<open>The key resolver of the strict verifier\<close>

text \<open>
  \<open>KeyResolver\<close> in \<open>pkg/transaction\<close>: a key it returns for a key ID is one that is trusted under it.
\<close>

locale verification_keys =
  fixes resolve :: "string \<Rightarrow> unit + string option" and trusted :: "string \<Rightarrow> string \<Rightarrow> bool"
  assumes resolved: "resolve kid = Inr (Some key) \<Longrightarrow> trusted kid key"
begin

lemma signed_by_trusted:
  assumes "txn_verify (lib\<lparr>vl_resolve_key := resolve\<rparr>) v now cancelled raw = Inr cl"
  shows "\<exists>jws h key payload. vl_parse_signed lib raw (vc_algorithms (v_config v)) = Some (jws, [h])
    \<and> trusted (jh_key_id (fst h)) key \<and> vl_verify_signature lib jws key = Some payload"
proof -
  from assms obtain payload where "verify_payload (lib\<lparr>vl_resolve_key := resolve\<rparr>) v cancelled raw = Inr payload"
    by (rule txn_verify_Inr)
  from verify_payload_Inr(1) [OF this] obtain jws h key where
    h: "vl_parse_signed lib raw (vc_algorithms (v_config v)) = Some (jws, [h])" "vl_verify_signature lib jws key = Some payload"
    and "resolve (jh_key_id (fst h)) = Inr (Some key)" by auto
  from resolved [OF this(3)] h show ?thesis by blast
qed

lemma untrusted_rejected:
  assumes "\<And>kid key. \<not> trusted kid key"
  shows "txn_verify (lib\<lparr>vl_resolve_key := resolve\<rparr>) v now cancelled raw \<noteq> Inr cl"
  using signed_by_trusted assms by blast

end

text \<open>The resolver on the JWKS endpoint: \<open>answers\<close> gives what the endpoint answers when asked for a key ID.\<close>

definition jwks_resolve ::
  "'j jose_lib \<Rightarrow> (string \<Rightarrow> jtoken list) \<Rightarrow> jwks_resolver \<Rightarrow> (string \<Rightarrow> (nat \<times> request_body) option)
    \<Rightarrow> string \<Rightarrow> unit + string option" where
  "jwks_resolve lib lexer r answers kid =
     (case resolve_verification_key lib lexer r (answers kid) kid of Inl _ \<Rightarrow> Inl () | Inr key \<Rightarrow> Inr (Some key))"

definition jwks_trusted ::
  "'j jose_lib \<Rightarrow> (string \<Rightarrow> jtoken list) \<Rightarrow> (string \<Rightarrow> (nat \<times> request_body) option) \<Rightarrow> string \<Rightarrow> string \<Rightarrow> bool" where
  "jwks_trusted lib lexer answers kid key \<longleftrightarrow>
     (\<exists>body ks. answers kid = Some (200, body) \<and> reject_duplicate_json (lexer (body_bytes body)) = None
        \<and> jl_unmarshal_jwks lib (body_bytes body) = Some ks \<and> only_key ks kid (Some key))"

lemma jwks_resolve_trusted:
  assumes "0 < jr_maximum r" "jwks_resolve lib lexer r answers kid = Inr (Some key)"
  shows "jwks_trusted lib lexer answers kid key"
proof -
  from assms(2) have "resolve_verification_key lib lexer r (answers kid) kid = Inr key"
    by (simp add: jwks_resolve_def split: sum.splits)
  then show ?thesis unfolding resolve_verification_key_Inr [OF assms(1)] jwks_trusted_def by blast
qed

text \<open>A resolver that \<open>NewJWKSKeyResolver\<close> built reads at least a byte; one that was not built resolves nothing.\<close>

definition built_resolve ::
  "'j jose_lib \<Rightarrow> (string \<Rightarrow> jtoken list) \<Rightarrow> jwks_error + jwks_resolver \<Rightarrow> (string \<Rightarrow> (nat \<times> request_body) option)
    \<Rightarrow> string \<Rightarrow> unit + string option" where
  "built_resolve lib lexer built answers kid =
     (case built of Inl _ \<Rightarrow> Inl () | Inr r \<Rightarrow> jwks_resolve lib lexer r answers kid)"

lemma new_jwks_key_resolver_Inr:
  "new_jwks_key_resolver ip endpoint client maximum = Inr r \<Longrightarrow> jr_maximum r = maximum \<and> 0 < maximum"
  by (auto simp: new_jwks_key_resolver_def split: option.splits if_splits)

interpretation jwks: verification_keys
  "built_resolve lib lexer (new_jwks_key_resolver ip endpoint client maximum) answers" "jwks_trusted lib lexer answers"
  for lib lexer ip endpoint client maximum answers
  by unfold_locales
    (auto simp: built_resolve_def split: sum.splits dest: new_jwks_key_resolver_Inr intro: jwks_resolve_trusted)

section \<open>What the verifiers of JWTs accept\<close>

text \<open>The token has one header, whose key ID names exactly one of the keys served; its claims are those that key verifies.\<close>

definition served_claims ::
  "'j jose_lib \<Rightarrow> jwt_verifier \<Rightarrow> ('j \<Rightarrow> string option \<Rightarrow> 'c option) \<Rightarrow> (nat \<times> request_body) option \<Rightarrow> string \<Rightarrow> 'c \<Rightarrow> bool" where
  "served_claims lib v claims_with answer raw c \<longleftrightarrow>
     (\<exists>jws kid ks key. jl_parse_signed lib raw (jv_algorithms v) = Some (jws, [kid]) \<and> kid \<noteq> []
        \<and> served_keys lib 1048576 answer ks \<and> only_key ks kid key \<and> claims_with jws key = Some c)"

lemma signed_claims_served: "signed_claims lib v claims_with answer raw = Inr c \<Longrightarrow> served_claims lib v claims_with answer raw c"
proof -
  assume "signed_claims lib v claims_with answer raw = Inr c"
  from signed_claims_Inr [OF this] obtain jws kid ks key where
    k: "jl_parse_signed lib raw (jv_algorithms v) = Some (jws, [kid])" "kid \<noteq> []" "only_key ks kid key" "claims_with jws key = Some c"
    and "fetch_keys lib answer = Inr ks" by blast
  from fetch_keys_served [OF this(5)] k show ?thesis unfolding served_claims_def by blast
qed

lemma jwt_verify_served:
  assumes "jwt_verify lib v now answer raw required = Inr cl"
  shows "\<exists>w. served_claims lib v (jl_claims lib) answer raw w \<and> cl = claims_of_legacy w
    \<and> jl_validate lib (jv_issuer v) required now (jv_clock_skew v) (jwt_claims.truncate w)
    \<and> claims_validate cl now (jv_clock_skew v) = None"
proof -
  from assms obtain w where w: "signed_claims lib v (jl_claims lib) answer raw = Inr w" "cl = claims_of_legacy w"
    "jl_validate lib (jv_issuer v) required now (jv_clock_skew v) (jwt_claims.truncate w)"
    "claims_validate (claims_of_legacy w) now (jv_clock_skew v) = None"
    by (auto simp: jwt_verify_def split: if_splits sum.splits)
  from signed_claims_served [OF w(1)] w show ?thesis by blast
qed

lemma verify_id_token_served:
  assumes "verify_id_token lib v now answer raw client nonce = Inr user"
  shows "\<exists>c. served_claims lib v (jl_oidc_claims lib) answer raw c \<and> user = jc_subject c \<and> user \<noteq> []
    \<and> jl_validate lib (jv_issuer v) client now (jv_clock_skew v) (jwt_claims.truncate c)
    \<and> oc_nonce c = nonce \<and> \<not> blank nonce \<and> jc_expiry c \<noteq> None
    \<and> (\<exists>iat. jc_issued_at c = Some iat \<and> iat \<le> now + jv_clock_skew v)
    \<and> (length (jc_audience c) \<le> 1 \<or> oc_azp c = client)"
proof -
  from assms obtain c iat where c: "signed_claims lib v (jl_oidc_claims lib) answer raw = Inr c" "user = jc_subject c"
    "user \<noteq> []" "jl_validate lib (jv_issuer v) client now (jv_clock_skew v) (jwt_claims.truncate c)"
    "oc_nonce c = nonce" "\<not> blank nonce" "jc_expiry c \<noteq> None" "jc_issued_at c = Some iat" "iat \<le> now + jv_clock_skew v"
    "length (jc_audience c) \<le> 1 \<or> oc_azp c = client"
    by (auto simp: verify_id_token_def split: if_splits sum.splits option.splits)
  from signed_claims_served [OF c(1)] c show ?thesis by blast
qed

end
