(* ===== verification/Web_Login.thy ===== *)
theory Web_Login
  imports Web_Facts PF_Facts
begin

text \<open>
  The login of the web application (\<open>pkg/webapp\<close>) with the ID token verifier of
  \<open>pkg/pingfederate/oidc.go\<close> behind it: the interface between the two, and what a session then says
  about its user.
\<close>

section \<open>The run of a callback\<close>

text \<open>
  A callback that redirects into the application, world by world: the clock is read, the flow of the
  state taken, the code exchanged, the ID token of the answer verified, a session opened.
\<close>

lemma web_callback_run:
  assumes "run_state (web_callback env h rq) w = (ws, w')" and "status_of ws = 303"
  obtains k code now w1 flow s answer w2 t user w3 where
    "callback_of rq = Some (k, code)" "run_state (we_now env) w = (now, w1)"
    "take_flow now k (ww_state w1) = (Some flow, s)"
    "run_state (web_exchange env (wh_config h) code (pa_verifier flow)) (w1\<lparr>ww_state := s\<rparr>) = (Some t, w2)"
    "tok_refresh_token t = []"
    "run_state (we_verify_id env (tok_id_token t) (wcf_client_id (wh_config h)) (pa_nonce flow)) w2 = (Some user, w3)"
    "\<not> blank user" "run_state (establish env h now user (tok_access_token t)) w3 = (ws, w')"
proof -
  obtain k code where cb: "callback_of rq = Some (k, code)"
    and run: "run_state (do {
        now \<leftarrow> we_now env;
        taken \<leftarrow> atomic (take_flow now k);
        (case taken of None \<Rightarrow> give web_unauthorized | Some flow \<Rightarrow> redeem env h now code flow) }) w = (ws, w')"
    using assms by (auto simp: callback_of_def web_callback_def Let_def split: prod.splits if_splits)
  from run obtain now w1 taken s where now: "run_state (we_now env) w = (now, w1)"
    and take: "take_flow now k (ww_state w1) = (taken, s)"
    and rest: "run_state (case taken of None \<Rightarrow> give web_unauthorized | Some flow \<Rightarrow> redeem env h now code flow)
      (w1\<lparr>ww_state := s\<rparr>) = (ws, w')"
    by (auto simp: atomic_def split: prod.splits)
  from rest assms(2) obtain flow where flow: "taken = Some flow"
    and red: "run_state (redeem env h now code flow) (w1\<lparr>ww_state := s\<rparr>) = (ws, w')"
    by (cases taken) auto
  from red assms(2) obtain t w2 user w3 where
    "run_state (web_exchange env (wh_config h) code (pa_verifier flow)) (w1\<lparr>ww_state := s\<rparr>) = (Some t, w2)"
    "tok_refresh_token t = []"
    "run_state (we_verify_id env (tok_id_token t) (wcf_client_id (wh_config h)) (pa_nonce flow)) w2 = (Some user, w3)"
    "\<not> blank user" "run_state (establish env h now user (tok_access_token t)) w3 = (ws, w')"
    unfolding redeem_def by (auto split: prod.splits option.splits if_splits)
  with that cb now take flow show thesis by blast
qed

lemma web_exchange_run:
  assumes "run_state (web_exchange env c code verifier) w = (Some t, w')"
  shows "\<exists>answer. run_state (we_token env \<lparr>tr_url = wcf_token_endpoint c, tr_form = token_form c code verifier,
      tr_basic_user = wcf_client_id c, tr_basic_password = wcf_client_secret c\<rparr>) w = (answer, w')
    \<and> token_answer (we_lexer env) answer = Some t"
  using assms by (auto simp: web_exchange_def split: prod.splits)

text \<open>The session is there when the callback returns, under the identifier of its cookie.\<close>

lemma establish_run:
  assumes "run_state (establish env h now user a) w = (ws, w')" and "status_of ws = 303"
  shows "\<exists>i x. lookup (ws_sessions (ww_state w')) i = Some x \<and> se_subject x = user \<and> se_access_token x = a
    \<and> se_expires x = now + wcf_session_ttl (wh_config h)
    \<and> ws = [SetCookie (session_cookie (wh_config h) i (whole_seconds (wcf_session_ttl (wh_config h)))), Redirect ''/'' 303]"
  using assms
  by (auto simp: establish_def atomic_def open_session_def Let_def split: prod.splits option.splits if_splits)

section \<open>The interface\<close>

text \<open>
  \<open>IDTokenVerifier\<close>: when it returns a subject, the token is genuine, as the world stood at that call.
\<close>

locale id_tokens =
  fixes verify :: "string \<Rightarrow> string \<Rightarrow> string \<Rightarrow> ('w, string option) web"
    and genuine :: "'w \<Rightarrow> string \<Rightarrow> string \<Rightarrow> string \<Rightarrow> string \<Rightarrow> bool"
  assumes verified: "run_state (verify raw client nonce) w = (Some user, w') \<Longrightarrow> genuine (ww_out w) raw client nonce user"
begin

text \<open>Whoever logs in does so with the ID token of his code and the nonce of the flow he consumed.\<close>

lemma login_genuine:
  assumes "run_state (web_callback (env\<lparr>we_verify_id := verify\<rparr>) h rq) w = (ws, w')" and "status_of ws = 303"
  shows "\<exists>k code now w1 flow s answer w2 t i x. callback_of rq = Some (k, code)
    \<and> run_state (we_now env) w = (now, w1) \<and> take_flow now k (ww_state w1) = (Some flow, s)
    \<and> run_state (we_token env \<lparr>tr_url = wcf_token_endpoint (wh_config h),
        tr_form = token_form (wh_config h) code (pa_verifier flow), tr_basic_user = wcf_client_id (wh_config h),
        tr_basic_password = wcf_client_secret (wh_config h)\<rparr>) (w1\<lparr>ww_state := s\<rparr>) = (answer, w2)
    \<and> token_answer (we_lexer env) answer = Some t
    \<and> genuine (ww_out w2) (tok_id_token t) (wcf_client_id (wh_config h)) (pa_nonce flow) (se_subject x)
    \<and> lookup (ws_sessions (ww_state w')) i = Some x \<and> se_access_token x = tok_access_token t
    \<and> ws = [SetCookie (session_cookie (wh_config h) i (whole_seconds (wcf_session_ttl (wh_config h)))), Redirect ''/'' 303]"
proof -
  let ?e = "env\<lparr>we_verify_id := verify\<rparr>"
  obtain k code now w1 flow s w2 t user w3 where
    r: "callback_of rq = Some (k, code)" "run_state (we_now ?e) w = (now, w1)"
      "take_flow now k (ww_state w1) = (Some flow, s)"
    and ex: "run_state (web_exchange ?e (wh_config h) code (pa_verifier flow)) (w1\<lparr>ww_state := s\<rparr>) = (Some t, w2)"
    and "tok_refresh_token t = []"
    and ver: "run_state (we_verify_id ?e (tok_id_token t) (wcf_client_id (wh_config h)) (pa_nonce flow)) w2 = (Some user, w3)"
    and "\<not> blank user"
    and est: "run_state (establish ?e h now user (tok_access_token t)) w3 = (ws, w')"
    by (rule web_callback_run [OF assms])
  from ver have "genuine (ww_out w2) (tok_id_token t) (wcf_client_id (wh_config h)) (pa_nonce flow) user"
    by (intro verified) simp
  note gen = this
  from r have r': "run_state (we_now env) w = (now, w1)" by simp
  from web_exchange_run [OF ex] obtain answer where
    a: "run_state (we_token env \<lparr>tr_url = wcf_token_endpoint (wh_config h),
        tr_form = token_form (wh_config h) code (pa_verifier flow), tr_basic_user = wcf_client_id (wh_config h),
        tr_basic_password = wcf_client_secret (wh_config h)\<rparr>) (w1\<lparr>ww_state := s\<rparr>) = (answer, w2)"
      "token_answer (we_lexer env) answer = Some t" by auto
  from establish_run [OF est assms(2)] obtain i x where
    x: "lookup (ws_sessions (ww_state w')) i = Some x" "se_access_token x = tok_access_token t"
      "ws = [SetCookie (session_cookie (wh_config h) i (whole_seconds (wcf_session_ttl (wh_config h)))), Redirect ''/'' 303]"
    and user: "se_subject x = user" by blast
  from gen have g: "genuine (ww_out w2) (tok_id_token t) (wcf_client_id (wh_config h)) (pa_nonce flow) (se_subject x)"
    unfolding user .
  show ?thesis by (rule exI conjI r(1) r' r(3) a g x)+
qed

end

section \<open>PingFederate's verifier\<close>

text \<open>
  \<open>outside\<close> is the call's view of the world: the JWKS endpoint answers, then the clock is read.
\<close>

definition pf_verify_id ::
  "'j jose_lib \<Rightarrow> jwt_verifier \<Rightarrow> ('w \<Rightarrow> time \<times> (nat \<times> request_body) option \<times> 'w)
    \<Rightarrow> string \<Rightarrow> string \<Rightarrow> string \<Rightarrow> ('w, string option) web" where
  "pf_verify_id lib v outside raw client nonce =
     State (\<lambda>w. case outside (ww_out w) of (now, answer, out) \<Rightarrow>
       (case verify_id_token lib v now answer raw client nonce of Inl _ \<Rightarrow> None | Inr user \<Rightarrow> Some user,
        w\<lparr>ww_out := out\<rparr>))"

text \<open>
  A genuine ID token, as the outside answers a call in \<open>world\<close>: signed with the one key the endpoint
  then serves under its key ID, for this issuer and client, at the clock then read within its
  window, with this nonce.
\<close>

definition genuine_id_token ::
  "'j jose_lib \<Rightarrow> jwt_verifier \<Rightarrow> ('w \<Rightarrow> time \<times> (nat \<times> request_body) option \<times> 'w)
    \<Rightarrow> 'w \<Rightarrow> string \<Rightarrow> string \<Rightarrow> string \<Rightarrow> string \<Rightarrow> bool" where
  "genuine_id_token lib v outside world raw client nonce user \<longleftrightarrow>
     (\<exists>at keys out c. outside world = (at, keys, out)
        \<and> served_claims lib v (jl_oidc_claims lib) keys raw c \<and> user = jc_subject c \<and> user \<noteq> [] \<and> oc_nonce c = nonce
        \<and> jl_validate lib (jv_issuer v) client at (jv_clock_skew v) (jwt_claims.truncate c)
        \<and> jc_expiry c \<noteq> None \<and> (\<exists>iat. jc_issued_at c = Some iat \<and> iat \<le> at + jv_clock_skew v)
        \<and> (length (jc_audience c) \<le> 1 \<or> oc_azp c = client))"

interpretation pf: id_tokens "pf_verify_id lib v outside" "genuine_id_token lib v outside" for lib v outside
proof
  fix raw client nonce user and w w' :: "'b web_world"
  assume r: "run_state (pf_verify_id lib v outside raw client nonce) w = (Some user, w')"
  obtain at keys out where o: "outside (ww_out w) = (at, keys, out)" by (cases "outside (ww_out w)") auto
  with r have "verify_id_token lib v at keys raw client nonce = Inr user"
    by (cases "verify_id_token lib v at keys raw client nonce") (auto simp: pf_verify_id_def)
  from verify_id_token_served [OF this] o show "genuine_id_token lib v outside (ww_out w) raw client nonce user"
    unfolding genuine_id_token_def by blast
qed

section \<open>A demo login\<close>

definition demo_id_claims :: oidc_claims where
  "demo_id_claims =
     \<lparr>jc_issuer = ''https://pf.example'', jc_subject = ''alice'', jc_audience = [''c''], jc_id = [],
      jc_expiry = Some 2000, jc_not_before = None, jc_issued_at = Some 1000, oc_nonce = ''bjA'', oc_azp = []\<rparr>"

definition demo_jose :: "string jose_lib" where
  "demo_jose =
     \<lparr>jl_parse_signed = (\<lambda>raw algs. Some (raw, [''k1''])), jl_claims = (\<lambda>_ _. None),
      jl_oidc_claims = (\<lambda>jws key. if key = Some ''key-1'' then Some demo_id_claims else None),
      jl_unmarshal_jwks = (\<lambda>_. Some [(''k1'', Some ''key-1'')]), jl_validate = (\<lambda>iss aud now skew c. jc_issuer c = iss)\<rparr>"

definition demo_jwt_verifier :: jwt_verifier where
  "demo_jwt_verifier = \<lparr>jv_issuer = ''https://pf.example'', jv_algorithms = [''RS256''], jv_clock_skew = 5\<rparr>"

definition pf_env :: "string list web_env" where
  "pf_env = demo_env\<lparr>we_verify_id := pf_verify_id demo_jose demo_jwt_verifier
     (\<lambda>w. (1000, Some (200, \<lparr>body_bytes = ''keys'', body_fails = False\<rparr>), w))\<rparr>"

lemma pf_calls_back:
  "status_of (fst (run_state (web_callback pf_env demo_web
     (demo_web_request ''GET'' ''state=czA&code=abc'' [''oauth'', ''callback''])) demo_began)) = 303"
  by code_simp

section \<open>Properties\<close>

text \<open>
  C36. With PingFederate's ID token verifier behind it, a callback that redirects into the application
  has, in this order, read the clock, consumed the unexpired flow of its state, exchanged its code
  with the PKCE verifier of that flow, and verified the ID token of that very answer: the one key
  that the JWKS endpoint served at that call under the key ID of the token's only header verifies
  its claims; at the instant the clock gave at that call they are valid for this issuer and client,
  issued by then, with an expiry, the nonce of the flow and, for several audiences, this client as
  the authorized party. The session now stored under the identifier of the cookie is for the
  subject of those claims and holds the access token of the answer.
\<close>
theorem web_login_genuine:
  assumes "run_state (web_callback (env\<lparr>we_verify_id := pf_verify_id lib v outside\<rparr>) h rq) w = (ws, w')"
    and "status_of ws = 303"
  shows "\<exists>k code now w1 flow s answer w2 t at keys out c i x. callback_of rq = Some (k, code)
    \<and> run_state (we_now env) w = (now, w1) \<and> take_flow now k (ww_state w1) = (Some flow, s)
    \<and> run_state (we_token env \<lparr>tr_url = wcf_token_endpoint (wh_config h),
        tr_form = token_form (wh_config h) code (pa_verifier flow), tr_basic_user = wcf_client_id (wh_config h),
        tr_basic_password = wcf_client_secret (wh_config h)\<rparr>) (w1\<lparr>ww_state := s\<rparr>) = (answer, w2)
    \<and> token_answer (we_lexer env) answer = Some t
    \<and> outside (ww_out w2) = (at, keys, out)
    \<and> served_claims lib v (jl_oidc_claims lib) keys (tok_id_token t) c
    \<and> oc_nonce c = pa_nonce flow
    \<and> jl_validate lib (jv_issuer v) (wcf_client_id (wh_config h)) at (jv_clock_skew v) (jwt_claims.truncate c)
    \<and> jc_expiry c \<noteq> None \<and> (\<exists>iat. jc_issued_at c = Some iat \<and> iat \<le> at + jv_clock_skew v)
    \<and> (length (jc_audience c) \<le> 1 \<or> oc_azp c = wcf_client_id (wh_config h))
    \<and> lookup (ws_sessions (ww_state w')) i = Some x \<and> se_subject x = jc_subject c \<and> jc_subject c \<noteq> []
    \<and> se_access_token x = tok_access_token t
    \<and> ws = [SetCookie (session_cookie (wh_config h) i (whole_seconds (wcf_session_ttl (wh_config h)))), Redirect ''/'' 303]"
  using pf.login_genuine [OF assms] unfolding genuine_id_token_def by metis

theorem web_login_genuine_witness:
  "\<exists>i x. lookup (ws_sessions (ww_state (snd (run_state (web_callback pf_env demo_web
        (demo_web_request ''GET'' ''state=czA&code=abc'' [''oauth'', ''callback''])) demo_began)))) i = Some x
     \<and> se_subject x = ''alice''"
proof -
  obtain ws w' where r: "run_state (web_callback pf_env demo_web
      (demo_web_request ''GET'' ''state=czA&code=abc'' [''oauth'', ''callback''])) demo_began = (ws, w')" by fastforce
  have s: "status_of ws = 303" using pf_calls_back r by simp
  have alice: "served_claims demo_jose demo_jwt_verifier (jl_oidc_claims demo_jose) answer raw c \<Longrightarrow> jc_subject c = ''alice''"
    for answer raw c by (auto simp: served_claims_def demo_jose_def demo_id_claims_def split: if_splits)
  show ?thesis
    using web_login_genuine [OF r [unfolded pf_env_def] s] alice unfolding r by (metis snd_conv)
qed

end
