(* ===== verification/PF_Exchange.thy ===== *)
theory PF_Exchange
  imports Json_Scan Go_Form Caller
begin

text \<open>
  The token exchange client (\<open>pkg/pingfederate/exchange.go\<close>): the request it makes of an exchange, and
  the checks on the answer, with its scan for duplicate top-level keys.
\<close>

section \<open>Requests and responses\<close>

definition token_exchange_grant_type :: string where
  "token_exchange_grant_type = ''urn:ietf:params:oauth:grant-type:token-exchange''"
definition access_token_type :: string where
  "access_token_type = ''urn:ietf:params:oauth:token-type:access_token''"
definition jwt_token_type :: string where
  "jwt_token_type = ''urn:ietf:params:oauth:token-type:jwt''"

record exchange_request =
  xr_subject_token :: string
  xr_actor_token :: string
  xr_subject_token_type :: string
  xr_actor_token_type :: string
  xr_audience :: string
  xr_scope :: "string list"
  xr_transaction_id :: string
  xr_transaction_purpose :: string
  xr_agent_instance_id :: string

record exchange_response =
  xs_access_token :: string
  xs_token_type :: string
  xs_issued_token_type :: string
  xs_expires_in :: int
  xs_scope :: string

datatype exchange_error =
    InvalidExchange | ExchangeEndpointFailed | ExchangeReadFailed | ExchangeRejected nat string
  | ExchangeInvalidSuccess

type_synonym 'w exchanger = "exchange_request \<Rightarrow> 'w \<Rightarrow> (exchange_error + exchange_response) \<times> 'w"

record exchange_client =
  xc_endpoint :: url
  xc_client_id :: string
  xc_client_secret :: string

definition new_exchange_client ::
  "(string \<Rightarrow> string option) \<Rightarrow> string \<Rightarrow> string \<Rightarrow> string \<Rightarrow> duration option \<Rightarrow> exchange_error + exchange_client" where
  "new_exchange_client ip_literal endpoint client_id client_secret client =
     (case url_parse ip_literal (trim_space endpoint) of
        None \<Rightarrow> Inl InvalidExchange
      | Some u \<Rightarrow>
          if \<not> https_endpoint u then Inl InvalidExchange
          else if blank client_id \<or> client_secret = [] then Inl InvalidExchange
          else if (case client of None \<Rightarrow> True | Some timeout \<Rightarrow> timeout \<le> 0) then Inl InvalidExchange
          else Inr \<lparr>xc_endpoint = u, xc_client_id = client_id, xc_client_secret = client_secret\<rparr>)"

definition validate_exchange_request :: "exchange_request \<Rightarrow> exchange_error option" where
  "validate_exchange_request r =
     (if blank (xr_subject_token r) \<or> blank (xr_actor_token r) \<or> blank (xr_subject_token_type r)
         \<or> blank (xr_actor_token_type r) \<or> blank (xr_audience r)
      then Some InvalidExchange
      else if list_ex blank (xr_scope r) then Some InvalidExchange
      else None)"

definition exchange_form :: "exchange_request \<Rightarrow> (string \<times> string) list" where
  "exchange_form r =
     [(''grant_type'', token_exchange_grant_type), (''subject_token'', xr_subject_token r),
      (''subject_token_type'', xr_subject_token_type r), (''actor_token'', xr_actor_token r),
      (''actor_token_type'', xr_actor_token_type r), (''requested_token_type'', access_token_type),
      (''audience'', xr_audience r)]
     @ (if length (xr_scope r) > 0 then [(''scope'', join '' '' (xr_scope r))] else [])"

section \<open>Unique top-level keys\<close>

datatype fields_error = NotAnObject | FieldSyntax | FieldKey | FieldDuplicate | FieldTrailing

text \<open>Reading a value consumes tokens, so the loop over the members ends.\<close>

lemma read_progress:
  "read_value n ts = Some (v, r) \<Longrightarrow> length r < length ts"
  "read_elems n ts = Some (vs, r) \<Longrightarrow> length r < length ts"
  "read_members n ts = Some (ms, r) \<Longrightarrow> length r < length ts"
proof (induction n ts and n ts and n ts arbitrary: v r and vs r and ms r
    rule: read_value_read_elems_read_members.induct)
  case (2 n ts)
  then show ?case by (fastforce split: list.splits jtoken.splits if_splits)
next
  case (4 n ts)
  show ?case
  proof (cases "has_more ts")
    case True
    with "4.prems" obtain v r1 vs1 where "read_value n ts = Some (v, r1)" "read_elems n r1 = Some (vs1, r)"
      by (auto split: option.splits)
    with True "4.IH" have "length r1 < length ts" "length r < length r1" by auto
    then show ?thesis by linarith
  next
    case False
    with "4.prems" show ?thesis by (auto split: list.splits jtoken.splits if_splits)
  qed
next
  case (6 n ts)
  show ?case
  proof (cases "has_more ts")
    case True
    with "6.prems" obtain k r0 v r1 ms1 where "ts = TStr k # r0" "read_value n r0 = Some (v, r1)"
      "read_members n r1 = Some (ms1, r)"
      by (auto split: list.splits jtoken.splits option.splits)
    with True "6.IH" have "length r1 < length r0" "length r < length r1" "length ts = Suc (length r0)" by auto
    then show ?thesis by linarith
  next
    case False
    with "6.prems" show ?thesis by (auto split: list.splits jtoken.splits if_splits)
  qed
qed auto

lemma decode_next_length: "decode_next ts = Some (v, r) \<Longrightarrow> length r < length ts"
  unfolding decode_next_def by (rule read_progress)

function unique_fields :: "string list \<Rightarrow> jtoken list \<Rightarrow> fields_error + string list \<times> jtoken list" where
  "unique_fields names ts =
     (if \<not> has_more ts then Inr (names, ts)
      else case token ts of
        Inl _ \<Rightarrow> Inl FieldSyntax
      | Inr (t, r) \<Rightarrow>
          (case t of
             TStr key \<Rightarrow>
               if key \<in> set names then Inl FieldDuplicate
               else (case decode_next r of
                       None \<Rightarrow> Inl FieldSyntax
                     | Some (_, r') \<Rightarrow> unique_fields (names @ [key]) r')
           | _ \<Rightarrow> Inl FieldKey))"
  by pat_completeness auto

termination unique_fields
  by (relation "measure (length \<circ> snd)") (auto dest!: decode_next_length token_length)

declare unique_fields.simps [simp del]

definition unique_json_object_fields :: "jtoken list \<Rightarrow> fields_error + string list" where
  "unique_json_object_fields ts =
     (case token ts of
        Inr (TDelim d, r) \<Rightarrow>
          if d \<noteq> CHR ''{'' then Inl NotAnObject
          else (case unique_fields [] r of
             Inl e \<Rightarrow> Inl e
           | Inr (names, r') \<Rightarrow>
               (case token r' of
                  Inl _ \<Rightarrow> Inl FieldSyntax
                | Inr (_, r'') \<Rightarrow> (case token r'' of Inl Eof \<Rightarrow> Inr names | _ \<Rightarrow> Inl FieldTrailing)))
      | _ \<Rightarrow> Inl NotAnObject)"

section \<open>The answer\<close>

definition exchange_fields :: "string list" where
  "exchange_fields = [''access_token'', ''issued_token_type'', ''token_type'', ''expires_in'', ''scope'']"

definition blank_exchange_response :: exchange_response where
  "blank_exchange_response =
     \<lparr>xs_access_token = [], xs_token_type = [], xs_issued_token_type = [], xs_expires_in = 0, xs_scope = []\<rparr>"

definition exchange_response_fields :: "exchange_response field list" where
  "exchange_response_fields =
     [string_field ''access_token'' (\<lambda>s r. r\<lparr>xs_access_token := s\<rparr>),
      string_field ''issued_token_type'' (\<lambda>s r. r\<lparr>xs_issued_token_type := s\<rparr>),
      string_field ''token_type'' (\<lambda>s r. r\<lparr>xs_token_type := s\<rparr>),
      int_field ''expires_in'' (\<lambda>n r. r\<lparr>xs_expires_in := n\<rparr>),
      string_field ''scope'' (\<lambda>s r. r\<lparr>xs_scope := s\<rparr>)]"

text \<open>The success response: an object with only known keys, each once, and both required values.\<close>

definition decode_success :: "jtoken list \<Rightarrow> exchange_response option" where
  "decode_success ts =
     (case unique_json_object_fields ts of
        Inl _ \<Rightarrow> None
      | Inr names \<Rightarrow>
          if list_ex (\<lambda>f. f \<notin> set exchange_fields) names then None
          else (case decode_all ts of
             None \<Rightarrow> None
           | Some j \<Rightarrow>
               (case decode_struct exchange_response_fields False j blank_exchange_response of
                  None \<Rightarrow> None
                | Some r \<Rightarrow> if xs_access_token r = [] \<or> xs_token_type r = [] then None else Some r)))"

text \<open>The \<open>error\<close> member of a failure; whatever cannot be decoded leaves it empty.\<close>

definition error_code :: "jtoken list \<Rightarrow> string" where
  "error_code ts =
     (let code = (case decode_all ts of
          Some (JObj ms) \<Rightarrow>
            foldl (\<lambda>c (k, v). if equal_fold k ''error'' then (case v of JStr s \<Rightarrow> s | _ \<Rightarrow> c) else c) [] ms
        | _ \<Rightarrow> [])
      in if blank code then ''http_error'' else trim_space code)"

definition exchange_answer :: "(string \<Rightarrow> jtoken list) \<Rightarrow> (nat \<times> request_body) option \<Rightarrow> exchange_error + exchange_response" where
  "exchange_answer lexer answer =
     (case answer of
        None \<Rightarrow> Inl ExchangeEndpointFailed
      | Some (status, body) \<Rightarrow>
          (case read_body 1048576 body of
             None \<Rightarrow> Inl ExchangeReadFailed
           | Some bytes \<Rightarrow>
               if status < 200 \<or> status \<ge> 300 then Inl (ExchangeRejected status (error_code (lexer bytes)))
               else (case decode_success (lexer bytes) of
                  None \<Rightarrow> Inl ExchangeInvalidSuccess
                | Some r \<Rightarrow> Inr r)))"

text \<open>\<open>Exchange\<close>. \<open>post\<close> sends the form with the client's credentials to its endpoint.\<close>

definition exchange ::
  "(exchange_client \<Rightarrow> (string \<times> string) list \<Rightarrow> 'w \<Rightarrow> (nat \<times> request_body) option \<times> 'w)
    \<Rightarrow> (string \<Rightarrow> jtoken list) \<Rightarrow> exchange_client \<Rightarrow> 'w exchanger" where
  "exchange post lexer c r w =
     (case validate_exchange_request r of
        Some e \<Rightarrow> (Inl e, w)
      | None \<Rightarrow> (case post c (exchange_form r) w of (answer, w') \<Rightarrow> (exchange_answer lexer answer, w')))"

section \<open>What the client accepts\<close>

lemma decode_next_tokens [simp]: "decode_next (tokens_of v @ r) = Some (v, r)"
  unfolding decode_next_def by (rule read_value_tokens) simp

text \<open>The loop on the members of an object.\<close>

lemma unique_fields_tokens:
  "unique_fields names (concat (map (\<lambda>(k, v). TStr k # tokens_of v) ms) @ TDelim (CHR ''}'') # r) =
     (if distinct (map fst ms) \<and> set names \<inter> fst ` set ms = {}
      then Inr (names @ map fst ms, TDelim (CHR ''}'') # r) else Inl FieldDuplicate)"
proof (induction ms arbitrary: names)
  case Nil
  then show ?case by (simp add: unique_fields.simps)
next
  case (Cons e ms)
  obtain k v where e: "e = (k, v)" by (cases e)
  let ?rest = "concat (map (\<lambda>(k, v). TStr k # tokens_of v) ms) @ TDelim (CHR ''}'') # r"
  have "unique_fields names (TStr k # tokens_of v @ ?rest) =
      (if k \<in> set names then Inl FieldDuplicate else unique_fields (names @ [k]) ?rest)"
    by (subst unique_fields.simps) simp
  with Cons.IH [of "names @ [k]"] show ?case by (auto simp: e)
qed

lemma unique_json_object_fields_tokens:
  "unique_json_object_fields (tokens_of j) =
     (case j of JObj ms \<Rightarrow> if distinct (map fst ms) then Inr (map fst ms) else Inl FieldDuplicate
      | _ \<Rightarrow> Inl NotAnObject)"
  by (cases j) (simp_all add: unique_json_object_fields_def unique_fields_tokens)

lemma decode_success_tokens:
  "decode_success (tokens_of j) = Some r \<longleftrightarrow>
     (\<exists>ms. j = JObj ms \<and> distinct (map fst ms) \<and> fst ` set ms \<subseteq> set exchange_fields
        \<and> decode_members exchange_response_fields False ms blank_exchange_response = Some r
        \<and> xs_access_token r \<noteq> [] \<and> xs_token_type r \<noteq> [])"
  unfolding decode_success_def unique_json_object_fields_tokens decode_all_tokens
  by (cases j) (auto simp: list_ex_iff decode_struct_def simp del: tokens_of.simps split: option.splits if_splits)

lemma exchange_Inr:
  "exchange post lexer c r w = (Inr x, w') \<longleftrightarrow>
     validate_exchange_request r = None
     \<and> (\<exists>status body. post c (exchange_form r) w = (Some (status, body), w') \<and> 200 \<le> status \<and> status < 300
          \<and> int (length (body_bytes body)) \<le> 1048576 \<and> \<not> body_fails body
          \<and> decode_success (lexer (body_bytes body)) = Some x)"
  by (auto simp: exchange_def exchange_answer_def read_body_code split: option.splits prod.splits if_splits)

end
