(* ===== verification/Tts_Adapter.thy ===== *)
theory Tts_Adapter
  imports PF_Exchange Txn_Claims
begin

text \<open>
  The transaction token adapter (\<open>pkg/ttsadapter/handler.go\<close>): it takes an exact token exchange form
  from a workload, has PingFederate exchange the tokens, verifies what comes back and binds it to
  the calling workload. Parameters: the exchanger and the failure reporter on the world \<open>'w\<close>, the
  strict verifier, the caller of a TLS state, \<open>strings.ToLower\<close>.
\<close>

section \<open>Configuration\<close>

definition transaction_token_type :: string where
  "transaction_token_type = ''urn:ietf:params:oauth:token-type:txn_token''"

record adapter_config =
  ta_trust_domain :: string
  ta_scope :: string
  ta_endpoint_path :: string
  ta_maximum_body_bytes :: int
  ta_maximum_token_bytes :: int
  ta_maximum_expires_in :: int
  ta_has_exchanger :: bool
  ta_has_verifier :: bool
  ta_has_caller :: bool
  ta_reports :: bool

datatype adapter_error = InvalidAdapterConfiguration

definition new_adapter :: "(string \<Rightarrow> string) \<Rightarrow> adapter_config \<Rightarrow> adapter_error + adapter_config" where
  "new_adapter to_lower c =
     (if blank (ta_trust_domain c) \<or> to_lower (ta_trust_domain c) \<noteq> ta_trust_domain c
         \<or> contains_any (ta_trust_domain c) (''/:@ '' @ [CHR 0x09, CHR 0x0D, CHR 0x0A])
         \<or> blank (ta_scope c) \<or> contains_any (ta_scope c) ('' '' @ [CHR 0x09, CHR 0x0D, CHR 0x0A])
         \<or> ta_endpoint_path c = [] \<or> \<not> has_prefix (ta_endpoint_path c) ''/''
         \<or> contains_any (ta_endpoint_path c) (''?# '' @ [CHR 0x09, CHR 0x0D, CHR 0x0A])
         \<or> ta_maximum_body_bytes c \<le> 0 \<or> ta_maximum_token_bytes c \<le> 0 \<or> ta_maximum_expires_in c \<le> 0
         \<or> \<not> ta_has_exchanger c \<or> \<not> ta_has_verifier c \<or> \<not> ta_has_caller c
      then Inl InvalidAdapterConfiguration else Inr c)"

section \<open>The request\<close>

definition exact_fields :: "string list" where
  "exact_fields = [''grant_type'', ''subject_token'', ''subject_token_type'', ''actor_token'', ''actor_token_type'',
     ''requested_token_type'', ''audience'', ''scope'']"

text \<open>
  \<open>mime.ParseMediaType\<close> gives the media type of a form and no parameters: all of the value before
  the first semicolon, lower-cased and trimmed; after it nothing, or a trailing semicolon.
\<close>

definition form_media_type :: "(string \<Rightarrow> string) \<Rightarrow> string \<Rightarrow> bool" where
  "form_media_type to_lower v =
     (case cut (CHR '';'') v of
        (base, rest, found) \<Rightarrow>
          trim_space (to_lower base) = ''application/x-www-form-urlencoded'' \<and> (\<not> found \<or> blank rest))"

text \<open>Every field is there once, non-empty and trimmed; the values that have to be exact are.\<close>

definition exact_form :: "adapter_config \<Rightarrow> form \<Rightarrow> bool" where
  "exact_form c f =
     (length f = length exact_fields
      \<and> list_all (\<lambda>name. case lookup f name of
            Some [v] \<Rightarrow> v \<noteq> [] \<and> trim_space v = v
          | _ \<Rightarrow> False) exact_fields
      \<and> list_all (\<lambda>(name, _). name \<in> set exact_fields) f
      \<and> form_get f ''grant_type'' = token_exchange_grant_type
      \<and> form_get f ''subject_token_type'' = access_token_type \<and> form_get f ''actor_token_type'' = jwt_token_type
      \<and> form_get f ''requested_token_type'' = transaction_token_type
      \<and> form_get f ''audience'' = ta_trust_domain c \<and> form_get f ''scope'' = ta_scope c
      \<and> int (length (form_get f ''subject_token'')) \<le> ta_maximum_token_bytes c
      \<and> int (length (form_get f ''actor_token'')) \<le> ta_maximum_token_bytes c)"

text \<open>The answer to an unacceptable request, or the caller and its form.\<close>

definition adapter_request ::
  "(string \<Rightarrow> string) \<Rightarrow> (tls_state option \<Rightarrow> 'e + string) \<Rightarrow> adapter_config \<Rightarrow> 'c web_request
    \<Rightarrow> (nat \<times> string) + string \<times> form" where
  "adapter_request to_lower caller_of c rq =
     (if rq_method rq \<noteq> ''POST'' \<or> rq_path rq \<noteq> ta_endpoint_path c \<or> rq_raw_query rq \<noteq> []
         \<or> length (rq_cookies rq) \<noteq> 0 \<or> length (header_values (rq_header rq) ''Authorization'') \<noteq> 0
      then Inl (400, ''invalid_request'')
      else if \<not> form_media_type to_lower (header_get (rq_header rq) ''Content-Type'')
      then Inl (415, ''invalid_request'')
      else case caller_of (rq_tls rq) of
        Inl _ \<Rightarrow> Inl (401, ''invalid_client'')
      | Inr caller \<Rightarrow>
          if blank caller then Inl (401, ''invalid_client'')
          else (case read_body (ta_maximum_body_bytes c) (rq_body rq) of
             None \<Rightarrow> Inl (400, ''invalid_request'')
           | Some body \<Rightarrow>
               (case parse_query body of
                  (f, good) \<Rightarrow>
                    if \<not> good \<or> \<not> exact_form c f then Inl (400, ''invalid_request'') else Inr (caller, f))))"

definition upstream_request :: "adapter_config \<Rightarrow> form \<Rightarrow> exchange_request" where
  "upstream_request c f =
     \<lparr>xr_subject_token = form_get f ''subject_token'', xr_actor_token = form_get f ''actor_token'',
      xr_subject_token_type = access_token_type, xr_actor_token_type = jwt_token_type,
      xr_audience = ta_trust_domain c, xr_scope = [ta_scope c], xr_transaction_id = [],
      xr_transaction_purpose = [], xr_agent_instance_id = []\<rparr>"

section \<open>The answer of the exchange\<close>

definition valid_upstream :: "adapter_config \<Rightarrow> exchange_response \<Rightarrow> bool" where
  "valid_upstream c u =
     (\<not> (xs_access_token u = [] \<or> int (length (xs_access_token u)) > ta_maximum_token_bytes c
         \<or> xs_token_type u \<noteq> ''Bearer'' \<or> xs_issued_token_type u \<noteq> access_token_type
         \<or> xs_expires_in u \<le> 0 \<or> xs_expires_in u > ta_maximum_expires_in c \<or> xs_scope u \<noteq> []))"

text \<open>The bindings of the verified token, in the order they are checked: the failing stage, or the lifetime.\<close>

definition bind_claims ::
  "adapter_config \<Rightarrow> string \<Rightarrow> exchange_response \<Rightarrow> txn_token_claims \<Rightarrow> string + int" where
  "bind_claims c caller u cl =
     (if txn_requesting_workload_id cl \<noteq> caller then Inl ''inner_workload_binding''
      else if txn_audience cl \<noteq> ta_trust_domain c then Inl ''inner_audience_binding''
      else if length (txn_scope cl) \<noteq> 1 \<or> txn_scope cl ! 0 \<noteq> ta_scope c then Inl ''inner_scope_binding''
      else let lifetime = time_sub (txn_expires_at cl) (txn_issued_at cl) in
        if lifetime \<le> 0 \<or> lifetime > wrap64 (ta_maximum_expires_in c * second) \<or> lifetime mod second \<noteq> 0
           \<or> wrap64 (xs_expires_in u * second) > lifetime
        then Inl ''inner_expiry_binding''
        else Inr (lifetime div second))"

section \<open>\<open>ServeHTTP\<close>\<close>

datatype adapter_body = OAuthError string | TokenBody string string string int

definition write_oauth_error :: "nat \<Rightarrow> string \<Rightarrow> adapter_body replies" where
  "write_oauth_error status code =
     [SetHeader ''Content-Type'' ''application/json'', WriteHeader status, Encode (OAuthError code)]"

record 'w adapter_env =
  te_exchange :: "'w exchanger"
  te_verify :: "string \<Rightarrow> unit + txn_token_claims"
  te_caller :: "tls_state option \<Rightarrow> unit + string"
  te_report :: "string \<Rightarrow> 'w \<Rightarrow> 'w"
  te_to_lower :: "string \<Rightarrow> string"

definition report_failure :: "'w adapter_env \<Rightarrow> adapter_config \<Rightarrow> string \<Rightarrow> 'w \<Rightarrow> 'w" where
  "report_failure env c stage w = (if ta_reports c then te_report env stage w else w)"

text \<open>From the exchange on: the stage that failed with its answer, or the token and its lifetime.\<close>

definition adapter_obtain ::
  "'w adapter_env \<Rightarrow> adapter_config \<Rightarrow> string \<Rightarrow> form \<Rightarrow> 'w \<Rightarrow> (string \<times> string + string \<times> int) \<times> 'w" where
  "adapter_obtain env c caller f w =
     (case te_exchange env (upstream_request c f) w of
        (Inl _, w') \<Rightarrow> (Inl (''upstream_exchange'', ''temporarily_unavailable''), w')
      | (Inr u, w') \<Rightarrow>
          (if \<not> valid_upstream c u then Inl (''upstream_response'', ''server_error'')
           else case te_verify env (xs_access_token u) of
             Inl _ \<Rightarrow> Inl (''inner_verification'', ''server_error'')
           | Inr cl \<Rightarrow>
               (case bind_claims c caller u cl of
                  Inl stage \<Rightarrow> Inl (stage, ''server_error'')
                | Inr expires_in \<Rightarrow> Inr (xs_access_token u, expires_in)), w'))"

definition adapter_serve :: "'w adapter_env \<Rightarrow> adapter_config \<Rightarrow> 'c web_request \<Rightarrow> 'w \<Rightarrow> adapter_body replies \<times> 'w" where
  "adapter_serve env c rq w =
     (let pre = [SetHeader ''Cache-Control'' ''no-store'', SetHeader ''Pragma'' ''no-cache''] in
      case adapter_request (te_to_lower env) (te_caller env) c rq of
        Inl (status, code) \<Rightarrow> (pre @ write_oauth_error status code, w)
      | Inr (caller, f) \<Rightarrow>
          (case adapter_obtain env c caller f w of
             (Inl (stage, code), w') \<Rightarrow> (pre @ write_oauth_error 502 code, report_failure env c stage w')
           | (Inr (tok, expires_in), w') \<Rightarrow>
               (pre @ [SetHeader ''Content-Type'' ''application/json'', WriteHeader 200,
                       Encode (TokenBody tok transaction_token_type ''N_A'' expires_in)], w')))"

section \<open>What the adapter issues\<close>

lemma exact_form_field:
  assumes "exact_form c f" "name \<in> set exact_fields"
  shows "lookup f name = Some [form_get f name] \<and> form_get f name \<noteq> [] \<and> trim_space (form_get f name) = form_get f name"
proof -
  have "case lookup f name of Some [v] \<Rightarrow> v \<noteq> [] \<and> trim_space v = v | _ \<Rightarrow> False"
    using assms unfolding exact_form_def list_all_iff by blast
  then show ?thesis by (auto simp: form_get_def form_values_def split: option.splits list.splits)
qed

lemma adapter_request_Inr:
  "adapter_request to_lower caller_of c rq = Inr (caller, f) \<longleftrightarrow>
     rq_method rq = ''POST'' \<and> rq_path rq = ta_endpoint_path c \<and> rq_raw_query rq = [] \<and> rq_cookies rq = []
     \<and> header_values (rq_header rq) ''Authorization'' = []
     \<and> form_media_type to_lower (header_get (rq_header rq) ''Content-Type'')
     \<and> caller_of (rq_tls rq) = Inr caller \<and> \<not> blank caller
     \<and> (\<exists>body. read_body (ta_maximum_body_bytes c) (rq_body rq) = Some body
          \<and> parse_query body = (f, True) \<and> exact_form c f)"
  by (auto simp: adapter_request_def split: sum.splits option.splits prod.splits if_splits)

lemma wrap64_le: "0 \<le> x \<Longrightarrow> wrap64 x \<le> x"
  using zmod_le_nonneg_dividend [of "x + 2 ^ 63" "2 ^ 64"]
  by (simp add: wrap64_def int64_min_def int64_max_def)

lemma bind_claims_Inr:
  assumes "bind_claims c caller u cl = Inr n" "0 < ta_maximum_expires_in c"
  shows "txn_requesting_workload_id cl = caller \<and> txn_audience cl = ta_trust_domain c \<and> txn_scope cl = [ta_scope c]
     \<and> txn_expires_at cl - txn_issued_at cl = n * second \<and> 0 < n \<and> n \<le> ta_maximum_expires_in c
     \<and> (is_int64 (xs_expires_in u * second) \<longrightarrow> xs_expires_in u \<le> n)"
proof -
  define l where "l = time_sub (txn_expires_at cl) (txn_issued_at cl)"
  have b: "txn_requesting_workload_id cl = caller" "txn_audience cl = ta_trust_domain c"
      "length (txn_scope cl) = 1" "txn_scope cl ! 0 = ta_scope c" "0 < l"
      "l \<le> wrap64 (ta_maximum_expires_in c * second)" "l mod second = 0" "wrap64 (xs_expires_in u * second) \<le> l"
      "n = l div second"
    using assms(1) unfolding bind_claims_def Let_def l_def [symmetric] by (auto split: if_splits)
  have n: "l = n * second" using b(7,9) by (auto simp: second_def)
  have "wrap64 (ta_maximum_expires_in c * second) \<le> ta_maximum_expires_in c * second"
    using assms(2) by (intro wrap64_le) (simp add: second_def)
  with b(5,6) n have "0 < n" "n \<le> ta_maximum_expires_in c" by (auto simp: second_def)
  moreover have "txn_expires_at cl - txn_issued_at cl = l"
  proof -
    have "int64_max mod second \<noteq> 0" by (simp add: int64_max_def second_def)
    with b(7) have "l \<noteq> int64_max" by auto
    moreover have "l \<noteq> int64_min" using b(5) by (simp add: int64_min_def)
    ultimately show ?thesis unfolding l_def time_sub_def by linarith
  qed
  moreover have "xs_expires_in u \<le> n" if "is_int64 (xs_expires_in u * second)"
    using b(8) n that by (simp add: wrap64_id second_def)
  ultimately show ?thesis using b(1-4) n by (cases "txn_scope cl") auto
qed

lemma adapter_obtain_Inr:
  "adapter_obtain env c caller f w = (Inr (tok, n), w') \<longleftrightarrow>
     (\<exists>u cl. te_exchange env (upstream_request c f) w = (Inr u, w') \<and> valid_upstream c u
        \<and> te_verify env (xs_access_token u) = Inr cl \<and> bind_claims c caller u cl = Inr n \<and> tok = xs_access_token u)"
  by (auto simp: adapter_obtain_def split: prod.splits sum.splits if_splits)

lemma adapter_serve_ok:
  assumes "adapter_serve env c rq w = (rs, w')" "WriteHeader 200 \<in> set rs"
  obtains caller f tok n where "adapter_request (te_to_lower env) (te_caller env) c rq = Inr (caller, f)"
    "adapter_obtain env c caller f w = (Inr (tok, n), w')" "Encode (TokenBody tok transaction_token_type ''N_A'' n) \<in> set rs"
proof -
  have "status \<noteq> 200" if "adapter_request (te_to_lower env) (te_caller env) c rq = Inl (status, code)" for status code
    using that by (auto simp: adapter_request_def split: sum.splits option.splits prod.splits if_splits)
  with assms show thesis
    by (auto simp: adapter_serve_def Let_def write_oauth_error_def intro!: that split: sum.splits prod.splits)
qed

end
