(* ===== verification/Agent.thy ===== *)
theory Agent
  imports Spiffe Tts_Adapter Middleware Txn_Transport
begin

text \<open>
  The demo agents (\<open>pkg/agent/agent.go\<close>, \<open>strict.go\<close>): fetch an actor SVID, have the user's token
  exchanged for a transaction token, check that token against the agent's own bindings and call the
  target with it. The SPIFFE provider, the exchanger, the verifiers, the HTTP clients, the clock
  and the random source are parameters on the world \<open>'w\<close>.
\<close>

section \<open>Quoting\<close>

text \<open>
  \<open>%q\<close> of a string (\<open>strconv.Quote\<close>). A valid rune outside ASCII is rendered by \<open>wide\<close>, which stands for
  the Unicode tables: itself if printable, an escape if not.
\<close>

definition hex_escape :: "char \<Rightarrow> string" where
  "hex_escape c = [CHR 0x5C, CHR ''x'', hex_digit (of_char c div 16), hex_digit (of_char c)]"

definition go_quote_ascii :: "char \<Rightarrow> string" where
  "go_quote_ascii c =
     (if c = CHR 0x22 \<or> c = CHR 0x5C then [CHR 0x5C, c]
      else if (of_char c :: nat) \<ge> 32 \<and> of_char c < (127 :: nat) then [c]
      else (case lookup [(CHR 0x07, CHR ''a''), (CHR 0x08, CHR ''b''), (CHR 0x0C, CHR ''f''), (CHR 0x0A, CHR ''n''),
                         (CHR 0x0D, CHR ''r''), (CHR 0x09, CHR ''t''), (CHR 0x0B, CHR ''v'')] c of
              Some e \<Rightarrow> [CHR 0x5C, e]
            | None \<Rightarrow> hex_escape c))"

fun go_quote_go :: "(string \<Rightarrow> string) \<Rightarrow> nat \<Rightarrow> string \<Rightarrow> string" where
  "go_quote_go wide skip [] = []"
| "go_quote_go wide (Suc n) (c # cs) = go_quote_go wide n cs"
| "go_quote_go wide 0 (c # cs) =
     (if (of_char c :: nat) < 128 then go_quote_ascii c @ go_quote_go wide 0 cs
      else let w = rune_width (map of_char (c # take 3 cs)) in
        if w = 0 then hex_escape c @ go_quote_go wide 0 cs
        else wide (c # take (w - 1) cs) @ go_quote_go wide (w - 1) cs)"

definition go_quote :: "(string \<Rightarrow> string) \<Rightarrow> string \<Rightarrow> string" where
  "go_quote wide s = [CHR 0x22] @ go_quote_go wide 0 s @ [CHR 0x22]"

section \<open>Calls of a target\<close>

record agent_call =
  ac_url :: string
  ac_header :: header
  ac_body :: string

type_synonym call_answer = "(nat \<times> header \<times> request_body) option"

definition success_status :: "nat \<Rightarrow> bool" where
  "success_status n = (200 \<le> n \<and> n < 300)"

section \<open>The legacy agent (\<open>agent.go\<close>)\<close>

datatype mode = Normal | SpoofAgent | WrongAudience | ExpiredToken | DirectToAPI | UnapprovedMCP

record 'w runner =
  lr_audit :: "'w sink option"
  lr_has_verifier :: bool
  lr_actor_audience :: string
  lr_exchange_audience :: string
  lr_transaction_audience :: string
  lr_gateway_url :: string
  lr_direct_api_url :: string
  lr_agent_id :: string
  lr_workload_id :: string
  lr_audit_target :: string

record 'w agent_env =
  ae_fetch :: "string list \<Rightarrow> 'w \<Rightarrow> svid option \<times> 'w"
  ae_exchange :: "'w exchanger"
  ae_verify :: "string \<Rightarrow> string \<Rightarrow> 'w \<Rightarrow> (unit + claims) \<times> 'w"
  ae_send :: "agent_call \<Rightarrow> 'w \<Rightarrow> call_answer \<times> 'w"
  ae_id :: "'w \<Rightarrow> (int \<times> string) \<times> 'w"
  ae_sha256_hex :: "string \<Rightarrow> string"
  ae_wide :: "string \<Rightarrow> string"
  ae_ip_literal :: "string \<Rightarrow> string option"

datatype agent_error =
    AgentInputRequired | AgentToolRequired | AgentSpoofRejected | AgentExpiredRejected | AgentFetch
  | AgentExchange exchange_error | AgentBindingsRequired | AgentVerification | AgentBindingMismatch
  | AgentEvidence | AgentAudit | AgentRequest | AgentInvoke | TargetRejected nat "string option" bool

text \<open>\<open>newID\<close>: \<open>%013d\<close> of the clock in milliseconds and ten random bytes in hexadecimal.\<close>

definition zero_pad :: "nat \<Rightarrow> string \<Rightarrow> string" where
  "zero_pad n s = replicate (n - length s) CHR ''0'' @ s"

definition new_id :: "int \<times> string \<Rightarrow> string" where
  "new_id r =
     (case r of (millis, random) \<Rightarrow>
        (if millis < 0 then CHR ''-'' # zero_pad 12 (int_digits (- millis)) else zero_pad 13 (int_digits millis))
        @ ''-'' @ concat (map (\<lambda>c. [hex_digit (of_char c div 16), hex_digit (of_char c)]) random))"

definition legacy_exchange_request ::
  "'w runner \<Rightarrow> string \<Rightarrow> string \<Rightarrow> mode \<Rightarrow> string \<Rightarrow> string \<Rightarrow> string \<Rightarrow> exchange_request" where
  "legacy_exchange_request r user_token purpose mode actor tx instance_id =
     \<lparr>xr_subject_token = user_token, xr_actor_token = actor, xr_subject_token_type = access_token_type,
      xr_actor_token_type = jwt_token_type,
      xr_audience = (if mode = WrongAudience then ''intentionally-wrong-audience'' else lr_exchange_audience r),
      xr_scope = [''mcp:invoke''], xr_transaction_id = tx, xr_transaction_purpose = purpose,
      xr_agent_instance_id = instance_id\<rparr>"

definition issued_event :: "'w runner \<Rightarrow> string \<Rightarrow> string \<Rightarrow> claims \<Rightarrow> token_evidence \<Rightarrow> event" where
  "issued_event r purpose tool c ev =
     blank_event\<lparr>evt_type := transaction_exchange_succeeded, evt_transaction_id := claims_transaction_id c,
       evt_user_id := subject c, evt_agent_id := claims_agent_id c,
       evt_transaction_workload_id := claims_workload_id c, evt_target := lr_audit_target r,
       evt_decision := ''allow'', evt_reason_code := ''verified'', evt_protocol_method := ''token_exchange'',
       evt_tool := tool, evt_purpose := purpose, evt_token := Some ev\<rparr>"

text \<open>What the agent requires of the issued token before it says anything about it.\<close>

definition bound_to_agent :: "'w runner \<Rightarrow> string \<Rightarrow> claims \<Rightarrow> bool" where
  "bound_to_agent r purpose c =
     (\<not> (claims_agent_id c \<noteq> lr_agent_id r \<or> claims_workload_id c \<noteq> lr_workload_id r \<or> claims_purpose c \<noteq> purpose))"

definition call_payload :: "(string \<Rightarrow> string) \<Rightarrow> string \<Rightarrow> string" where
  "call_payload wide tool =
     [CHR ''{''] @ [CHR 0x22] @ ''jsonrpc'' @ [CHR 0x22] @ '':'' @ [CHR 0x22] @ ''2.0'' @ [CHR 0x22] @ '',''
     @ [CHR 0x22] @ ''id'' @ [CHR 0x22] @ '':1,'' @ [CHR 0x22] @ ''method'' @ [CHR 0x22] @ '':'' @ [CHR 0x22]
     @ ''tools/call'' @ [CHR 0x22] @ '','' @ [CHR 0x22] @ ''params'' @ [CHR 0x22] @ '':{''
     @ [CHR 0x22] @ ''name'' @ [CHR 0x22] @ '':'' @ go_quote wide tool @ '',''
     @ [CHR 0x22] @ ''arguments'' @ [CHR 0x22] @ '':{}}}''"

definition mcp_headers :: "string \<Rightarrow> header \<Rightarrow> header" where
  "mcp_headers name h =
     fold (\<lambda>(k, v) h. header_set h k v)
       [(''Content-Type'', ''application/json''), (''Accept'', ''application/json, text/event-stream''),
        (''Mcp-Protocol-Version'', ''2025-06-18''), (''Mcp-Method'', ''tools/call''), (''Mcp-Name'', name)] h"

definition legacy_call :: "(string \<Rightarrow> string) \<Rightarrow> 'w runner \<Rightarrow> mode \<Rightarrow> string \<Rightarrow> string \<Rightarrow> agent_call" where
  "legacy_call wide r mode tok tool =
     \<lparr>ac_url = (if mode = DirectToAPI then lr_direct_api_url r else lr_gateway_url r),
      ac_header = mcp_headers (if mode = UnapprovedMCP then ''admin.unapproved'' else tool)
        (header_set [] ''Authorization'' (''Bearer '' @ tok)),
      ac_body = call_payload wide tool\<rparr>"

text \<open>From the SVID to the audited token: the failure, or the token with its claims; the world after.\<close>

definition legacy_issue ::
  "'w agent_env \<Rightarrow> 'w runner \<Rightarrow> string \<Rightarrow> string \<Rightarrow> string \<Rightarrow> mode \<Rightarrow> 'w \<Rightarrow> (agent_error + string \<times> claims) \<times> 'w" where
  "legacy_issue env r user_token purpose tool mode w =
     (case ae_fetch env [lr_actor_audience r] w of
        (None, w1) \<Rightarrow> (Inl AgentFetch, w1)
      | (Some actor, w1) \<Rightarrow>
     (case ae_id env w1 of (tx, w2) \<Rightarrow>
     (case ae_id env w2 of (inst, w3) \<Rightarrow>
     (case ae_exchange env
         (legacy_exchange_request r user_token purpose mode (svid_token actor) (new_id tx) (new_id inst)) w3 of
        (Inl e, w4) \<Rightarrow> (Inl (AgentExchange e), w4)
      | (Inr response, w4) \<Rightarrow>
          if \<not> lr_has_verifier r \<or> lr_agent_id r = [] \<or> lr_workload_id r = [] then (Inl AgentBindingsRequired, w4)
          else
     (case ae_verify env (xs_access_token response) (lr_transaction_audience r) w4 of
        (Inl _, w5) \<Rightarrow> (Inl AgentVerification, w5)
      | (Inr c, w5) \<Rightarrow>
          if \<not> bound_to_agent r purpose c then (Inl AgentBindingMismatch, w5)
          else
     (case new_verified_transaction_token_evidence (ae_sha256_hex env) (xs_access_token response) c of
        Inl _ \<Rightarrow> (Inl AgentEvidence, w5)
      | Inr ev \<Rightarrow>
     (case (case lr_audit r of None \<Rightarrow> (None, w5) | Some sink \<Rightarrow> sink (issued_event r purpose tool c ev) w5) of
        (Some _, w6) \<Rightarrow> (Inl AgentAudit, w6)
      | (None, w6) \<Rightarrow> (Inr (xs_access_token response, c), w6))))))))"

text \<open>The answer of the target: any status but a success is an error with at most a known reason.\<close>

definition target_answer :: "string \<Rightarrow> call_answer \<Rightarrow> agent_error + string" where
  "target_answer tx answer =
     (case answer of
        None \<Rightarrow> Inl AgentInvoke
      | Some (status, h, body) \<Rightarrow>
          if \<not> success_status status
          then (let reason = trim_space (take 128 (body_bytes body)) in
                if reason = ''route denied'' \<or> reason = ''forbidden'' \<or> reason = ''unauthorized''
                then Inl (TargetRejected status (Some reason) (header_get h ''X-WAI-Response-Source'' = ''downstream''))
                else Inl (TargetRejected status None False))
          else Inr tx)"

definition legacy_invoke ::
  "'w agent_env \<Rightarrow> 'w runner \<Rightarrow> string \<Rightarrow> string \<Rightarrow> string \<Rightarrow> mode \<Rightarrow> 'w \<Rightarrow> (agent_error + string) \<times> 'w" where
  "legacy_invoke env r user_token purpose tool mode w =
     (if user_token = [] \<or> purpose = [] then (Inl AgentInputRequired, w)
      else if blank tool then (Inl AgentToolRequired, w)
      else if mode = SpoofAgent then (Inl AgentSpoofRejected, w)
      else if mode = ExpiredToken then (Inl AgentExpiredRejected, w)
      else case legacy_issue env r user_token purpose tool mode w of
        (Inl e, w') \<Rightarrow> (Inl e, w')
      | (Inr (tok, c), w') \<Rightarrow>
          let call = legacy_call (ae_wide env) r mode tok tool in
          if url_parse (ae_ip_literal env) (ac_url call) = None then (Inl AgentRequest, w')
          else (case ae_send env call w' of
             (answer, w'') \<Rightarrow> (target_answer (claims_transaction_id c) answer, w'')))"

text \<open>\<open>Run\<close> and \<open>Invoke\<close>.\<close>

definition runner_run :: "'w agent_env \<Rightarrow> 'w runner \<Rightarrow> string \<Rightarrow> string \<Rightarrow> mode \<Rightarrow> 'w \<Rightarrow> agent_error option \<times> 'w" where
  "runner_run env r user_token purpose mode w =
     (case legacy_invoke env r user_token purpose ''system.whoami'' mode w of
        (Inl e, w') \<Rightarrow> (Some e, w') | (Inr _, w') \<Rightarrow> (None, w'))"

definition runner_invoke :: "'w agent_env \<Rightarrow> 'w runner \<Rightarrow> string \<Rightarrow> string \<Rightarrow> string \<Rightarrow> 'w \<Rightarrow> (agent_error + string) \<times> 'w" where
  "runner_invoke env r user_token purpose tool w = legacy_invoke env r user_token purpose tool Normal w"

end
