(* ===== verification/Agent_Facts.thy ===== *)
theory Agent_Facts
  imports Agent
begin

text \<open>
  What the legacy agent (\<open>pkg/agent/agent.go\<close>) calls its target with, and the quoting of its
  payload compared with JSON.
\<close>

section \<open>Quoting\<close>

text \<open>On printable ASCII without the characters Go escapes for HTML, \<open>%q\<close> is JSON's quoting.\<close>

lemma go_quote_plain:
  assumes "list_all (\<lambda>c. 32 \<le> (of_char c :: nat) \<and> of_char c < (127 :: nat) \<and> c \<notin> set ''<>&'') s"
  shows "go_quote wide s = quote_json s"
proof -
  have "go_quote_ascii c = quote_ascii c" if "32 \<le> (of_char c :: nat)" "of_char c < (127 :: nat)" "c \<notin> set ''<>&''" for c
  proof -
    from that(1) have "c \<noteq> CHR 0x08" "c \<noteq> CHR 0x0C" "c \<noteq> CHR 0x0A" "c \<noteq> CHR 0x0D" "c \<noteq> CHR 0x09" by auto
    with that show ?thesis by (simp add: go_quote_ascii_def quote_ascii_def)
  qed
  with assms have "go_quote_go wide 0 s = quote_go 0 s" by (induction s) auto
  then show ?thesis by (simp add: go_quote_def quote_json_def)
qed

text \<open>It is not in general: the bell character becomes \<open>\a\<close>, which is no escape of JSON.\<close>

lemma go_quote_bell: "go_quote wide [CHR 0x07] = [CHR 0x22, CHR 0x5C, CHR ''a'', CHR 0x22]"
  by (simp add: go_quote_def go_quote_ascii_def)

section \<open>The call\<close>

lemma bound_to_agent_iff:
  "bound_to_agent r purpose c \<longleftrightarrow>
     claims_agent_id c = lr_agent_id r \<and> claims_workload_id c = lr_workload_id r \<and> claims_purpose c = purpose"
  by (auto simp: bound_to_agent_def)

lemma legacy_issue_Inr:
  "legacy_issue env r user purpose tool mode w = (Inr (tok, c), w6) \<longleftrightarrow>
     (\<exists>actor w1 tx w2 inst w3 response w4 w5 ev.
        ae_fetch env [lr_actor_audience r] w = (Some actor, w1) \<and> ae_id env w1 = (tx, w2) \<and> ae_id env w2 = (inst, w3)
        \<and> ae_exchange env
            (legacy_exchange_request r user purpose mode (svid_token actor) (new_id tx) (new_id inst)) w3 = (Inr response, w4)
        \<and> lr_has_verifier r \<and> lr_agent_id r \<noteq> [] \<and> lr_workload_id r \<noteq> []
        \<and> ae_verify env (xs_access_token response) (lr_transaction_audience r) w4 = (Inr c, w5)
        \<and> bound_to_agent r purpose c
        \<and> new_verified_transaction_token_evidence (ae_sha256_hex env) (xs_access_token response) c = Inr ev
        \<and> (case lr_audit r of None \<Rightarrow> w6 = w5 | Some sink \<Rightarrow> sink (issued_event r purpose tool c ev) w5 = (None, w6))
        \<and> tok = xs_access_token response)"
  by (auto simp: legacy_issue_def split: prod.splits option.splits sum.splits if_splits)

lemma legacy_issue_send: "legacy_issue (env\<lparr>ae_send := g\<rparr>) r user purpose tool mode w = legacy_issue env r user purpose tool mode w"
proof -
  have "ae_fetch (env\<lparr>ae_send := g\<rparr>) = ae_fetch env" "ae_exchange (env\<lparr>ae_send := g\<rparr>) = ae_exchange env"
    "ae_verify (env\<lparr>ae_send := g\<rparr>) = ae_verify env" "ae_id (env\<lparr>ae_send := g\<rparr>) = ae_id env"
    "ae_sha256_hex (env\<lparr>ae_send := g\<rparr>) = ae_sha256_hex env" by simp_all
  then show ?thesis unfolding legacy_issue_def by (simp only:)
qed

text \<open>
  C31. The agent calls its target only with a token that the exchange issued for the user's token and
  the agent's own SVID under the requested purpose, that the verifier accepted for the transaction
  audience with the agent's own agent ID, workload ID and that purpose, and whose issue a configured
  audit sink recorded first. The call carries that token as its bearer, and success is reported, with
  the verified transaction ID, exactly on a 2xx answer. In every other case the outcome is an error
  and what the target would do is irrelevant.
\<close>
theorem agent_calls_with_bound_token:
  "(\<exists>e w'. \<forall>g. legacy_invoke (env\<lparr>ae_send := g\<rparr>) r user purpose tool mode w = (Inl e, w'))
   \<or> (\<exists>actor w1 tx w2 inst w3 response w4 c w5 ev w6.
        user \<noteq> [] \<and> purpose \<noteq> [] \<and> \<not> blank tool \<and> mode \<noteq> SpoofAgent \<and> mode \<noteq> ExpiredToken
        \<and> ae_fetch env [lr_actor_audience r] w = (Some actor, w1) \<and> ae_id env w1 = (tx, w2) \<and> ae_id env w2 = (inst, w3)
        \<and> ae_exchange env
            (legacy_exchange_request r user purpose mode (svid_token actor) (new_id tx) (new_id inst)) w3 = (Inr response, w4)
        \<and> ae_verify env (xs_access_token response) (lr_transaction_audience r) w4 = (Inr c, w5)
        \<and> claims_agent_id c = lr_agent_id r \<and> claims_workload_id c = lr_workload_id r \<and> claims_purpose c = purpose
        \<and> new_verified_transaction_token_evidence (ae_sha256_hex env) (xs_access_token response) c = Inr ev
        \<and> (case lr_audit r of None \<Rightarrow> w6 = w5 | Some sink \<Rightarrow> sink (issued_event r purpose tool c ev) w5 = (None, w6))
        \<and> (\<forall>g. legacy_invoke (env\<lparr>ae_send := g\<rparr>) r user purpose tool mode w =
             (case g (legacy_call (ae_wide env) r mode (xs_access_token response) tool) w6 of
                (None, w') \<Rightarrow> (Inl AgentInvoke, w')
              | (Some (status, h, body), w') \<Rightarrow>
                  if 200 \<le> status \<and> status < 300 then (Inr (claims_transaction_id c), w')
                  else (target_answer (claims_transaction_id c) (Some (status, h, body)), w'))))"
proof (cases "user \<noteq> [] \<and> purpose \<noteq> [] \<and> \<not> blank tool \<and> mode \<noteq> SpoofAgent \<and> mode \<noteq> ExpiredToken")
  case False
  then have "\<exists>e. \<forall>g. legacy_invoke (env\<lparr>ae_send := g\<rparr>) r user purpose tool mode w = (Inl e, w)"
    by (auto simp: legacy_invoke_def)
  then show ?thesis by blast
next
  case in_ok: True
  obtain res w6 where issue: "legacy_issue env r user purpose tool mode w = (res, w6)" by fastforce
  have sel: "ae_wide (env\<lparr>ae_send := g\<rparr>) = ae_wide env" "ae_ip_literal (env\<lparr>ae_send := g\<rparr>) = ae_ip_literal env" for g
    by simp_all
  show ?thesis
  proof (cases res)
    case (Inl e)
    then have "legacy_invoke (env\<lparr>ae_send := g\<rparr>) r user purpose tool mode w = (Inl e, w6)" for g
      using in_ok by (simp add: legacy_invoke_def legacy_issue_send issue)
    then show ?thesis by blast
  next
    case (Inr p)
    obtain tok c where p: "p = (tok, c)" by (cases p)
    let ?call = "legacy_call (ae_wide env) r mode tok tool"
    show ?thesis
    proof (cases "url_parse (ae_ip_literal env) (ac_url ?call)")
      case None
      then have "legacy_invoke (env\<lparr>ae_send := g\<rparr>) r user purpose tool mode w = (Inl AgentRequest, w6)" for g
        using in_ok Inr p by (simp add: legacy_invoke_def legacy_issue_send issue)
      then show ?thesis by blast
    next
      case (Some u)
      then have run: "legacy_invoke (env\<lparr>ae_send := g\<rparr>) r user purpose tool mode w =
          (case g ?call w6 of (None, w') \<Rightarrow> (Inl AgentInvoke, w')
           | (Some (status, h, body), w') \<Rightarrow>
               if 200 \<le> status \<and> status < 300 then (Inr (claims_transaction_id c), w')
               else (target_answer (claims_transaction_id c) (Some (status, h, body)), w'))" for g
        using in_ok Inr p
        by (auto simp: legacy_invoke_def legacy_issue_send issue target_answer_def success_status_def
            split: option.split prod.split)
      from issue [unfolded Inr p legacy_issue_Inr bound_to_agent_iff] in_ok run show ?thesis by blast
    qed
  qed
qed

end
