(* ===== verification/Agent_Strict.thy ===== *)
theory Agent_Strict
  imports Agent
begin

text \<open>
  The strict agent (\<open>pkg/agent/strict.go\<close>): it sends the exact form to the adapter, checks the
  answer and the token in it, and calls the gateway with the token in the \<open>Txn-Token\<close> header.
\<close>

section \<open>The adapter's answer\<close>

record strict_response =
  sa_access_token :: string
  sa_issued_token_type :: string
  sa_token_type :: string
  sa_expires_in :: int

definition blank_strict_response :: strict_response where
  "blank_strict_response =
     \<lparr>sa_access_token = [], sa_issued_token_type = [], sa_token_type = [], sa_expires_in = 0\<rparr>"

definition strict_response_fields :: "strict_response field list" where
  "strict_response_fields =
     [string_field ''access_token'' (\<lambda>s r. r\<lparr>sa_access_token := s\<rparr>),
      string_field ''issued_token_type'' (\<lambda>s r. r\<lparr>sa_issued_token_type := s\<rparr>),
      string_field ''token_type'' (\<lambda>s r. r\<lparr>sa_token_type := s\<rparr>),
      int_field ''expires_in'' (\<lambda>n r. r\<lparr>sa_expires_in := n\<rparr>)]"

text \<open>The loop on the members: every name known and new, its value decoded in place.\<close>

function strict_members ::
  "string list \<Rightarrow> strict_response \<Rightarrow> jtoken list \<Rightarrow> (string list \<times> strict_response \<times> jtoken list) option" where
  "strict_members seen r ts =
     (if \<not> has_more ts then Some (seen, r, ts)
      else case token ts of
        Inr (TStr name, ts1) \<Rightarrow>
          if name \<in> set seen then None
          else (case lookup strict_response_fields name of
             None \<Rightarrow> None
           | Some store_it \<Rightarrow>
               (case decode_next ts1 of
                  None \<Rightarrow> None
                | Some (v, ts2) \<Rightarrow>
                    (case store_it v r of None \<Rightarrow> None | Some r' \<Rightarrow> strict_members (seen @ [name]) r' ts2)))
      | _ \<Rightarrow> None)"
  by pat_completeness auto

termination strict_members
  by (relation "measure (length \<circ> snd \<circ> snd)") (auto dest!: decode_next_length token_length)

declare strict_members.simps [simp del]

definition acceptable_response :: "int \<Rightarrow> strict_response \<Rightarrow> bool" where
  "acceptable_response maximum r =
     (\<not> (sa_access_token r = [] \<or> int (length (sa_access_token r)) > maximum
         \<or> sa_issued_token_type r \<noteq> transaction_token_type \<or> sa_token_type r \<noteq> ''N_A''
         \<or> sa_expires_in r \<le> 0 \<or> sa_expires_in r > 60))"

definition decode_strict_response :: "int \<Rightarrow> jtoken list \<Rightarrow> strict_response option" where
  "decode_strict_response maximum ts =
     (case token ts of
        Inr (TDelim d, r0) \<Rightarrow>
          if d \<noteq> CHR ''{'' then None
          else (case strict_members [] blank_strict_response r0 of
             None \<Rightarrow> None
           | Some (seen, r, r1) \<Rightarrow>
               (case token r1 of
                  Inl _ \<Rightarrow> None
                | Inr (_, r2) \<Rightarrow>
                    if r2 \<noteq> [] \<or> length seen \<noteq> 4 \<or> \<not> acceptable_response maximum r then None else Some r))
      | _ \<Rightarrow> None)"

definition decode_strict_adapter_response ::
  "(string \<Rightarrow> jtoken list) \<Rightarrow> request_body \<Rightarrow> int \<Rightarrow> strict_response option" where
  "decode_strict_adapter_response lexer body maximum =
     (case read_body maximum body of None \<Rightarrow> None | Some bytes \<Rightarrow> decode_strict_response maximum (lexer bytes))"

section \<open>The run\<close>

definition fixed_https :: "(string \<Rightarrow> string option) \<Rightarrow> string \<Rightarrow> url option" where
  "fixed_https ip_literal raw =
     (case url_parse ip_literal (trim_space raw) of
        None \<Rightarrow> None
      | Some u \<Rightarrow> if \<not> https_endpoint_no_fragment u then None else Some u)"

text \<open>The runner's settings; a client is given by its timeout.\<close>

record strict_runner =
  sr_has_spiffe :: bool
  sr_adapter_http :: "duration option"
  sr_gateway_http :: "duration option"
  sr_adapter_url :: string
  sr_gateway_url :: string
  sr_has_verifier :: bool
  sr_maximum_bytes :: int

record strict_call =
  sc_url :: url
  sc_header :: header
  sc_body :: string

record 'w strict_env =
  se_fetch :: "string list \<Rightarrow> 'w \<Rightarrow> svid option \<times> 'w"
  se_adapter :: "strict_call \<Rightarrow> 'w \<Rightarrow> (nat \<times> request_body) option \<times> 'w"
  se_verify :: "string \<Rightarrow> 'w \<Rightarrow> (unit + txn_token_claims) \<times> 'w"
  se_gateway :: "strict_call \<Rightarrow> 'w \<Rightarrow> (nat \<times> request_body) option \<times> 'w"
  se_lexer :: "string \<Rightarrow> jtoken list"
  se_ip_literal :: "string \<Rightarrow> string option"

definition no_client :: "duration option \<Rightarrow> bool" where
  "no_client c = (case c of None \<Rightarrow> True | Some timeout \<Rightarrow> timeout \<le> 0)"

definition strict_ready :: "strict_runner \<Rightarrow> string \<Rightarrow> bool" where
  "strict_ready r user_token =
     (\<not> (\<not> sr_has_spiffe r \<or> no_client (sr_adapter_http r) \<or> no_client (sr_gateway_http r) \<or> \<not> sr_has_verifier r
         \<or> sr_maximum_bytes r \<le> 0 \<or> user_token = [] \<or> int (length user_token) > sr_maximum_bytes r))"

definition demo_spiffe_id :: string where
  "demo_spiffe_id = ''spiffe://example.org/agent/demo''"

definition acceptable_svid :: "strict_runner \<Rightarrow> svid \<Rightarrow> bool" where
  "acceptable_svid r s =
     (\<not> (svid_id s \<noteq> demo_spiffe_id \<or> svid_token s = [] \<or> int (length (svid_token s)) > sr_maximum_bytes r))"

definition strict_form :: "string \<Rightarrow> string \<Rightarrow> (string \<times> string) list" where
  "strict_form user_token actor_token =
     [(''grant_type'', ''urn:ietf:params:oauth:grant-type:token-exchange''), (''subject_token'', user_token),
      (''subject_token_type'', ''urn:ietf:params:oauth:token-type:access_token''), (''actor_token'', actor_token),
      (''actor_token_type'', ''urn:ietf:params:oauth:token-type:jwt''),
      (''requested_token_type'', transaction_token_type), (''audience'', ''example.org''),
      (''scope'', ''mcp.system.whoami'')]"

definition adapter_call :: "url \<Rightarrow> string \<Rightarrow> string \<Rightarrow> strict_call" where
  "adapter_call u user_token actor_token =
     \<lparr>sc_url = u, sc_header = header_set [] ''Content-Type'' ''application/x-www-form-urlencoded'',
      sc_body = encode_form (strict_form user_token actor_token)\<rparr>"

definition expected_claims :: "txn_token_claims \<Rightarrow> bool" where
  "expected_claims cl =
     (\<not> (txn_requesting_workload_id cl \<noteq> demo_spiffe_id \<or> wac_id (wai_agent (txn_context cl)) \<noteq> ''urn:agent:demo''
         \<or> wai_target (txn_context cl) \<noteq> ''demo'' \<or> wai_tool (txn_context cl) \<noteq> ''system.whoami''
         \<or> length (txn_scope cl) \<noteq> 1 \<or> txn_scope cl ! 0 \<noteq> ''mcp.system.whoami''))"

text \<open>From the SVID to the token, checked: \<open>None\<close> is the one error the agent reports.\<close>

definition strict_obtain ::
  "'w strict_env \<Rightarrow> strict_runner \<Rightarrow> url \<Rightarrow> string \<Rightarrow> 'w \<Rightarrow> string option \<times> 'w" where
  "strict_obtain env r adapter_url user_token w =
     (case se_fetch env [''urn:pingfederate:wai:token-exchange''] w of
        (None, w1) \<Rightarrow> (None, w1)
      | (Some s, w1) \<Rightarrow>
          if \<not> acceptable_svid r s then (None, w1)
          else
     (case se_adapter env (adapter_call adapter_url user_token (svid_token s)) w1 of
        (None, w2) \<Rightarrow> (None, w2)
      | (Some (status, body), w2) \<Rightarrow>
          if status \<noteq> 200 then (None, w2)
          else
     (case decode_strict_adapter_response (se_lexer env) body (sr_maximum_bytes r) of
        None \<Rightarrow> (None, w2)
      | Some result \<Rightarrow>
     (case se_verify env (sa_access_token result) w2 of
        (Inl _, w3) \<Rightarrow> (None, w3)
      | (Inr cl, w3) \<Rightarrow> (if \<not> expected_claims cl then None else Some (sa_access_token result), w3)))))"

text \<open>The call of the gateway; the literal payload is what \<open>call_payload\<close> gives for its tool.\<close>

definition strict_gateway_call :: "strict_runner \<Rightarrow> url \<Rightarrow> string \<Rightarrow> strict_call option" where
  "strict_gateway_call r gateway_url tok =
     (case set_txn_token (Some []) tok (sr_maximum_bytes r) of
        Inl _ \<Rightarrow> None
      | Inr h \<Rightarrow>
          Some \<lparr>sc_url = gateway_url, sc_header = mcp_headers ''system.whoami'' h,
                sc_body = call_payload id ''system.whoami''\<rparr>)"

definition gateway_accepted :: "strict_runner \<Rightarrow> (nat \<times> request_body) option \<Rightarrow> bool" where
  "gateway_accepted r answer =
     (case answer of
        None \<Rightarrow> False
      | Some (status, body) \<Rightarrow> read_body (sr_maximum_bytes r) body \<noteq> None \<and> success_status status)"

definition strict_run :: "'w strict_env \<Rightarrow> strict_runner \<Rightarrow> string \<Rightarrow> 'w \<Rightarrow> bool \<times> 'w" where
  "strict_run env r user_token w =
     (if \<not> strict_ready r user_token then (False, w)
      else case fixed_https (se_ip_literal env) (sr_adapter_url r) of
        None \<Rightarrow> (False, w)
      | Some au \<Rightarrow>
     (case fixed_https (se_ip_literal env) (sr_gateway_url r) of
        None \<Rightarrow> (False, w)
      | Some gu \<Rightarrow>
     (case strict_obtain env r au user_token w of
        (None, w') \<Rightarrow> (False, w')
      | (Some tok, w') \<Rightarrow>
     (case strict_gateway_call r gu tok of
        None \<Rightarrow> (False, w')
      | Some call \<Rightarrow> (case se_gateway env call w' of (answer, w'') \<Rightarrow> (gateway_accepted r answer, w''))))))"

section \<open>What the decoder accepts\<close>

lemma strict_members_tokens:
  "strict_members seen r (concat (map (\<lambda>(k, v). TStr k # tokens_of v) ms) @ TDelim (CHR ''}'') # ts) = Some (seen', r', ts') \<longleftrightarrow>
     distinct (map fst ms) \<and> set seen \<inter> fst ` set ms = {} \<and> fst ` set ms \<subseteq> fst ` set strict_response_fields
     \<and> seen' = seen @ map fst ms \<and> ts' = TDelim (CHR ''}'') # ts
     \<and> foldl (\<lambda>a (k, v). Option.bind a (the (lookup strict_response_fields k) v)) (Some r) ms = Some r'"
proof (induction ms arbitrary: seen r)
  case Nil
  then show ?case by (auto simp: strict_members.simps)
next
  case (Cons e ms)
  obtain k v where e: "e = (k, v)" by (cases e)
  let ?rest = "concat (map (\<lambda>(k, v). TStr k # tokens_of v) ms) @ TDelim (CHR ''}'') # ts"
  have none: "foldl (\<lambda>a (k, v). Option.bind a (the (lookup strict_response_fields k) v)) None ms = None" for ms
    by (induction ms) auto
  have step: "strict_members seen r (TStr k # tokens_of v @ ?rest) =
      (if k \<in> set seen then None
       else case lookup strict_response_fields k of None \<Rightarrow> None
       | Some store_it \<Rightarrow> (case store_it v r of None \<Rightarrow> None | Some r' \<Rightarrow> strict_members (seen @ [k]) r' ?rest))"
    by (subst strict_members.simps) (simp split: option.split)
  show ?case
  proof (cases "lookup strict_response_fields k")
    case None
    then have "k \<notin> fst ` set strict_response_fields" by (simp add: map_of_eq_None_iff)
    with None step show ?thesis by (simp add: e)
  next
    case (Some store_it)
    then have "k \<in> fst ` set strict_response_fields" by (metis domI dom_map_of_conv_image_fst)
    with Some step Cons.IH show ?thesis
      by (cases "store_it v r") (auto simp: e none)
  qed
qed

lemma strict_names: "fst ` set strict_response_fields = {''access_token'', ''issued_token_type'', ''token_type'', ''expires_in''}"
  by (simp add: strict_response_fields_def string_field_def int_field_def)

text \<open>The text of an answer as the adapter encodes it.\<close>

fun body_json :: "adapter_body \<Rightarrow> json" where
  "body_json (TokenBody tok issued typ n) =
     JObj [(''access_token'', JStr tok), (''issued_token_type'', JStr issued), (''token_type'', JStr typ),
           (''expires_in'', JNum (int_digits n))]"
| "body_json (OAuthError code) = JObj [(''error'', JStr code)]"

lemma decode_issued:
  assumes "is_int64 n"
  shows "decode_strict_response m (tokens_of (body_json (TokenBody tok issued typ n))) = Some r \<longleftrightarrow>
     tok \<noteq> [] \<and> int (length tok) \<le> m \<and> issued = transaction_token_type \<and> typ = ''N_A'' \<and> 0 < n \<and> n \<le> 60
     \<and> r = \<lparr>sa_access_token = tok, sa_issued_token_type = issued, sa_token_type = typ, sa_expires_in = n\<rparr>"
proof -
  let ?ms = "[(''access_token'', JStr tok), (''issued_token_type'', JStr issued), (''token_type'', JStr typ),
    (''expires_in'', JNum (int_digits n))]"
  let ?r = "\<lparr>sa_access_token = tok, sa_issued_token_type = issued, sa_token_type = typ, sa_expires_in = n\<rparr>"
  have fold: "foldl (\<lambda>a (k, v). Option.bind a (the (lookup strict_response_fields k) v)) (Some blank_strict_response) ?ms = Some ?r"
    by (simp add: strict_response_fields_def string_field_def int_field_def blank_strict_response_def
        parse_int_digits assms)
  have "strict_members [] blank_strict_response (concat (map (\<lambda>(k, v). TStr k # tokens_of v) ?ms) @ [TDelim (CHR ''}'')])
      = Some (map fst ?ms, ?r, [TDelim (CHR ''}'')])"
    unfolding strict_members_tokens fold strict_names by simp
  then show ?thesis by (auto simp: decode_strict_response_def acceptable_response_def)
qed

lemma strict_obtain_Some:
  "strict_obtain env r au user w = (Some tok, w3) \<longleftrightarrow>
     (\<exists>s w1 body w2 result cl. se_fetch env [''urn:pingfederate:wai:token-exchange''] w = (Some s, w1)
        \<and> acceptable_svid r s \<and> se_adapter env (adapter_call au user (svid_token s)) w1 = (Some (200, body), w2)
        \<and> decode_strict_adapter_response (se_lexer env) body (sr_maximum_bytes r) = Some result
        \<and> se_verify env (sa_access_token result) w2 = (Inr cl, w3) \<and> expected_claims cl \<and> tok = sa_access_token result)"
  by (auto simp: strict_obtain_def split: prod.splits option.splits sum.splits if_splits)

lemma expected_claims_iff:
  "expected_claims cl \<longleftrightarrow> txn_requesting_workload_id cl = demo_spiffe_id
     \<and> wac_id (wai_agent (txn_context cl)) = ''urn:agent:demo'' \<and> wai_target (txn_context cl) = ''demo''
     \<and> wai_tool (txn_context cl) = ''system.whoami'' \<and> txn_scope cl = [''mcp.system.whoami'']"
proof -
  have "length ss = 1 \<and> ss ! 0 = v \<longleftrightarrow> ss = [v]" for ss :: "string list" and v by (cases ss) auto
  then show ?thesis unfolding expected_claims_def by blast
qed

lemma strict_obtain_gateway: "strict_obtain (env\<lparr>se_gateway := g\<rparr>) r au user w = strict_obtain env r au user w"
proof -
  have "se_adapter (env\<lparr>se_gateway := g\<rparr>) = se_adapter env" "se_fetch (env\<lparr>se_gateway := g\<rparr>) = se_fetch env"
    "se_lexer (env\<lparr>se_gateway := g\<rparr>) = se_lexer env" "se_verify (env\<lparr>se_gateway := g\<rparr>) = se_verify env" by simp_all
  then show ?thesis unfolding strict_obtain_def by (simp only:)
qed

text \<open>The request of the agent as it arrives at the adapter.\<close>

definition posted :: "strict_call \<Rightarrow> string list \<Rightarrow> tls_state option \<Rightarrow> unit web_request" where
  "posted call segments state =
     \<lparr>rq_method = ''POST'', rq_segments = segments, rq_header = sc_header call, rq_tls = state,
      rq_body = \<lparr>body_bytes = sc_body call, body_fails = False\<rparr>, rq_ctx = (), rq_raw_query = [], rq_cookies = []\<rparr>"

lemma agent_request_accepted:
  assumes "ta_trust_domain c = ''example.org''" "ta_scope c = ''mcp.system.whoami''"
    and "rq_path (posted (adapter_call url user actor) segments state) = ta_endpoint_path c"
    and "int (length (encode_form (strict_form user actor))) \<le> ta_maximum_body_bytes c"
    and "to_lower ''application/x-www-form-urlencoded'' = ''application/x-www-form-urlencoded''"
    and "caller_of state = Inr caller" "\<not> blank caller"
    and user: "user \<noteq> []" "trim_space user = user" and actor: "actor \<noteq> []" "trim_space actor = actor"
    and len: "int (length user) \<le> ta_maximum_token_bytes c" "int (length actor) \<le> ta_maximum_token_bytes c"
  shows "\<exists>f. adapter_request to_lower caller_of c (posted (adapter_call url user actor) segments state) = Inr (caller, f)
     \<and> xr_subject_token (upstream_request c f) = user \<and> xr_actor_token (upstream_request c f) = actor
     \<and> xr_audience (upstream_request c f) = ''example.org'' \<and> xr_scope (upstream_request c f) = [''mcp.system.whoami'']"
proof -
  obtain f good where q: "parse_query (encode_form (strict_form user actor)) = (f, good)" by fastforce
  have d: "distinct (map fst (strict_form user actor))" by (simp add: strict_form_def)
  note fv = form_values_encoded [OF d q]
  then have pairs: "lookup f k = Some [v] \<and> form_get f k = v" if "(k, v) \<in> set (strict_form user actor)" for k v
    using that by blast
  have names: "set exact_fields = fst ` set (strict_form user actor)"
    by (auto simp: exact_fields_def strict_form_def)
  have lits: "list_all (\<lambda>v. v \<noteq> [] \<and> trim_space v = v) (map snd (filter (\<lambda>(k, _). k \<notin> {''subject_token'', ''actor_token''}) (strict_form [] [])))"
    by code_simp
  have trimmed: "v \<noteq> [] \<and> trim_space v = v" if "(k, v) \<in> set (strict_form user actor)" for k v
    using that lits user actor by (auto simp: strict_form_def)
  have "exact_form c f"
  proof -
    have "case lookup f k of Some [v] \<Rightarrow> v \<noteq> [] \<and> trim_space v = v | _ \<Rightarrow> False" if "k \<in> set exact_fields" for k
    proof -
      from that names obtain v where "(k, v) \<in> set (strict_form user actor)" by auto
      with pairs trimmed show ?thesis by fastforce
    qed
    moreover have "list_all (\<lambda>(name, _). name \<in> set exact_fields) f"
      using fv names by (force simp: list_all_iff)
    moreover have "length f = length exact_fields" using fv by (simp add: strict_form_def exact_fields_def)
    ultimately show ?thesis
      using assms(1,2) len pairs unfolding exact_form_def list_all_iff
      by (auto simp: strict_form_def token_exchange_grant_type_def access_token_type_def jwt_token_type_def)
  qed
  moreover have "form_media_type to_lower ''application/x-www-form-urlencoded''"
  proof -
    have "cut (CHR '';'') ''application/x-www-form-urlencoded'' = (''application/x-www-form-urlencoded'', [], False)"
      "trim_space ''application/x-www-form-urlencoded'' = ''application/x-www-form-urlencoded''" by code_simp+
    then show ?thesis by (simp add: form_media_type_def assms(5))
  qed
  moreover have "header_get (sc_header (adapter_call url user actor)) ''Content-Type'' = ''application/x-www-form-urlencoded''"
    by (simp add: adapter_call_def header_get_def header_values_set)
  moreover have "header_values (sc_header (adapter_call url user actor)) ''Authorization'' = []"
  proof -
    have "canonical_key ''Authorization'' \<noteq> canonical_key ''Content-Type''" by code_simp
    then show ?thesis by (simp add: adapter_call_def header_values_set) (simp add: header_values_def)
  qed
  moreover have "good" using fv by blast
  moreover have "form_get f ''subject_token'' = user" "form_get f ''actor_token'' = actor"
    using pairs by (auto simp: strict_form_def)
  ultimately show ?thesis
    using assms(3,4,6,7) q
    by (intro exI [of _ f]) (simp add: adapter_request_Inr posted_def read_body_code upstream_request_def assms(1,2) adapter_call_def)
qed

section \<open>A demo adapter\<close>

definition demo_adapter :: adapter_config where
  "demo_adapter =
     \<lparr>ta_trust_domain = ''example.org'', ta_scope = ''mcp.system.whoami'', ta_endpoint_path = ''/token'',
      ta_maximum_body_bytes = 4096, ta_maximum_token_bytes = 4096, ta_maximum_expires_in = 60,
      ta_has_exchanger = True, ta_has_verifier = True, ta_has_caller = True, ta_reports = False\<rparr>"

definition demo_issued :: txn_token_claims where
  "demo_issued =
     \<lparr>txn_issuer = ''https://tts.example'', txn_subject = ''alice'', txn_audience = ''example.org'',
      txn_transaction_id = ''t-1'', txn_scope = [''mcp.system.whoami''],
      txn_requesting_workload_id = ''spiffe://example.org/agent/demo'',
      txn_context = \<lparr>wai_version = 1,
        wai_agent = \<lparr>wac_id = ''urn:agent:demo'', wac_instance_id = ''i-1'', wac_workload_id = ''spiffe://example.org/agent/demo''\<rparr>,
        wai_target = ''demo'', wai_tool = ''system.whoami''\<rparr>,
      txn_request_context = None, txn_jwt_id = [],
      txn_issued_at = time_unix 1700000000, txn_expires_at = time_unix 1700000060\<rparr>"

definition demo_response :: exchange_response where
  "demo_response =
     \<lparr>xs_access_token = ''t'', xs_token_type = ''Bearer'', xs_issued_token_type = access_token_type,
      xs_expires_in = 60, xs_scope = []\<rparr>"

definition adapter_env_demo :: "unit adapter_env" where
  "adapter_env_demo =
     \<lparr>te_exchange = (\<lambda>_ w. (Inr demo_response, w)), te_verify = (\<lambda>_. Inr demo_issued),
      te_caller = (\<lambda>_. Inr demo_spiffe_id), te_report = (\<lambda>_ w. w), te_to_lower = (\<lambda>s. s)\<rparr>"

definition demo_post :: "unit web_request" where
  "demo_post = posted (adapter_call empty_url ''user'' ''actor'') [''token''] None"

lemma demo_form_length: "int (length (encode_form (strict_form ''user'' ''actor''))) \<le> 4096"
  by code_simp

lemma demo_tokens: "trim_space ''user'' = ''user''" "trim_space ''actor'' = ''actor''" "\<not> blank demo_spiffe_id"
  "rq_path demo_post = ''/token''"
  by code_simp+

lemma demo_adapter_built: "new_adapter (\<lambda>s. s) demo_adapter = Inr demo_adapter"
  by code_simp

lemma demo_bound:
  "bind_claims demo_adapter demo_spiffe_id demo_response demo_issued = Inr 60" "valid_upstream demo_adapter demo_response"
  by code_simp+

lemma demo_served:
  "\<exists>rs. adapter_serve adapter_env_demo demo_adapter demo_post () = (rs, ()) \<and> WriteHeader 200 \<in> set rs"
proof -
  obtain f where f: "adapter_request (\<lambda>s. s) (te_caller adapter_env_demo) demo_adapter demo_post = Inr (demo_spiffe_id, f)"
    using agent_request_accepted [of demo_adapter empty_url "''user''" "''actor''" "[''token'']" None "\<lambda>s. s"
        "te_caller adapter_env_demo" demo_spiffe_id] demo_form_length demo_tokens
    by (auto simp: demo_adapter_def adapter_env_demo_def demo_post_def)
  have "adapter_obtain adapter_env_demo demo_adapter demo_spiffe_id f () = (Inr (''t'', 60), ())"
    using demo_bound by (simp add: adapter_obtain_def adapter_env_demo_def) (simp add: demo_response_def)
  with f show ?thesis by (simp add: adapter_serve_def adapter_env_demo_def)
qed

section \<open>Properties\<close>

text \<open>
  C28. The transaction token adapter answers 200 only to an exact form whose caller the TLS state
  gives, and only with a token that PingFederate issued for exactly the two tokens of the form and
  that its verifier accepted: the token names the caller as its requesting workload, has the one
  audience and scope of the adapter, and the lifetime it states is that of the signed claims, a
  positive number of seconds up to the maximum and no less than PingFederate's own.
\<close>
theorem adapter_issues_bound_token:
  assumes "new_adapter to_lower config = Inr c"
    and "adapter_serve env c rq w = (rs, w')" and "WriteHeader 200 \<in> set rs"
  shows "\<exists>caller body f u cl n.
     te_caller env (rq_tls rq) = Inr caller \<and> read_body (ta_maximum_body_bytes c) (rq_body rq) = Some body
     \<and> parse_query body = (f, True) \<and> exact_form c f
     \<and> te_exchange env (upstream_request c f) w = (Inr u, w') \<and> te_verify env (xs_access_token u) = Inr cl
     \<and> txn_requesting_workload_id cl = caller \<and> txn_audience cl = ta_trust_domain c \<and> txn_scope cl = [ta_scope c]
     \<and> txn_expires_at cl - txn_issued_at cl = n * second \<and> 0 < n \<and> n \<le> ta_maximum_expires_in c
     \<and> (is_int64 (xs_expires_in u * second) \<longrightarrow> xs_expires_in u \<le> n)
     \<and> bodies rs = [TokenBody (xs_access_token u) transaction_token_type ''N_A'' n]"
proof -
  have pos: "0 < ta_maximum_expires_in c" using assms(1) by (auto simp: new_adapter_def split: if_splits)
  from assms(2,3) obtain caller f tok n where
    rq: "adapter_request (te_to_lower env) (te_caller env) c rq = Inr (caller, f)"
    and ob: "adapter_obtain env c caller f w = (Inr (tok, n), w')"
    by (rule adapter_serve_ok)
  from ob obtain u cl where u: "te_exchange env (upstream_request c f) w = (Inr u, w')"
    "te_verify env (xs_access_token u) = Inr cl" "bind_claims c caller u cl = Inr n" "tok = xs_access_token u"
    unfolding adapter_obtain_Inr by blast
  moreover have "bodies rs = [TokenBody tok transaction_token_type ''N_A'' n]"
    using assms(2) by (auto simp: adapter_serve_def rq ob)
  ultimately show ?thesis
    using rq bind_claims_Inr [OF u(3) pos] unfolding adapter_request_Inr by blast
qed

lemma adapter_issues_bound_token_witness:
  "\<exists>rs cl. adapter_serve adapter_env_demo demo_adapter demo_post () = (rs, ())
     \<and> te_verify adapter_env_demo ''t'' = Inr cl \<and> txn_requesting_workload_id cl = demo_spiffe_id
     \<and> bodies rs = [TokenBody ''t'' transaction_token_type ''N_A'' 60]"
proof -
  obtain rs where rs: "adapter_serve adapter_env_demo demo_adapter demo_post () = (rs, ())" "WriteHeader 200 \<in> set rs"
    using demo_served by blast
  have e: "te_exchange adapter_env_demo x () = (Inr demo_response, ())" "te_verify adapter_env_demo y = Inr demo_issued" for x y
    by (simp_all add: adapter_env_demo_def)
  have t: "txn_expires_at demo_issued - txn_issued_at demo_issued = 60 * second" by code_simp
  have "xs_access_token demo_response = ''t''" "txn_requesting_workload_id demo_issued = demo_spiffe_id"
    by (simp_all add: demo_response_def demo_issued_def demo_spiffe_id_def)
  with adapter_issues_bound_token [OF demo_adapter_built rs] show ?thesis
    by (auto simp: rs(1) e t second_def)
qed

text \<open>
  C29. What the strict agent posts, the adapter takes as exactly the two tokens of the agent, for
  PingFederate to exchange, and what the adapter then answers the agent decodes to the token it was
  given, provided its lifetime is at most a minute.
\<close>
theorem strict_agent_adapter_round_trip:
  assumes "ta_trust_domain c = ''example.org''" "ta_scope c = ''mcp.system.whoami''"
    and "rq_path (posted (adapter_call url user actor) segments state) = ta_endpoint_path c"
    and "int (length (encode_form (strict_form user actor))) \<le> ta_maximum_body_bytes c"
    and "to_lower ''application/x-www-form-urlencoded'' = ''application/x-www-form-urlencoded''"
    and "caller_of state = Inr caller" "\<not> blank caller"
    and "user \<noteq> []" "trim_space user = user" "actor \<noteq> []" "trim_space actor = actor"
    and "int (length user) \<le> ta_maximum_token_bytes c" "int (length actor) \<le> ta_maximum_token_bytes c"
    and "is_int64 n" "0 < n" "tok \<noteq> []" "int (length tok) \<le> m"
  shows "(\<exists>f. adapter_request to_lower caller_of c (posted (adapter_call url user actor) segments state) = Inr (caller, f)
        \<and> xr_subject_token (upstream_request c f) = user \<and> xr_actor_token (upstream_request c f) = actor
        \<and> xr_audience (upstream_request c f) = ''example.org'' \<and> xr_scope (upstream_request c f) = [''mcp.system.whoami''])
     \<and> map_option sa_access_token
         (decode_strict_response m (tokens_of (body_json (TokenBody tok transaction_token_type ''N_A'' n))))
       = (if n \<le> 60 then Some tok else None)"
proof
  show "\<exists>f. adapter_request to_lower caller_of c (posted (adapter_call url user actor) segments state) = Inr (caller, f)
        \<and> xr_subject_token (upstream_request c f) = user \<and> xr_actor_token (upstream_request c f) = actor
        \<and> xr_audience (upstream_request c f) = ''example.org'' \<and> xr_scope (upstream_request c f) = [''mcp.system.whoami'']"
    using assms(1-13) by (rule agent_request_accepted)
  show "map_option sa_access_token
       (decode_strict_response m (tokens_of (body_json (TokenBody tok transaction_token_type ''N_A'' n))))
      = (if n \<le> 60 then Some tok else None)"
    using decode_issued [OF assms(14), of m tok transaction_token_type "''N_A''"] assms(15-17)
    by (cases "decode_strict_response m (tokens_of (body_json (TokenBody tok transaction_token_type ''N_A'' n)))") auto
qed

lemma strict_agent_adapter_round_trip_witness:
  "map_option sa_access_token
     (decode_strict_response 4096 (tokens_of (body_json (TokenBody ''t'' transaction_token_type ''N_A'' 60)))) = Some ''t''"
proof -
  have "is_int64 60" by code_simp
  then show ?thesis
    using strict_agent_adapter_round_trip [of demo_adapter empty_url "''user''" "''actor''" "[''token'']" None "\<lambda>s. s"
        "te_caller adapter_env_demo" demo_spiffe_id 60 "''t''" 4096] demo_form_length demo_tokens
    by (simp add: demo_adapter_def adapter_env_demo_def demo_post_def)
qed

text \<open>
  C30. The strict agent calls the gateway only after it fetched the demo identity's SVID, the adapter
  answered 200 to its exact form with an acceptable response, and the verifier accepted the token
  in it with exactly the demo workload, agent, target, tool and scope; then it sends that token and
  nothing else that depends on it, and it reports success only on a 2xx answer it read in full.
  In every other case the outcome is a failure and what the gateway would do is irrelevant.
\<close>
theorem strict_run_calls_with_bound_token:
  "(\<exists>w'. \<forall>g. strict_run (env\<lparr>se_gateway := g\<rparr>) r user w = (False, w'))
   \<or> (\<exists>au gu s w1 body result cl w2 w3 h.
        fixed_https (se_ip_literal env) (sr_adapter_url r) = Some au
        \<and> fixed_https (se_ip_literal env) (sr_gateway_url r) = Some gu
        \<and> se_fetch env [''urn:pingfederate:wai:token-exchange''] w = (Some s, w1) \<and> svid_id s = demo_spiffe_id
        \<and> se_adapter env (adapter_call au user (svid_token s)) w1 = (Some (200, body), w2)
        \<and> decode_strict_adapter_response (se_lexer env) body (sr_maximum_bytes r) = Some result
        \<and> se_verify env (sa_access_token result) w2 = (Inr cl, w3)
        \<and> txn_requesting_workload_id cl = demo_spiffe_id \<and> wac_id (wai_agent (txn_context cl)) = ''urn:agent:demo''
        \<and> wai_target (txn_context cl) = ''demo'' \<and> wai_tool (txn_context cl) = ''system.whoami''
        \<and> txn_scope cl = [''mcp.system.whoami'']
        \<and> set_txn_token (Some []) (sa_access_token result) (sr_maximum_bytes r) = Inr h
        \<and> (\<forall>g. strict_run (env\<lparr>se_gateway := g\<rparr>) r user w =
             (case g \<lparr>sc_url = gu, sc_header = mcp_headers ''system.whoami'' h,
                      sc_body = call_payload id ''system.whoami''\<rparr> w3 of
                (answer, w') \<Rightarrow> (gateway_accepted r answer, w'))))"
proof (cases "strict_ready r user \<and> fixed_https (se_ip_literal env) (sr_adapter_url r) \<noteq> None
    \<and> fixed_https (se_ip_literal env) (sr_gateway_url r) \<noteq> None")
  case False
  then have "strict_run (env\<lparr>se_gateway := g\<rparr>) r user w = (False, w)" for g
    by (auto simp: strict_run_def split: option.split)
  then show ?thesis by blast
next
  case True
  then obtain au gu where u: "strict_ready r user" "fixed_https (se_ip_literal env) (sr_adapter_url r) = Some au"
    "fixed_https (se_ip_literal env) (sr_gateway_url r) = Some gu" by blast
  obtain res w3 where ob: "strict_obtain env r au user w = (res, w3)" by fastforce
  show ?thesis
  proof (cases "\<exists>tok call. res = Some tok \<and> strict_gateway_call r gu tok = Some call")
    case False
    then have "strict_run (env\<lparr>se_gateway := g\<rparr>) r user w = (False, w3)" for g
      by (auto simp: strict_run_def u strict_obtain_gateway ob split: option.split)
    then show ?thesis by blast
  next
    case True
    then obtain tok call where t: "res = Some tok" "strict_gateway_call r gu tok = Some call" by blast
    then obtain h where h: "set_txn_token (Some []) tok (sr_maximum_bytes r) = Inr h"
      and call: "call = \<lparr>sc_url = gu, sc_header = mcp_headers ''system.whoami'' h, sc_body = call_payload id ''system.whoami''\<rparr>"
      by (auto simp: strict_gateway_call_def split: sum.splits)
    have run: "strict_run (env\<lparr>se_gateway := g\<rparr>) r user w =
        (case g call w3 of (answer, w') \<Rightarrow> (gateway_accepted r answer, w'))" for g
      by (simp add: strict_run_def u strict_obtain_gateway ob t)
    have id: "acceptable_svid r s \<Longrightarrow> svid_id s = demo_spiffe_id" for s by (simp add: acceptable_svid_def)
    show ?thesis
      using ob [unfolded t(1) strict_obtain_Some expected_claims_iff] u(2,3) run [unfolded call] h id by blast
  qed
qed

end
