(* ===== verification/Mcp_Server.thy ===== *)
theory Mcp_Server
  imports Gateway Agent
begin

text \<open>
  The demo MCP server and the demo APIs behind the gateway (\<open>pkg/mcp/server.go\<close>, \<open>api.go\<close>). The MCP
  SDK, which decodes a call and picks the tool, and the HTTP client are parameters; the tools are
  functions of the request's context and of their arguments.
\<close>

section \<open>Configuration\<close>

record demo_options =
  do_api_client :: "duration option"
  do_api_url :: "url option"
  do_strict :: bool
  do_maximum_token_bytes :: int

definition new_demo_server_handler :: demo_options where
  "new_demo_server_handler =
     \<lparr>do_api_client = None, do_api_url = None, do_strict = False, do_maximum_token_bytes = 0\<rparr>"

definition fixed_api :: "demo_options \<Rightarrow> bool" where
  "fixed_api opts =
     (\<not> ((case do_api_client opts of None \<Rightarrow> True | Some timeout \<Rightarrow> timeout \<le> 0)
         \<or> (case do_api_url opts of None \<Rightarrow> True | Some u \<Rightarrow> \<not> https_endpoint u)))"

definition new_demo_server_handler_with_api :: "demo_options \<Rightarrow> demo_options option" where
  "new_demo_server_handler_with_api opts = (if \<not> fixed_api opts then None else Some opts)"

definition new_strict_demo_server_handler_with_api :: "demo_options \<Rightarrow> int \<Rightarrow> demo_options option" where
  "new_strict_demo_server_handler_with_api opts maximum =
     (if \<not> fixed_api opts \<or> maximum \<le> 0 then None
      else Some (opts\<lparr>do_strict := True, do_maximum_token_bytes := maximum\<rparr>))"

section \<open>Calling the API\<close>

datatype tool_error =
    StrictRouteDenied | CustomerRequired | IdentityRequired | TokenRequired | ApiRequest | ApiDenied | ApiFailed
  | ApiRejected nat | ApiCorrelation

text \<open>\<open>endpoint.String()\<close> makes a request, or does not; \<open>send\<close> is the GET with these headers.\<close>

record 'w tool_env =
  to_request_ok :: "url \<Rightarrow> bool"
  to_send :: "url \<Rightarrow> header \<Rightarrow> 'w \<Rightarrow> (nat \<times> request_body) option \<times> 'w"
  to_lexer :: "string \<Rightarrow> jtoken list"

definition signed_tool_matches :: "mw_ctx \<Rightarrow> string \<Rightarrow> string \<Rightarrow> bool" where
  "signed_tool_matches c target tool =
     (case verified_signed_route c of None \<Rightarrow> False | Some r \<Rightarrow> fst r = target \<and> snd r = tool)"

definition correlation_fields :: "string field list" where
  "correlation_fields = [string_field ''transaction_id'' (\<lambda>s _. s)]"

text \<open>
  The answer of the API. The strict decoder takes one object with no other member and then wants the end
  of the body, so a body that fails before the limit is refused; the other decoder reads a first value.
\<close>

definition strict_correlation :: "(string \<Rightarrow> jtoken list) \<Rightarrow> request_body \<Rightarrow> string option" where
  "strict_correlation lexer body =
     (case read_limited 1048577 body of
        None \<Rightarrow> None
      | Some bytes \<Rightarrow>
          Option.bind (decode_all (lexer bytes)) (\<lambda>j. decode_struct correlation_fields True j []))"

definition correlation :: "(string \<Rightarrow> jtoken list) \<Rightarrow> request_body \<Rightarrow> string option" where
  "correlation lexer body =
     Option.bind (decode_next (lexer (take 1048576 (body_bytes body))))
       (\<lambda>(j, _). decode_struct correlation_fields False j [])"

definition call_demo_api_strict ::
  "'w tool_env \<Rightarrow> mw_ctx \<Rightarrow> url \<Rightarrow> int \<Rightarrow> string \<Rightarrow> 'w \<Rightarrow> (tool_error + string) \<times> 'w" where
  "call_demo_api_strict env c u maximum expected w =
     (if \<not> to_request_ok env u then (Inl ApiRequest, w)
      else case propagate_verified_txn_token c (Some []) maximum of
        Inl _ \<Rightarrow> (Inl ApiDenied, w)
      | Inr h \<Rightarrow>
          (case to_send env u h w of
             (None, w') \<Rightarrow> (Inl ApiFailed, w')
           | (Some (status, body), w') \<Rightarrow>
               if status \<noteq> 200 then (Inl (ApiRejected status), w')
               else (case strict_correlation (to_lexer env) body of
                  None \<Rightarrow> (Inl ApiCorrelation, w')
                | Some tx \<Rightarrow> if tx = [] \<or> tx \<noteq> expected then (Inl ApiCorrelation, w') else (Inr tx, w'))))"

definition call_demo_api ::
  "'w tool_env \<Rightarrow> url \<Rightarrow> string \<Rightarrow> string \<Rightarrow> 'w \<Rightarrow> (tool_error + string) \<times> 'w" where
  "call_demo_api env u tok expected w =
     (if \<not> to_request_ok env u then (Inl ApiRequest, w)
      else case to_send env u (header_set [] ''Authorization'' (''Bearer '' @ tok)) w of
        (None, w') \<Rightarrow> (Inl ApiFailed, w')
      | (Some (status, body), w') \<Rightarrow>
          if status \<noteq> 200 then (Inl (ApiRejected status), w')
          else (case correlation (to_lexer env) body of
             None \<Rightarrow> (Inl ApiCorrelation, w')
           | Some tx \<Rightarrow>
               if tx = [] then (Inl ApiCorrelation, w')
               else if tx \<noteq> expected then (Inl ApiCorrelation, w') else (Inr tx, w')))"

section \<open>The tools\<close>

record who_am_i =
  wo_user_id :: string
  wo_agent_id :: string
  wo_workload_spiffe_id :: string
  wo_immediate_caller_spiffe_id :: string
  wo_transaction_id :: string
  wo_purpose :: string
  wo_api_transaction_id :: string

definition customer_get :: "demo_options \<Rightarrow> mw_ctx \<Rightarrow> string \<Rightarrow> tool_error + string \<times> string" where
  "customer_get opts c customer =
     (if do_strict opts \<and> \<not> signed_tool_matches c ''demo'' ''customer.get'' then Inl StrictRouteDenied
      else if customer = [] then Inl CustomerRequired
      else Inr (customer, ''Demo Customer''))"

definition who_am_i_of :: "request_identity \<Rightarrow> string \<Rightarrow> who_am_i" where
  "who_am_i_of v api =
     \<lparr>wo_user_id = user_id (ric_user v), wo_agent_id = agent_id (ric_agent v),
      wo_workload_spiffe_id = workload_spiffe_id (ric_original_workload v),
      wo_immediate_caller_spiffe_id = workload_spiffe_id (ric_immediate_caller v),
      wo_transaction_id = transaction_id (ric_transaction v), wo_purpose = transaction_purpose (ric_transaction v),
      wo_api_transaction_id = api\<rparr>"

definition call_api ::
  "'w tool_env \<Rightarrow> demo_options \<Rightarrow> mw_ctx \<Rightarrow> url \<Rightarrow> string \<Rightarrow> 'w \<Rightarrow> (tool_error + string) \<times> 'w" where
  "call_api env opts c u expected w =
     (if do_strict opts then call_demo_api_strict env c u (do_maximum_token_bytes opts) expected w
      else case verified_transaction_token c of
        None \<Rightarrow> (Inl TokenRequired, w)
      | Some tok \<Rightarrow> call_demo_api env u tok expected w)"

text \<open>A client comes with a URL in every handler the constructors give.\<close>

definition system_whoami :: "'w tool_env \<Rightarrow> demo_options \<Rightarrow> mw_ctx \<Rightarrow> 'w \<Rightarrow> (tool_error + who_am_i) \<times> 'w" where
  "system_whoami env opts c w =
     (if do_strict opts \<and> \<not> signed_tool_matches c ''demo'' ''system.whoami'' then (Inl StrictRouteDenied, w)
      else case from_context c of
        None \<Rightarrow> (Inl IdentityRequired, w)
      | Some v \<Rightarrow>
          (case (do_api_client opts, do_api_url opts) of
             (Some _, Some u) \<Rightarrow>
               (case call_api env opts c u (transaction_id (ric_transaction v)) w of
                  (Inl e, w') \<Rightarrow> (Inl e, w')
                | (Inr tx, w') \<Rightarrow> (Inr (who_am_i_of v tx), w'))
           | _ \<Rightarrow> (Inr (who_am_i_of v []), w)))"

section \<open>The APIs\<close>

datatype api_body = Customer string string string | Correlated string

definition demo_api_handler :: "('w, api_body) handler" where
  "demo_api_handler rq w =
     (case from_context (rq_ctx rq) of
        None \<Rightarrow> ([HttpError ''unauthorized'' 401], w)
      | Some v \<Rightarrow>
          ([SetHeader ''Content-Type'' ''application/json'',
            Encode (Customer ''customer-123'' ''Demo Customer'' (transaction_id (ric_transaction v)))], w))"

definition strict_api_serve :: "string \<Rightarrow> string \<Rightarrow> ('w, api_body) handler" where
  "strict_api_serve target tool rq w =
     (if key_present (rq_header rq) ''Authorization'' \<or> \<not> signed_tool_matches (rq_ctx rq) target tool
      then ([HttpError ''forbidden'' 403], w)
      else case (from_context (rq_ctx rq), verified_transaction_token (rq_ctx rq)) of
        (Some v, Some _) \<Rightarrow>
          ([SetHeader ''Content-Type'' ''application/json'', SetHeader ''Cache-Control'' ''no-store'',
            Encode (Correlated (transaction_id (ric_transaction v)))], w)
      | _ \<Rightarrow> ([HttpError ''unauthorized'' 401], w))"

definition strict_demo_api_handler :: "string \<Rightarrow> string \<Rightarrow> gateway_error + ('w, api_body) handler" where
  "strict_demo_api_handler target tool =
     (if blank target \<or> blank tool then Inl StrictDenied else Inr (strict_api_serve target tool))"

section \<open>What the strict server does\<close>

lemma signed_tool_matches_iff: "signed_tool_matches c target tool \<longleftrightarrow> verified_signed_route c = Some (target, tool)"
  by (auto simp: signed_tool_matches_def split: option.splits)

fun api_json :: "api_body \<Rightarrow> json" where
  "api_json (Customer i n tx) = JObj [(''customer_id'', JStr i), (''name'', JStr n), (''transaction_id'', JStr tx)]"
| "api_json (Correlated tx) = JObj [(''transaction_id'', JStr tx)]"

text \<open>The strict decoder takes what the strict API encodes, and not what the other API encodes.\<close>

lemma strict_correlation_api:
  assumes "lexer (body_bytes body) = tokens_of (api_json b)" "int (length (body_bytes body)) \<le> 1048577" "\<not> body_fails body"
  shows "strict_correlation lexer body = (case b of Correlated tx \<Rightarrow> Some tx | Customer _ _ _ \<Rightarrow> None)"
proof -
  have fold: "fold_view ''transaction_id'' = ''transaction_id''" "fold_view ''customer_id'' = ''customer_id''" by code_simp+
  have "read_limited 1048577 body = Some (body_bytes body)"
    using assms(2,3) by (simp add: read_limited_code)
  then show ?thesis
    by (cases b) (simp_all add: strict_correlation_def assms(1) decode_struct_def correlation_fields_def string_field_def
        equal_fold_def fold del: tokens_of.simps)
qed

lemma call_demo_api_strict_Inr:
  "call_demo_api_strict env c u maximum expected w = (Inr tx, w') \<longleftrightarrow>
     to_request_ok env u \<and> tx = expected \<and> tx \<noteq> []
     \<and> (\<exists>h body. propagate_verified_txn_token c (Some []) maximum = Inr h \<and> to_send env u h w = (Some (200, body), w')
          \<and> strict_correlation (to_lexer env) body = Some tx)"
  by (auto simp: call_demo_api_strict_def split: sum.splits option.splits prod.splits if_splits)

end
