(* ===== verification/Mcp_Facts.thy ===== *)
theory Mcp_Facts
  imports Mcp_Server Gateway_Facts
begin

text \<open>
  What the strict demo server (\<open>pkg/mcp/server.go\<close>) answers, and the strict API (\<open>pkg/mcp/api.go\<close>) it
  asks.
\<close>

section \<open>A demo server\<close>

definition whoami_options :: demo_options where
  "whoami_options =
     \<lparr>do_api_client = Some second, do_api_url = Some demo_url, do_strict = False, do_maximum_token_bytes = 0\<rparr>"

definition whoami_ctx :: mw_ctx where
  "whoami_ctx = demo_ctx\<lparr>ctx_route := Some (''demo'', ''system.whoami'')\<rparr>"

text \<open>The API answers with what the strict handler encodes for the same context; only its status matters here.\<close>

definition whoami_env :: "unit tool_env" where
  "whoami_env =
     \<lparr>to_request_ok = (\<lambda>_. True),
      to_send = (\<lambda>u h w. (Some (200, \<lparr>body_bytes = ''{}'', body_fails = False\<rparr>), w)),
      to_lexer = (\<lambda>_. concat (map (\<lambda>b. tokens_of (api_json b))
        (bodies (fst (strict_api_serve ''demo'' ''system.whoami'' (demo_request\<lparr>rq_ctx := whoami_ctx\<rparr>) ())))))\<rparr>"

lemma whoami_built:
  "new_strict_demo_server_handler_with_api whoami_options 4096 =
     Some (whoami_options\<lparr>do_strict := True, do_maximum_token_bytes := 4096\<rparr>)"
  by code_simp

lemma whoami_token: "set_txn_token (Some []) sample_token 4096 = Inr [(''Txn-Token'', [sample_token])]"
  by code_simp

lemma whoami_facts:
  "verified_signed_route whoami_ctx = Some (''demo'', ''system.whoami'')"
  "from_context whoami_ctx = from_context demo_ctx" "verified_transaction_token whoami_ctx = Some sample_token"
proof -
  have "sample_token \<noteq> []" by code_simp
  then show "verified_transaction_token whoami_ctx = Some sample_token"
    by (simp add: whoami_ctx_def demo_ctx_def verified_transaction_token_def)
qed (simp_all add: whoami_ctx_def verified_signed_route_def from_context_def)

lemma whoami_answered:
  "strict_correlation (to_lexer whoami_env) \<lparr>body_bytes = ''{}'', body_fails = False\<rparr> = Some ''t-1''"
proof -
  have "\<not> key_present (rq_header demo_request) ''Authorization''" by code_simp
  then have "fst (strict_api_serve ''demo'' ''system.whoami'' (demo_request\<lparr>rq_ctx := whoami_ctx\<rparr>) ())
      = [SetHeader ''Content-Type'' ''application/json'', SetHeader ''Cache-Control'' ''no-store'', Encode (Correlated ''t-1'')]"
    by (simp add: strict_api_serve_def signed_tool_matches_iff whoami_facts) (simp add: demo_ctx_def from_context_def)
  then have "to_lexer whoami_env ''{}'' = tokens_of (api_json (Correlated ''t-1''))"
    by (simp add: whoami_env_def)
  then show ?thesis
    using strict_correlation_api [of "to_lexer whoami_env" "\<lparr>body_bytes = ''{}'', body_fails = False\<rparr>" "Correlated ''t-1''"]
    by (simp del: tokens_of.simps)
qed

section \<open>Properties\<close>

text \<open>
  C32. The strict server tells who is calling exactly for a call on the signed route of the demo target
  with a verified identity and token, after the fixed API answered 200, to a request that carries
  that token unchanged as its only header, with nothing but the transaction ID of that identity;
  what it tells is that identity.
\<close>
theorem strict_whoami_exact:
  assumes "new_strict_demo_server_handler_with_api opts0 maximum = Some opts" and "do_api_url opts0 = Some u"
  shows "system_whoami env opts c w = (Inr out, w') \<longleftrightarrow>
     (\<exists>v raw body. verified_signed_route c = Some (''demo'', ''system.whoami'') \<and> from_context c = Some v
        \<and> verified_transaction_token c = Some raw \<and> compact_jws raw \<and> int (length raw) \<le> maximum \<and> to_request_ok env u
        \<and> to_send env u [(''Txn-Token'', [raw])] w = (Some (200, body), w')
        \<and> transaction_id (ric_transaction v) \<noteq> []
        \<and> strict_correlation (to_lexer env) body = Some (transaction_id (ric_transaction v))
        \<and> out = who_am_i_of v (transaction_id (ric_transaction v)))"
proof -
  from assms obtain t where o: "opts = opts0\<lparr>do_strict := True, do_maximum_token_bytes := maximum\<rparr>"
    "do_api_client opts0 = Some t" "0 < maximum"
    by (auto simp: new_strict_demo_server_handler_with_api_def fixed_api_def split: if_splits option.splits)
  have h: "header_set [] ''Txn-Token'' raw = [(''Txn-Token'', [raw])]" for raw
    by (simp add: header_set_def canonical_txn_token)
  have p: "propagate_verified_txn_token c (Some []) maximum = Inr h \<longleftrightarrow>
      verified_signed_route c \<noteq> None \<and> (\<exists>raw. verified_transaction_token c = Some raw
        \<and> compact_jws raw \<and> int (length raw) \<le> maximum \<and> h = [(''Txn-Token'', [raw])])" for h
    unfolding propagate_Inr set_txn_token_Inr by (auto simp: o(3) h key_present_iff)
  have "system_whoami env opts c w = (Inr out, w') \<longleftrightarrow> verified_signed_route c = Some (''demo'', ''system.whoami'')
      \<and> (\<exists>v tx. from_context c = Some v \<and> out = who_am_i_of v tx
           \<and> call_demo_api_strict env c u maximum (transaction_id (ric_transaction v)) w = (Inr tx, w'))"
    using o(2) assms(2)
    by (auto simp: system_whoami_def o(1) signed_tool_matches_iff call_api_def split: option.splits prod.splits sum.splits)
  then show ?thesis unfolding call_demo_api_strict_Inr p by auto
qed

theorem strict_whoami_exact_witness:
  "\<exists>out. system_whoami whoami_env (whoami_options\<lparr>do_strict := True, do_maximum_token_bytes := 4096\<rparr>) whoami_ctx () = (Inr out, ())
     \<and> wo_user_id out = ''alice'' \<and> wo_api_transaction_id out = ''t-1''"
proof -
  obtain v where v: "from_context whoami_ctx = Some v" "transaction_id (ric_transaction v) = ''t-1''" "user_id (ric_user v) = ''alice''"
    unfolding whoami_facts by (simp add: demo_ctx_def from_context_def)
  have t: "compact_jws sample_token \<and> int (length sample_token) \<le> 4096"
    using whoami_token unfolding set_txn_token_Inr by blast
  have "do_api_url whoami_options = Some demo_url" by (simp add: whoami_options_def)
  from strict_whoami_exact [OF whoami_built this, of whoami_env whoami_ctx "()" "who_am_i_of v ''t-1''" "()"]
  have "system_whoami whoami_env (whoami_options\<lparr>do_strict := True, do_maximum_token_bytes := 4096\<rparr>) whoami_ctx ()
      = (Inr (who_am_i_of v ''t-1''), ())"
    using v t whoami_facts(1,3) whoami_answered by (simp add: whoami_env_def)
  then show ?thesis using v by (simp add: who_am_i_of_def)
qed

end
