(* ===== verification/Config.thy ===== *)
theory Config
  imports Go_URL
begin

text \<open>
  The configuration file of the components (\<open>internal/config/config.go\<close>) and its validation.
  \<open>parse_id\<close> is \<open>spiffeid.FromString\<close>, \<open>loopback_ip\<close> tells whether a host is a loopback address
  (\<open>net.ParseIP\<close>); the text of an error is left out.
\<close>

section \<open>The document\<close>

record pingfederate_config =
  pc_issuer :: string
  pc_token_endpoint :: string
  pc_jwks_uri :: string
  pc_client_id :: string
  pc_client_secret_env :: string
  pc_actor_audience :: string
  pc_transaction_audience :: string
  pc_allowed_algorithms :: "string list"

record transaction_config =
  tc_default_ttl_seconds :: int
  tc_maximum_ttl_seconds :: int
  tc_clock_skew_seconds :: int
  tc_allowed_purposes :: "string list"

record agent_config =
  ac_id :: string
  ac_allowed_spiffe_ids :: "string list"

record web_section =
  wc_listen :: string
  wc_public_url :: string
  wc_agent_id :: string
  wc_spiffe_id :: string
  wc_local_http :: bool

record oidc_config =
  oi_issuer :: string
  oi_authorization_endpoint :: string
  oi_token_endpoint :: string
  oi_client_id :: string
  oi_client_secret_env :: string
  oi_redirect_uri :: string
  oi_scopes :: "string list"

record session_config =
  ss_cookie_name :: string
  ss_cookie_secure :: bool
  ss_cookie_same_site :: string
  ss_ttl_seconds :: int
  ss_pre_auth_ttl_seconds :: int
  ss_maximum_sessions :: int

record audit_store_config =
  as_listen :: string
  as_url :: string
  as_spiffe_id :: string
  as_maximum_events :: int
  as_maximum_field_bytes :: int
  as_retention_seconds :: int

text \<open>The parts \<open>Validate\<close> looks at.\<close>

record config =
  cf_pingfederate :: pingfederate_config
  cf_transaction :: transaction_config
  cf_agents :: "agent_config list"
  cf_web :: web_section
  cf_oidc :: oidc_config
  cf_session :: session_config
  cf_audit_store :: audit_store_config

datatype config_error =
    IssuerRequired | TokenEndpointRequired | TransactionAudienceRequired | MaximumTTLNotPositive
  | DefaultTTLNotPositive | DefaultTTLExceedsMaximum | MaximumTTLTooLong | AgentIDRequired | DuplicateAgentID
  | AgentWithoutSPIFFEID | AgentSPIFFEIDInvalid | SPIFFEIDBoundTwice | WebPublicURL | WebBindingRequired
  | WebNotBound | OIDCIssuer | OIDCIssuerMismatch | OIDCEndpoint | OIDCRedirect | OIDCClient | OIDCScopeEmpty
  | OIDCScopeDuplicate | OIDCOpenIDRequired | SessionCookie | SessionBounds | AuditCollector | AuditSameWorkload
  | AuditLimits

section \<open>URLs and names\<close>

text \<open>\<open>URL.Hostname\<close>: without the port and the brackets.\<close>

definition hostname :: "url \<Rightarrow> string" where
  "hostname u =
     (let h = (case cut_last (CHR '':'') (url_host u) of
          Some (host, port) \<Rightarrow> if valid_optional_port (CHR '':'' # port) then host else url_host u
        | None \<Rightarrow> url_host u)
      in if has_prefix h ''['' \<and> suffix '']'' h then tl (butlast h) else h)"

definition loopback_host :: "(string \<Rightarrow> bool) \<Rightarrow> string \<Rightarrow> bool" where
  "loopback_host loopback_ip h = (equal_fold h ''localhost'' \<or> loopback_ip h)"

definition parse_application_url ::
  "(string \<Rightarrow> string option) \<Rightarrow> (string \<Rightarrow> bool) \<Rightarrow> string \<Rightarrow> bool \<Rightarrow> url option" where
  "parse_application_url ip_literal loopback_ip raw allow_local =
     (case url_parse ip_literal (trim_space raw) of
        None \<Rightarrow> None
      | Some u \<Rightarrow>
          if url_host u = [] \<or> url_user u \<or> url_raw_query u \<noteq> [] \<or> url_fragment u \<noteq> [] then None
          else if url_scheme u = ''https'' then Some u
          else if url_scheme u = ''http'' \<and> allow_local \<and> loopback_host loopback_ip (hostname u) then Some u
          else None)"

definition config_spiffe_id :: "(string \<Rightarrow> string option) \<Rightarrow> string \<Rightarrow> bool" where
  "config_spiffe_id parse_id raw = (parse_id (trim_space raw) \<noteq> None)"

text \<open>The regular expression \<open>^[A-Z][A-Z0-9_]*$\<close>.\<close>

definition upper_letter :: "char \<Rightarrow> bool" where
  "upper_letter c = (let n = of_char c :: nat in 65 \<le> n \<and> n \<le> 90)"

definition environment_name :: "string \<Rightarrow> bool" where
  "environment_name s =
     (case s of [] \<Rightarrow> False
      | c # cs \<Rightarrow> upper_letter c \<and> list_all (\<lambda>d. upper_letter d \<or> is_digit d \<or> d = CHR ''_'') cs)"

definition root_path :: "url \<Rightarrow> bool" where
  "root_path u = (url_path u = [] \<or> url_path u = ''/'')"

section \<open>\<open>Validate\<close>\<close>

text \<open>The bindings are kept as the list of SPIFFE IDs with their agents.\<close>

fun bind_spiffe_ids ::
  "(string \<Rightarrow> string option) \<Rightarrow> string \<Rightarrow> string list \<Rightarrow> (string \<times> string) list
    \<Rightarrow> config_error + (string \<times> string) list" where
  "bind_spiffe_ids parse_id agent [] m = Inr m"
| "bind_spiffe_ids parse_id agent (raw # rest) m =
     (let i = trim_space raw in
      if \<not> config_spiffe_id parse_id i then Inl AgentSPIFFEIDInvalid
      else if lookup m i \<noteq> None then Inl SPIFFEIDBoundTwice
      else bind_spiffe_ids parse_id agent rest (m @ [(i, agent)]))"

fun bind_agents ::
  "(string \<Rightarrow> string option) \<Rightarrow> agent_config list \<Rightarrow> string list \<Rightarrow> (string \<times> string) list
    \<Rightarrow> config_error + (string \<times> string) list" where
  "bind_agents parse_id [] agents m = Inr m"
| "bind_agents parse_id (a # rest) agents m =
     (let i = trim_space (ac_id a) in
      if i = [] then Inl AgentIDRequired
      else if i \<in> set agents then Inl DuplicateAgentID
      else if length (ac_allowed_spiffe_ids a) = 0 then Inl AgentWithoutSPIFFEID
      else (case bind_spiffe_ids parse_id i (ac_allowed_spiffe_ids a) m of
         Inl e \<Rightarrow> Inl e
       | Inr m' \<Rightarrow> bind_agents parse_id rest (agents @ [i]) m'))"

fun check_oidc_scopes :: "string list \<Rightarrow> string list \<Rightarrow> config_error + string list" where
  "check_oidc_scopes [] seen = Inr seen"
| "check_oidc_scopes (raw # rest) seen =
     (let s = trim_space raw in
      if s = [] then Inl OIDCScopeEmpty
      else if s \<in> set seen then Inl OIDCScopeDuplicate
      else check_oidc_scopes rest (seen @ [s]))"

definition validate_oidc ::
  "(string \<Rightarrow> bool \<Rightarrow> url option) \<Rightarrow> config \<Rightarrow> url \<Rightarrow> config_error option" where
  "validate_oidc parse_url c public =
     (let oidc = cf_oidc c in
      case parse_url (oi_issuer oidc) False of
        None \<Rightarrow> Some OIDCIssuer
      | Some iss \<Rightarrow>
          if \<not> root_path iss then Some OIDCIssuer
          else if trim_suffix (oi_issuer oidc) ''/'' \<noteq> trim_suffix (pc_issuer (cf_pingfederate c)) ''/'' then Some OIDCIssuerMismatch
          else if list_ex (\<lambda>raw. case parse_url raw False of
                None \<Rightarrow> True
              | Some e \<Rightarrow> url_scheme e \<noteq> url_scheme iss \<or> url_host e \<noteq> url_host iss \<or> root_path e)
              [oi_authorization_endpoint oidc, oi_token_endpoint oidc]
          then Some OIDCEndpoint
          else if (case parse_url (oi_redirect_uri oidc) (wc_local_http (cf_web c)) of
                None \<Rightarrow> True
              | Some r \<Rightarrow> url_scheme r \<noteq> url_scheme public \<or> url_host r \<noteq> url_host public \<or> root_path r)
          then Some OIDCRedirect
          else if blank (oi_client_id oidc) \<or> \<not> environment_name (oi_client_secret_env oidc) then Some OIDCClient
          else (case check_oidc_scopes (oi_scopes oidc) [] of
             Inl e \<Rightarrow> Some e
           | Inr scopes \<Rightarrow> if ''openid'' \<notin> set scopes then Some OIDCOpenIDRequired else None))"

definition validate_stores ::
  "(string \<Rightarrow> bool \<Rightarrow> url option) \<Rightarrow> (string \<Rightarrow> string option) \<Rightarrow> config \<Rightarrow> config_error option" where
  "validate_stores parse_url parse_id c =
     (let s = cf_session c; a = cf_audit_store c in
      if \<not> has_prefix (ss_cookie_name s) ''__Host-'' \<or> \<not> ss_cookie_secure s \<or> ss_cookie_same_site s \<noteq> ''Lax''
      then Some SessionCookie
      else if ss_ttl_seconds s \<le> 0 \<or> ss_ttl_seconds s > 28800 \<or> ss_pre_auth_ttl_seconds s \<le> 0
         \<or> ss_pre_auth_ttl_seconds s > 600 \<or> ss_maximum_sessions s \<le> 0 \<or> ss_maximum_sessions s > 10000
      then Some SessionBounds
      else if (case parse_url (as_url a) False of None \<Rightarrow> True | Some u \<Rightarrow> \<not> root_path u)
         \<or> blank (as_listen a) \<or> \<not> config_spiffe_id parse_id (as_spiffe_id a)
      then Some AuditCollector
      else if as_spiffe_id a = wc_spiffe_id (cf_web c) then Some AuditSameWorkload
      else if as_maximum_events a \<le> 0 \<or> as_maximum_events a > 100000 \<or> as_maximum_field_bytes a \<le> 0
         \<or> as_maximum_field_bytes a > 65536 \<or> as_retention_seconds a \<le> 0 \<or> as_retention_seconds a > 86400
      then Some AuditLimits
      else None)"

definition validate_ui ::
  "(string \<Rightarrow> bool \<Rightarrow> url option) \<Rightarrow> (string \<Rightarrow> string option) \<Rightarrow> config \<Rightarrow> (string \<times> string) list \<Rightarrow> config_error option" where
  "validate_ui parse_url parse_id c bindings =
     (let web = cf_web c in
      case parse_url (wc_public_url web) (wc_local_http web) of
        None \<Rightarrow> Some WebPublicURL
      | Some public \<Rightarrow>
          if \<not> root_path public then Some WebPublicURL
          else if blank (wc_listen web) \<or> blank (wc_agent_id web) \<or> \<not> config_spiffe_id parse_id (wc_spiffe_id web)
          then Some WebBindingRequired
          else if (case lookup bindings (wc_spiffe_id web) of None \<Rightarrow> [] | Some a \<Rightarrow> a) \<noteq> wc_agent_id web then Some WebNotBound
          else (case validate_oidc parse_url c public of
             Some e \<Rightarrow> Some e
           | None \<Rightarrow> validate_stores parse_url parse_id c))"

definition validate_config ::
  "(string \<Rightarrow> string option) \<Rightarrow> (string \<Rightarrow> bool) \<Rightarrow> (string \<Rightarrow> string option) \<Rightarrow> config \<Rightarrow> config_error option" where
  "validate_config ip_literal loopback_ip parse_id c =
     (let pf = cf_pingfederate c; tx = cf_transaction c in
      if blank (pc_issuer pf) then Some IssuerRequired
      else if blank (pc_token_endpoint pf) then Some TokenEndpointRequired
      else if blank (pc_transaction_audience pf) then Some TransactionAudienceRequired
      else if tc_maximum_ttl_seconds tx \<le> 0 then Some MaximumTTLNotPositive
      else if tc_default_ttl_seconds tx \<le> 0 then Some DefaultTTLNotPositive
      else if tc_default_ttl_seconds tx > tc_maximum_ttl_seconds tx then Some DefaultTTLExceedsMaximum
      else if wrap64 (tc_maximum_ttl_seconds tx * second) > 60 * second then Some MaximumTTLTooLong
      else (case bind_agents parse_id (cf_agents c) [] [] of
         Inl e \<Rightarrow> Some e
       | Inr bindings \<Rightarrow> validate_ui (parse_application_url ip_literal loopback_ip) parse_id c bindings))"

section \<open>What validation accepts\<close>

lemma bind_spiffe_ids_Inr:
  "bind_spiffe_ids parse_id agent raws m = Inr m' \<longleftrightarrow>
     m' = m @ map (\<lambda>raw. (trim_space raw, agent)) raws \<and> distinct (map trim_space raws)
     \<and> fst ` set m \<inter> trim_space ` set raws = {} \<and> (\<forall>raw \<in> set raws. parse_id (trim_space raw) \<noteq> None)"
proof (induction raws arbitrary: m)
  case (Cons raw rest)
  have "lookup m (trim_space raw) \<noteq> None \<longleftrightarrow> trim_space raw \<in> fst ` set m"
    by (simp add: map_of_eq_None_iff)
  then show ?case by (auto simp: Cons.IH config_spiffe_id_def Let_def)
qed auto

definition agent_pairs :: "agent_config \<Rightarrow> (string \<times> string) list" where
  "agent_pairs a = map (\<lambda>raw. (trim_space raw, trim_space (ac_id a))) (ac_allowed_spiffe_ids a)"

lemma bind_agents_Inr:
  assumes "bind_agents parse_id as ids m = Inr m'" "distinct (map fst m)"
  shows "m' = m @ concat (map agent_pairs as) \<and> distinct (map fst m')
     \<and> (\<forall>a \<in> set as. \<forall>raw \<in> set (ac_allowed_spiffe_ids a). parse_id (trim_space raw) \<noteq> None)"
  using assms
proof (induction as arbitrary: ids m)
  case (Cons a rest)
  from Cons.prems(1) obtain m1 where m1: "bind_spiffe_ids parse_id (trim_space (ac_id a)) (ac_allowed_spiffe_ids a) m = Inr m1"
    and r: "bind_agents parse_id rest (ids @ [trim_space (ac_id a)]) m1 = Inr m'"
    by (auto simp: Let_def split: if_splits sum.splits)
  from m1 have e: "m1 = m @ agent_pairs a" "distinct (map trim_space (ac_allowed_spiffe_ids a))"
    "fst ` set m \<inter> trim_space ` set (ac_allowed_spiffe_ids a) = {}"
    "\<forall>raw \<in> set (ac_allowed_spiffe_ids a). parse_id (trim_space raw) \<noteq> None"
    unfolding bind_spiffe_ids_Inr agent_pairs_def by auto
  have "map fst (agent_pairs a) = map trim_space (ac_allowed_spiffe_ids a)"
    by (simp add: agent_pairs_def comp_def)
  with e Cons.prems(2) have "distinct (map fst m1)" by simp
  note ih = Cons.IH [OF r this]
  show ?case
  proof (intro conjI)
    show "m' = m @ concat (map agent_pairs (a # rest))" using ih e(1) by simp
    show "distinct (map fst m')" using ih by blast
    show "\<forall>a \<in> set (a # rest). \<forall>raw \<in> set (ac_allowed_spiffe_ids a). parse_id (trim_space raw) \<noteq> None"
      using ih e(4) by simp
  qed
qed simp

lemma validate_stores_None:
  assumes "validate_stores parse_url parse_id c = None"
  shows "0 < ss_ttl_seconds (cf_session c)" "ss_ttl_seconds (cf_session c) \<le> 28800"
    "0 < ss_pre_auth_ttl_seconds (cf_session c)" "ss_pre_auth_ttl_seconds (cf_session c) \<le> 600"
    "0 < ss_maximum_sessions (cf_session c)" "ss_maximum_sessions (cf_session c) \<le> 10000"
    "ss_cookie_secure (cf_session c)" "has_prefix (ss_cookie_name (cf_session c)) ''__Host-''"
    "as_spiffe_id (cf_audit_store c) \<noteq> wc_spiffe_id (cf_web c)"
    "0 < as_maximum_events (cf_audit_store c)" "as_maximum_events (cf_audit_store c) \<le> 100000"
    "0 < as_maximum_field_bytes (cf_audit_store c)" "as_maximum_field_bytes (cf_audit_store c) \<le> 65536"
    "0 < as_retention_seconds (cf_audit_store c)" "as_retention_seconds (cf_audit_store c) \<le> 86400"
  using assms by (auto simp: validate_stores_def Let_def split: if_splits)

lemma validate_ui_None:
  assumes "validate_ui parse_url parse_id c bindings = None"
  shows "lookup bindings (wc_spiffe_id (cf_web c)) = Some (wc_agent_id (cf_web c))"
    "validate_stores parse_url parse_id c = None"
  using assms by (auto simp: validate_ui_def Let_def split: if_splits option.splits)

lemma validate_config_None:
  assumes "validate_config ip_literal loopback_ip parse_id c = None"
  shows "0 < tc_default_ttl_seconds (cf_transaction c)"
    "tc_default_ttl_seconds (cf_transaction c) \<le> tc_maximum_ttl_seconds (cf_transaction c)"
    "wrap64 (tc_maximum_ttl_seconds (cf_transaction c) * second) \<le> 60 * second"
    "\<exists>bindings. bind_agents parse_id (cf_agents c) [] [] = Inr bindings
       \<and> validate_ui (parse_application_url ip_literal loopback_ip) parse_id c bindings = None"
  using assms by (auto simp: validate_config_def Let_def split: if_splits sum.splits)

text \<open>The lifetimes enter validation only through the checks made on them.\<close>

lemma transaction_apart:
  "cf_pingfederate (c\<lparr>cf_transaction := t\<rparr>) = cf_pingfederate c"
  "cf_agents (c\<lparr>cf_transaction := t\<rparr>) = cf_agents c" "cf_web (c\<lparr>cf_transaction := t\<rparr>) = cf_web c"
  "cf_oidc (c\<lparr>cf_transaction := t\<rparr>) = cf_oidc c" "cf_session (c\<lparr>cf_transaction := t\<rparr>) = cf_session c"
  "cf_audit_store (c\<lparr>cf_transaction := t\<rparr>) = cf_audit_store c"
  by simp_all

lemma validate_ui_transaction [simp]:
  "validate_ui parse_url parse_id (c\<lparr>cf_transaction := t\<rparr>) bindings = validate_ui parse_url parse_id c bindings"
  unfolding validate_ui_def validate_oidc_def validate_stores_def transaction_apart ..

lemma validate_config_retimed:
  assumes "validate_config ip_literal loopback_ip parse_id c = None"
  shows "validate_config ip_literal loopback_ip parse_id
      (c\<lparr>cf_transaction := (cf_transaction c)\<lparr>tc_default_ttl_seconds := d, tc_maximum_ttl_seconds := m\<rparr>\<rparr>) = None
    \<longleftrightarrow> 0 < d \<and> d \<le> m \<and> wrap64 (m * second) \<le> 60 * second"
  using assms by (auto simp: validate_config_def Let_def split: if_splits sum.splits)

text \<open>The seconds whose product with a second wraps to at most a minute, up to one and a half turns.\<close>

lemma wrapped_minute:
  assumes "0 < m" "m \<le> 27670116110"
  shows "wrap64 (m * second) \<le> 60 * second \<longleftrightarrow> m \<le> 60 \<or> 9223372037 \<le> m \<and> m \<le> 18446744133"
proof (cases "m \<le> 9223372036")
  case True
  with assms(1) have "wrap64 (m * second) = m * second"
    by (intro wrap64_id) (simp add: is_int64_def int64_min_def int64_max_def second_def)
  with True show ?thesis by (auto simp: second_def)
next
  case False
  have "wrap64 (m * second) = (m * 1000000000 - 9223372036854775808) mod 18446744073709551616 - 9223372036854775808"
    using minus_mod_self2 [of "m * 1000000000 + 9223372036854775808" 18446744073709551616]
    by (simp add: wrap64_def second_def)
  also have "\<dots> = m * 1000000000 - 18446744073709551616"
    using False assms(2) by (subst mod_pos_pos_trivial) simp_all
  finally show ?thesis using False by (auto simp: second_def)
qed

section \<open>A configuration\<close>

definition sample_config_file :: "int \<Rightarrow> config" where
  "sample_config_file maximum_ttl =
     \<lparr>cf_pingfederate = \<lparr>pc_issuer = ''https://pf.example'', pc_token_endpoint = ''https://pf.example/as/token.oauth2'',
        pc_jwks_uri = ''https://pf.example/jwks'', pc_client_id = ''c'', pc_client_secret_env = ''S'',
        pc_actor_audience = ''a'', pc_transaction_audience = ''t'', pc_allowed_algorithms = [''RS256'']\<rparr>,
      cf_transaction = \<lparr>tc_default_ttl_seconds = 30, tc_maximum_ttl_seconds = maximum_ttl,
        tc_clock_skew_seconds = 5, tc_allowed_purposes = [''p'']\<rparr>,
      cf_agents = [\<lparr>ac_id = ''urn:agent:web'', ac_allowed_spiffe_ids = [''spiffe://example.org/web'']\<rparr>],
      cf_web = \<lparr>wc_listen = '':8443'', wc_public_url = ''https://app.example'', wc_agent_id = ''urn:agent:web'',
        wc_spiffe_id = ''spiffe://example.org/web'', wc_local_http = False\<rparr>,
      cf_oidc = \<lparr>oi_issuer = ''https://pf.example'', oi_authorization_endpoint = ''https://pf.example/as/auth'',
        oi_token_endpoint = ''https://pf.example/as/token'', oi_client_id = ''web'', oi_client_secret_env = ''SECRET'',
        oi_redirect_uri = ''https://app.example/oauth/callback'', oi_scopes = [''openid'']\<rparr>,
      cf_session = \<lparr>ss_cookie_name = ''__Host-s'', ss_cookie_secure = True, ss_cookie_same_site = ''Lax'',
        ss_ttl_seconds = 3600, ss_pre_auth_ttl_seconds = 300, ss_maximum_sessions = 100\<rparr>,
      cf_audit_store = \<lparr>as_listen = '':8444'', as_url = ''https://audit.example'', as_spiffe_id = ''spiffe://example.org/audit'',
        as_maximum_events = 1000, as_maximum_field_bytes = 1024, as_retention_seconds = 3600\<rparr>\<rparr>"

lemma sample_ui:
  "bind_agents Some (cf_agents (sample_config_file n)) [] [] = Inr [(''spiffe://example.org/web'', ''urn:agent:web'')]"
  "validate_ui (parse_application_url (\<lambda>_. None) (\<lambda>_. False)) Some (sample_config_file n)
     [(''spiffe://example.org/web'', ''urn:agent:web'')] = None"
  by code_simp+

lemma sample_texts: "\<not> blank ''https://pf.example''" "\<not> blank ''https://pf.example/as/token.oauth2''" "\<not> blank ''t''"
  by code_simp+

lemma sample_validated:
  assumes "30 \<le> n" "wrap64 (n * second) \<le> 60 * second"
  shows "validate_config (\<lambda>_. None) (\<lambda>_. False) Some (sample_config_file n) = None"
proof -
  have pf: "\<not> blank (pc_issuer (cf_pingfederate (sample_config_file n)))"
      "\<not> blank (pc_token_endpoint (cf_pingfederate (sample_config_file n)))"
      "\<not> blank (pc_transaction_audience (cf_pingfederate (sample_config_file n)))"
    using sample_texts by (simp_all add: sample_config_file_def)
  have tx: "tc_default_ttl_seconds (cf_transaction (sample_config_file n)) = 30"
      "tc_maximum_ttl_seconds (cf_transaction (sample_config_file n)) = n" by (simp_all add: sample_config_file_def)
  show ?thesis using assms by (simp add: validate_config_def Let_def pf tx sample_ui)
qed

section \<open>Properties\<close>

text \<open>
  C37. An accepted configuration binds every SPIFFE ID to one agent, each of them parses, and the
  bindings are exactly those of the agents in it; the web workload is bound to its agent and differs
  from the audit collector's; the cookie is a secure host cookie; the sessions, the pending logins,
  the audit store and its retention are within their bounds, and the default lifetime of a
  transaction is positive and at most the maximum, which is at most a minute unless its number
  of nanoseconds overflows.
\<close>
theorem config_validated:
  assumes "validate_config ip_literal loopback_ip parse_id c = None"
  shows "\<exists>bindings. bindings = concat (map agent_pairs (cf_agents c)) \<and> distinct (map fst bindings)
     \<and> (\<forall>a \<in> set (cf_agents c). \<forall>raw \<in> set (ac_allowed_spiffe_ids a). parse_id (trim_space raw) \<noteq> None)
     \<and> lookup bindings (wc_spiffe_id (cf_web c)) = Some (wc_agent_id (cf_web c))
     \<and> as_spiffe_id (cf_audit_store c) \<noteq> wc_spiffe_id (cf_web c)
     \<and> ss_cookie_secure (cf_session c) \<and> has_prefix (ss_cookie_name (cf_session c)) ''__Host-''
     \<and> ss_ttl_seconds (cf_session c) \<in> {1..28800} \<and> ss_pre_auth_ttl_seconds (cf_session c) \<in> {1..600}
     \<and> ss_maximum_sessions (cf_session c) \<in> {1..10000} \<and> as_maximum_events (cf_audit_store c) \<in> {1..100000}
     \<and> as_maximum_field_bytes (cf_audit_store c) \<in> {1..65536} \<and> as_retention_seconds (cf_audit_store c) \<in> {1..86400}
     \<and> 0 < tc_default_ttl_seconds (cf_transaction c)
     \<and> tc_default_ttl_seconds (cf_transaction c) \<le> tc_maximum_ttl_seconds (cf_transaction c)
     \<and> (is_int64 (tc_maximum_ttl_seconds (cf_transaction c) * second) \<longrightarrow> tc_maximum_ttl_seconds (cf_transaction c) \<le> 60)"
proof -
  note v = validate_config_None [OF assms]
  from v(4) obtain bindings where b: "bind_agents parse_id (cf_agents c) [] [] = Inr bindings"
    and u: "validate_ui (parse_application_url ip_literal loopback_ip) parse_id c bindings = None" by blast
  note s = validate_stores_None [OF validate_ui_None(2) [OF u]]
  have ttl: "tc_maximum_ttl_seconds (cf_transaction c) \<le> 60" if "is_int64 (tc_maximum_ttl_seconds (cf_transaction c) * second)"
    using v(3) wrap64_id [OF that] by (simp add: second_def)
  from bind_agents_Inr [OF b] have "bindings = concat (map agent_pairs (cf_agents c))" "distinct (map fst bindings)"
    "\<forall>a \<in> set (cf_agents c). \<forall>raw \<in> set (ac_allowed_spiffe_ids a). parse_id (trim_space raw) \<noteq> None" by auto
  then show ?thesis using v(1,2) validate_ui_None(1) [OF u] s ttl by (intro exI [of _ bindings]) simp
qed

theorem config_validated_witness:
  "tc_maximum_ttl_seconds (cf_transaction (sample_config_file 60)) \<le> 60
   \<and> distinct (map fst (concat (map agent_pairs (cf_agents (sample_config_file 60)))))"
proof -
  have w: "wrap64 (60 * second) \<le> 60 * second" "is_int64 (60 * second)" by code_simp+
  then have "validate_config (\<lambda>_. None) (\<lambda>_. False) Some (sample_config_file 60) = None"
    by (intro sample_validated) simp_all
  from config_validated [OF this] w(2) show ?thesis by (simp add: sample_config_file_def)
qed

text \<open>
  C38. The safety maximum of a minute can be passed by. In any accepted configuration replace the
  default and the maximum lifetime by other numbers of seconds, the maximum at most 27670116110:
  the result is accepted exactly when the default is positive and at most the maximum and the
  maximum is at most 60, as intended, or lies between 9223372037 and 18446744133. Multiplied by a
  second, these overflow to a negative duration or to one of at most a minute, so a
  configuration of such a maximum, and of any default below it, is accepted.
\<close>
theorem config_ttl_overflow:
  assumes "validate_config ip_literal loopback_ip parse_id c = None" and "m \<le> 27670116110"
  shows "validate_config ip_literal loopback_ip parse_id
      (c\<lparr>cf_transaction := (cf_transaction c)\<lparr>tc_default_ttl_seconds := d, tc_maximum_ttl_seconds := m\<rparr>\<rparr>) = None
    \<longleftrightarrow> 0 < d \<and> d \<le> m \<and> (m \<le> 60 \<or> 9223372037 \<le> m \<and> m \<le> 18446744133)"
proof (cases "0 < m")
  case True
  with validate_config_retimed [OF assms(1), of m d] wrapped_minute [OF True assms(2)] show ?thesis by blast
next
  case False
  with validate_config_retimed [OF assms(1), of m d] show ?thesis by auto
qed

theorem config_ttl_overflow_witness:
  "validate_config (\<lambda>_. None) (\<lambda>_. False) Some
     ((sample_config_file 60)\<lparr>cf_transaction := (cf_transaction (sample_config_file 60))
        \<lparr>tc_default_ttl_seconds := 86400, tc_maximum_ttl_seconds := 9223372037\<rparr>\<rparr>) = None"
proof -
  have "wrap64 (60 * second) \<le> 60 * second" by code_simp
  then have "validate_config (\<lambda>_. None) (\<lambda>_. False) Some (sample_config_file 60) = None"
    by (intro sample_validated) simp_all
  from config_ttl_overflow [OF this, of 9223372037 86400] show ?thesis by simp
qed

end
