(* ===== verification/Demo_Env.thy ===== *)
theory Demo_Env
  imports PF_Facts PF_Exchange Agent Audit_Sinks
begin

text \<open>
  What the commands share (\<open>internal/demoenv/demoenv.go\<close>): settings from environment variables, the SPIFFE
  provider, the clients, verifiers, sinks and middlewares built from them. \<open>host\<close> stands for the process
  environment, the certificate pool and the files.
\<close>

section \<open>The host\<close>

record host =
  ho_getenv :: "string \<Rightarrow> string"
  ho_cert_pool :: bool
  ho_read_file :: "string \<Rightarrow> string option"
  ho_pem_ok :: "string \<Rightarrow> bool"
  ho_ip_literal :: "string \<Rightarrow> string option"
  ho_parse_id :: "string \<Rightarrow> string option"
  ho_render :: "url \<Rightarrow> string"

datatype env_error =
    Missing string | NotHTTPS string | NoCertPool | CAUnreadable string | CAInvalid string | CAArguments
  | EnvSpire spire_error | EnvPolicy policy_error | EnvJwt jwt_error | EnvJwks jwks_error | EnvTxn verification_error
  | EnvTarget | EnvSinks | EnvRemote remote_error | EnvAudit audit_error

fun map_error :: "('e \<Rightarrow> env_error) \<Rightarrow> 'e + 'a \<Rightarrow> env_error + 'a" where
  "map_error f (Inl e) = Inl (f e)"
| "map_error f (Inr a) = Inr a"

definition required :: "host \<Rightarrow> string \<Rightarrow> env_error + string" where
  "required h name = (let v = trim_space (ho_getenv h name) in if v = [] then Inl (Missing name) else Inr v)"

definition env_url :: "host \<Rightarrow> string \<Rightarrow> env_error + url" where
  "env_url h name =
     (case required h name of
        Inl e \<Rightarrow> Inl e
      | Inr raw \<Rightarrow>
          (case url_parse (ho_ip_literal h) raw of
             None \<Rightarrow> Inl (NotHTTPS name)
           | Some u \<Rightarrow> if \<not> https_endpoint u then Inl (NotHTTPS name) else Inr u))"

section \<open>Clients\<close>

text \<open>An HTTPS client: its timeout and the PEM text it trusts besides the system's roots.\<close>

record pf_client =
  pf_timeout :: duration
  pf_extra_roots :: "string option"

definition load_ca :: "host \<Rightarrow> string \<Rightarrow> string \<Rightarrow> env_error + string" where
  "load_ca h name file =
     (case ho_read_file h file of
        None \<Rightarrow> Inl (CAUnreadable name)
      | Some pem \<Rightarrow> if \<not> ho_pem_ok h pem then Inl (CAInvalid name) else Inr pem)"

definition pf_http_client :: "host \<Rightarrow> env_error + pf_client" where
  "pf_http_client h =
     (let file = trim_space (ho_getenv h ''PF_CA_FILE'') in
      if \<not> ho_cert_pool h then Inl NoCertPool
      else if file = [] then Inr \<lparr>pf_timeout = 5 * second, pf_extra_roots = None\<rparr>
      else (case load_ca h ''PF_CA_FILE'' file of
         Inl e \<Rightarrow> Inl e
       | Inr pem \<Rightarrow> Inr \<lparr>pf_timeout = 5 * second, pf_extra_roots = Some pem\<rparr>))"

definition ca_http_client :: "host \<Rightarrow> string \<Rightarrow> duration \<Rightarrow> env_error + pf_client" where
  "ca_http_client h name timeout =
     (if blank name \<or> timeout \<le> 0 then Inl CAArguments
      else case required h name of
        Inl e \<Rightarrow> Inl e
      | Inr file \<Rightarrow>
          if \<not> ho_cert_pool h then Inl NoCertPool
          else (case load_ca h name file of
             Inl e \<Rightarrow> Inl e
           | Inr pem \<Rightarrow> Inr \<lparr>pf_timeout = timeout, pf_extra_roots = Some pem\<rparr>))"

section \<open>The SPIFFE provider\<close>

text \<open>
  The accessors of a provider (\<open>pkg/spiffe/spire/provider.go\<close>): \<open>X509Source\<close>, which asks for an SVID first, the
  two TLS configurations of the source, its \<open>Close\<close>, which is the owner's, and \<open>SPIFFEID\<close>.
\<close>

type_synonym source = "(string \<Rightarrow> bool) option \<Rightarrow> spire_error + tls_config"

definition provider_x509_source :: "bool \<Rightarrow> provider \<Rightarrow> spire_error + provider" where
  "provider_x509_source has_svid p = (if \<not> has_svid then Inl FetchFailed else Inr p)"

definition client_source :: "source option" where
  "client_source = Some (\<lambda>p. tls_config p False)"

definition server_source :: "source option" where
  "server_source = Some (\<lambda>p. tls_config p True)"

definition close_source :: "bool \<Rightarrow> bool \<Rightarrow> provider \<Rightarrow> resources \<Rightarrow> spire_error option \<times> provider \<times> resources" where
  "close_source x509_err client_err owner w = close_provider x509_err client_err owner w"

definition provider_spiffe_id :: "provider \<Rightarrow> string" where
  "provider_spiffe_id p = prov_expected p"

text \<open>
  \<open>Provider\<close>: \<open>New\<close>, then \<open>X509Source\<close>; when the source has no SVID the provider is closed again, its error ignored.
\<close>

definition demo_provider ::
  "host \<Rightarrow> (string \<Rightarrow> bool) \<Rightarrow> workload_api \<Rightarrow> bool \<Rightarrow> bool \<times> bool \<Rightarrow> string \<Rightarrow> resources
    \<Rightarrow> (env_error + provider) \<times> resources" where
  "demo_provider h valid_addr api has_svid close_errs expected w =
     (case required h ''SPIFFE_ENDPOINT'' of
        Inl e \<Rightarrow> (Inl e, w)
      | Inr endpoint \<Rightarrow>
          (case new_provider valid_addr (ho_parse_id h) api endpoint expected w of
             (Inl e, w1) \<Rightarrow> (Inl (EnvSpire e), w1)
           | (Inr p, w1) \<Rightarrow>
               (case provider_x509_source has_svid p of
                  Inl e \<Rightarrow> (Inl (EnvSpire e), snd (snd (close_provider (fst close_errs) (snd close_errs) p w1)))
                | Inr source \<Rightarrow> (Inr source, w1))))"

section \<open>Verifiers\<close>

definition demo_verifier :: "host \<Rightarrow> env_error + jwt_verifier" where
  "demo_verifier h =
     (case required h ''PF_TRANSACTION_ISSUER'' of
        Inl e \<Rightarrow> Inl e
      | Inr iss \<Rightarrow>
     (case required h ''PF_JWKS_URL'' of
        Inl e \<Rightarrow> Inl e
      | Inr jwks \<Rightarrow>
     (case pf_http_client h of
        Inl e \<Rightarrow> Inl e
      | Inr client \<Rightarrow>
          map_error EnvJwt
            (new_jwt_verifier (ho_ip_literal h) iss jwks [''RS256''] (5 * second) (Some (pf_timeout client))))))"

definition strict_verifier_config :: "string \<Rightarrow> verifier_config" where
  "strict_verifier_config iss =
     \<lparr>vc_mode = profile_txn_token_v11, vc_issuer = iss, vc_trust_domain = ''example.org'',
      vc_algorithms = [''RS256''], vc_clock_skew = 5 * second, vc_maximum_lifetime = 60 * second,
      vc_maximum_token_bytes = 16384, vc_maximum_payload_bytes = 8192, vc_maximum_identifier_bytes = 256,
      vc_maximum_context_bytes = 2048, vc_maximum_scopes = 1, vc_allowed_scopes = [''mcp.system.whoami''],
      vc_workload_agent_bindings = [(''spiffe://example.org/agent/demo'', ''urn:agent:demo'')], vc_has_keys = True\<rparr>"

definition strict_txn_verifier :: "host \<Rightarrow> 'j verifier_lib \<Rightarrow> env_error + verifier \<times> jwks_resolver" where
  "strict_txn_verifier h lib =
     (case required h ''PF_TRANSACTION_ISSUER'' of
        Inl e \<Rightarrow> Inl e
      | Inr iss \<Rightarrow>
     (case required h ''PF_JWKS_URL'' of
        Inl e \<Rightarrow> Inl e
      | Inr jwks \<Rightarrow>
     (case pf_http_client h of
        Inl e \<Rightarrow> Inl e
      | Inr client \<Rightarrow>
     (case new_jwks_key_resolver (ho_ip_literal h) jwks (Some (pf_timeout client)) 1048576 of
        Inl e \<Rightarrow> Inl (EnvJwks e)
      | Inr keys \<Rightarrow>
     (case new_txn_token_verifier lib (strict_verifier_config iss) of
        Inl e \<Rightarrow> Inl (EnvTxn e)
      | Inr v \<Rightarrow> Inr (v, keys))))))"

section \<open>Audit and middlewares\<close>

text \<open>\<open>source\<close> makes a TLS configuration for a peer policy (\<open>X509Source.TLSConfig\<close>).\<close>

definition demo_audit_remote ::
  "host \<Rightarrow> ((string \<Rightarrow> bool) option \<Rightarrow> spire_error + tls_config) option \<Rightarrow> env_error + remote \<times> http_client" where
  "demo_audit_remote h source =
     (case required h ''AUDIT_COLLECTOR_URL'' of
        Inl e \<Rightarrow> Inl e
      | Inr endpoint \<Rightarrow>
     (case url_parse (ho_ip_literal h) endpoint of
        None \<Rightarrow> Inl (NotHTTPS ''AUDIT_COLLECTOR_URL'')
      | Some u \<Rightarrow>
          if \<not> https_endpoint_no_fragment u then Inl (NotHTTPS ''AUDIT_COLLECTOR_URL'')
          else
     (case new_exact_peer_policy (ho_parse_id h) [''spiffe://example.org/audit/collector''] of
        Inl e \<Rightarrow> Inl (EnvPolicy e)
      | Inr peer \<Rightarrow>
     (case new_http_client source (Some (authorize_spiffe_id peer)) (5 * second) of
        Inl e \<Rightarrow> Inl (EnvSpire e)
      | Inr client \<Rightarrow>
     (case new_remote (ho_ip_literal h) (ho_render h u) (Some (client_timeout client)) 8388608 of
        Inl e \<Rightarrow> Inl (EnvRemote e)
      | Inr r \<Rightarrow> Inr (r, client))))))"

definition demo_audit_sink ::
  "host \<Rightarrow> ((string \<Rightarrow> bool) option \<Rightarrow> spire_error + tls_config) option \<Rightarrow> 'w sink \<Rightarrow> (remote \<times> http_client \<Rightarrow> 'w sink)
    \<Rightarrow> env_error + 'w sink" where
  "demo_audit_sink h source stdout remote_sink =
     (if blank (ho_getenv h ''AUDIT_COLLECTOR_URL'') then Inr stdout
      else case demo_audit_remote h source of
        Inl e \<Rightarrow> Inl e
      | Inr r \<Rightarrow> map_error EnvAudit
          (case new_fanout [Some stdout, Some (remote_sink r)] of Inl e \<Rightarrow> Inl e | Inr ss \<Rightarrow> Inr (fanout_write ss)))"

text \<open>\<open>exactCaller\<close>, and the legacy middleware on it.\<close>

definition exact_caller :: "exact_peer_policy \<Rightarrow> claims \<Rightarrow> string \<Rightarrow> bool" where
  "exact_caller p cl caller = authorize_spiffe_id p caller"

definition middleware_for_callers ::
  "host \<Rightarrow> string \<Rightarrow> bool \<Rightarrow> string list \<Rightarrow> string \<Rightarrow> 'w sink \<Rightarrow> 'w sink option list
    \<Rightarrow> env_error + legacy_middleware \<times> (claims \<Rightarrow> string \<Rightarrow> bool) \<times> 'w sink" where
  "middleware_for_callers h aud has_verifier callers target stdout sinks =
     (case new_exact_peer_policy (ho_parse_id h) callers of
        Inl e \<Rightarrow> Inl (EnvPolicy e)
      | Inr p \<Rightarrow>
          if blank target then Inl EnvTarget
          else if length sinks > 1 \<or> length sinks = 1 \<and> sinks ! 0 = None then Inl EnvSinks
          else Inr (\<lparr>lm_has_verifier = has_verifier, lm_has_callers = True, lm_audience = aud,
                     lm_already_verified = True, lm_target = target\<rparr>,
                    exact_caller p, (case sinks of Some s # _ \<Rightarrow> s | _ \<Rightarrow> stdout)))"

definition demo_middleware ::
  "host \<Rightarrow> string \<Rightarrow> bool \<Rightarrow> string \<Rightarrow> string \<Rightarrow> 'w sink \<Rightarrow> 'w sink option list
    \<Rightarrow> env_error + legacy_middleware \<times> (claims \<Rightarrow> string \<Rightarrow> bool) \<times> 'w sink" where
  "demo_middleware h aud has_verifier allowed_caller target stdout sinks =
     middleware_for_callers h aud has_verifier [allowed_caller] target stdout sinks"

end
