(* ===== verification/Demo_Facts.thy ===== *)
theory Demo_Facts
  imports Demo_Env Txn_Verifier_Facts
begin

text \<open>
  What the strict verifier that the commands build (\<open>StrictTxnVerifier\<close> in \<open>internal/demoenv/demoenv.go\<close>)
  accepts: the general properties of the verifier and of the key resolver, at the deployed configuration.
\<close>

section \<open>The verifier as built\<close>

lemma required_Inr: "required h name = Inr v \<longleftrightarrow> v = trim_space (ho_getenv h name) \<and> v \<noteq> []"
  by (auto simp: required_def Let_def)

lemma strict_txn_verifier_Inr:
  assumes "strict_txn_verifier h lib = Inr (v, r)"
  shows "v_config v = strict_verifier_config (trim_space (ho_getenv h ''PF_TRANSACTION_ISSUER''))"
    "\<exists>client. new_jwks_key_resolver (ho_ip_literal h) (trim_space (ho_getenv h ''PF_JWKS_URL'')) client 1048576 = Inr r"
proof -
  from assms obtain iss url client where s: "required h ''PF_TRANSACTION_ISSUER'' = Inr iss" "required h ''PF_JWKS_URL'' = Inr url"
    "new_jwks_key_resolver (ho_ip_literal h) url client 1048576 = Inr r" "new_txn_token_verifier lib (strict_verifier_config iss) = Inr v"
    by (auto simp: strict_txn_verifier_def split: sum.splits)
  from new_txn_token_verifier_Inr(1) [OF s(4)] s(1)
  show "v_config v = strict_verifier_config (trim_space (ho_getenv h ''PF_TRANSACTION_ISSUER''))"
    by (simp add: required_Inr)
  from s(2,3) show "\<exists>client. new_jwks_key_resolver (ho_ip_literal h) (trim_space (ho_getenv h ''PF_JWKS_URL'')) client 1048576 = Inr r"
    by (auto simp: required_Inr)
qed

lemma strict_config_simps [simp]:
  "vc_issuer (strict_verifier_config iss) = iss" "vc_trust_domain (strict_verifier_config iss) = ''example.org''"
  "vc_algorithms (strict_verifier_config iss) = [''RS256'']" "vc_clock_skew (strict_verifier_config iss) = 5 * second"
  "vc_maximum_lifetime (strict_verifier_config iss) = 60 * second" "vc_maximum_scopes (strict_verifier_config iss) = 1"
  "vc_allowed_scopes (strict_verifier_config iss) = [''mcp.system.whoami'']"
  "vc_workload_agent_bindings (strict_verifier_config iss) = [(''spiffe://example.org/agent/demo'', ''urn:agent:demo'')]"
  by (simp_all add: strict_verifier_config_def)

lemma only_scope:
  assumes "xs \<noteq> []" "set xs \<subseteq> {a}" "length xs \<le> 1" shows "xs = [a]"
  using assms by (cases xs) auto

lemma txn_verify_length:
  assumes "txn_verify lib v now cancelled raw = Inr cl"
  shows "int (length raw) \<le> vc_maximum_token_bytes (v_config v)"
  using assms by (auto simp: txn_verify_def verify_payload_def Let_def split: if_splits sum.splits)

lemma verify_payload_resolver:
  assumes "verify_payload lib v cancelled raw = Inr payload"
    and "vl_parse_signed lib raw (vc_algorithms (v_config v)) = Some (jws, [(hdr, un)])"
    and "resolve (jh_key_id hdr) = vl_resolve_key lib (jh_key_id hdr)"
  shows "verify_payload (lib\<lparr>vl_resolve_key := resolve\<rparr>) v cancelled raw = Inr payload"
  using assms by (auto simp: verify_payload_def Let_def split: if_splits option.splits sum.splits)

section \<open>A deployment\<close>

definition strict_host :: host where
  "strict_host =
     \<lparr>ho_getenv = (\<lambda>n. if n = ''PF_TRANSACTION_ISSUER'' then ''https://tts.example''
        else if n = ''PF_JWKS_URL'' then '' https://tts.example/jwks'' else []),
      ho_cert_pool = True, ho_read_file = (\<lambda>_. None), ho_pem_ok = (\<lambda>_. False), ho_ip_literal = (\<lambda>_. None),
      ho_parse_id = (\<lambda>s. Some s), ho_render = (\<lambda>_. [])\<rparr>"

definition strict_payload :: json where
  "strict_payload = JObj
     [(''iss'', JStr ''https://tts.example''), (''sub'', JStr ''alice''), (''aud'', JStr ''example.org''),
      (''iat'', JNum ''1700000000''), (''exp'', JNum ''1700000020''), (''txn'', JStr ''t-1''),
      (''scope'', JStr ''mcp.system.whoami''), (''req_wl'', JStr ''spiffe://example.org/agent/demo''),
      (''tctx'', JObj [(''wai'', JObj
       [(''version'', JNum ''1''),
        (''agent'', JObj
          [(''id'', JStr ''urn:agent:demo''), (''instance_id'', JStr ''i-1''),
           (''workload_id'', JStr ''spiffe://example.org/agent/demo'')]),
        (''target'', JStr ''demo''), (''tool'', JStr ''system.whoami'')])])]"

definition strict_lib :: "string verifier_lib" where
  "strict_lib = (sample_lib strict_payload)
     \<lparr>vl_parse_signed := (\<lambda>raw algs. Some (raw, [(sample_header\<lparr>jh_algorithm := ''RS256''\<rparr>, no_header)]))\<rparr>"

definition strict_jose :: "string jose_lib" where
  "strict_jose =
     \<lparr>jl_parse_signed = (\<lambda>_ _. None), jl_claims = (\<lambda>_ _. None), jl_oidc_claims = (\<lambda>_ _. None),
      jl_unmarshal_jwks = (\<lambda>_. Some [(''k0'', Some ''key-0''), (''k1'', Some ''key-1'')]), jl_validate = (\<lambda>_ _ _ _ _. False)\<rparr>"

definition strict_answers :: "string \<Rightarrow> (nat \<times> request_body) option" where
  "strict_answers = (\<lambda>kid. Some (200, \<lparr>body_bytes = ''{}'', body_fails = False\<rparr>))"

definition strict_resolver :: jwks_resolver where
  "strict_resolver =
     \<lparr>jr_endpoint = the (url_parse (\<lambda>_. None) ''https://tts.example/jwks''), jr_maximum = 1048576\<rparr>"

definition strict_verifier :: verifier where
  "strict_verifier = \<lparr>v_config = strict_verifier_config ''https://tts.example'', v_algs = {''RS256''}\<rparr>"

abbreviation resolving_lib :: "string verifier_lib" where
  "resolving_lib \<equiv> strict_lib\<lparr>vl_resolve_key := jwks_resolve strict_jose (\<lambda>_. tokens_of (JObj [])) strict_resolver strict_answers\<rparr>"

definition strict_wire :: wire_claims where
  "strict_wire =
     (case unmarshal_wire (tokens_of strict_payload) of
        Some w \<Rightarrow> (case decode_strict_local_contexts (tokens_of strict_payload) w of Some w' \<Rightarrow> w'))"

lemma strict_built: "strict_txn_verifier strict_host strict_lib = Inr (strict_verifier, strict_resolver)"
  by code_simp

lemma strict_key: "jwks_resolve strict_jose (\<lambda>_. tokens_of (JObj [])) strict_resolver strict_answers ''k1'' = Inr (Some ''key-1'')"
proof -
  have k: "reject_duplicate_json (tokens_of (JObj [])) = None" "\<not> blank ''k1''" "trim_space ''k1'' = ''k1''" by code_simp+
  have "only_key [(''k0'', Some ''key-0''), (''k1'', Some ''key-1'')] ''k1'' (Some ''key-1'')"
    by (simp add: keys_named_single [symmetric] keys_named_def)
  with k have "resolve_verification_key strict_jose (\<lambda>_. tokens_of (JObj [])) strict_resolver (strict_answers ''k1'') ''k1'' = Inr ''key-1''"
    by (subst resolve_verification_key_Inr)
      (simp_all add: strict_resolver_def strict_answers_def strict_jose_def del: tokens_of.simps)
  then show ?thesis by (simp add: jwks_resolve_def)
qed

lemma strict_decoded:
  "verify_payload (strict_lib\<lparr>vl_resolve_key := (\<lambda>_. Inr (Some ''key-1''))\<rparr>) strict_verifier False sample_token = Inr ''{}''"
  "\<exists>w. unmarshal_wire (tokens_of strict_payload) = Some w
     \<and> decode_strict_local_contexts (tokens_of strict_payload) w = Some strict_wire"
  "reject_duplicate_json_keys (tokens_of strict_payload) = None"
proof -
  show "verify_payload (strict_lib\<lparr>vl_resolve_key := (\<lambda>_. Inr (Some ''key-1''))\<rparr>) strict_verifier False sample_token = Inr ''{}''"
    by code_simp
  have "(case unmarshal_wire (tokens_of strict_payload) of None \<Rightarrow> False
      | Some w \<Rightarrow> decode_strict_local_contexts (tokens_of strict_payload) w \<noteq> None)" by code_simp
  then show "\<exists>w. unmarshal_wire (tokens_of strict_payload) = Some w
     \<and> decode_strict_local_contexts (tokens_of strict_payload) w = Some strict_wire"
    by (auto simp: strict_wire_def split: option.splits)
  show "reject_duplicate_json_keys (tokens_of strict_payload) = None"
    by (simp only: reject_duplicate_tokens) code_simp
qed

lemma strict_rules:
  "validate_wire (\<lambda>_. None) (strict_verifier_config ''https://tts.example'') sample_now strict_wire = None
     \<and> txn_subject (claims_of_wire strict_wire) = ''alice''"
  by code_simp

text \<open>\<open>Verify\<close> asks the resolver for the key of the one header.\<close>

lemma strict_accepted: "txn_verify resolving_lib strict_verifier sample_now False sample_token = Inr (claims_of_wire strict_wire)"
proof -
  let ?constant = "strict_lib\<lparr>vl_resolve_key := (\<lambda>_. Inr (Some ''key-1''))\<rparr>"
  have p: "vl_parse_signed ?constant sample_token (vc_algorithms (v_config strict_verifier))
      = Some (sample_token, [(sample_header\<lparr>jh_algorithm := ''RS256''\<rparr>, no_header)])"
    by (simp add: strict_lib_def)
  have k: "jh_key_id (sample_header\<lparr>jh_algorithm := ''RS256''\<rparr>) = ''k1''" by (simp add: sample_header_def)
  have "verify_payload (?constant\<lparr>vl_resolve_key := jwks_resolve strict_jose (\<lambda>_. tokens_of (JObj [])) strict_resolver strict_answers\<rparr>)
      strict_verifier False sample_token = Inr ''{}''"
    by (rule verify_payload_resolver [OF strict_decoded(1) p]) (simp add: k strict_key del: tokens_of.simps)
  then have "verify_payload resolving_lib strict_verifier False sample_token = Inr ''{}''" by (simp del: tokens_of.simps)
  moreover have "vl_lex resolving_lib ''{}'' = tokens_of strict_payload" "vl_ip_literal resolving_lib = (\<lambda>_. None)"
    "v_config strict_verifier = strict_verifier_config ''https://tts.example''"
    "int (length ''{}'') \<le> vc_maximum_payload_bytes (strict_verifier_config ''https://tts.example'')"
    by (simp_all add: strict_lib_def sample_lib_def strict_verifier_def strict_verifier_config_def)
  then have "claims_of_payload resolving_lib strict_verifier sample_now ''{}'' = Inr (claims_of_wire strict_wire)"
    unfolding claims_of_payload_Inr using strict_decoded(2,3) strict_rules by auto
  ultimately show ?thesis by (simp add: txn_verify_def)
qed

section \<open>Properties\<close>

text \<open>
  C33. Whatever the deployed verifier accepts was issued by the configured issuer for example.org, lives at
  most a minute (with five seconds of clock skew), allows the single tool scope, was requested by the demo
  agent's workload in the agent's own name, is no longer than 16 KiB, and is signed with the one key that the
  deployed JWKS endpoint serves under the key ID of the token's header.
\<close>
theorem deployed_verifier_accepts:
  assumes "strict_txn_verifier h lib = Inr (v, r)"
    and "txn_verify (lib\<lparr>vl_resolve_key := jwks_resolve jl lexer r answers\<rparr>) v now cancelled raw = Inr cl"
  shows "txn_issuer cl = trim_space (ho_getenv h ''PF_TRANSACTION_ISSUER'') \<and> txn_audience cl = ''example.org''
    \<and> txn_scope cl = [''mcp.system.whoami'']
    \<and> txn_requesting_workload_id cl = ''spiffe://example.org/agent/demo''
    \<and> wac_id (wai_agent (txn_context cl)) = ''urn:agent:demo''
    \<and> wac_workload_id (wai_agent (txn_context cl)) = ''spiffe://example.org/agent/demo''
    \<and> txn_issued_at cl < txn_expires_at cl \<and> time_sub (txn_expires_at cl) (txn_issued_at cl) \<le> 60 * second
    \<and> now \<le> txn_expires_at cl + 5 * second \<and> txn_issued_at cl \<le> now + 5 * second
    \<and> length raw \<le> 16384
    \<and> (\<exists>jws hdr key payload. vl_parse_signed lib raw [''RS256''] = Some (jws, [hdr])
         \<and> jwks_trusted jl lexer answers (jh_key_id (fst hdr)) key \<and> vl_verify_signature lib jws key = Some payload)"
proof -
  let ?c = "strict_verifier_config (trim_space (ho_getenv h ''PF_TRANSACTION_ISSUER''))"
  from strict_txn_verifier_Inr [OF assms(1)] obtain client where c: "v_config v = ?c"
    and r: "new_jwks_key_resolver (ho_ip_literal h) (trim_space (ho_getenv h ''PF_JWKS_URL'')) client 1048576 = Inr r" by blast
  from r have "jwks_resolve jl lexer r answers = built_resolve jl lexer
      (new_jwks_key_resolver (ho_ip_literal h) (trim_space (ho_getenv h ''PF_JWKS_URL'')) client 1048576) answers"
    by (auto simp: built_resolve_def)
  from jwks.signed_by_trusted [OF assms(2) [unfolded this]]
  have "\<exists>jws hdr key payload. vl_parse_signed lib raw [''RS256''] = Some (jws, [hdr])
      \<and> jwks_trusted jl lexer answers (jh_key_id (fst hdr)) key \<and> vl_verify_signature lib jws key = Some payload"
    by (simp add: c)
  moreover have "length raw \<le> 16384"
    using txn_verify_length [OF assms(2)] by (simp add: c strict_verifier_config_def)
  moreover have "verified_claims (vl_ip_literal lib) ?c now cl"
    using txn_verify_verified [OF assms(2)] by (simp add: c)
  then have "txn_scope cl = [''mcp.system.whoami''] \<and> txn_requesting_workload_id cl = ''spiffe://example.org/agent/demo''
      \<and> wac_id (wai_agent (txn_context cl)) = ''urn:agent:demo''"
    by (auto simp: verified_claims_def Let_def intro: only_scope split: if_splits)
  ultimately show ?thesis
    using \<open>verified_claims (vl_ip_literal lib) ?c now cl\<close> by (simp add: verified_claims_def Let_def)
qed

theorem deployed_verifier_accepts_witness:
  "txn_verify resolving_lib strict_verifier sample_now False sample_token = Inr (claims_of_wire strict_wire)
     \<and> txn_scope (claims_of_wire strict_wire) = [''mcp.system.whoami''] \<and> txn_subject (claims_of_wire strict_wire) = ''alice''"
  using deployed_verifier_accepts [OF strict_built strict_accepted] strict_accepted strict_rules by blast

end
