(* ===== verification/Deploy.thy ===== *)
theory Deploy
  imports Demo_Env Mcp_Server Authz_Remote Audit_Collector Agent_Strict Web_App
begin

text \<open>
  The commands under \<open>cmd/\<close>: what each builds before it serves or runs, with the identities, limits and
  timeouts it fixes. A command is a function to its configuration; an error is the value that \<open>log.Fatal\<close>
  ends it with. \<open>prov\<close> is what \<open>demoenv.Provider\<close> returns for an identity, \<open>stdout\<close> the JSON sink, \<open>remote\<close>
  the sink on a remote and its client. Serving the handlers is \<open>net/http\<close>.
\<close>

section \<open>What the commands share\<close>

datatype main_error =
    MainEnv env_error | MainPolicy policy_error | MainSpire spire_error | MainGateway gateway_error | MainMiddleware middleware_error
  | MainServer | MainOpa opa_error | MainPing ping_error | MainProvider | MainExchange exchange_error | MainJwks jwks_error
  | MainTxn verification_error | MainAdapter adapter_error | MainAudit audit_error | MainCollector collector_error
  | MainWeb web_config_error | MainBackchannel

text \<open>\<open>NewExactPeerPolicy\<close>, then \<open>NewHTTPClient\<close> or \<open>ConfigureHTTPServer\<close> with the policy.\<close>

definition peer_client :: "host \<Rightarrow> string list \<Rightarrow> duration \<Rightarrow> main_error + http_client" where
  "peer_client h ids timeout =
     andthen (new_exact_peer_policy (ho_parse_id h) ids) MainPolicy (\<lambda>p.
     andthen (new_http_client client_source (Some (authorize_spiffe_id p)) timeout) MainSpire Inr)"

definition peer_server :: "host \<Rightarrow> string list \<Rightarrow> main_error + tls_config option" where
  "peer_server h ids =
     andthen (new_exact_peer_policy (ho_parse_id h) ids) MainPolicy (\<lambda>p.
     andthen (configure_http_server (Some None) server_source (Some (authorize_spiffe_id p))) MainSpire Inr)"

text \<open>Some commands ignore the policy's error: what is left is the policy that admits nobody.\<close>

definition unchecked_policy :: "host \<Rightarrow> string list \<Rightarrow> exact_peer_policy" where
  "unchecked_policy h ids = (case new_exact_peer_policy (ho_parse_id h) ids of Inl _ \<Rightarrow> {} | Inr p \<Rightarrow> p)"

definition unchecked_server :: "host \<Rightarrow> string list \<Rightarrow> main_error + tls_config option" where
  "unchecked_server h ids =
     andthen (configure_http_server (Some None) server_source (Some (authorize_spiffe_id (unchecked_policy h ids)))) MainSpire Inr"

text \<open>An \<open>http.Server\<close>, a timeout of 0 being none, with what its handler is made of.\<close>

record 'a server =
  hs_addr :: string
  hs_read_header :: duration
  hs_read :: duration
  hs_write :: duration
  hs_idle :: duration
  hs_tls :: "tls_config option"
  hs_app :: 'a

definition millisecond :: duration where "millisecond = 1000000"

section \<open>The strict services\<close>

record ('w, 'a) strict_app =
  sv_middleware :: strict_middleware
  sv_verifier :: "verifier \<times> jwks_resolver"
  sv_sink :: "'w sink"
  sv_inner :: 'a

definition strict_settings :: "string \<Rightarrow> string \<Rightarrow> strict_config" where
  "strict_settings caller service =
     \<lparr>sm_has_verifier = True, sm_maximum_token_bytes = 16384, sm_allowed_callers = [caller],
      sm_already_verified = True, sm_service = service\<rparr>"

definition strict_server :: "string \<Rightarrow> tls_config option \<Rightarrow> 'a \<Rightarrow> 'a server" where
  "strict_server addr tls app =
     \<lparr>hs_addr = addr, hs_read_header = 5 * second, hs_read = 15 * second, hs_write = 15 * second,
      hs_idle = 30 * second, hs_tls = tls, hs_app = app\<rparr>"

definition strict_api_id :: string where "strict_api_id = ''spiffe://example.org/api/demo-strict''"
definition strict_mcp_id :: string where "strict_mcp_id = ''spiffe://example.org/mcp/demo-strict''"
definition strict_gateway_id :: string where "strict_gateway_id = ''spiffe://example.org/gateway/mcp-strict''"

definition strict_api_main ::
  "host \<Rightarrow> (string \<Rightarrow> env_error + provider) \<Rightarrow> 'j verifier_lib \<Rightarrow> 'w sink \<Rightarrow> (remote \<times> http_client \<Rightarrow> 'w sink)
    \<Rightarrow> main_error + ('w, ('w, api_body) handler) strict_app server" where
  "strict_api_main h prov lib stdout remote =
     andthen (prov strict_api_id) MainEnv (\<lambda>_.
     andthen (strict_demo_api_handler ''demo'' ''system.whoami'') MainGateway (\<lambda>inner.
     andthen (demo_audit_sink h client_source stdout remote) MainEnv (\<lambda>sink.
     andthen (strict_txn_verifier h lib) MainEnv (\<lambda>v.
     andthen (new_strict_txn_middleware (strict_settings strict_mcp_id ''strict-demo-api'')) MainMiddleware (\<lambda>m.
     andthen (peer_server h [strict_mcp_id]) id (\<lambda>tls.
       Inr (strict_server '':8545'' tls \<lparr>sv_middleware = m, sv_verifier = v, sv_sink = sink, sv_inner = inner\<rparr>)))))))"

definition strict_mcp_main ::
  "host \<Rightarrow> (string \<Rightarrow> env_error + provider) \<Rightarrow> 'j verifier_lib \<Rightarrow> 'w sink \<Rightarrow> (remote \<times> http_client \<Rightarrow> 'w sink)
    \<Rightarrow> main_error + ('w, http_client \<times> demo_options) strict_app server" where
  "strict_mcp_main h prov lib stdout remote =
     andthen (prov strict_mcp_id) MainEnv (\<lambda>_.
     andthen (peer_client h [strict_api_id] (10 * second)) id (\<lambda>client.
     andthen (env_url h ''STRICT_DEMO_API_URL'') MainEnv (\<lambda>u.
       case new_strict_demo_server_handler_with_api
           (new_demo_server_handler\<lparr>do_api_client := Some (client_timeout client), do_api_url := Some u\<rparr>) 16384 of
         None \<Rightarrow> Inl MainServer
       | Some opts \<Rightarrow>
     andthen (demo_audit_sink h client_source stdout remote) MainEnv (\<lambda>sink.
     andthen (strict_txn_verifier h lib) MainEnv (\<lambda>v.
     andthen (new_strict_txn_middleware (strict_settings strict_gateway_id ''strict-demo-mcp-server'')) MainMiddleware (\<lambda>m.
     andthen (peer_server h [strict_gateway_id]) id (\<lambda>tls.
       Inr (strict_server '':8544'' tls
         \<lparr>sv_middleware = m, sv_verifier = v, sv_sink = sink, sv_inner = (client, opts)\<rparr>))))))))"

text \<open>The policy file, how OPA compiles it and what a compiled query answers.\<close>

record 'q opa_lib =
  ol_files :: "string \<Rightarrow> (string \<times> bool) option"
  ol_compile :: "string \<Rightarrow> 'q option"
  ol_eval :: "'q \<Rightarrow> duration \<Rightarrow> opa_input \<Rightarrow> json list list option"

definition deployed_opa :: "'q opa_lib \<Rightarrow> main_error + authorize" where
  "deployed_opa lib =
     andthen (new_opa (ol_files lib) (ol_compile lib) True ''/run/wai/authorization.rego'' (100 * millisecond)) MainOpa
       (\<lambda>(q, timeout). Inr (\<lambda>c v target tool. opa_authorize (Some (ol_eval lib q timeout)) (ctx_done c) v target tool))"

definition strict_gateway_main ::
  "host \<Rightarrow> (string \<Rightarrow> env_error + provider) \<Rightarrow> 'j verifier_lib \<Rightarrow> 'q opa_lib \<Rightarrow> 'w sink \<Rightarrow> (remote \<times> http_client \<Rightarrow> 'w sink)
    \<Rightarrow> main_error + ('w, http_client \<times> 'w gateway) strict_app server" where
  "strict_gateway_main h prov lib opa stdout remote =
     andthen (prov strict_gateway_id) MainEnv (\<lambda>_.
     andthen (peer_client h [strict_mcp_id] (10 * second)) id (\<lambda>client.
     andthen (env_url h ''STRICT_MCP_SERVER_URL'') MainEnv (\<lambda>u.
     andthen (deployed_opa opa) id (\<lambda>policy.
     andthen (demo_audit_sink h client_source stdout remote) MainEnv (\<lambda>sink.
     andthen (new_strict_gateway_with_authorizer (Some (client_timeout client))
         [\<lparr>tg_name = ''demo'', tg_url = Some u, tg_tools = [''system.whoami'']\<rparr>] (Some policy) (Some sink) 16384) MainGateway (\<lambda>g.
     andthen (strict_txn_verifier h lib) MainEnv (\<lambda>v.
     andthen (new_strict_txn_middleware (strict_settings ''spiffe://example.org/agent/demo'' ''strict-mcp-gateway'')) MainMiddleware (\<lambda>m.
     andthen (peer_server h [''spiffe://example.org/agent/demo'']) id (\<lambda>tls.
       Inr (strict_server '':8543'' tls
         \<lparr>sv_middleware = m, sv_verifier = v, sv_sink = sink, sv_inner = (client, g)\<rparr>))))))))))"

text \<open>The agent runs once: its settings, its two clients and its verifier.\<close>

definition strict_agent_main ::
  "host \<Rightarrow> (string \<Rightarrow> env_error + provider) \<Rightarrow> 'j verifier_lib
    \<Rightarrow> main_error + strict_runner \<times> http_client \<times> http_client \<times> verifier \<times> jwks_resolver" where
  "strict_agent_main h prov lib =
     andthen (prov ''spiffe://example.org/agent/demo'') MainEnv (\<lambda>_.
     andthen (peer_client h [''spiffe://example.org/tts/adapter''] (10 * second)) id (\<lambda>ac.
     andthen (peer_client h [strict_gateway_id] (10 * second)) id (\<lambda>gc.
     andthen (required h ''TTS_ADAPTER_URL'') MainEnv (\<lambda>au.
     andthen (required h ''STRICT_MCP_GATEWAY_URL'') MainEnv (\<lambda>gu.
     andthen (strict_txn_verifier h lib) MainEnv (\<lambda>v.
       Inr (\<lparr>sr_has_spiffe = True, sr_adapter_http = Some (client_timeout ac), sr_gateway_http = Some (client_timeout gc),
             sr_adapter_url = au, sr_gateway_url = gu, sr_has_verifier = True, sr_maximum_bytes = 16384\<rparr>, ac, gc, v)))))))"

section \<open>The token adapter and the audit collector\<close>

record adapter_app =
  ap_client :: exchange_client
  ap_keys :: jwks_resolver
  ap_verifier :: verifier
  ap_config :: adapter_config

definition deployed_adapter :: adapter_config where
  "deployed_adapter =
     \<lparr>ta_trust_domain = ''example.org'', ta_scope = ''mcp.system.whoami'', ta_endpoint_path = ''/as/token.oauth2'',
      ta_maximum_body_bytes = 49152, ta_maximum_token_bytes = 16384, ta_maximum_expires_in = 60,
      ta_has_exchanger = True, ta_has_verifier = True, ta_has_caller = True, ta_reports = True\<rparr>"

definition adapter_listen :: "host \<Rightarrow> string" where
  "adapter_listen h = (let listen = trim_space (ho_getenv h ''TTS_ADAPTER_LISTEN'') in if listen = [] then '':8448'' else listen)"

definition adapter_main ::
  "host \<Rightarrow> (string \<Rightarrow> env_error + provider) \<Rightarrow> 'j verifier_lib \<Rightarrow> main_error + adapter_app server" where
  "adapter_main h prov lib =
     andthen (prov ''spiffe://example.org/tts/adapter'') MainEnv (\<lambda>_.
     andthen (required h ''PF_TOKEN_ENDPOINT'') MainEnv (\<lambda>endpoint.
     andthen (required h ''PF_CLIENT_ID'') MainEnv (\<lambda>client_id.
     andthen (required h ''PF_CLIENT_SECRET'') MainEnv (\<lambda>secret.
     andthen (required h ''PF_TRANSACTION_ISSUER'') MainEnv (\<lambda>iss.
     andthen (required h ''PF_JWKS_URL'') MainEnv (\<lambda>jwks.
     andthen (pf_http_client h) MainEnv (\<lambda>client.
     andthen (new_exchange_client (ho_ip_literal h) endpoint client_id secret (Some (pf_timeout client))) MainExchange (\<lambda>xc.
     andthen (new_jwks_key_resolver (ho_ip_literal h) jwks (Some (pf_timeout client)) 1048576) MainJwks (\<lambda>keys.
     andthen (new_txn_token_verifier lib (strict_verifier_config iss)) MainTxn (\<lambda>v.
     andthen (new_adapter (vl_to_lower lib) deployed_adapter) MainAdapter (\<lambda>config.
     andthen (peer_server h [''spiffe://example.org/agent/demo'']) id (\<lambda>tls.
       Inr \<lparr>hs_addr = adapter_listen h, hs_read_header = 5 * second, hs_read = 10 * second, hs_write = 10 * second,
            hs_idle = 30 * second, hs_tls = tls,
            hs_app = \<lparr>ap_client = xc, ap_keys = keys, ap_verifier = v, ap_config = config\<rparr>\<rparr>))))))))))))"

definition collector_callers :: "string list" where
  "collector_callers =
     [''spiffe://example.org/agent/demo'', ''spiffe://example.org/agent/web-app'', ''spiffe://example.org/gateway/mcp'',
      ''spiffe://example.org/mcp/demo'', ''spiffe://example.org/api/demo'']"

definition collector_main ::
  "host \<Rightarrow> (string \<Rightarrow> env_error + provider) \<Rightarrow> main_error + (collector \<times> collector_state) server" where
  "collector_main h prov =
     andthen (prov ''spiffe://example.org/audit/collector'') MainEnv (\<lambda>_.
     andthen (new_store \<lparr>sc_maximum_records = 10000, sc_maximum_field_bytes = 65536, sc_retention = 3600 * second\<rparr>) MainAudit (\<lambda>st.
     andthen (new_collector (ho_parse_id h)
         \<lparr>cc_store = Some st, cc_submitters = collector_callers, cc_query_caller = ''spiffe://example.org/agent/web-app'',
          cc_maximum_body = 65536, cc_on_rejection = True\<rparr>) MainCollector (\<lambda>app.
     andthen (peer_server h collector_callers) id (\<lambda>tls.
       Inr \<lparr>hs_addr = '':8447'', hs_read_header = 5 * second, hs_read = 0, hs_write = 0, hs_idle = 0, hs_tls = tls, hs_app = app\<rparr>))))"

section \<open>The legacy services\<close>

record ('w, 'a) legacy_app =
  lv_middleware :: legacy_middleware
  lv_callers :: "claims \<Rightarrow> string \<Rightarrow> bool"
  lv_verifier :: jwt_verifier
  lv_sink :: "'w sink"
  lv_inner :: 'a

definition legacy_server :: "string \<Rightarrow> tls_config option \<Rightarrow> 'a \<Rightarrow> 'a server" where
  "legacy_server addr tls app =
     \<lparr>hs_addr = addr, hs_read_header = 5 * second, hs_read = 0, hs_write = 0, hs_idle = 0, hs_tls = tls, hs_app = app\<rparr>"

definition api_main ::
  "host \<Rightarrow> (string \<Rightarrow> env_error + provider) \<Rightarrow> 'w sink \<Rightarrow> (remote \<times> http_client \<Rightarrow> 'w sink)
    \<Rightarrow> main_error + ('w, ('w, api_body) handler) legacy_app server" where
  "api_main h prov stdout remote =
     andthen (prov ''spiffe://example.org/api/demo'') MainEnv (\<lambda>_.
     andthen (demo_verifier h) MainEnv (\<lambda>v.
     andthen (demo_audit_sink h client_source stdout remote) MainEnv (\<lambda>sink.
     andthen (demo_middleware h ''urn:wai:mcp-gateway'' True ''spiffe://example.org/mcp/demo'' ''demo-api'' stdout [Some sink])
       MainEnv (\<lambda>(m, callers, s).
     andthen (unchecked_server h [''spiffe://example.org/mcp/demo'']) id (\<lambda>tls.
       Inr (legacy_server '':8445'' tls
         \<lparr>lv_middleware = m, lv_callers = callers, lv_verifier = v, lv_sink = s, lv_inner = demo_api_handler\<rparr>))))))"

definition mcp_main ::
  "host \<Rightarrow> (string \<Rightarrow> env_error + provider) \<Rightarrow> 'w sink \<Rightarrow> (remote \<times> http_client \<Rightarrow> 'w sink)
    \<Rightarrow> main_error + ('w, http_client \<times> demo_options) legacy_app server" where
  "mcp_main h prov stdout remote =
     andthen (prov ''spiffe://example.org/mcp/demo'') MainEnv (\<lambda>_.
     andthen (peer_client h [''spiffe://example.org/api/demo''] (10 * second)) id (\<lambda>client.
     andthen (env_url h ''DEMO_API_URL'') MainEnv (\<lambda>u.
       case new_demo_server_handler_with_api
           (new_demo_server_handler\<lparr>do_api_client := Some (client_timeout client), do_api_url := Some u\<rparr>) of
         None \<Rightarrow> Inl MainServer
       | Some opts \<Rightarrow>
     andthen (demo_verifier h) MainEnv (\<lambda>v.
     andthen (demo_audit_sink h client_source stdout remote) MainEnv (\<lambda>sink.
     andthen (demo_middleware h ''urn:wai:mcp-gateway'' True ''spiffe://example.org/gateway/mcp'' ''demo-mcp-server'' stdout [Some sink])
       MainEnv (\<lambda>(m, callers, s).
     andthen (unchecked_server h [''spiffe://example.org/gateway/mcp'']) id (\<lambda>tls.
       Inr (legacy_server '':8444'' tls
         \<lparr>lv_middleware = m, lv_callers = callers, lv_verifier = v, lv_sink = s, lv_inner = (client, opts)\<rparr>))))))))"

text \<open>\<open>configuredAuthorizer\<close>: OPA unless PingAuthorize is named; \<open>decide\<close> is what the server named decides.\<close>

definition configured_authorizer ::
  "host \<Rightarrow> (string \<Rightarrow> string) \<Rightarrow> 'q opa_lib \<Rightarrow> (string \<Rightarrow> jtoken list) \<Rightarrow> (ping_authorize \<Rightarrow> ping_request \<Rightarrow> ping_answer option)
    \<Rightarrow> main_error + authorize" where
  "configured_authorizer h to_lower opa lexer decide =
     (let name = to_lower (trim_space (ho_getenv h ''AUTHORIZATION_PROVIDER'')) in
      if name = [] \<or> name = ''opa'' then deployed_opa opa
      else if name = ''pingauthorize'' then
        andthen (required h ''PINGAUTHORIZE_URL'') MainEnv (\<lambda>endpoint.
        andthen (ca_http_client h ''PINGAUTHORIZE_CA_FILE'' (2 * second)) MainEnv (\<lambda>client.
        andthen (new_ping_authorize (ho_ip_literal h) (Some \<lparr>pc_timeout = pf_timeout client, pc_insecure = False\<rparr>) endpoint
            (500 * millisecond)) MainPing (\<lambda>p.
          Inr (\<lambda>c v target tool. ping_authorize lexer (decide p) (Some p) (ctx_done c) v target tool))))
      else Inl MainProvider)"

definition gateway_callers :: "string list" where
  "gateway_callers = [''spiffe://example.org/agent/demo'', ''spiffe://example.org/agent/web-app'']"

text \<open>\<open>mustPolicy\<close> panics where \<open>peer_server\<close> has the policy's error.\<close>

definition gateway_main ::
  "host \<Rightarrow> (string \<Rightarrow> env_error + provider) \<Rightarrow> main_error + authorize \<Rightarrow> 'w sink \<Rightarrow> (remote \<times> http_client \<Rightarrow> 'w sink)
    \<Rightarrow> main_error + ('w, http_client \<times> 'w gateway) legacy_app server" where
  "gateway_main h prov configured stdout remote =
     andthen (prov ''spiffe://example.org/gateway/mcp'') MainEnv (\<lambda>_.
     andthen (peer_client h [''spiffe://example.org/mcp/demo''] (10 * second)) id (\<lambda>client.
     andthen (env_url h ''MCP_SERVER_URL'') MainEnv (\<lambda>u.
     andthen configured id (\<lambda>policy.
     andthen (demo_audit_sink h client_source stdout remote) MainEnv (\<lambda>sink.
     andthen (new_gateway_with_authorizer (Some (client_timeout client))
         [\<lparr>tg_name = ''demo'', tg_url = Some u, tg_tools = [''customer.get'', ''system.whoami'']\<rparr>] (Some policy) (Some sink))
       MainGateway (\<lambda>g.
     andthen (demo_verifier h) MainEnv (\<lambda>v.
     andthen (middleware_for_callers h ''urn:wai:mcp-gateway'' True gateway_callers ''mcp-gateway'' stdout [Some sink])
       MainEnv (\<lambda>(m, callers, s).
     andthen (peer_server h gateway_callers) id (\<lambda>tls.
       Inr (legacy_server '':8443'' tls
         \<lparr>lv_middleware = m, lv_callers = callers, lv_verifier = v, lv_sink = s, lv_inner = (client, g)\<rparr>))))))))))"

section \<open>The legacy agents\<close>

record 'w agent_app =
  aa_runner :: "'w runner"
  aa_http :: http_client
  aa_exchange :: exchange_client
  aa_verifier :: jwt_verifier

definition agent_main ::
  "host \<Rightarrow> (string \<Rightarrow> env_error + provider) \<Rightarrow> 'w sink \<Rightarrow> (remote \<times> http_client \<Rightarrow> 'w sink) \<Rightarrow> main_error + 'w agent_app" where
  "agent_main h prov stdout remote =
     andthen (prov ''spiffe://example.org/agent/demo'') MainEnv (\<lambda>_.
     andthen (new_http_client client_source
         (Some (authorize_spiffe_id (unchecked_policy h [''spiffe://example.org/gateway/mcp'']))) (10 * second)) MainSpire (\<lambda>client.
     andthen (required h ''PF_TOKEN_ENDPOINT'') MainEnv (\<lambda>endpoint.
     andthen (required h ''PF_CLIENT_ID'') MainEnv (\<lambda>client_id.
     andthen (required h ''PF_CLIENT_SECRET'') MainEnv (\<lambda>secret.
     andthen (pf_http_client h) MainEnv (\<lambda>pf.
     andthen (new_exchange_client (ho_ip_literal h) endpoint client_id secret (Some (pf_timeout (pf\<lparr>pf_timeout := 10 * second\<rparr>))))
       MainExchange (\<lambda>xc.
     andthen (demo_verifier h) MainEnv (\<lambda>v.
     andthen (demo_audit_sink h client_source stdout remote) MainEnv (\<lambda>sink.
       Inr \<lparr>aa_runner = \<lparr>lr_audit = Some sink, lr_has_verifier = True,
              lr_actor_audience = ''urn:pingfederate:wai:token-exchange'', lr_exchange_audience = ''mcp-gateway'',
              lr_transaction_audience = ''urn:wai:mcp-gateway'', lr_gateway_url = ''https://mcp-gateway:8443'',
              lr_direct_api_url = ''https://demo-api:8445'', lr_agent_id = ''urn:agent:demo'',
              lr_workload_id = ''spiffe://example.org/agent/demo'', lr_audit_target = ''demo-agent''\<rparr>,
            aa_http = client, aa_exchange = xc, aa_verifier = v\<rparr>)))))))))"

text \<open>
  \<open>localOIDCBackchannelClient\<close>: what it dials for an address. The client \<open>PFHTTPClient\<close> makes has an HTTP transport.
\<close>

definition local_oidc_client :: "bool \<Rightarrow> duration \<Rightarrow> main_error + duration \<times> (string \<Rightarrow> string option)" where
  "local_oidc_client has_transport timeout =
     (if \<not> has_transport \<or> timeout \<le> 0 then Inl MainBackchannel
      else Inr (timeout, \<lambda>address. if address \<noteq> ''localhost:9031'' then None else Some ''host.docker.internal:9031''))"

record 'w web_app_config =
  wa_agent :: "'w agent_app"
  wa_oidc :: "duration \<times> (string \<Rightarrow> string option)"
  wa_audit :: "remote \<times> http_client"
  wa_web :: web_handler
  wa_files :: "string \<times> string"

definition web_runner :: "'w sink \<Rightarrow> string \<Rightarrow> 'w runner" where
  "web_runner sink gateway_url =
     \<lparr>lr_audit = Some sink, lr_has_verifier = True, lr_actor_audience = ''urn:pingfederate:wai:token-exchange'',
      lr_exchange_audience = ''mcp-gateway'', lr_transaction_audience = ''urn:wai:mcp-gateway'', lr_gateway_url = gateway_url,
      lr_direct_api_url = [], lr_agent_id = ''urn:agent:web-app'', lr_workload_id = ''spiffe://example.org/agent/web-app'',
      lr_audit_target = ''web-app''\<rparr>"

text \<open>The application's settings from the environment, in the order they are asked for.\<close>

definition web_settings :: "host \<Rightarrow> duration \<Rightarrow> main_error + web_config" where
  "web_settings h oidc_timeout =
     andthen (required h ''OIDC_AUTHORIZATION_ENDPOINT'') MainEnv (\<lambda>authz.
     andthen (required h ''OIDC_TOKEN_ENDPOINT'') MainEnv (\<lambda>tok.
     andthen (required h ''OIDC_REDIRECT_URI'') MainEnv (\<lambda>redirect.
     andthen (required h ''WEB_PUBLIC_URL'') MainEnv (\<lambda>public.
     andthen (required h ''OIDC_CLIENT_ID'') MainEnv (\<lambda>client_id.
     andthen (required h ''PF_WEB_CLIENT_SECRET'') MainEnv (\<lambda>secret.
       Inr \<lparr>wcf_authorization_endpoint = authz, wcf_token_endpoint = tok, wcf_redirect_uri = redirect, wcf_public_origin = public,
            wcf_client_id = client_id, wcf_client_secret = secret, wcf_scopes = [''openid'', ''mcp:invoke''],
            wcf_cookie_name = ''__Host-wai_session'', wcf_session_ttl = 3600 * second, wcf_pre_auth_ttl = 300 * second,
            wcf_maximum_sessions = 1000, wcf_client_timeout = Some oidc_timeout, wcf_has_verifier = True,
            wcf_has_interactions = True, wcf_allowed_interactions = [(''system.whoami'', ''system.whoami'')],
            wcf_has_audit = True\<rparr>))))))"

definition web_main ::
  "host \<Rightarrow> (string \<Rightarrow> env_error + provider) \<Rightarrow> 'w sink \<Rightarrow> (remote \<times> http_client \<Rightarrow> 'w sink)
    \<Rightarrow> main_error + 'w web_app_config server" where
  "web_main h prov stdout remote =
     andthen (prov ''spiffe://example.org/agent/web-app'') MainEnv (\<lambda>_.
     andthen (peer_client h [''spiffe://example.org/gateway/mcp''] (10 * second)) id (\<lambda>client.
     andthen (pf_http_client h) MainEnv (\<lambda>pf.
     andthen (local_oidc_client True (pf_timeout pf)) id (\<lambda>oidc.
     andthen (required h ''PF_TOKEN_ENDPOINT'') MainEnv (\<lambda>endpoint.
     andthen (required h ''PF_CLIENT_ID'') MainEnv (\<lambda>client_id.
     andthen (required h ''PF_CLIENT_SECRET'') MainEnv (\<lambda>secret.
     andthen (new_exchange_client (ho_ip_literal h) endpoint client_id secret (Some (pf_timeout pf))) MainExchange (\<lambda>xc.
     andthen (demo_verifier h) MainEnv (\<lambda>v.
     andthen (demo_audit_remote h client_source) MainEnv (\<lambda>r.
     andthen (new_fanout [Some stdout, Some (remote r)]) MainAudit (\<lambda>ss.
     andthen (env_url h ''MCP_GATEWAY_URL'') MainEnv (\<lambda>gu.
     andthen (web_settings h (fst oidc)) id (\<lambda>config.
     andthen (new_web (ho_ip_literal h) config) MainWeb (\<lambda>web.
     andthen (required h ''WEB_LISTEN'') MainEnv (\<lambda>listen.
     andthen (required h ''WEB_TLS_CERT_FILE'') MainEnv (\<lambda>cert.
     andthen (required h ''WEB_TLS_KEY_FILE'') MainEnv (\<lambda>key_file.
       Inr \<lparr>hs_addr = listen, hs_read_header = 5 * second, hs_read = 15 * second, hs_write = 30 * second, hs_idle = 60 * second,
            hs_tls = None,
            hs_app = \<lparr>wa_agent = \<lparr>aa_runner = web_runner (fanout_write ss) (ho_render h gu), aa_http = client, aa_exchange = xc,
                        aa_verifier = v\<rparr>,
                      wa_oidc = oidc, wa_audit = r, wa_web = web, wa_files = (cert, key_file)\<rparr>\<rparr>)))))))))))))))))"

end
