(* ===== verification/Deploy_Facts.thy ===== *)
theory Deploy_Facts
  imports Deploy Demo_Facts Gateway_Facts
begin

text \<open>
  What the commands fit together to: who can reach whom in the strict chain, and what becomes of its audit.
\<close>

section \<open>Peers\<close>

text \<open>\<open>spiffeid.FromString\<close> gives back the identities the commands name.\<close>

definition parses :: "host \<Rightarrow> string list \<Rightarrow> bool" where
  "parses h ids = list_all (\<lambda>i. ho_parse_id h i = Some i) ids"

definition deployed_ids :: "string list" where
  "deployed_ids = [''spiffe://example.org/tts/adapter'', strict_gateway_id, strict_mcp_id, strict_api_id] @ collector_callers"

lemma deployed_ids_trimmed: "i \<in> set deployed_ids \<Longrightarrow> trim_space i = i"
proof -
  have "list_all (\<lambda>i. trim_space i = i) deployed_ids" by code_simp
  then show "i \<in> set deployed_ids \<Longrightarrow> trim_space i = i" by (simp add: list_all_iff)
qed

lemma peers_exact:
  assumes "parses h ids" "set ids \<subseteq> set deployed_ids" "new_exact_peer_policy (ho_parse_id h) ids = Inr p"
  shows "p = set ids"
proof -
  from assms(1,2) have i: "ho_parse_id h (trim_space i) = Some i" if "i \<in> set ids" for i
    using that deployed_ids_trimmed by (auto simp: parses_def list_all_iff)
  from assms(3) have "p = {k. \<exists>raw \<in> set ids. ho_parse_id h (trim_space raw) = Some k}"
    by (auto simp: new_exact_peer_policy_def add_peers_Inr split: if_splits)
  with i show ?thesis by auto
qed

text \<open>One side of a connection admits exactly the peers \<open>ids\<close>.\<close>

definition admits_exactly :: "tls_config option \<Rightarrow> bool \<Rightarrow> string list \<Rightarrow> bool" where
  "admits_exactly tls server ids \<longleftrightarrow>
     (case tls of None \<Rightarrow> False | Some c \<Rightarrow> tls_server c = server \<and> (\<forall>i. tls_authorizes c i \<longleftrightarrow> i \<in> set ids))"

lemma peer_server_exact:
  assumes "peer_server h ids = Inr tls" "parses h ids" "set ids \<subseteq> set deployed_ids"
  shows "admits_exactly tls True ids"
proof -
  from assms(1) obtain p where p: "new_exact_peer_policy (ho_parse_id h) ids = Inr p"
    and "tls = Some \<lparr>tls_server = True, tls_authorizes = authorize_spiffe_id p\<rparr>"
    by (auto simp: peer_server_def guards configure_http_server_def server_source_def tls_config_def)
  with peers_exact [OF assms(2,3) p] show ?thesis by (simp add: admits_exactly_def authorize_spiffe_id_def)
qed

lemma peer_client_exact:
  assumes "peer_client h ids timeout = Inr c" "parses h ids" "set ids \<subseteq> set deployed_ids"
  shows "admits_exactly (Some (client_tls c)) False ids"
proof -
  from assms(1) obtain p where p: "new_exact_peer_policy (ho_parse_id h) ids = Inr p"
    and "client_tls c = \<lparr>tls_server = False, tls_authorizes = authorize_spiffe_id p\<rparr>"
    by (auto simp: peer_client_def guards new_http_client_def client_source_def tls_config_def split: if_splits)
  with peers_exact [OF assms(2,3) p] show ?thesis by (simp add: admits_exactly_def authorize_spiffe_id_def)
qed

section \<open>What the strict commands build\<close>

lemma strict_callers:
  "new_strict_txn_middleware (strict_settings caller service) = Inr m \<Longrightarrow> sm_callers m = [caller]"
  by (auto simp: new_strict_txn_middleware_def strict_settings_def split: if_splits)

lemma strict_gateway_main_Inr:
  assumes "strict_gateway_main h prov lib opa stdout remote = Inr s"
  shows "peer_client h [strict_mcp_id] (10 * second) = Inr (fst (sv_inner (hs_app s)))"
    "peer_server h [''spiffe://example.org/agent/demo''] = Inr (hs_tls s)"
    "sm_callers (sv_middleware (hs_app s)) = [''spiffe://example.org/agent/demo'']"
    "demo_audit_sink h client_source stdout remote = Inr (sv_sink (hs_app s))"
  using assms by (auto simp: strict_gateway_main_def guards strict_server_def dest: strict_callers)

lemma strict_mcp_main_Inr:
  assumes "strict_mcp_main h prov lib stdout remote = Inr s"
  shows "peer_client h [strict_api_id] (10 * second) = Inr (fst (sv_inner (hs_app s)))"
    "peer_server h [strict_gateway_id] = Inr (hs_tls s)"
    "sm_callers (sv_middleware (hs_app s)) = [strict_gateway_id]"
    "demo_audit_sink h client_source stdout remote = Inr (sv_sink (hs_app s))"
proof -
  from assms obtain m v where m: "new_strict_txn_middleware (strict_settings strict_gateway_id ''strict-demo-mcp-server'') = Inr m"
    and s: "sv_middleware (hs_app s) = m" "peer_client h [strict_api_id] (10 * second) = Inr (fst (sv_inner (hs_app s)))"
      "peer_server h [strict_gateway_id] = Inr (hs_tls s)" "demo_audit_sink h client_source stdout remote = Inr (sv_sink (hs_app s))"
    by (auto simp: strict_mcp_main_def guards strict_server_def split: option.splits)
  from strict_callers [OF m] s(1) show "sm_callers (sv_middleware (hs_app s)) = [strict_gateway_id]" by simp
qed (use assms in \<open>auto simp: strict_mcp_main_def guards strict_server_def split: option.splits\<close>)

lemma strict_api_main_Inr:
  assumes "strict_api_main h prov lib stdout remote = Inr s"
  shows "peer_server h [strict_mcp_id] = Inr (hs_tls s)" "sm_callers (sv_middleware (hs_app s)) = [strict_mcp_id]"
    "demo_audit_sink h client_source stdout remote = Inr (sv_sink (hs_app s))"
  using assms by (auto simp: strict_api_main_def guards strict_server_def dest: strict_callers)

lemma strict_agent_main_Inr:
  assumes "strict_agent_main h prov lib = Inr (r, ac, gc, v)"
  shows "peer_client h [''spiffe://example.org/tts/adapter''] (10 * second) = Inr ac"
    "peer_client h [strict_gateway_id] (10 * second) = Inr gc"
  using assms by (auto simp: strict_agent_main_def guards)

lemma adapter_main_Inr:
  assumes "adapter_main h prov lib = Inr s"
  shows "peer_server h [''spiffe://example.org/agent/demo''] = Inr (hs_tls s)"
  using assms by (auto simp: adapter_main_def guards)

lemma collector_main_Inr:
  assumes "collector_main h prov = Inr s" shows "peer_server h collector_callers = Inr (hs_tls s)"
  using assms by (auto simp: collector_main_def guards)

section \<open>The audit of a strict service\<close>

lemma fanout_refused:
  assumes "\<And>e w. fst (s e w) \<noteq> None" "s \<in> set ss"
  shows "fst (fanout_write ss e w) \<noteq> None"
  using assms(2)
proof (induction ss arbitrary: w)
  case (Cons t ts)
  obtain r w' where t: "t e w = (r, w')" by (cases "t e w")
  with assms(1) [of e w] Cons show ?case by (cases r) auto
qed simp

lemma demo_audit_sink_refused:
  assumes "demo_audit_sink h source stdout remote = Inr sink" "\<not> blank (ho_getenv h ''AUDIT_COLLECTOR_URL'')"
    and "\<And>rc e w. fst (remote rc e w) \<noteq> None"
  shows "fst (sink e w) \<noteq> None"
proof -
  from assms(1,2) obtain rc where "sink = fanout_write [stdout, remote rc]"
    by (auto simp: demo_audit_sink_def new_fanout_def split: sum.splits)
  with fanout_refused [of "remote rc" "[stdout, remote rc]" e w] assms(3) show ?thesis by simp
qed

lemma audited_refused:
  assumes "\<And>e w. fst (sink e w) \<noteq> None"
  shows "\<exists>msg status. fst (audited (Some sink) next admitted rq w) = [HttpError msg status]"
proof (cases admitted)
  case (Inl f)
  then show ?thesis by (cases f) (auto simp: audited_def)
next
  case (Inr ec)
  obtain e c where ec: "ec = (e, c)" by (cases ec)
  obtain r w' where "sink e w = (Some r, w')" using assms [of e w] by (cases "sink e w") auto
  with Inr ec show ?thesis by (auto simp: audited_def)
qed

section \<open>A deployment\<close>

definition deployed_env :: "string \<Rightarrow> string" where
  "deployed_env n =
     (case lookup
        [(''PF_TRANSACTION_ISSUER'', ''https://tts.example''), (''PF_JWKS_URL'', ''https://tts.example/jwks''),
         (''PF_TOKEN_ENDPOINT'', ''https://tts.example/as/token.oauth2''), (''PF_CLIENT_ID'', ''wai''),
         (''PF_CLIENT_SECRET'', ''secret''), (''TTS_ADAPTER_URL'', ''https://tts-adapter:8448/as/token.oauth2''),
         (''STRICT_MCP_GATEWAY_URL'', ''https://strict-mcp-gateway:8543''),
         (''STRICT_MCP_SERVER_URL'', ''https://strict-demo-mcp-server:8544''),
         (''STRICT_DEMO_API_URL'', ''https://strict-demo-api:8545''), (''AUDIT_COLLECTOR_URL'', ''https://audit-collector:8447'')] n of
        None \<Rightarrow> [] | Some v \<Rightarrow> v)"

definition deployed_host :: host where
  "deployed_host =
     \<lparr>ho_getenv = deployed_env, ho_cert_pool = True, ho_read_file = (\<lambda>_. None), ho_pem_ok = (\<lambda>_. False),
      ho_ip_literal = (\<lambda>_. None), ho_parse_id = Some, ho_render = (\<lambda>_. ''https://audit-collector:8447'')\<rparr>"

definition any_provider :: "string \<Rightarrow> env_error + provider" where
  "any_provider i = Inr \<lparr>prov_expected = i, prov_once_done = False, prov_close_err = None\<rparr>"

definition no_opa :: "unit opa_lib" where
  "no_opa = \<lparr>ol_files = (\<lambda>_. Some (''package wai'', False)), ol_compile = (\<lambda>_. Some ()), ol_eval = (\<lambda>_ _ _. None)\<rparr>"

definition quiet :: "unit sink" where "quiet = (\<lambda>e w. (None, w))"
definition refusing :: "unit sink" where "refusing = (\<lambda>e w. (Some SinkUnavailable, w))"

lemma deployed_parses: "parses deployed_host deployed_ids" "parses deployed_host collector_callers"
  by code_simp+

lemma deployed_policy: "ok (deployed_opa no_opa)"
proof -
  have t: "trim_space ''/run/wai/authorization.rego'' = ''/run/wai/authorization.rego''" by code_simp
  show ?thesis
    by (simp add: deployed_opa_def new_opa_def no_opa_def blank_def t millisecond_def Let_def)
qed

lemma deployed_strict_parts:
  "ok (strict_txn_verifier deployed_host strict_lib)" "ok (env_url deployed_host ''STRICT_MCP_SERVER_URL'')"
  "ok (demo_audit_sink deployed_host client_source quiet (\<lambda>_. refusing))"
  "ok (peer_client deployed_host [strict_mcp_id] (10 * second))" "ok (peer_server deployed_host [''spiffe://example.org/agent/demo''])"
  "ok (new_strict_txn_middleware (strict_settings ''spiffe://example.org/agent/demo'' ''strict-mcp-gateway''))"
  by code_simp+

lemma deployed_gateway: "ok (strict_gateway_main deployed_host any_provider strict_lib no_opa quiet (\<lambda>_. refusing))"
proof -
  obtain v c u p sink m tls where "strict_txn_verifier deployed_host strict_lib = Inr v"
    and c: "peer_client deployed_host [strict_mcp_id] (10 * second) = Inr c"
    and u: "env_url deployed_host ''STRICT_MCP_SERVER_URL'' = Inr u" and "deployed_opa no_opa = Inr p"
    "demo_audit_sink deployed_host client_source quiet (\<lambda>_. refusing) = Inr sink"
    "new_strict_txn_middleware (strict_settings ''spiffe://example.org/agent/demo'' ''strict-mcp-gateway'') = Inr m"
    "peer_server deployed_host [''spiffe://example.org/agent/demo''] = Inr tls"
    using deployed_policy deployed_strict_parts unfolding ok_iff by blast
  moreover from c have "0 < client_timeout c"
    by (auto simp: peer_client_def guards new_http_client_def client_source_def tls_config_def second_def split: if_splits)
  moreover from u have "https_endpoint u" by (auto simp: env_url_def split: sum.splits option.splits if_splits)
  ultimately show ?thesis
    by (simp add: strict_gateway_main_def any_provider_def new_strict_gateway_with_authorizer_def
        new_signed_route_authorizer_def new_gateway_with_def valid_target_def)
qed

lemma deployed_built:
  "ok (strict_agent_main deployed_host any_provider strict_lib)" "ok (adapter_main deployed_host any_provider strict_lib)"
  "ok (strict_mcp_main deployed_host any_provider strict_lib quiet (\<lambda>_. refusing))"
  "ok (strict_api_main deployed_host any_provider strict_lib quiet (\<lambda>_. refusing))"
  "ok (collector_main deployed_host any_provider)"
  by code_simp+

section \<open>Properties\<close>

text \<open>
  C34. In the strict chain as the commands build it, every connection is between two named identities: each
  client accepts exactly the identity the next service runs under, and each service's TLS configuration
  and middleware admit exactly the identity of the one before it.
\<close>
theorem strict_chain_peers:
  assumes "parses h deployed_ids"
    and "strict_agent_main h prov lib = Inr (r, ac, gc, v)" and "adapter_main h prov lib = Inr ta"
    and "strict_gateway_main h prov lib opa stdout remote = Inr g"
    and "strict_mcp_main h prov lib stdout remote = Inr m" and "strict_api_main h prov lib stdout remote = Inr a"
  shows "admits_exactly (Some (client_tls ac)) False [''spiffe://example.org/tts/adapter'']
    \<and> admits_exactly (hs_tls ta) True [''spiffe://example.org/agent/demo'']
    \<and> admits_exactly (Some (client_tls gc)) False [strict_gateway_id]
    \<and> admits_exactly (hs_tls g) True [''spiffe://example.org/agent/demo'']
    \<and> sm_callers (sv_middleware (hs_app g)) = [''spiffe://example.org/agent/demo'']
    \<and> admits_exactly (Some (client_tls (fst (sv_inner (hs_app g))))) False [strict_mcp_id]
    \<and> admits_exactly (hs_tls m) True [strict_gateway_id] \<and> sm_callers (sv_middleware (hs_app m)) = [strict_gateway_id]
    \<and> admits_exactly (Some (client_tls (fst (sv_inner (hs_app m))))) False [strict_api_id]
    \<and> admits_exactly (hs_tls a) True [strict_mcp_id] \<and> sm_callers (sv_middleware (hs_app a)) = [strict_mcp_id]"
proof -
  have p: "parses h [i]" if "i \<in> set deployed_ids" for i
    using assms(1) that by (simp add: parses_def list_all_iff)
  have ids: "''spiffe://example.org/tts/adapter'' \<in> set deployed_ids" "''spiffe://example.org/agent/demo'' \<in> set deployed_ids"
    "strict_gateway_id \<in> set deployed_ids" "strict_mcp_id \<in> set deployed_ids" "strict_api_id \<in> set deployed_ids"
    by (simp_all add: deployed_ids_def collector_callers_def)
  have client: "admits_exactly (Some (client_tls c)) False [i]" if "peer_client h [i] t = Inr c" "i \<in> set deployed_ids" for c i t
    using peer_client_exact [OF that(1) p] that(2) by simp
  have server: "admits_exactly tls True [i]" if "peer_server h [i] = Inr tls" "i \<in> set deployed_ids" for tls i
    using peer_server_exact [OF that(1) p] that(2) by simp
  note g = strict_gateway_main_Inr [OF assms(4)] and m = strict_mcp_main_Inr [OF assms(5)]
    and a = strict_api_main_Inr [OF assms(6)] and ag = strict_agent_main_Inr [OF assms(2)]
  show ?thesis
    using g(3) m(3) a(2) client [OF ag(1) ids(1)] server [OF adapter_main_Inr [OF assms(3)] ids(2)] client [OF ag(2) ids(3)]
      server [OF g(2) ids(2)] client [OF g(1) ids(4)] server [OF m(2) ids(3)] client [OF m(1) ids(5)] server [OF a(1) ids(4)]
    by blast
qed

theorem strict_chain_peers_witness:
  "\<exists>m. strict_mcp_main deployed_host any_provider strict_lib quiet (\<lambda>_. refusing) = Inr m
     \<and> admits_exactly (hs_tls m) True [strict_gateway_id] \<and> sm_callers (sv_middleware (hs_app m)) = [strict_gateway_id]"
proof -
  obtain x ta g m a where b: "strict_agent_main deployed_host any_provider strict_lib = Inr x"
    "adapter_main deployed_host any_provider strict_lib = Inr ta"
    "strict_gateway_main deployed_host any_provider strict_lib no_opa quiet (\<lambda>_. refusing) = Inr g"
    "strict_mcp_main deployed_host any_provider strict_lib quiet (\<lambda>_. refusing) = Inr m"
    "strict_api_main deployed_host any_provider strict_lib quiet (\<lambda>_. refusing) = Inr a"
    using deployed_built deployed_gateway unfolding ok_iff by blast
  obtain r ac gc v where x: "x = (r, ac, gc, v)" by (cases x)
  from strict_chain_peers [OF deployed_parses(1) b(1) [unfolded x] b(2-5)] b(4) show ?thesis by blast
qed

text \<open>
  C35. The collector command lists none of the strict services among its callers, so its TLS configuration refuses
  them: with a collector configured, as the Compose file does for every service, and a remote sink that fails
  when the collector refuses the handshake, the strict gateway answers every request with an error.
\<close>
theorem strict_gateway_unaudited:
  assumes "parses hc collector_callers" and "collector_main hc cprov = Inr col" and "hs_tls col = Some tls"
    and "strict_gateway_main h prov lib opa stdout remote = Inr g" and "\<not> blank (ho_getenv h ''AUDIT_COLLECTOR_URL'')"
    and "\<And>rc e w. \<not> tls_authorizes tls strict_gateway_id \<Longrightarrow> fst (remote rc e w) \<noteq> None"
  shows "\<exists>msg status. fst (strict_handler from_uri sha256_hex verify (Some (sv_sink (hs_app g)))
    (sv_middleware (hs_app g)) next rq w) = [HttpError msg status]"
proof -
  have "set collector_callers \<subseteq> set deployed_ids" by (auto simp: deployed_ids_def)
  from peer_server_exact [OF collector_main_Inr [OF assms(2)] assms(1) this] assms(3)
  have "\<not> tls_authorizes tls strict_gateway_id"
    by (simp add: admits_exactly_def collector_callers_def strict_gateway_id_def)
  then have "fst (remote rc e w) \<noteq> None" for rc e w by (rule assms(6))
  then have "fst (sv_sink (hs_app g) e w) \<noteq> None" for e w
    by (rule demo_audit_sink_refused [OF strict_gateway_main_Inr(4) [OF assms(4)] assms(5)])
  from audited_refused [OF this] show ?thesis unfolding strict_handler_def .
qed

theorem strict_gateway_unaudited_witness:
  "\<exists>g msg status. strict_gateway_main deployed_host any_provider strict_lib no_opa quiet (\<lambda>_. refusing) = Inr g
     \<and> fst (strict_handler (\<lambda>_. None) (\<lambda>_. []) (\<lambda>_ _. Inl ()) (Some (sv_sink (hs_app g))) (sv_middleware (hs_app g))
         (\<lambda>rq w. ([] :: unit replies, w)) demo_request ()) = [HttpError msg status]"
proof -
  obtain g col where b: "strict_gateway_main deployed_host any_provider strict_lib no_opa quiet (\<lambda>_. refusing) = Inr g"
    "collector_main deployed_host any_provider = Inr col"
    using deployed_built deployed_gateway unfolding ok_iff by blast
  have "set collector_callers \<subseteq> set deployed_ids" by (auto simp: deployed_ids_def)
  from peer_server_exact [OF collector_main_Inr [OF b(2)] deployed_parses(2) this] obtain tls where t: "hs_tls col = Some tls"
    by (cases "hs_tls col") (auto simp: admits_exactly_def)
  have a: "\<not> blank (ho_getenv deployed_host ''AUDIT_COLLECTOR_URL'')" by code_simp
  from strict_gateway_unaudited [OF deployed_parses(2) b(2) t b(1) a,
      of "\<lambda>_. None" "\<lambda>_. []" "\<lambda>_ _. Inl ()" "\<lambda>rq w. ([] :: unit replies, w)" demo_request "()"] b(1)
  show ?thesis by (simp add: refusing_def)
qed

end
