(* ===== verification/Probe.thy ===== *)
theory Probe
  imports Deploy
begin

text \<open>
  The probe of the token adapter and the strict chain (\<open>cmd/tts-probe/main.go\<close>): it plays the approved
  requester, or a workload that has to be turned away, and reports whether the deployment did what it should.
\<close>

section \<open>Outcomes\<close>

datatype probe_error =
    ProbeMain main_error | AdapterURL | GatewayURL | GatewayPeer | UnexpectedlyReached nat | SvidFailed
  | CredentialsRequired | SubjectRequest | SubjectFailed | SubjectRejected
  | AdapterRequest | AdapterUnbounded nat | AdapterRejected nat string | AdapterOuter | AdapterInner
  | GatewayRequest | GatewayFailed | GatewayRejected nat | BearerFailed | BearerUnbounded | BearerAccepted nat

datatype probe_pass = WorkloadRejected | TlsRejected | BearerRejected | Issued

text \<open>The outside: sending over mutual TLS and to PingFederate, the SVID, the verifier built.\<close>

record 'w probe_env =
  pe_send :: "http_client \<Rightarrow> strict_call \<Rightarrow> 'w \<Rightarrow> (nat \<times> request_body) option \<times> 'w"
  pe_token :: "pf_client \<Rightarrow> token_request \<Rightarrow> 'w \<Rightarrow> (nat \<times> request_body) option \<times> 'w"
  pe_fetch :: "string list \<Rightarrow> 'w \<Rightarrow> svid option \<times> 'w"
  pe_verify :: "verifier \<times> jwks_resolver \<Rightarrow> string \<Rightarrow> 'w \<Rightarrow> (unit + txn_token_claims) \<times> 'w"
  pe_lexer :: "string \<Rightarrow> jtoken list"

section \<open>The strict gateway\<close>

definition strict_gateway_client :: "host \<Rightarrow> string \<Rightarrow> probe_error + http_client \<times> url" where
  "strict_gateway_client h endpoint =
     (case url_parse (ho_ip_literal h) endpoint of
        None \<Rightarrow> Inl GatewayURL
      | Some u \<Rightarrow>
          if \<not> https_endpoint_no_fragment u then Inl GatewayURL
          else andthen (peer_client h [strict_gateway_id] (10 * second)) (\<lambda>_. GatewayPeer) (\<lambda>c. Inr (c, u)))"

definition expect_strict_tls_rejection ::
  "host \<Rightarrow> 'w probe_env \<Rightarrow> string \<Rightarrow> 'w \<Rightarrow> (probe_error + probe_pass) \<times> 'w" where
  "expect_strict_tls_rejection h env endpoint w =
     (case strict_gateway_client h endpoint of
        Inl e \<Rightarrow> (Inl e, w)
      | Inr (c, u) \<Rightarrow>
          (case pe_send env c \<lparr>sc_url = u, sc_header = [], sc_body = ''{}''\<rparr> w of
             (Some (status, _), w1) \<Rightarrow> (Inl (UnexpectedlyReached status), w1)
           | (None, w1) \<Rightarrow> (Inr TlsRejected, w1)))"

definition expect_strict_bearer_rejection ::
  "host \<Rightarrow> 'w probe_env \<Rightarrow> string \<Rightarrow> 'w \<Rightarrow> (probe_error + probe_pass) \<times> 'w" where
  "expect_strict_bearer_rejection h env endpoint w =
     (case strict_gateway_client h endpoint of
        Inl e \<Rightarrow> (Inl e, w)
      | Inr (c, u) \<Rightarrow>
          (case pe_send env c
             \<lparr>sc_url = u, sc_header = header_set [] ''Authorization'' ''Bearer invalid-probe-value'', sc_body = ''{}''\<rparr> w of
             (None, w1) \<Rightarrow> (Inl BearerFailed, w1)
           | (Some (status, body), w1) \<Rightarrow>
               (if read_body 4096 body = None then Inl BearerUnbounded
                else if status \<noteq> 401 then Inl (BearerAccepted status) else Inr BearerRejected, w1)))"

definition invoke_strict_gateway ::
  "host \<Rightarrow> 'w probe_env \<Rightarrow> string \<Rightarrow> string \<Rightarrow> 'w \<Rightarrow> probe_error option \<times> 'w" where
  "invoke_strict_gateway h env endpoint raw w =
     (case strict_gateway_client h endpoint of
        Inl e \<Rightarrow> (Some e, w)
      | Inr (c, u) \<Rightarrow>
     (case set_txn_token (Some []) raw 16384 of
        Inl _ \<Rightarrow> (Some GatewayRequest, w)
      | Inr hs \<Rightarrow>
          (case pe_send env c \<lparr>sc_url = u, sc_header = mcp_headers ''system.whoami'' hs,
              sc_body = call_payload id ''system.whoami''\<rparr> w of
             (None, w1) \<Rightarrow> (Some GatewayFailed, w1)
           | (Some (status, body), w1) \<Rightarrow>
               (if read_body 32768 body = None \<or> status < 200 \<or> status \<ge> 300 then Some (GatewayRejected status) else None, w1))))"

section \<open>The subject token\<close>

definition or_default :: "string \<Rightarrow> string \<Rightarrow> string" where
  "or_default s d = (if s = [] then d else s)"

definition subject_request :: "host \<Rightarrow> string \<Rightarrow> string \<Rightarrow> string \<Rightarrow> token_request" where
  "subject_request h endpoint password secret =
     \<lparr>tr_url = endpoint,
      tr_form = [(''grant_type'', ''password''),
        (''username'', or_default (trim_space (ho_getenv h ''TF_VAR_lab_user_name'')) ''demo-user''),
        (''password'', password), (''scope'', ''mcp.system.whoami'')],
      tr_basic_user = or_default (trim_space (ho_getenv h ''TF_VAR_lab_user_client_id'')) ''wai-lab-user'',
      tr_basic_password = secret\<rparr>"

text \<open>The decoder stops after the first value of at most 1 MiB of the body.\<close>

definition subject_answer :: "(string \<Rightarrow> jtoken list) \<Rightarrow> nat \<times> request_body \<Rightarrow> string option" where
  "subject_answer lexer ans =
     (if fst ans \<noteq> 200 then None
      else case decode_next (lexer (take (nat 1048576) (body_bytes (snd ans)))) of
        None \<Rightarrow> None
      | Some (j, _) \<Rightarrow>
          (case decode_struct [string_field ''access_token'' (\<lambda>s _. s)] False j [] of
             None \<Rightarrow> None
           | Some s \<Rightarrow> if s = [] then None else Some s))"

definition obtain_subject_token :: "host \<Rightarrow> 'w probe_env \<Rightarrow> 'w \<Rightarrow> (probe_error + string) \<times> 'w" where
  "obtain_subject_token h env w =
     (case required h ''PF_TOKEN_ENDPOINT'' of
        Inl e \<Rightarrow> (Inl (ProbeMain (MainEnv e)), w)
      | Inr endpoint \<Rightarrow>
     (case pf_http_client h of
        Inl e \<Rightarrow> (Inl (ProbeMain (MainEnv e)), w)
      | Inr client \<Rightarrow>
          (let password = ho_getenv h ''TF_VAR_lab_user_password''; secret = ho_getenv h ''TF_VAR_lab_user_client_secret'' in
           if password = [] \<or> secret = [] then (Inl CredentialsRequired, w)
           else if url_parse (ho_ip_literal h) endpoint = None then (Inl SubjectRequest, w)
           else (case pe_token env client (subject_request h endpoint password secret) w of
             (None, w1) \<Rightarrow> (Inl SubjectFailed, w1)
           | (Some ans, w1) \<Rightarrow>
               (case subject_answer (pe_lexer env) ans of
                  None \<Rightarrow> (Inl SubjectRejected, w1)
                | Some tok \<Rightarrow> (Inr tok, w1))))))"

section \<open>The adapter\<close>

definition adapter_failure :: "jtoken list \<Rightarrow> string" where
  "adapter_failure ts =
     (case (case decode_all ts of None \<Rightarrow> None | Some j \<Rightarrow> decode_struct [string_field ''error'' (\<lambda>s _. s)] False j []) of
        None \<Rightarrow> ''invalid_error_response''
      | Some code \<Rightarrow>
          if code \<in> set [''invalid_request'', ''invalid_client'', ''temporarily_unavailable'', ''server_error''] then code
          else ''invalid_error_response'')"

text \<open>The outer response: no unknown member, and the lifetime the lab's token generator gives.\<close>

definition outer_response :: "jtoken list \<Rightarrow> strict_response option" where
  "outer_response ts =
     (case decode_next ts of
        None \<Rightarrow> None
      | Some (j, _) \<Rightarrow>
          (case decode_struct strict_response_fields True j blank_strict_response of
             None \<Rightarrow> None
           | Some r \<Rightarrow>
               if sa_access_token r = [] \<or> sa_issued_token_type r \<noteq> transaction_token_type
                  \<or> sa_token_type r \<noteq> ''N_A'' \<or> sa_expires_in r \<noteq> 20
               then None else Some r))"

definition adapter_answer :: "(string \<Rightarrow> jtoken list) \<Rightarrow> (nat \<times> request_body) option \<Rightarrow> probe_error + strict_response" where
  "adapter_answer lexer ans =
     (case ans of
        None \<Rightarrow> Inl AdapterRequest
      | Some (status, body) \<Rightarrow>
          (case read_body 32768 body of
             None \<Rightarrow> Inl (AdapterUnbounded status)
           | Some bytes \<Rightarrow>
               if status \<noteq> 200 then Inl (AdapterRejected status (adapter_failure (lexer bytes)))
               else (case outer_response (lexer bytes) of None \<Rightarrow> Inl AdapterOuter | Some r \<Rightarrow> Inr r)))"

definition inner_claims :: "string \<Rightarrow> txn_token_claims \<Rightarrow> bool" where
  "inner_claims expected cl =
     (\<not> (txn_requesting_workload_id cl \<noteq> expected \<or> txn_audience cl \<noteq> ''example.org''
         \<or> wai_target (txn_context cl) \<noteq> ''demo'' \<or> wai_tool (txn_context cl) \<noteq> ''system.whoami''))"

definition probe_verifier :: "host \<Rightarrow> 'j verifier_lib \<Rightarrow> env_error + verifier \<times> jwks_resolver" where
  "probe_verifier h lib = strict_txn_verifier h lib"

text \<open>The approved requester: SVID, subject token, exchange, verification, and the chain if it is configured.\<close>

definition probe_exchange ::
  "host \<Rightarrow> 'j verifier_lib \<Rightarrow> 'w probe_env \<Rightarrow> string \<Rightarrow> string \<Rightarrow> http_client \<Rightarrow> url \<Rightarrow> 'w
    \<Rightarrow> (probe_error + probe_pass) \<times> 'w" where
  "probe_exchange h lib env expected gateway client u w =
     (case pe_fetch env [''urn:pingfederate:wai:token-exchange''] w of
        (None, w1) \<Rightarrow> (Inl SvidFailed, w1)
      | (Some s, w1) \<Rightarrow>
     (case obtain_subject_token h env w1 of
        (Inl e, w2) \<Rightarrow> (Inl e, w2)
      | (Inr subj, w2) \<Rightarrow>
     (case pe_send env client (adapter_call u subj (svid_token s)) w2 of
        (ans, w3) \<Rightarrow>
     (case adapter_answer (pe_lexer env) ans of
        Inl e \<Rightarrow> (Inl e, w3)
      | Inr r \<Rightarrow>
     (case probe_verifier h lib of
        Inl e \<Rightarrow> (Inl (ProbeMain (MainEnv e)), w3)
      | Inr v \<Rightarrow>
     (case pe_verify env v (sa_access_token r) w3 of
        (Inl _, w4) \<Rightarrow> (Inl AdapterInner, w4)
      | (Inr cl, w4) \<Rightarrow>
          if \<not> inner_claims expected cl then (Inl AdapterInner, w4)
          else if gateway = [] then (Inr Issued, w4)
          else (case invoke_strict_gateway h env gateway (sa_access_token r) w4 of
             (Some e, w5) \<Rightarrow> (Inl e, w5)
           | (None, w5) \<Rightarrow> (Inr Issued, w5))))))))"

section \<open>The run\<close>

definition env_true :: "host \<Rightarrow> string \<Rightarrow> bool" where
  "env_true h name = equal_fold (trim_space (ho_getenv h name)) ''true''"

definition expect_adapter_rejection :: "'w probe_env \<Rightarrow> http_client \<Rightarrow> url \<Rightarrow> 'w \<Rightarrow> (probe_error + probe_pass) \<times> 'w" where
  "expect_adapter_rejection env client u w =
     (case pe_send env client
        \<lparr>sc_url = u, sc_header = header_set [] ''Content-Type'' ''application/x-www-form-urlencoded'',
         sc_body = ''rejected-before-token-processing=true''\<rparr> w of
        (Some (status, _), w1) \<Rightarrow> (Inl (UnexpectedlyReached status), w1)
      | (None, w1) \<Rightarrow> (Inr WorkloadRejected, w1))"

definition probe_run ::
  "host \<Rightarrow> (string \<Rightarrow> env_error + provider) \<Rightarrow> 'j verifier_lib \<Rightarrow> 'w probe_env \<Rightarrow> 'w \<Rightarrow> (probe_error + probe_pass) \<times> 'w" where
  "probe_run h prov lib env w =
     (case required h ''PROBE_SPIFFE_ID'' of
        Inl e \<Rightarrow> (Inl (ProbeMain (MainEnv e)), w)
      | Inr expected \<Rightarrow>
     (case prov expected of
        Inl e \<Rightarrow> (Inl (ProbeMain (MainEnv e)), w)
      | Inr _ \<Rightarrow>
          (let gateway = trim_space (ho_getenv h ''STRICT_MCP_GATEWAY_URL'') in
           if env_true h ''EXPECT_STRICT_TLS_REJECTION'' then expect_strict_tls_rejection h env gateway w
           else if env_true h ''EXPECT_STRICT_BEARER_REJECTION'' then expect_strict_bearer_rejection h env gateway w
           else (case peer_client h [''spiffe://example.org/tts/adapter''] (10 * second) of
             Inl e \<Rightarrow> (Inl (ProbeMain e), w)
           | Inr client \<Rightarrow>
          (case required h ''TTS_ADAPTER_URL'' of
             Inl e \<Rightarrow> (Inl (ProbeMain (MainEnv e)), w)
           | Inr endpoint \<Rightarrow>
          (case url_parse (ho_ip_literal h) endpoint of
             None \<Rightarrow> (Inl AdapterURL, w)
           | Some u \<Rightarrow>
               if \<not> https_endpoint_no_fragment u then (Inl AdapterURL, w)
               else if env_true h ''EXPECT_REJECTION'' then expect_adapter_rejection env client u w
               else probe_exchange h lib env expected gateway client u w))))))"

section \<open>What a pass means\<close>

lemma inner_claims_iff:
  "inner_claims expected cl \<longleftrightarrow> txn_requesting_workload_id cl = expected \<and> txn_audience cl = ''example.org''
     \<and> wai_target (txn_context cl) = ''demo'' \<and> wai_tool (txn_context cl) = ''system.whoami''"
  by (auto simp: inner_claims_def)

text \<open>The gateway took the token: over the client that accepts only the strict gateway, as the one transport value.\<close>

definition chain_accepted :: "host \<Rightarrow> 'w probe_env \<Rightarrow> string \<Rightarrow> string \<Rightarrow> 'w \<Rightarrow> 'w \<Rightarrow> bool" where
  "chain_accepted h env gateway tok w w' \<longleftrightarrow>
     (\<exists>c u hs status body. strict_gateway_client h gateway = Inr (c, u) \<and> set_txn_token (Some []) tok 16384 = Inr hs
        \<and> pe_send env c \<lparr>sc_url = u, sc_header = mcp_headers ''system.whoami'' hs, sc_body = call_payload id ''system.whoami''\<rparr> w
            = (Some (status, body), w')
        \<and> read_body 32768 body \<noteq> None \<and> 200 \<le> status \<and> status < 300)"

lemma invoke_strict_gateway_None:
  "invoke_strict_gateway h env gateway tok w = (None, w') \<longleftrightarrow> chain_accepted h env gateway tok w w'"
  by (auto simp: invoke_strict_gateway_def chain_accepted_def not_less split: sum.splits option.splits prod.splits if_splits)

text \<open>
  The probe reports an issued token only for one the verifier it built accepted, for its own workload and the demo
  tool, from an answer of the adapter with exactly the lab's lifetime; and a configured gateway took that same token.
\<close>

lemma probe_exchange_issued:
  assumes "probe_exchange h lib env expected gateway client u w = (Inr Issued, w')"
  shows "\<exists>s :: svid. \<exists>subj w2 body bytes r v w3 cl w4. pe_send env client (adapter_call u subj (svid_token s)) w2 = (Some (200, body), w3)
    \<and> read_body 32768 body = Some bytes \<and> outer_response (pe_lexer env bytes) = Some r \<and> sa_expires_in r = 20
    \<and> strict_txn_verifier h lib = Inr v \<and> pe_verify env v (sa_access_token r) w3 = (Inr cl, w4) \<and> inner_claims expected cl
    \<and> (if gateway = [] then w' = w4 else chain_accepted h env gateway (sa_access_token r) w4 w')"
proof -
  have outer: "outer_response ts = Some r \<Longrightarrow> sa_expires_in r = 20" for ts r
    by (auto simp: outer_response_def split: option.splits prod.splits if_splits)
  from assms show ?thesis
    by (auto simp: probe_exchange_def probe_verifier_def adapter_answer_def invoke_strict_gateway_None
        split: option.splits prod.splits sum.splits if_splits) (blast dest: outer)+
qed

text \<open>A probe that expects to be turned away passes exactly when nothing was answered.\<close>

lemma expect_adapter_rejection_pass:
  "fst (expect_adapter_rejection env client u w) = Inr p \<Longrightarrow>
     p = WorkloadRejected \<and> fst (pe_send env client
       \<lparr>sc_url = u, sc_header = header_set [] ''Content-Type'' ''application/x-www-form-urlencoded'',
        sc_body = ''rejected-before-token-processing=true''\<rparr> w) = None"
  by (auto simp: expect_adapter_rejection_def split: option.splits prod.splits)

end
