(* ===== verification/Spec2Isabelle.thy ===== *)
theory Spec2Isabelle
  imports Spiffe Audit_Delivery Gateway_Facts Middleware_Facts Web_Login PF_Facts Agent_Facts Agent_Strict Mcp_Facts Config
    Demo_Facts Deploy_Facts Probe
begin

text \<open>
  A verification of the Go program of this repository: workload identities from SPIFFE, transaction tokens
  from PingFederate, and the agents, gateway, MCP server and APIs that pass one such token along a chain of
  mutually authenticated calls, with an audit trail and a web application beside them.

  \<^bold>\<open>The program and its parts.\<close>
  An agent (\<open>pkg/agent\<close>, or the web application of \<open>pkg/webapp\<close> on a user's behalf) fetches an actor SVID
  (\<open>pkg/spiffe/spire\<close>) and has it exchanged with the user's token: the legacy agent at PingFederate
  (\<open>pkg/pingfederate\<close>), the strict one at the adapter (\<open>pkg/ttsadapter\<close>), which asks PingFederate and binds
  the result to the calling workload. The agent calls the MCP gateway (\<open>pkg/mcp/gateway.go\<close>), whose
  middleware (\<open>pkg/middleware\<close>) verifies the token (\<open>pkg/transaction\<close>) and the peer (\<open>pkg/spiffe\<close>) and writes
  an audit event (\<open>pkg/audit\<close>); the gateway asks an authorizer (\<open>pkg/authorization\<close>) and forwards the call to
  the demo server (\<open>pkg/mcp/server.go\<close>), which calls the API (\<open>pkg/mcp/api.go\<close>) with the same token. Events
  go to standard output and to the collector (\<open>pkg/auditcollector\<close>), from which the web application shows a
  user that user's own records. The commands (\<open>cmd/\<close>) put this together from the environment
  (\<open>internal/demoenv\<close>).

  \<^bold>\<open>What models what.\<close>
  \<^item> The language and its library. \<open>Prelude\<close>: results (\<open>'e + 'a\<close> is \<open>(T, error)\<close>), \<open>int64\<close>, times. \<open>Go_Strings\<close>:
    package \<open>strings\<close> on byte strings. \<open>Go_HTTP\<close>: headers, replies, TLS state, bodies. \<open>Go_URL\<close>, \<open>Go_Form\<close>:
    \<open>net/url\<close>. \<open>Go_JSON\<close>: \<open>encoding/json\<close> on token streams, the encoder's text, base64; \<open>Go_JSON_Text\<close>: what
    that text keeps of a string. \<open>Go_Regexp\<close>: patterns and \<open>MatchString\<close>.
  \<^item> Identities and peers. \<open>Identity\<close> (\<open>pkg/identity\<close>), \<open>Spiffe\<close> (\<open>pkg/spiffe\<close>), \<open>Caller\<close> (the immediate caller
    of a verified TLS connection).
  \<^item> Tokens. \<open>Txn_Claims\<close>, \<open>Txn_Transport\<close>, \<open>Json_Scan\<close>, \<open>Txn_Verifier\<close> (\<open>pkg/transaction\<close>, file by file), with
    \<open>Txn_Verifier_Facts\<close>; \<open>PF_Keys\<close>, \<open>PF_Exchange\<close>, \<open>PF_Facts\<close> (\<open>pkg/pingfederate\<close>); \<open>Tts_Adapter\<close>
    (\<open>pkg/ttsadapter\<close>).
  \<^item> Audit. \<open>Audit_Event\<close>, \<open>Audit_Wire\<close> (events, token evidence and their JSON), \<open>Audit_Store\<close>, \<open>Audit_Sinks\<close> (standard
    output, remote, fan-out), \<open>Audit_Collector\<close>, and \<open>Audit_Delivery\<close>, which runs a sink against a collector.
  \<^item> Decisions. \<open>Authz_Policy\<close> (the static policy), \<open>Authz_Remote\<close> (PingAuthorize, OPA), \<open>Middleware\<close>,
    \<open>Middleware_Facts\<close> (both middlewares), \<open>Gateway\<close>, \<open>Gateway_Facts\<close>, \<open>Mcp_Server\<close>, \<open>Mcp_Facts\<close>.
  \<^item> The web application (\<open>pkg/webapp/handler.go\<close>). \<open>Web_Session\<close>: login flows and sessions, with the critical sections
    as atomic steps; \<open>Web_App\<close>: the handlers; \<open>Web_Log\<close>: a logic for them; \<open>Web_Facts\<close>, \<open>Web_Login\<close>.
  \<^item> The agents. \<open>Agent\<close>, \<open>Agent_Facts\<close> (\<open>agent.go\<close>), \<open>Agent_Strict\<close> (\<open>strict.go\<close>).
  \<^item> Configuration and commands. \<open>Config\<close> (\<open>internal/config\<close>), \<open>Demo_Env\<close>, \<open>Demo_Facts\<close> (\<open>internal/demoenv\<close>), \<open>Deploy\<close>,
    \<open>Deploy_Facts\<close> (the mains), \<open>Probe\<close> (\<open>cmd/tts-probe\<close>).

  A Go struct is a record with a prefix for its fields, an error a constructor where it can be told apart, a
  handler a function from the request and the world \<open>'w\<close> to the replies it writes, in order, and the world
  after; a map is its association list of entries, or a set where only membership matters.

  \<^bold>\<open>What the lemmas show.\<close>
  Each component theory characterises the success of its operations (lemmas \<open>..._Inr\<close>, \<open>..._iff\<close>); the
  theorems with a claim number are the contracts. The verifier accepts only tokens that are signed by a
  trusted key and meet every configured rule, and the scan it relies on for duplicate keys is exact and ends;
  the middlewares hand on exactly the verified facts, after the audit event; the gateway forwards only
  authorized calls on their signed route with the token unchanged and no credential of the client, and the
  server and the API answer for that route and that transaction. The audit store refines the log of its
  additions and stays bounded, a required write that succeeds is delivered, under
  the identity of the mTLS peer that submitted it, the text of an event keeps everything but invalid UTF-8, and no
  event or stored record holds a token. The
  web application redeems a login state once, opens sessions only for verified ID tokens of its own flows,
  and discloses only what belongs to the session. The adapter and the agents act only on tokens bound to the
  workload, and the form of the one and the answers of the other fit. The last theorems are about the
  configuration and the deployed commands: the bounds that validation guarantees (and the one that overflow
  escapes), what the deployed verifier accepts, who may connect to whom, and an audit path that the deployed
  collector refuses.

  \<^bold>\<open>Interfaces.\<close>
  Where one component relies on another the contract is a locale, proved from and interpreted on the model of
  the provider: \<open>peer_policy\<close> (\<open>Spiffe\<close>), \<open>token_verifier\<close> (\<open>Middleware\<close>), \<open>verification_keys\<close> (\<open>PF_Facts\<close>),
  \<open>audit_sink\<close> and \<open>required_sinks\<close> (\<open>Audit_Sinks\<close>, interpreted in \<open>Audit_Delivery\<close>), \<open>authorizer\<close> (\<open>Authz_Policy\<close>,
  \<open>Authz_Remote\<close>) and its extension \<open>gateway_authorizer\<close> (\<open>Gateway\<close>), \<open>id_tokens\<close> (\<open>Web_Login\<close>).

  \<^bold>\<open>Bounds and fuel.\<close>
  Two recursions spend fuel: the duplicate-key scan (two units per token and one; \<open>scan_enough_fuel\<close>) and the reading of a JSON value (one unit per token and one; \<open>read_value_tokens\<close>). Every
  other recursion is structural or has a measure. Numbers of the program's \<open>int\<close> type are integers with the
  wrap-around written out where a product or sum may leave 64 bits; limits on bytes are the source's own.

  \<^bold>\<open>Parameters.\<close>
  What is not in the repository is an argument: signature verification and JOSE parsing, the JSON lexer, IP
  literals and SPIFFE ID parsing, Unicode tables beyond what the code can meet, SHA-256, clocks and random
  bytes, the answers of PingFederate, PingAuthorize, OPA, SPIRE and of every HTTP peer, the MCP SDK. A theorem
  that needs something of them has it as a hypothesis, with a witness where it holds.

  \<^bold>\<open>Not modelled.\<close>
  Logging, and what \<open>net/http\<close> does around the handlers (listening, timeouts, redirects); the embedding of the
  browser page (\<open>pkg/webapp/assets.go\<close>) and the page itself; the registration of the tools with the MCP SDK;
  the PingFederate plug-ins, scripts, Compose, Helm and Terraform files and Rego policies, which are not Go;
  concurrency other than as interleavings of the critical sections of the web state and of the store.
\<close>

end
